(* ===== verification/Prelude.thy ===== *)
theory Prelude
  imports Main
begin

text \<open>
  Shared vocabulary of the development: the sentinel errors of the Go packages, the type of
  effectful operations, the combinators that mirror the control flow of the Go code, and generic
  lemmas on lists.  Nothing here is specific to one component.
\<close>

section \<open>Collections of facts\<close>

named_theorems frame_intros
  \<open>introduction rules for the frame predicates of effectful operations\<close>

named_theorems run_simps
  \<open>equations that run effectful operations on a given world\<close>

section \<open>Errors\<close>

text \<open>
  Go compares errors with \<open>errors.Is\<close> against package level sentinels.  Each package is one
  datatype, with the source's names; a wrapped error \<open>fmt.Errorf("%w: ...", Sentinel)\<close> is the
  sentinel itself, since no caller reads the message.
\<close>

datatype friendship_err =
    ErrFriendshipNotFound
  | ErrAlreadyFriends
  | ErrFriendshipAlreadyExists
  | ErrFriendshipNotPending
  | ErrForbidden
  | ErrAlreadyBlocked
  | ErrNotBlocked

datatype chat_err =
    ErrCreateParticipant
  | ErrGetParticipant
  | ErrParticipantAlreadyExists
  | ErrParticipantNotFound
  | ErrChatRoomNotFound
  | ErrChatRoomCreate
  | ErrAlreadyMember
  | ErrInvitationQuery
  | ErrInvitationNotFound
  | ErrInvitationCreate
  | ErrInvitationAlreadyExists
  | ErrInvitationAlreadyResolved
  | ErrNotRoomAdmin
  | ErrNotRoomMember
  | ErrUserBlocked
  | ErrInvalidInvitationAction
  | ErrInvalidInvitationType
  | ErrNotInvitee
  | ErrNotAllowed
  | ErrInvalidMessageType
  | ErrSendMessage
  | ErrInvalidFileType
  | ErrFileTooLarge
  | ErrUploadRoomMedia

datatype e2ee_err =
    ErrInvalidSignature
  | ErrIdentityNotFound
  | ErrE2EENotRoomMember

datatype participant_err = ErrPNotFound | ErrPAlreadyExists

datatype otp_err = ErrOTPNotFound | ErrPoolEmpty

text \<open>The sentinels of \<open>domain/auth\<close>, \<open>domain/account\<close>, \<open>domain/user\<close> and \<open>domain/device\<close>.\<close>

datatype auth_err = ErrSessionNotFound | ErrGenerateToken | ErrRefreshToken

datatype account_err = DomainEmailExist | DomainAccountExist | DomainAccountNotFound

datatype device_err = DomainDeviceNotFound | DomainDeviceExists | DomainInvalidPlatform

text \<open>The sentinels of the use cases of accounts, users and devices.\<close>

datatype login_err =
    ErrRegisterFailed
  | ErrLoginFailed
  | ErrLogoutFailed
  | ErrInvalidDeviceID
  | ErrInvalidPassword
  | ErrInvalidEmail
  | ErrEmailExist
  | ErrAccountExist
  | ErrAccountNotFound
  | ErrAccountBanned
  | ErrAccountApplying
  | ErrAccountInactive
  | ErrLoginUserNotFound
  | ErrPasswordError
  | ErrTokenInvalid

datatype user_err =
    ErrUpdateProfile
  | ErrUploadFile
  | ErrUserNotFound
  | ErrInvalidRoleCode
  | ErrInvalidSearchInput
  | ErrUserAlreadyExists
  | ErrInvalidType

text \<open>The sentinels of \<open>domain/user\<close> that no use case returns, but the handlers test or raise.\<close>

datatype user_domain_err =
    DomainInvalidUser
  | DomainUserApplying
  | DomainUserBanned
  | DomainInvalidPassword
  | DomainInvalidEmail
  | DomainGenerateToken
  | DomainDefaultRoleNotFound
  | DomainInvalidImageType
  | DomainImageTooLarge

datatype device_uc_err =
    ErrUpdateFailed
  | ErrDeleteFailed
  | ErrDeviceExist
  | ErrBindFailed
  | ErrUnauthorized
  | ErrDeviceRegisterFailed
  | ErrInvalidDevice
  | ErrInvalidPlatform
  | ErrDeviceNotFound

text \<open>The sentinels of the domain packages that declare a single \<open>ErrNotFound\<close>.\<close>

datatype domain_not_found =
    ChatMemberNotFound
  | ChatRoomNotFound
  | ChatInvitationNotFound
  | ChatMessageNotFound
  | DeliveryItemNotFound
  | IdentityKeyNotFound
  | SignedPreKeyNotFound
  | SenderKeyNotFound
  | UserNotFound
  | AgentNotFound

text \<open>
  What a statement sent to PostgreSQL can answer besides its rows: the failures the schema under
  \<open>dev-doc/sql\<close> declares, the failure of every statement of an aborted transaction, and
  \<open>Pg_Unavailable\<close> for the failures that do not depend on the data (connection, timeout).
\<close>

datatype pg_error =
    Pg_NotFound
  | Pg_Unavailable
  | Pg_TxAborted
  | Pg_UniqueViolation
  | Pg_UniqueEmail
  | Pg_UniqueAccount
  | Pg_ForeignKey
  | Pg_LimitExceeded
  | Pg_InvalidEnum
  | Pg_OutOfRange
  | Pg_Cardinality
  | Pg_AmbiguousColumn
  | Pg_UndefinedColumn

datatype ollama_err = ErrOllamaUnauthorized | ErrUpstreamUnavailable

datatype err =
    Fr friendship_err
  | Chat chat_err
  | E2EE e2ee_err
  | Part participant_err
  | Otp otp_err
  | NotFound domain_not_found
  | Auth auth_err
  | Account account_err
  | Login login_err
  | User user_err
  | UserDomain user_domain_err
  | Device device_err
  | DeviceUc device_uc_err
  | ErrRateLimitExceeded
  | ErrFileAlreadyExists
  | ErrInvalidID
  | ErrSendingEmail
  | Ollama ollama_err
  | Pg pg_error
  | Plain

text \<open>\<open>strings.Contains(strings.ToLower(err.Error()), "duplicate key value")\<close>: the text of a
  PostgreSQL unique violation, and of no other error of the model.\<close>

definition is_duplicate_key :: "err \<Rightarrow> bool" where
  "is_duplicate_key e \<longleftrightarrow> e = Pg Pg_UniqueViolation"

section \<open>Effectful operations\<close>

text \<open>
  A Go function that reads and writes the outside world and returns \<open>(value, error)\<close> is a
  function from the world to an error or a value, and the world it leaves.
\<close>

type_synonym ('s, 'a) eff = "'s \<Rightarrow> (err + 'a) \<times> 's"

definition ret :: "'a \<Rightarrow> ('s, 'a) eff" where
  "ret x = (\<lambda>w. (Inr x, w))"

definition fail :: "err \<Rightarrow> ('s, 'a) eff" where
  "fail e = (\<lambda>w. (Inl e, w))"

text \<open>\<open>x, err := m(); if err != nil { h } ; k\<close>.\<close>

definition attempt :: "('s, 'a) eff \<Rightarrow> (err \<Rightarrow> ('s, 'b) eff) \<Rightarrow> ('a \<Rightarrow> ('s, 'b) eff) \<Rightarrow> ('s, 'b) eff" where
  "attempt m h k = (\<lambda>w. case m w of (Inl e, w') \<Rightarrow> h e w' | (Inr x, w') \<Rightarrow> k x w')"

text \<open>\<open>if err != nil { return err }\<close>.\<close>

definition bind :: "('s, 'a) eff \<Rightarrow> ('a \<Rightarrow> ('s, 'b) eff) \<Rightarrow> ('s, 'b) eff" where
  "bind m k = attempt m fail k"

text \<open>\<open>if !c { return e }\<close>, then the rest.\<close>

definition guard :: "bool \<Rightarrow> err \<Rightarrow> ('s, 'b) eff \<Rightarrow> ('s, 'b) eff" where
  "guard c e k = (if c then k else fail e)"

text \<open>\<open>_ = m()\<close>: the error is dropped.\<close>

definition ignore :: "('s, 'a) eff \<Rightarrow> ('s, 'b) eff \<Rightarrow> ('s, 'b) eff" where
  "ignore m k = attempt m (\<lambda>_. k) (\<lambda>_. k)"

text \<open>\<open>for _, x := range xs { ... }\<close> where an error in the body returns from the function.\<close>

fun for_each :: "'a list \<Rightarrow> ('a \<Rightarrow> ('s, unit) eff) \<Rightarrow> ('s, unit) eff" where
  "for_each [] f = ret ()"
| "for_each (x # xs) f = bind (f x) (\<lambda>_. for_each xs f)"

text \<open>\<open>for _, x := range xs\<close> with \<open>continue\<close> (\<open>None\<close>) or an \<open>append\<close> (\<open>Some\<close>); the results in order.\<close>

fun collect :: "'a list \<Rightarrow> ('a \<Rightarrow> ('s, 'b option) eff) \<Rightarrow> ('s, 'b list) eff" where
  "collect [] f = ret []"
| "collect (x # xs) f =
     bind (f x) (\<lambda>r. bind (collect xs f)
       (\<lambda>rs. ret (case r of None \<Rightarrow> rs | Some y \<Rightarrow> y # rs)))"

lemma ret_run [simp]: "ret x w = (Inr x, w)"
  by (simp add: ret_def)

lemma fail_run [simp]: "fail e w = (Inl e, w)"
  by (simp add: fail_def)

lemma attempt_run [run_simps]:
  "attempt m h k w = (case m w of (Inl e, w') \<Rightarrow> h e w' | (Inr x, w') \<Rightarrow> k x w')"
  by (simp add: attempt_def)

lemma attempt_Inl [simp]: "m w = (Inl e, w') \<Longrightarrow> attempt m h k w = h e w'"
  by (simp add: attempt_def)

lemma attempt_Inr [simp]: "m w = (Inr x, w') \<Longrightarrow> attempt m h k w = k x w'"
  by (simp add: attempt_def)

lemma bind_Inl [simp]: "m w = (Inl e, w') \<Longrightarrow> bind m k w = (Inl e, w')"
  by (simp add: bind_def)

lemma bind_Inr [simp]: "m w = (Inr x, w') \<Longrightarrow> bind m k w = k x w'"
  by (simp add: bind_def)

lemma ignore_run [run_simps]: "ignore m k w = k (snd (m w))"
  by (simp add: ignore_def attempt_def split: prod.splits sum.splits)

lemma guard_True [simp]: "c \<Longrightarrow> guard c e k = k"
  by (simp add: guard_def)

lemma guard_False [simp]: "\<not> c \<Longrightarrow> guard c e k = fail e"
  by (simp add: guard_def)

text \<open>A run that is no error returns a value.\<close>

lemma run_ok: "isl (fst r) = False \<Longrightarrow> \<exists>x w'. r = (Inr x, w')"
  by (cases r; cases "fst r") auto

section \<open>Frame predicates\<close>

text \<open>
  \<open>keeps_fn f m\<close>: \<open>m\<close> leaves the observation \<open>f\<close> of the world as it was.
  \<open>keeps P m\<close>: \<open>m\<close> preserves \<open>P\<close>, on success and on every error path.
\<close>

definition keeps_fn :: "('s \<Rightarrow> 'c) \<Rightarrow> ('s, 'a) eff \<Rightarrow> bool" where
  "keeps_fn f m \<longleftrightarrow> (\<forall>w. f (snd (m w)) = f w)"

definition keeps :: "('s \<Rightarrow> bool) \<Rightarrow> ('s, 'a) eff \<Rightarrow> bool" where
  "keeps P m \<longleftrightarrow> (\<forall>w. P w \<longrightarrow> P (snd (m w)))"

lemma keeps_fnD: "keeps_fn f m \<Longrightarrow> f (snd (m w)) = f w"
  by (simp add: keeps_fn_def)

lemma keepsD: "keeps P m \<Longrightarrow> P w \<Longrightarrow> P (snd (m w))"
  by (simp add: keeps_def)

lemma keeps_fn_ret [frame_intros]: "keeps_fn f (ret x)"
  and keeps_fn_fail [frame_intros]: "keeps_fn f (fail e)"
  and keeps_ret [frame_intros]: "keeps P (ret x)"
  and keeps_fail [frame_intros]: "keeps P (fail e)"
  by (simp_all add: keeps_fn_def keeps_def)

lemma keeps_fn_attempt [frame_intros]:
  "keeps_fn f m \<Longrightarrow> (\<And>e. keeps_fn f (h e)) \<Longrightarrow> (\<And>x. keeps_fn f (k x)) \<Longrightarrow> keeps_fn f (attempt m h k)"
  unfolding keeps_fn_def attempt_def by (simp split: prod.split sum.split) (metis snd_conv)

lemma keeps_attempt [frame_intros]:
  "keeps P m \<Longrightarrow> (\<And>e. keeps P (h e)) \<Longrightarrow> (\<And>x. keeps P (k x)) \<Longrightarrow> keeps P (attempt m h k)"
  unfolding keeps_def attempt_def by (simp split: prod.split sum.split) (metis snd_conv)

lemma keeps_fn_bind [frame_intros]:
  "keeps_fn f m \<Longrightarrow> (\<And>x. keeps_fn f (k x)) \<Longrightarrow> keeps_fn f (bind m k)"
  unfolding bind_def by (intro frame_intros)

lemma keeps_bind [frame_intros]:
  "keeps P m \<Longrightarrow> (\<And>x. keeps P (k x)) \<Longrightarrow> keeps P (bind m k)"
  unfolding bind_def by (intro frame_intros)

lemma keeps_fn_guard [frame_intros]: "keeps_fn f k \<Longrightarrow> keeps_fn f (guard c e k)"
  by (simp add: guard_def frame_intros)

lemma keeps_guard [frame_intros]: "keeps P k \<Longrightarrow> keeps P (guard c e k)"
  by (simp add: guard_def frame_intros)

lemma keeps_fn_ignore [frame_intros]: "keeps_fn f m \<Longrightarrow> keeps_fn f k \<Longrightarrow> keeps_fn f (ignore m k)"
  unfolding ignore_def by (intro frame_intros)

lemma keeps_ignore [frame_intros]: "keeps P m \<Longrightarrow> keeps P k \<Longrightarrow> keeps P (ignore m k)"
  unfolding ignore_def by (intro frame_intros)

lemma keeps_fn_if [frame_intros]: "keeps_fn f a \<Longrightarrow> keeps_fn f b \<Longrightarrow> keeps_fn f (if c then a else b)"
  by simp

lemma keeps_if [frame_intros]: "keeps P a \<Longrightarrow> keeps P b \<Longrightarrow> keeps P (if c then a else b)"
  by simp

lemma keeps_fn_case_option [frame_intros]:
  "keeps_fn f a \<Longrightarrow> (\<And>x. keeps_fn f (b x)) \<Longrightarrow> keeps_fn f (case z of None \<Rightarrow> a | Some x \<Rightarrow> b x)"
  by (cases z) auto

lemma keeps_case_option [frame_intros]:
  "keeps P a \<Longrightarrow> (\<And>x. keeps P (b x)) \<Longrightarrow> keeps P (case z of None \<Rightarrow> a | Some x \<Rightarrow> b x)"
  by (cases z) auto

lemma keeps_fn_let [frame_intros]: "(\<And>x. keeps_fn f (b x)) \<Longrightarrow> keeps_fn f (let x = a in b x)"
  by simp

lemma keeps_let [frame_intros]: "(\<And>x. keeps P (b x)) \<Longrightarrow> keeps P (let x = a in b x)"
  by simp

lemma keeps_fn_for_each [frame_intros]: "(\<And>x. keeps_fn f (g x)) \<Longrightarrow> keeps_fn f (for_each xs g)"
  by (induction xs) (auto intro!: frame_intros)

lemma keeps_for_each [frame_intros]: "(\<And>x. keeps P (g x)) \<Longrightarrow> keeps P (for_each xs g)"
  by (induction xs) (auto intro!: frame_intros)

lemma keeps_fn_collect [frame_intros]: "(\<And>x. keeps_fn f (g x)) \<Longrightarrow> keeps_fn f (collect xs g)"
  by (induction xs) (auto intro!: frame_intros)

lemma keeps_collect [frame_intros]: "(\<And>x. keeps P (g x)) \<Longrightarrow> keeps P (collect xs g)"
  by (induction xs) (auto intro!: frame_intros)

section \<open>Triples\<close>

text \<open>
  \<open>ensures P m Q E\<close>: from a world with \<open>P\<close>, the operation ends in \<open>Q\<close> of its value when it succeeds,
  and in \<open>E\<close> when it returns an error.
\<close>

definition ensures :: "('s \<Rightarrow> bool) \<Rightarrow> ('s, 'a) eff \<Rightarrow> ('a \<Rightarrow> 's \<Rightarrow> bool) \<Rightarrow> ('s \<Rightarrow> bool) \<Rightarrow> bool" where
  "ensures P m Q E \<longleftrightarrow> (\<forall>w. P w \<longrightarrow> (case m w of (Inl e, w') \<Rightarrow> E w' | (Inr x, w') \<Rightarrow> Q x w'))"

named_theorems ensures_intros \<open>rules that split a triple along the control flow\<close>

lemma ensuresI:
  assumes "\<And>w x w'. P w \<Longrightarrow> m w = (Inr x, w') \<Longrightarrow> Q x w'" and "\<And>w e w'. P w \<Longrightarrow> m w = (Inl e, w') \<Longrightarrow> E w'"
  shows "ensures P m Q E"
  using assms by (auto simp: ensures_def split: prod.split sum.split)

lemma ensures_succ: "ensures P m Q E \<Longrightarrow> P w \<Longrightarrow> m w = (Inr x, w') \<Longrightarrow> Q x w'"
  and ensures_fails: "ensures P m Q E \<Longrightarrow> P w \<Longrightarrow> m w = (Inl e, w') \<Longrightarrow> E w'"
  by (fastforce simp: ensures_def)+

lemma ensures_ret [ensures_intros]: "(\<And>w. P w \<Longrightarrow> Q x w) \<Longrightarrow> ensures P (ret x) Q E"
  and ensures_fail [ensures_intros]: "(\<And>w. P w \<Longrightarrow> E w) \<Longrightarrow> ensures P (fail e) Q E"
  by (simp_all add: ensures_def)

lemma ensures_attempt:
  assumes "ensures P m R F" and "\<And>e. ensures F (h e) Q E" and "\<And>x. ensures (R x) (k x) Q E"
  shows "ensures P (attempt m h k) Q E"
  unfolding ensures_def
proof (intro allI impI)
  fix w assume "P w"
  with assms(1) have m: "case m w of (Inl e, w') \<Rightarrow> F w' | (Inr x, w') \<Rightarrow> R x w'" by (simp add: ensures_def)
  show "case attempt m h k w of (Inl e, w') \<Rightarrow> E w' | (Inr x, w') \<Rightarrow> Q x w'"
  proof (cases "m w")
    case (Pair r w1)
    show ?thesis
    proof (cases r)
      case (Inl e)
      with m Pair have "F w1" by simp
      with assms(2) [of e] Pair Inl show ?thesis by (simp add: ensures_def)
    next
      case (Inr x)
      with m Pair have "R x w1" by simp
      with assms(3) [of x] Pair Inr show ?thesis by (simp add: ensures_def)
    qed
  qed
qed

lemma ensures_bind:
  "ensures P m R E \<Longrightarrow> (\<And>x. ensures (R x) (k x) Q E) \<Longrightarrow> ensures P (bind m k) Q E"
  unfolding bind_def by (rule ensures_attempt, assumption, rule ensures_fail) auto

lemma ensures_guard [ensures_intros]:
  "(c \<Longrightarrow> ensures P k Q E) \<Longrightarrow> (\<And>w. P w \<Longrightarrow> E w) \<Longrightarrow> ensures P (guard c e k) Q E"
  by (cases c) (simp_all add: ensures_fail)

lemma ensures_keeps: "ensures P m (\<lambda>_. P) P \<Longrightarrow> keeps P m"
  unfolding ensures_def keeps_def by (simp split: prod.splits sum.splits) (metis old.sum.exhaust prod.exhaust_sel)

lemma keeps_ensures: "keeps P m \<Longrightarrow> ensures P m (\<lambda>_. P) P"
  by (rule ensuresI) (metis keepsD snd_conv)+

lemma keeps_of_fn:
  assumes "keeps_fn f m" and "\<And>w w'. f w' = f w \<Longrightarrow> P w \<Longrightarrow> P w'"
  shows "keeps P m"
  using assms(1) by (auto simp: keeps_def keeps_fn_def intro: assms(2))

section \<open>Lists\<close>

lemma find_Some_iff_mem: "List.find P xs = Some x \<Longrightarrow> x \<in> set xs \<and> P x"
  by (auto simp: find_Some_iff)

lemma find_None_filter: "List.find P xs = None \<longleftrightarrow> filter P xs = []"
  by (induction xs) auto

lemma filter_Cons_find: "filter P xs = x # ys \<Longrightarrow> List.find P xs = Some x"
  by (induction xs) (auto split: if_splits)

lemma find_filter_Cons: "List.find P xs = Some x \<Longrightarrow> \<exists>ys. filter P xs = x # ys"
  by (induction xs) (auto split: if_splits)

text \<open>Where at most one element satisfies \<open>P\<close>, the first one found is that one.\<close>

lemma find_unique:
  assumes "x \<in> set xs" and "P x" and "\<And>y. y \<in> set xs \<Longrightarrow> P y \<Longrightarrow> y = x"
  shows "List.find P xs = Some x"
proof (cases "List.find P xs")
  case None
  then show ?thesis using assms(1,2) by (simp add: find_None_iff)
next
  case (Some y)
  then have "y \<in> set xs" and "P y" by (simp_all add: find_Some_iff_mem)
  then have "y = x" by (rule assms(3))
  with Some show ?thesis by simp
qed

lemma find_append:
  "List.find P (xs @ ys) = (case List.find P xs of None \<Rightarrow> List.find P ys | Some x \<Rightarrow> Some x)"
  by (induction xs) auto

lemma map_key_update:
  assumes "\<And>x. key (f x) = key x"
  shows "map key (map (\<lambda>x. if P x then f x else x) xs) = map key xs"
  using assms by (induction xs) auto

end
