(* ===== verification/Domain.thy ===== *)
theory Domain
  imports Prelude "HOL-Library.Word"
begin

text \<open>
  The value objects and entities of \<open>internal/domain\<close>: one record per Go struct, one datatype per
  string enumeration, in the source's field order.  Identifiers (\<open>int64\<close>, assigned by the
  database and only compared) and instants (\<open>time.Time\<close>) are \<open>int\<close>; a pointer field is an option;
  byte arrays are lists of 8-bit words; the \<open>uint32\<close> key ids keep their width.
\<close>

type_synonym byte = "8 word"
type_synonym bytes = "byte list"
type_synonym user_id = int
type_synonym account_id = int
type_synonym participant_id = int
type_synonym room_id = int
type_synonym member_id = int
type_synonym message_id = int
type_synonym invitation_id = int
type_synonym device_id = "128 word"
type_synonym instant = int

section \<open>Devices\<close>

datatype platform = Android | IOS | Windows | MacOS | Linux | Browser | UnknownPlatform

record device =
  dv_id :: device_id
  dv_platform :: platform
  dv_name :: string
  dv_created_at :: instant
  dv_updated_at :: instant

section \<open>Accounts and sessions\<close>

datatype account_status = Active | Inactive | Banned | Applying | Deleted

text \<open>A row of \<open>public.accounts\<close>; the Go struct adds the users and the devices, which two more queries read.\<close>

record account_row =
  ac_id :: account_id
  ac_public_id :: "128 word"
  ac_email :: string
  ac_account_name :: string
  ac_password :: string
  ac_status :: account_status
  ac_user_limit :: int
  ac_created_at :: instant
  ac_updated_at :: instant

record account_device =
  ad_account_id :: account_id
  ad_device_id :: device_id
  ad_last_ip :: "string option"
  ad_last_seen_at :: "instant option"

record account =
  a_row :: account_row
  a_user_ids :: "user_id list"
  a_devices :: "account_device list"

text \<open>A row of \<open>public.account_sessions\<close>.\<close>

record session_row =
  se_id :: int
  se_account_id :: account_id
  se_user_id :: user_id
  se_device_id :: device_id
  se_refresh_hash :: string
  se_expires_at :: instant
  se_revoked :: bool
  se_created_at :: instant
  se_last_used_at :: "instant option"

text \<open>\<open>TokenPair\<close> and \<open>Session\<close>: what the manager hands out and what it caches.\<close>

record token_pair =
  tp_access :: string
  tp_refresh :: string
  tp_expires_at :: instant

record auth_session =
  as_id :: string
  as_account_id :: account_id
  as_user_id :: user_id
  as_device_id :: device_id
  as_token :: token_pair
  as_created_at :: instant

section \<open>Users, agents and participants\<close>

text \<open>A row of \<open>public.users\<close>; the Go struct adds the role codes, which a second query reads.\<close>

record user_row =
  us_id :: user_id
  us_account_id :: account_id
  us_name :: string
  us_avatar :: "string option"
  us_created_at :: instant
  us_updated_at :: instant

record user =
  u_id :: user_id
  u_account_id :: account_id
  u_name :: string
  u_avatar :: string
  u_role_codes :: "string list"
  u_created_at :: instant
  u_updated_at :: instant

datatype agent_type = Local | Remote | Hybrid

datatype agent_status = Available | Maintaining | Discontinued | StatusError

datatype agent_engine = GGUF | ONNX | API | Cloud | MLC | WebGPU

record agent =
  ag_id :: int
  ag_name :: string
  ag_type :: agent_type
  ag_status :: agent_status
  ag_engine :: agent_engine
  ag_created_at :: instant
  ag_created_by :: user_id
  ag_updated_at :: instant
  ag_updated_by :: user_id

datatype participant_type = UserType | AgentType | SystemType

record participant =
  pa_id :: participant_id
  pa_type :: participant_type
  pa_user_id :: "user_id option"
  pa_agent_id :: "int option"
  pa_system_type :: "string option"
  pa_created_at :: instant

section \<open>Friendships\<close>

datatype friendship_status = StatusPending | StatusAccepted | StatusBlocked

record friendship =
  fr_id :: int
  fr_user_id :: user_id
  fr_friend_id :: user_id
  fr_status :: friendship_status
  fr_created_at :: instant
  fr_updated_at :: instant

section \<open>Chat rooms, members, invitations, messages\<close>

datatype room_type = Direct | Group | Channel | Bot

text \<open>\<open>RoomType\<close> is a Go string that the client may set to anything; only the four constants are
  values of the column.\<close>

definition room_type_str :: "room_type \<Rightarrow> string" where
  "room_type_str t = (case t of Direct \<Rightarrow> ''direct'' | Group \<Rightarrow> ''group'' | Channel \<Rightarrow> ''channel'' | Bot \<Rightarrow> ''bot'')"

definition parse_room_type :: "string \<Rightarrow> room_type option" where
  "parse_room_type s =
     (if s = ''direct'' then Some Direct else if s = ''group'' then Some Group
      else if s = ''channel'' then Some Channel else if s = ''bot'' then Some Bot else None)"

lemma parse_room_type_str [simp]: "parse_room_type (room_type_str t) = Some t"
  by (cases t) (simp_all add: parse_room_type_def room_type_str_def)

record chat_room =
  cr_id :: room_id
  cr_name :: string
  cr_description :: string
  cr_avatar_name :: string
  cr_type :: string
  cr_max_members :: int
  cr_allow_agent :: bool
  cr_is_deleted :: bool
  cr_created_at :: instant
  cr_updated_at :: instant

datatype member_role = Owner | Admin | Member | Guest

record chat_member =
  cm_id :: member_id
  cm_room_id :: room_id
  cm_participant_id :: participant_id
  cm_role :: member_role
  cm_is_muted :: bool
  cm_is_deleted :: bool
  cm_last_read_at :: "instant option"
  cm_joined_at :: instant
  cm_updated_at :: instant
  cm_deleted_at :: "instant option"

text \<open>\<open>CanSendMessage\<close> and \<open>CanUploadMedia\<close>: a guest is read-only.\<close>

definition CanSendMessage :: "member_role \<Rightarrow> bool" where
  "CanSendMessage role \<longleftrightarrow> role = Owner \<or> role = Admin \<or> role = Member"

definition CanUploadMedia :: "member_role \<Rightarrow> bool" where
  "CanUploadMedia role \<longleftrightarrow> role = Owner \<or> role = Admin \<or> role = Member"

datatype invitation_status = Pending | Accepted | Rejected | Blocked

datatype invitation_type = JoinRequest | Invitation

record chat_invitation =
  ci_id :: invitation_id
  ci_room_id :: room_id
  ci_inviter_id :: participant_id
  ci_invitee_id :: participant_id
  ci_status :: invitation_status
  ci_type :: invitation_type
  ci_expires_at :: "instant option"
  ci_created_at :: instant
  ci_updated_at :: instant

datatype message_type = Text | Image | File | Icon | System

record chat_message =
  ms_id :: message_id
  ms_room_id :: room_id
  ms_sender_id :: member_id
  ms_content :: string
  ms_type :: message_type
  ms_reply_to :: "message_id option"
  ms_is_edited :: bool
  ms_is_deleted :: bool
  ms_created_at :: instant
  ms_updated_at :: instant

section \<open>Keys of the end-to-end encryption\<close>

record identity_key =
  ik_id :: int
  ik_user_id :: user_id
  ik_device_id :: device_id
  ik_public_key :: bytes
  ik_sign_public_key :: bytes
  ik_fingerprint :: string
  ik_uploaded_at :: instant

record signed_prekey =
  sp_id :: int
  sp_user_id :: user_id
  sp_device_id :: device_id
  sp_key_id :: "32 word"
  sp_public_key :: bytes
  sp_signature :: bytes
  sp_is_active :: bool
  sp_created_at :: instant
  sp_expires_at :: "instant option"

record otp_prekey =
  op_id :: int
  op_user_id :: user_id
  op_device_id :: device_id
  op_key_id :: "32 word"
  op_public_key :: bytes
  op_uploaded_at :: instant

record sender_key =
  sk_id :: int
  sk_member_id :: member_id
  sk_chain_id :: int
  sk_public :: bytes
  sk_distribution_message :: bytes
  sk_created_at :: instant

record sender_key_distribution =
  sd_id :: int
  sd_sender :: member_id
  sd_receiver :: member_id
  sd_chain_id :: int
  sd_distributed_at :: instant

record sender_key_request =
  sr_id :: int
  sr_requester :: member_id
  sr_provider :: member_id
  sr_created_at :: instant
  sr_fulfilled_at :: "instant option"

section \<open>The delivery queue\<close>

datatype delivery_status = DeliveryPending | DeliveryDelivered

record delivery_item =
  dq_id :: int
  dq_user_id :: user_id
  dq_payload_type :: string
  dq_payload :: string
  dq_status :: delivery_status
  dq_created_at :: instant
  dq_delivered_at :: "instant option"

end
