(* ===== verification/Store.thy ===== *)
theory Store
  imports Domain
begin

text \<open>
  The world the use cases run in: the tables of the PostgreSQL schema, the identity sequences, the
  open transaction, the clock, the goroutines started, the WebSocket pushes made, the Redis cache, the
  random source and the mails sent.  A SQL statement is one atomic read-modify-write of the tables
  (\<open>sql\<close>).  Any statement, cache command or mail may fail for reasons that do not depend on the data:
  \<open>faults\<close> is the schedule of those failures, one entry per statement or command, and every theorem
  without a hypothesis on it holds for every schedule.
\<close>

section \<open>Tables\<close>

record participant_row =
  pr_id :: participant_id
  pr_type :: participant_type
  pr_created_at :: instant

record room_row =
  rr_id :: room_id
  rr_name :: "string option"
  rr_description :: "string option"
  rr_avatar_name :: "string option"
  rr_type :: room_type
  rr_max_members :: int
  rr_allow_agent :: bool
  rr_is_deleted :: bool
  rr_created_at :: instant
  rr_updated_at :: instant

record db =
  accounts :: "account_row list"
  accounts_devices :: "account_device list"
  account_sessions :: "session_row list"
  devices :: "device list"
  users :: "user_row list"
  roles :: "(int \<times> string) list"
  users_roles :: "(user_id \<times> int) list"
  agents :: "agent list"
  participants :: "participant_row list"
  participant_users :: "(participant_id \<times> user_id) list"
  participant_agents :: "(participant_id \<times> int) list"
  participant_systems :: "(participant_id \<times> string) list"
  friendships :: "friendship list"
  chat_rooms :: "room_row list"
  chat_members :: "chat_member list"
  chat_invitations :: "chat_invitation list"
  chat_records :: "chat_message list"
  identity_keys :: "identity_key list"
  signed_prekeys :: "signed_prekey list"
  otp_prekeys :: "otp_prekey list"
  sender_keys :: "sender_key list"
  distributions :: "sender_key_distribution list"
  key_requests :: "sender_key_request list"
  delivery_queue :: "delivery_item list"

definition empty_db :: db where
  "empty_db = \<lparr>accounts = [], accounts_devices = [], account_sessions = [], devices = [], users = [], roles = [], users_roles = [], agents = [], participants = [], participant_users = [], participant_agents = [],
     participant_systems = [], friendships = [], chat_rooms = [], chat_members = [],
     chat_invitations = [], chat_records = [], identity_keys = [], signed_prekeys = [],
     otp_prekeys = [], sender_keys = [], distributions = [], key_requests = [],
     delivery_queue = []\<rparr>"

datatype table =
    T_accounts | T_users | T_sessions | T_participants | T_friendships | T_rooms | T_members | T_invitations | T_records
  | T_identity_keys | T_signed_prekeys | T_otp_prekeys | T_sender_keys | T_distributions
  | T_key_requests | T_queue

section \<open>Pushes, goroutines, the world\<close>

text \<open>\<open>SendMessageOutput\<close>: what the sender gets back and what is fanned out to the members.\<close>

record send_message_output =
  so_message_id :: message_id
  so_room_id :: room_id
  so_sender_id :: member_id
  so_content :: string
  so_type :: message_type
  so_reply_to :: "message_id option"
  so_created_at :: instant

text \<open>The JSON envelopes pushed to clients, as the values they encode.\<close>

datatype ws_push =
    PushChatMessage send_message_output
  | PushDirectKeyReady room_id member_id
  | PushSenderKeyNeeded room_id member_id user_id

text \<open>A goroutine that a use case has started and that has not run yet.\<close>

datatype task =
    FanOut send_message_output
  | NotifyRequesters member_id room_id
  | NotifyProvider chat_member chat_member participant room_id
  | RecordDistributions member_id "sender_key list"
  | PushAndTrack user_id delivery_item
  | TouchSession int instant
  | LoginMail string string string "string option"
  | DeleteFile string

text \<open>A value of the cache: the JSON of a session or of the history of a conversation, or plain bytes.\<close>

record ollama_message =
  om_role :: string
  om_content :: string

datatype cached = CachedSession auth_session | CachedText string | CachedHistory "ollama_message list"

text \<open>A mail as it is handed to the mail service, and a row of \<open>public.email_logs\<close>.\<close>

record email_sender =
  es_address :: string
  es_name :: string

record email =
  em_sender :: email_sender
  em_recipients :: "string list"
  em_subject :: string
  em_html :: string
  em_text :: string

record email_log =
  el_sender :: string
  el_recipients :: string
  el_subject :: string
  el_status :: string
  el_external_id :: "string option"
  el_created_at :: instant

record tx =
  snapshot :: db
  aborted :: bool

record world =
  tables :: db
  seq :: "table \<Rightarrow> int"
  tx :: "tx option"
  clock :: instant
  process_start :: instant
  faults :: "bool list"
  tasks :: "task list"
  outbox :: "(string \<times> ws_push) list"
  cache :: "string \<Rightarrow> (cached \<times> instant option) option"
  entropy :: "nat \<Rightarrow> bytes option"
  drawn :: nat
  mails :: "email list"
  email_logs :: "email_log list"

type_synonym 'a io = "(world, 'a) eff"

definition empty_world :: world where
  "empty_world = \<lparr>tables = empty_db, seq = (\<lambda>_. 0), tx = None, clock = 0, process_start = 0,
     faults = [], tasks = [], outbox = [], cache = (\<lambda>_. None), entropy = (\<lambda>_. None), drawn = 0, mails = [], email_logs = []\<rparr>"

definition tx_aborted :: "world \<Rightarrow> bool" where
  "tx_aborted w = (case tx w of None \<Rightarrow> False | Some t \<Rightarrow> aborted t)"

definition tx_snapshot :: "world \<Rightarrow> db option" where
  "tx_snapshot w = map_option snapshot (tx w)"

definition faulty :: "world \<Rightarrow> bool" where
  "faulty w = (case faults w of [] \<Rightarrow> False | b # _ \<Rightarrow> b)"

definition pop_fault :: "world \<Rightarrow> world" where
  "pop_fault w = w\<lparr>faults := tl (faults w)\<rparr>"

text \<open>A failed statement aborts the transaction it runs in.\<close>

definition abort_tx :: "world \<Rightarrow> world" where
  "abort_tx w = w\<lparr>tx := map_option (aborted_update (\<lambda>_. True)) (tx w)\<rparr>"

section \<open>Statements\<close>

text \<open>
  \<open>sql t n q\<close>: one statement that draws \<open>n\<close> values from the sequence of table \<open>t\<close> (none for a
  query or an update).  \<open>q\<close> receives the first value drawn, \<open>now()\<close> and the tables.  Sequence values
  are spent even when the statement fails or the transaction rolls back.
\<close>

definition sql :: "table \<Rightarrow> nat \<Rightarrow> (int \<Rightarrow> instant \<Rightarrow> db \<Rightarrow> pg_error + ('a \<times> db)) \<Rightarrow> 'a io" where
  "sql t n q = (\<lambda>w.
     if tx_aborted w then (Inl (Pg Pg_TxAborted), w)
     else if faulty w then (Inl (Pg Pg_Unavailable), abort_tx (pop_fault w))
     else let w1 = (pop_fault w)\<lparr>seq := (seq w)(t := seq w t + int n)\<rparr> in
       case q (seq w t + 1) (clock w) (tables w) of
         Inl e \<Rightarrow> (Inl (Pg e), abort_tx w1)
       | Inr (x, d) \<Rightarrow> (Inr x, w1\<lparr>tables := d\<rparr>))"

text \<open>\<open>ScanAll\<close>: the rows a query selects, in scan order.\<close>

definition ScanAll :: "(db \<Rightarrow> 'a list) \<Rightarrow> 'a list io" where
  "ScanAll f = sql T_participants 0 (\<lambda>_ _ d. Inr (f d, d))"

text \<open>\<open>ScanOne\<close>: the first row; no row is \<open>postgres.ErrNotFound\<close> and is no failed statement.\<close>

definition ScanOne :: "(db \<Rightarrow> 'a list) \<Rightarrow> 'a io" where
  "ScanOne f = bind (ScanAll f) (\<lambda>rs. case rs of [] \<Rightarrow> fail (Pg Pg_NotFound) | r # _ \<Rightarrow> ret r)"

text \<open>\<open>Exec\<close>: an update or a delete that returns no rows.\<close>

definition Exec :: "(instant \<Rightarrow> db \<Rightarrow> pg_error + db) \<Rightarrow> unit io" where
  "Exec g = sql T_participants 0 (\<lambda>_ now d. case g now d of Inl e \<Rightarrow> Inl e | Inr d' \<Rightarrow> Inr ((), d'))"

text \<open>\<open>if errors.Is(err, postgres.ErrNotFound) { return e }; return wrapped err\<close>.\<close>

definition not_found_as :: "err \<Rightarrow> 'a io \<Rightarrow> 'a io" where
  "not_found_as e m = attempt m (\<lambda>x. fail (if x = Pg Pg_NotFound then e else x)) ret"

section \<open>Transactions\<close>

definition begin_tx :: "unit io" where
  "begin_tx = (\<lambda>w. if faulty w then (Inl (Pg Pg_Unavailable), pop_fault w)
     else (Inr (), (pop_fault w)\<lparr>tx := Some \<lparr>snapshot = tables w, aborted = False\<rparr>\<rparr>))"

definition rollback_tx :: "world \<Rightarrow> world" where
  "rollback_tx w = (case tx w of None \<Rightarrow> w | Some t \<Rightarrow> w\<lparr>tables := snapshot t, tx := None\<rparr>)"

text \<open>Committing an aborted transaction rolls it back and reports an error.\<close>

definition commit_tx :: "unit io" where
  "commit_tx = (\<lambda>w.
     if tx_aborted w then (Inl (Pg Pg_TxAborted), rollback_tx w)
     else if faulty w then (Inl (Pg Pg_Unavailable), rollback_tx (pop_fault w))
     else (Inr (), (pop_fault w)\<lparr>tx := None\<rparr>))"

text \<open>
  \<open>ctx, tx, err := uow.Begin(ctx); if err != nil { return e }; defer tx.Rollback()\<close> around the rest
  of the function.  After a commit the deferred rollback finds no transaction.
\<close>

definition with_tx :: "(err \<Rightarrow> err) \<Rightarrow> 'a io \<Rightarrow> 'a io" where
  "with_tx e body = attempt begin_tx (\<lambda>x. fail (e x)) (\<lambda>_ w. case body w of (r, w') \<Rightarrow> (r, rollback_tx w'))"

text \<open>\<open>go f()\<close> and \<open>broadcaster.SendToUser(user, payload)\<close>.\<close>

definition spawn :: "task \<Rightarrow> unit io" where
  "spawn t = (\<lambda>w. (Inr (), w\<lparr>tasks := tasks w @ [t]\<rparr>))"

definition SendToUser :: "string \<Rightarrow> ws_push \<Rightarrow> unit io" where
  "SendToUser u p = (\<lambda>w. (Inr (), w\<lparr>outbox := outbox w @ [(u, p)]\<rparr>))"

section \<open>Cache, randomness, mail\<close>

text \<open>
  A command to Redis is atomic, does not take part in the transaction, and its failure does not
  abort it.  An entry whose time to live is over is not there.
\<close>

definition outside :: "(world \<Rightarrow> (err + 'a) \<times> world) \<Rightarrow> 'a io" where
  "outside f = (\<lambda>w. if faulty w then (Inl Plain, pop_fault w) else f (pop_fault w))"

definition live :: "instant \<Rightarrow> (cached \<times> instant option) option \<Rightarrow> cached option" where
  "live now e = (case e of None \<Rightarrow> None
     | Some (v, None) \<Rightarrow> Some v
     | Some (v, Some t) \<Rightarrow> (if now < t then Some v else None))"

definition Cache_Get :: "string \<Rightarrow> cached option io" where
  "Cache_Get k = outside (\<lambda>w. (Inr (live (clock w) (cache w k)), w))"

text \<open>A time to live that is not positive means none.\<close>

definition Cache_Set :: "string \<Rightarrow> cached \<Rightarrow> int \<Rightarrow> unit io" where
  "Cache_Set k v ttl = outside (\<lambda>w. (Inr (),
     w\<lparr>cache := (cache w)(k := Some (v, if 0 < ttl then Some (clock w + ttl) else None))\<rparr>))"

definition Cache_Delete :: "string \<Rightarrow> unit io" where
  "Cache_Delete k = outside (\<lambda>w. (Inr (), w\<lparr>cache := (cache w)(k := None)\<rparr>))"

text \<open>\<open>rand.Read\<close>: the next bytes of the random source, or its failure.\<close>

definition rand_Read :: "bytes io" where
  "rand_Read = (\<lambda>w. (case entropy w (drawn w) of None \<Rightarrow> Inl Plain | Some bs \<Rightarrow> Inr bs, w\<lparr>drawn := Suc (drawn w)\<rparr>))"

text \<open>The mail service either takes a mail, and names it by the number of mails it has taken before, or fails.\<close>

definition SendMail :: "email \<Rightarrow> nat io" where
  "SendMail mail = outside (\<lambda>w. (Inr (length (mails w)), w\<lparr>mails := mails w @ [mail]\<rparr>))"

text \<open>A row of the mail log is inserted on a connection of its own, outside of the transaction that is open.\<close>

definition EmailLog_Insert :: "(instant \<Rightarrow> email_log option) \<Rightarrow> unit io" where
  "EmailLog_Insert row = outside (\<lambda>w. case row (clock w) of
     None \<Rightarrow> (Inl Plain, w)
   | Some r \<Rightarrow> (Inr (), w\<lparr>email_logs := email_logs w @ [r]\<rparr>))"

definition get_clock :: "instant io" where
  "get_clock = (\<lambda>w. (Inr (clock w), w))"

end
