(* ===== verification/Store_Rules.thy ===== *)
theory Store_Rules
  imports Store
begin

text \<open>
  The proof rules of the store: running statements on a world without failures, frames, the
  atomicity of \<open>with_tx\<close>, and the interface of invariants of the tables, whose rules carry an
  invariant through every operation, transaction and failure.
\<close>

section \<open>Runs without failures\<close>

definition healthy :: "world \<Rightarrow> bool" where
  "healthy w \<longleftrightarrow> faults w = [] \<and> \<not> tx_aborted w"

lemma healthy_simps [simp]:
  "healthy w \<Longrightarrow> faulty w = False"
  "healthy w \<Longrightarrow> tx_aborted w = False"
  "healthy w \<Longrightarrow> pop_fault w = w"
  by (simp_all add: healthy_def faulty_def pop_fault_def)

lemma healthy_update [simp]:
  "healthy (w\<lparr>tables := d\<rparr>) = healthy w"
  "healthy (w\<lparr>seq := s\<rparr>) = healthy w"
  "healthy (w\<lparr>tasks := ts\<rparr>) = healthy w"
  "healthy (w\<lparr>outbox := ob\<rparr>) = healthy w"
  "healthy (w\<lparr>cache := c\<rparr>) = healthy w"
  "healthy (w\<lparr>drawn := n\<rparr>) = healthy w"
  "healthy (w\<lparr>mails := ms\<rparr>) = healthy w" "healthy (w\<lparr>email_logs := ls\<rparr>) = healthy w"
  "healthy (w\<lparr>clock := t\<rparr>) = healthy w"
  by (simp_all add: healthy_def tx_aborted_def)

lemma healthy_no_tx [simp]: "healthy w \<Longrightarrow> healthy (w\<lparr>tx := None\<rparr>)"
  by (simp add: healthy_def tx_aborted_def)

lemma healthy_in_tx [simp]: "healthy w \<Longrightarrow> healthy (w\<lparr>tx := Some \<lparr>snapshot = d, aborted = False\<rparr>\<rparr>)"
  by (simp add: healthy_def tx_aborted_def)

text \<open>Healthy and outside of any transaction: the state in which a use case is called.\<close>

definition ready :: "world \<Rightarrow> bool" where
  "ready w \<longleftrightarrow> faults w = [] \<and> tx w = None"

lemma ready_healthy [simp]: "ready w \<Longrightarrow> healthy w"
  by (simp add: ready_def healthy_def tx_aborted_def)

lemma ready_tx [simp]: "ready w \<Longrightarrow> tx w = None"
  by (simp add: ready_def)

lemma ScanAll_run [run_simps]: "healthy w \<Longrightarrow> ScanAll f w = (Inr (f (tables w)), w)"
  by (simp add: ScanAll_def sql_def Let_def)

lemma ScanOne_run [run_simps]:
  "healthy w \<Longrightarrow> ScanOne f w =
     (case f (tables w) of [] \<Rightarrow> (Inl (Pg Pg_NotFound), w) | r # _ \<Rightarrow> (Inr r, w))"
  by (simp add: ScanOne_def ScanAll_run split: list.split)

lemma not_found_as_run [run_simps]:
  "not_found_as e m w = (case m w of (Inl x, w') \<Rightarrow> (Inl (if x = Pg Pg_NotFound then e else x), w')
     | (Inr r, w') \<Rightarrow> (Inr r, w'))"
  by (simp add: not_found_as_def attempt_def split: prod.split sum.split)

lemma Exec_run [run_simps]:
  "healthy w \<Longrightarrow> Exec g w =
     (case g (clock w) (tables w) of Inl e \<Rightarrow> (Inl (Pg e), abort_tx w)
      | Inr d \<Rightarrow> (Inr (), w\<lparr>tables := d\<rparr>))"
  by (simp add: Exec_def sql_def Let_def split: sum.split)

lemma sql_run:
  "healthy w \<Longrightarrow> sql t n q w =
     (case q (seq w t + 1) (clock w) (tables w) of
        Inl e \<Rightarrow> (Inl (Pg e), abort_tx (w\<lparr>seq := (seq w)(t := seq w t + int n)\<rparr>))
      | Inr (x, d) \<Rightarrow> (Inr x, w\<lparr>seq := (seq w)(t := seq w t + int n), tables := d\<rparr>))"
  by (simp add: sql_def Let_def)

lemma begin_tx_run [run_simps]:
  "healthy w \<Longrightarrow> begin_tx w = (Inr (), w\<lparr>tx := Some \<lparr>snapshot = tables w, aborted = False\<rparr>\<rparr>)"
  by (simp add: begin_tx_def)

lemma commit_tx_run [run_simps]: "healthy w \<Longrightarrow> commit_tx w = (Inr (), w\<lparr>tx := None\<rparr>)"
  by (simp add: commit_tx_def)

lemma with_tx_run [run_simps]:
  "healthy w \<Longrightarrow> with_tx e body w =
     (case body (w\<lparr>tx := Some \<lparr>snapshot = tables w, aborted = False\<rparr>\<rparr>) of
        (r, w') \<Rightarrow> (r, rollback_tx w'))"
  by (simp add: with_tx_def attempt_def begin_tx_run split: prod.split)

lemma spawn_run [run_simps]: "spawn t w = (Inr (), w\<lparr>tasks := tasks w @ [t]\<rparr>)"
  by (simp add: spawn_def)

lemma SendToUser_run [run_simps]: "SendToUser u p w = (Inr (), w\<lparr>outbox := outbox w @ [(u, p)]\<rparr>)"
  by (simp add: SendToUser_def)

lemma get_clock_run [run_simps]: "get_clock w = (Inr (clock w), w)"
  by (simp add: get_clock_def)

lemma Cache_Get_run [run_simps]: "healthy w \<Longrightarrow> Cache_Get k w = (Inr (live (clock w) (cache w k)), w)"
  by (simp add: Cache_Get_def outside_def)

lemma Cache_Set_run [run_simps]:
  "healthy w \<Longrightarrow> Cache_Set k v ttl w =
     (Inr (), w\<lparr>cache := (cache w)(k := Some (v, if 0 < ttl then Some (clock w + ttl) else None))\<rparr>)"
  by (simp add: Cache_Set_def outside_def)

lemma Cache_Delete_run [run_simps]: "healthy w \<Longrightarrow> Cache_Delete k w = (Inr (), w\<lparr>cache := (cache w)(k := None)\<rparr>)"
  by (simp add: Cache_Delete_def outside_def)

lemma rand_Read_run [run_simps]:
  "rand_Read w = (case entropy w (drawn w) of None \<Rightarrow> Inl Plain | Some bs \<Rightarrow> Inr bs, w\<lparr>drawn := Suc (drawn w)\<rparr>)"
  by (simp add: rand_Read_def)

lemma SendMail_run [run_simps]:
  "healthy w \<Longrightarrow> SendMail m w = (Inr (length (mails w)), w\<lparr>mails := mails w @ [m]\<rparr>)"
  by (simp add: SendMail_def outside_def)

lemma live_fresh [simp]:
  "live now None = None" "live now (Some (v, None)) = Some v" "live now (Some (v, Some t)) = (if now < t then Some v else None)"
  by (simp_all add: live_def)

lemma rollback_no_tx [simp]: "tx w = None \<Longrightarrow> rollback_tx w = w"
  by (simp add: rollback_tx_def)

lemma rollback_in_tx [simp]:
  "rollback_tx (w\<lparr>tx := Some t\<rparr>) = w\<lparr>tables := snapshot t, tx := None\<rparr>"
  by (simp add: rollback_tx_def)

section \<open>Frames of the primitives\<close>

lemma abort_tx_fields [simp]:
  "tables (abort_tx w) = tables w" "seq (abort_tx w) = seq w" "clock (abort_tx w) = clock w"
  "tasks (abort_tx w) = tasks w" "outbox (abort_tx w) = outbox w" "faults (abort_tx w) = faults w"
  "tx_snapshot (abort_tx w) = tx_snapshot w" "process_start (abort_tx w) = process_start w"
  by (simp_all add: abort_tx_def tx_snapshot_def option.map_comp comp_def)

lemma abort_tx_None [simp]: "tx w = None \<Longrightarrow> abort_tx w = w"
  by (simp add: abort_tx_def)

lemma pop_fault_fields [simp]:
  "tables (pop_fault w) = tables w" "seq (pop_fault w) = seq w" "clock (pop_fault w) = clock w"
  "tasks (pop_fault w) = tasks w" "outbox (pop_fault w) = outbox w" "tx (pop_fault w) = tx w"
  "tx_snapshot (pop_fault w) = tx_snapshot w" "process_start (pop_fault w) = process_start w"
  by (simp_all add: pop_fault_def tx_snapshot_def)

lemma tx_snapshot_update [simp]:
  "tx_snapshot (w\<lparr>tables := d\<rparr>) = tx_snapshot w"
  "tx_snapshot (w\<lparr>seq := s\<rparr>) = tx_snapshot w"
  "tx_snapshot (w\<lparr>seq := s, tables := d\<rparr>) = tx_snapshot w"
  "tx_snapshot (w\<lparr>tasks := ts\<rparr>) = tx_snapshot w"
  "tx_snapshot (w\<lparr>outbox := ob\<rparr>) = tx_snapshot w"
  by (simp_all add: tx_snapshot_def)

text \<open>No statement opens, commits or rolls back a transaction.\<close>

lemma keeps_tx_sql [frame_intros]: "keeps_fn tx_snapshot (sql t n q)"
  by (auto simp: keeps_fn_def sql_def Let_def split: sum.split)

lemma keeps_tx_ScanAll [frame_intros]: "keeps_fn tx_snapshot (ScanAll f)"
  unfolding ScanAll_def by (rule keeps_tx_sql)

lemma keeps_tx_Exec [frame_intros]: "keeps_fn tx_snapshot (Exec g)"
  unfolding Exec_def by (rule keeps_tx_sql)

lemma keeps_tx_ScanOne [frame_intros]: "keeps_fn tx_snapshot (ScanOne f)"
  unfolding ScanOne_def by (intro frame_intros) (auto intro!: frame_intros split: list.split)

lemma keeps_tx_not_found_as [frame_intros]:
  "keeps_fn tx_snapshot m \<Longrightarrow> keeps_fn tx_snapshot (not_found_as e m)"
  unfolding not_found_as_def by (intro frame_intros)

lemma keeps_tx_spawn [frame_intros]: "keeps_fn tx_snapshot (spawn t)"
  and keeps_tx_Send [frame_intros]: "keeps_fn tx_snapshot (SendToUser u p)"
  and keeps_tx_clock [frame_intros]: "keeps_fn tx_snapshot get_clock"
  by (simp_all add: keeps_fn_def run_simps)

text \<open>Cache, randomness and mail touch neither the transaction nor the tables.\<close>

lemma keeps_tx_outside [frame_intros]:
  "keeps_fn tx_snapshot (Cache_Get k)" "keeps_fn tx_snapshot (Cache_Set k v ttl)" "keeps_fn tx_snapshot (Cache_Delete k)"
  "keeps_fn tx_snapshot rand_Read" "keeps_fn tx_snapshot (SendMail m)" "keeps_fn tx_snapshot (EmailLog_Insert row)"
  by (simp_all add: keeps_fn_def outside_def Cache_Get_def Cache_Set_def Cache_Delete_def rand_Read_def SendMail_def EmailLog_Insert_def
      tx_snapshot_def split: option.split)

lemma keeps_tables_outside [frame_intros]:
  "keeps_fn tables (Cache_Get k)" "keeps_fn tables (Cache_Set k v ttl)" "keeps_fn tables (Cache_Delete k)"
  "keeps_fn tables rand_Read" "keeps_fn tables (SendMail m)" "keeps_fn tables (EmailLog_Insert row)"
  by (simp_all add: keeps_fn_def outside_def Cache_Get_def Cache_Set_def Cache_Delete_def rand_Read_def SendMail_def EmailLog_Insert_def
      split: option.split)

text \<open>A query changes no table.\<close>

lemma keeps_tables_ScanAll [frame_intros]: "keeps_fn tables (ScanAll f)"
  by (simp add: keeps_fn_def ScanAll_def sql_def Let_def)

lemma keeps_tables_ScanOne [frame_intros]: "keeps_fn tables (ScanOne f)"
  unfolding ScanOne_def by (intro frame_intros) (auto intro!: frame_intros split: list.split)

lemma keeps_tables_not_found_as [frame_intros]:
  "keeps_fn tables m \<Longrightarrow> keeps_fn tables (not_found_as e m)"
  unfolding not_found_as_def by (intro frame_intros)

lemma keeps_tables_spawn [frame_intros]: "keeps_fn tables (spawn t)"
  and keeps_tables_Send [frame_intros]: "keeps_fn tables (SendToUser u p)"
  and keeps_tables_clock [frame_intros]: "keeps_fn tables get_clock"
  by (simp_all add: keeps_fn_def run_simps)

section \<open>Atomicity of transactions\<close>

text \<open>
  \<open>rolls_back m\<close>: inside a transaction with snapshot \<open>s\<close>, whenever \<open>m\<close> returns an error, either
  the transaction is still open on \<open>s\<close> or its tables are already \<open>s\<close> again.
\<close>

definition rolled_back :: "db \<Rightarrow> world \<Rightarrow> bool" where
  "rolled_back s w \<longleftrightarrow> tx_snapshot w = Some s \<or> tx w = None \<and> tables w = s"

definition rolls_back :: "'a io \<Rightarrow> bool" where
  "rolls_back m \<longleftrightarrow> (\<forall>w s e w'. tx_snapshot w = Some s \<longrightarrow> m w = (Inl e, w') \<longrightarrow> rolled_back s w')"

named_theorems rollback_intros \<open>introduction rules for \<open>rolls_back\<close>\<close>

lemma rolls_back_ret [rollback_intros]: "rolls_back (ret x)"
  and rolls_back_fail [rollback_intros]: "rolls_back (fail e)"
  by (simp_all add: rolls_back_def rolled_back_def)

lemma rolls_back_attempt [rollback_intros]:
  assumes "keeps_fn tx_snapshot m" and "\<And>e. rolls_back (h e)" and "\<And>x. rolls_back (k x)"
  shows "rolls_back (attempt m h k)"
  unfolding rolls_back_def
proof (intro allI impI)
  fix w s e w'
  assume s: "tx_snapshot w = Some s" and r: "attempt m h k w = (Inl e, w')"
  have m: "tx_snapshot (snd (m w)) = Some s" using assms(1) s by (simp add: keeps_fn_def)
  obtain y w1 where mw: "m w = (y, w1)" by (cases "m w")
  with m have w1: "tx_snapshot w1 = Some s" by simp
  show "rolled_back s w'"
  proof (cases y)
    case (Inl a)
    with mw r have "h a w1 = (Inl e, w')" by simp
    with w1 assms(2) show ?thesis unfolding rolls_back_def by blast
  next
    case (Inr b)
    with mw r have "k b w1 = (Inl e, w')" by simp
    with w1 assms(3) show ?thesis unfolding rolls_back_def by blast
  qed
qed

lemma rolls_back_bind [rollback_intros]:
  "keeps_fn tx_snapshot m \<Longrightarrow> (\<And>x. rolls_back (k x)) \<Longrightarrow> rolls_back (bind m k)"
  unfolding bind_def by (intro rollback_intros)

lemma rolls_back_ignore [rollback_intros]:
  "keeps_fn tx_snapshot m \<Longrightarrow> rolls_back k \<Longrightarrow> rolls_back (ignore m k)"
  unfolding ignore_def by (intro rollback_intros)

lemma rolls_back_guard [rollback_intros]: "rolls_back k \<Longrightarrow> rolls_back (guard c e k)"
  by (simp add: guard_def rollback_intros)

lemma rolls_back_if [rollback_intros]: "rolls_back a \<Longrightarrow> rolls_back b \<Longrightarrow> rolls_back (if c then a else b)"
  by simp

lemma rolls_back_case_option [rollback_intros]:
  "rolls_back a \<Longrightarrow> (\<And>x. rolls_back (b x)) \<Longrightarrow> rolls_back (case z of None \<Rightarrow> a | Some x \<Rightarrow> b x)"
  by (cases z) auto

lemma rolls_back_let [rollback_intros]: "(\<And>x. rolls_back (b x)) \<Longrightarrow> rolls_back (let x = a in b x)"
  by simp

text \<open>An operation that never returns an error needs no rollback, whatever it does.\<close>

definition never_fails :: "'a io \<Rightarrow> bool" where
  "never_fails m \<longleftrightarrow> (\<forall>w e w'. m w \<noteq> (Inl e, w'))"

lemma never_fails_ret [rollback_intros]: "never_fails (ret x)"
  by (simp add: never_fails_def)

lemma never_fails_attempt [rollback_intros]:
  "(\<And>e. never_fails (h e)) \<Longrightarrow> (\<And>x. never_fails (k x)) \<Longrightarrow> never_fails (attempt m h k)"
  unfolding never_fails_def attempt_def by (auto split: prod.splits sum.splits)

lemma never_fails_ignore [rollback_intros]: "never_fails k \<Longrightarrow> never_fails (ignore m k)"
  unfolding ignore_def by (intro rollback_intros)

lemma never_fails_if [rollback_intros]:
  "never_fails a \<Longrightarrow> never_fails b \<Longrightarrow> never_fails (if c then a else b)"
  by simp

text \<open>The commit, followed by code that reports no error: the only place an error can come from is
  the commit itself, which has then rolled back.\<close>

lemma rolls_back_commit [rollback_intros]:
  assumes "\<And>x. rolls_back (h x)" and "never_fails k" and h: "\<And>x. \<exists>e. h x = fail e"
  shows "rolls_back (attempt commit_tx h (\<lambda>_. k))"
  unfolding rolls_back_def
proof (intro allI impI)
  fix w s e w'
  assume s: "tx_snapshot w = Some s" and r: "attempt commit_tx h (\<lambda>_. k) w = (Inl e, w')"
  from s obtain t where t: "tx w = Some t" "snapshot t = s" by (auto simp: tx_snapshot_def)
  obtain y w1 where c: "commit_tx w = (y, w1)" by (cases "commit_tx w")
  show "rolled_back s w'"
  proof (cases y)
    case (Inl a)
    with c t have "tx w1 = None \<and> tables w1 = s"
      by (auto simp: commit_tx_def rollback_tx_def split: if_splits)
    moreover obtain e' where "h a = fail e'" using h by blast
    ultimately show ?thesis using r c Inl by (simp add: rolled_back_def)
  next
    case (Inr b)
    with c r have "k w1 = (Inl e, w')" by simp
    with assms(2) show ?thesis by (simp add: never_fails_def)
  qed
qed

lemma with_tx_atomic:
  assumes "rolls_back body" and "tx w = None" and r: "with_tx e body w = (Inl x, w')"
  shows "tables w' = tables w \<and> tx w' = None"
proof (cases "faulty w")
  case True
  with r assms(2) show ?thesis by (auto simp: with_tx_def attempt_def begin_tx_def)
next
  case False
  let ?w0 = "(pop_fault w)\<lparr>tx := Some \<lparr>snapshot = tables w, aborted = False\<rparr>\<rparr>"
  obtain y w1 where b: "body ?w0 = (y, w1)" by (cases "body ?w0")
  with False r have y: "y = Inl x" and w': "w' = rollback_tx w1"
    by (auto simp: with_tx_def attempt_def begin_tx_def)
  have "tx_snapshot ?w0 = Some (tables w)" by (simp add: tx_snapshot_def)
  with assms(1) b y have "rolled_back (tables w) w1" unfolding rolls_back_def by blast
  with w' show ?thesis by (auto simp: rolled_back_def rollback_tx_def tx_snapshot_def)
qed

section \<open>Invariants of the tables\<close>

text \<open>
  An invariant relates the tables to the sequence values drawn so far.  It holds of a world when it
  holds of the tables and of the snapshot a rollback would restore.
\<close>

definition inv_holds :: "((table \<Rightarrow> int) \<Rightarrow> db \<Rightarrow> bool) \<Rightarrow> world \<Rightarrow> bool" where
  "inv_holds I w \<longleftrightarrow> I (seq w) (tables w) \<and> (\<forall>s. tx_snapshot w = Some s \<longrightarrow> I (seq w) s)"

definition stmt_keeps ::
  "((table \<Rightarrow> int) \<Rightarrow> db \<Rightarrow> bool) \<Rightarrow> table \<Rightarrow> nat \<Rightarrow> (int \<Rightarrow> instant \<Rightarrow> db \<Rightarrow> pg_error + ('a \<times> db)) \<Rightarrow> bool"
where
  "stmt_keeps I t n q \<longleftrightarrow> (\<forall>s now d x d'. I s d \<longrightarrow> q (s t + 1) now d = Inr (x, d') \<longrightarrow>
     I (s(t := s t + int n)) d')"

lemma stmt_keepsI:
  assumes "\<And>s now d x d'. I s d \<Longrightarrow> q (s t + 1) now d = Inr (x, d') \<Longrightarrow> I (s(t := s t + int n)) d'"
  shows "stmt_keeps I t n q"
  using assms by (simp add: stmt_keeps_def)

text \<open>The interface of an invariant: it survives drawing more sequence values.\<close>

locale store_invariant =
  fixes I :: "(table \<Rightarrow> int) \<Rightarrow> db \<Rightarrow> bool"
  assumes mono: "I s d \<Longrightarrow> (\<And>t. s t \<le> s' t) \<Longrightarrow> I s' d"
begin

lemma keeps_sql:
  assumes q: "stmt_keeps I t n q"
  shows "keeps (inv_holds I) (sql t n q)"
  unfolding keeps_def
proof (intro allI impI)
  fix w assume w: "inv_holds I w"
  let ?s = "(seq w)(t := seq w t + int n)"
  have up: "I ?s d" if "I (seq w) d" for d
    by (rule mono [OF that]) simp
  have d': "I ?s d'" if "q (seq w t + 1) (clock w) (tables w) = Inr (x, d')" for x d'
    using q w that unfolding stmt_keeps_def inv_holds_def by blast
  show "inv_holds I (snd (sql t n q w))"
    using w by (auto simp: sql_def Let_def inv_holds_def up d' split: sum.split)
qed

lemma keeps_ScanAll [frame_intros]: "keeps (inv_holds I) (ScanAll f)"
  unfolding ScanAll_def by (rule keeps_sql) (auto simp: stmt_keeps_def)

lemma keeps_ScanOne [frame_intros]: "keeps (inv_holds I) (ScanOne f)"
  unfolding ScanOne_def by (intro frame_intros) (auto intro!: frame_intros split: list.split)

lemma keeps_Exec:
  assumes "\<And>s now d d'. I s d \<Longrightarrow> g now d = Inr d' \<Longrightarrow> I s d'"
  shows "keeps (inv_holds I) (Exec g)"
  unfolding Exec_def by (rule keeps_sql) (auto simp: stmt_keeps_def split: sum.splits dest: assms)

lemma keeps_not_found_as [frame_intros]:
  "keeps (inv_holds I) m \<Longrightarrow> keeps (inv_holds I) (not_found_as e m)"
  unfolding not_found_as_def by (intro frame_intros)

lemma keeps_spawn [frame_intros]: "keeps (inv_holds I) (spawn t)"
  and keeps_Send [frame_intros]: "keeps (inv_holds I) (SendToUser u p)"
  and keeps_clock [frame_intros]: "keeps (inv_holds I) get_clock"
  by (simp_all add: keeps_def run_simps inv_holds_def)

lemma rollback_inv: "inv_holds I w \<Longrightarrow> inv_holds I (rollback_tx w)"
  by (auto simp: inv_holds_def rollback_tx_def tx_snapshot_def split: option.split)

lemma keeps_commit [frame_intros]: "keeps (inv_holds I) commit_tx"
  unfolding keeps_def
proof (intro allI impI)
  fix w assume w: "inv_holds I w"
  then have "inv_holds I (pop_fault w)" by (simp add: inv_holds_def)
  then have "inv_holds I (rollback_tx (pop_fault w))" by (rule rollback_inv)
  moreover have "inv_holds I (rollback_tx w)" using w by (rule rollback_inv)
  moreover have "inv_holds I ((pop_fault w)\<lparr>tx := None\<rparr>)" using w
    by (simp add: inv_holds_def tx_snapshot_def)
  ultimately show "inv_holds I (snd (commit_tx w))" by (simp add: commit_tx_def)
qed

lemma keeps_with_tx [frame_intros]:
  assumes "keeps (inv_holds I) body"
  shows "keeps (inv_holds I) (with_tx e body)"
proof -
  have b: "keeps (inv_holds I) begin_tx"
    by (auto simp: keeps_def begin_tx_def inv_holds_def tx_snapshot_def)
  have "keeps (inv_holds I) (\<lambda>w. case body w of (r, w') \<Rightarrow> (r, rollback_tx w'))"
    using assms by (auto simp: keeps_def split: prod.split intro!: rollback_inv)
  then show ?thesis unfolding with_tx_def by (intro frame_intros b)
qed

end

text \<open>An invariant that only looks at part of the tables: the statements that leave that part alone
  keep it.\<close>

locale framed_invariant = store_invariant I
  for I :: "(table \<Rightarrow> int) \<Rightarrow> db \<Rightarrow> bool" +
  fixes obs :: "db \<Rightarrow> 'o"
  assumes frame: "I s d \<Longrightarrow> obs d' = obs d \<Longrightarrow> I s d'"
begin

lemma keeps_sql_other:
  assumes "\<And>i now d x d'. q i now d = Inr (x, d') \<Longrightarrow> obs d' = obs d"
  shows "keeps (inv_holds I) (sql t n q)"
proof (rule keeps_sql, rule stmt_keepsI)
  fix s now d x d'
  assume I: "I s d" and q: "q (s t + 1) now d = Inr (x, d')"
  have "I (s(t := s t + int n)) d" by (rule mono [OF I]) simp
  then show "I (s(t := s t + int n)) d'" using assms [OF q] by (rule frame)
qed

lemma keeps_Exec_other:
  assumes "\<And>now d d'. g now d = Inr d' \<Longrightarrow> obs d' = obs d"
  shows "keeps (inv_holds I) (Exec g)"
  by (rule keeps_Exec) (auto intro: frame dest: assms)

end

section \<open>Tables with an identity column\<close>

text \<open>
  \<open>ids_ok get key t\<close>: the \<open>key\<close> column of the table read by \<open>get\<close> has no duplicates and only
  holds values its sequence has already produced, so the next value is fresh.
\<close>

definition ids_ok ::
  "(db \<Rightarrow> 'r list) \<Rightarrow> ('r \<Rightarrow> int) \<Rightarrow> table \<Rightarrow> (table \<Rightarrow> int) \<Rightarrow> db \<Rightarrow> bool" where
  "ids_ok get key t s d \<longleftrightarrow> distinct (map key (get d)) \<and> (\<forall>r \<in> set (get d). key r \<le> s t)"

locale id_table =
  fixes get :: "db \<Rightarrow> 'r list"
    and put :: "'r list \<Rightarrow> db \<Rightarrow> db"
    and key :: "'r \<Rightarrow> int"
    and t :: table
  assumes get_put [simp]: "get (put rs d) = rs"
begin

lemma ids_fresh: "ids_ok get key t s d \<Longrightarrow> r \<in> set (get d) \<Longrightarrow> key r \<noteq> s t + 1"
  by (fastforce simp: ids_ok_def)

lemma ids_insert:
  "ids_ok get key t s d \<Longrightarrow> get d' = get d @ [r] \<Longrightarrow> key r = s t + 1 \<Longrightarrow>
   ids_ok get key t (s(t := s t + 1)) d'"
  by (fastforce simp: ids_ok_def)

lemma ids_update:
  "ids_ok get key t s d \<Longrightarrow> get d' = map f (get d) \<Longrightarrow> (\<And>r. key (f r) = key r) \<Longrightarrow> ids_ok get key t s d'"
  by (simp add: ids_ok_def comp_def)

lemma ids_delete:
  "ids_ok get key t s d \<Longrightarrow> get d' = filter P (get d) \<Longrightarrow> ids_ok get key t s d'"
  by (auto simp: ids_ok_def distinct_map_filter)

lemma ids_other: "ids_ok get key t s d \<Longrightarrow> get d' = get d \<Longrightarrow> ids_ok get key t s d'"
  by (simp add: ids_ok_def)

lemma ids_find:
  assumes "ids_ok get key t s d" and "r \<in> set (get d)"
  shows "filter (\<lambda>x. key x = key r) (get d) = [r]"
proof -
  have "distinct (map key xs) \<Longrightarrow> r \<in> set xs \<Longrightarrow> filter (\<lambda>x. key x = key r) xs = [r]" for xs
  proof (induction xs)
    case (Cons x xs)
    show ?case
    proof (cases "r = x")
      case True
      with Cons.prems(1) have "filter (\<lambda>y. key y = key r) xs = []"
        by (auto simp: filter_empty_conv image_iff)
      with True show ?thesis by simp
    next
      case False
      with Cons.prems have "key x \<noteq> key r" and "r \<in> set xs" by (auto simp: image_iff)
      with Cons show ?thesis by simp
    qed
  qed simp
  with assms show ?thesis by (simp add: ids_ok_def)
qed

lemma ids_unique:
  "ids_ok get key t s d \<Longrightarrow> r \<in> set (get d) \<Longrightarrow> r' \<in> set (get d) \<Longrightarrow> key r = key r' \<Longrightarrow> r = r'"
  by (auto simp: ids_ok_def distinct_map inj_on_def)

end

sublocale id_table \<subseteq> store_invariant "ids_ok get key t"
  by unfold_locales (fastforce simp: ids_ok_def intro: order_trans)

end
