(* ===== verification/Participants.thy ===== *)
theory Participants
  imports Store_Rules
begin

text \<open>
  Users and agents as the other components read them (\<open>user_repo.go\<close>, \<open>agent_repo.go\<close>), the participant repository
  (\<open>participant_repo.go\<close>) over the four participant tables, and the use cases that create and read
  the participant of a user.
\<close>

section \<open>Repositories\<close>

definition toUserDomain :: "user_row \<Rightarrow> user" where
  "toUserDomain r = \<lparr>u_id = us_id r, u_account_id = us_account_id r, u_name = us_name r,
     u_avatar = (case us_avatar r of None \<Rightarrow> [] | Some a \<Rightarrow> a), u_role_codes = [],
     u_created_at = us_created_at r, u_updated_at = us_updated_at r\<rparr>"

definition findRoleCodes :: "user_id \<Rightarrow> string list io" where
  "findRoleCodes i = ScanAll (\<lambda>d. [c. (u, rid) \<leftarrow> users_roles d, (r, c) \<leftarrow> roles d, r = rid \<and> u = i])"

text \<open>\<open>findOneBy\<close>: the user, then the codes of its roles.\<close>

definition User_FindByID :: "user_id \<Rightarrow> user io" where
  "User_FindByID i =
     bind (not_found_as (NotFound UserNotFound) (ScanOne (\<lambda>d. filter (\<lambda>u. us_id u = i) (users d)))) (\<lambda>r.
     bind (findRoleCodes (us_id r)) (\<lambda>codes. ret ((toUserDomain r)\<lparr>u_role_codes := codes\<rparr>)))"

text \<open>The columns \<open>created_by\<close> and \<open>updated_by\<close> are not selected.  The insert names columns that the table does not have.\<close>

definition find_agents :: "(agent \<Rightarrow> bool) \<Rightarrow> agent list io" where
  "find_agents P = ScanAll (\<lambda>d. map (\<lambda>a. a\<lparr>ag_created_by := 0, ag_updated_by := 0\<rparr>) (filter P (agents d)))"

definition Agent_FindAll :: "agent list io" where
  "Agent_FindAll = find_agents (\<lambda>_. True)"

definition Agent_FindAllByStatus :: "agent_status \<Rightarrow> agent list io" where
  "Agent_FindAllByStatus st = find_agents (\<lambda>a. ag_status a = st)"

definition Agent_Create :: "agent \<Rightarrow> unit io" where
  "Agent_Create a = Exec (\<lambda>_ d. Inl Pg_UndefinedColumn)"

definition Agent_FindByID :: "int \<Rightarrow> agent io" where
  "Agent_FindByID i = bind (find_agents (\<lambda>a. ag_id a = i))
     (\<lambda>rs. case rs of [] \<Rightarrow> fail (NotFound AgentNotFound) | a # _ \<Rightarrow> ret a)"

text \<open>\<open>LEFT JOIN\<close> on the participant id: no matching row is one row of NULL.\<close>

definition left_join :: "(participant_id \<times> 'a) list \<Rightarrow> participant_id \<Rightarrow> 'a option list" where
  "left_join rows i =
     (let ms = map (Some \<circ> snd) (filter (\<lambda>r. fst r = i) rows) in if ms = [] then [None] else ms)"

definition toParticipantDomain ::
  "participant_row \<Rightarrow> user_id option \<Rightarrow> int option \<Rightarrow> string option \<Rightarrow> participant" where
  "toParticipantDomain rec u a s =
     \<lparr>pa_id = pr_id rec, pa_type = pr_type rec, pa_user_id = u, pa_agent_id = a,
      pa_system_type = s, pa_created_at = pr_created_at rec\<rparr>"

definition participant_rows :: "db \<Rightarrow> participant_id \<Rightarrow> participant list" where
  "participant_rows d i =
     [toParticipantDomain p u a s. p \<leftarrow> participants d, pr_id p = i,
        u \<leftarrow> left_join (participant_users d) (pr_id p),
        a \<leftarrow> left_join (participant_agents d) (pr_id p),
        s \<leftarrow> left_join (participant_systems d) (pr_id p)]"

definition Participant_FindByID :: "participant_id \<Rightarrow> participant io" where
  "Participant_FindByID i = not_found_as (Part ErrPNotFound) (ScanOne (\<lambda>d. participant_rows d i))"

definition Participant_FindByUserID :: "user_id \<Rightarrow> participant io" where
  "Participant_FindByUserID uid = not_found_as (Part ErrPNotFound) (ScanOne (\<lambda>d.
     [toParticipantDomain p (Some u) None None.
        p \<leftarrow> participants d, (pid, u) \<leftarrow> participant_users d, pid = pr_id p \<and> u = uid]))"

definition Participant_FindByAgentID :: "int \<Rightarrow> participant io" where
  "Participant_FindByAgentID aid = not_found_as (Part ErrPNotFound) (ScanOne (\<lambda>d.
     [toParticipantDomain p None (Some a) None.
        p \<leftarrow> participants d, (pid, a) \<leftarrow> participant_agents d, pid = pr_id p \<and> a = aid]))"

definition Participant_FindSystemByType :: "string \<Rightarrow> participant io" where
  "Participant_FindSystemByType st = not_found_as (Part ErrPNotFound) (ScanOne (\<lambda>d.
     [toParticipantDomain p None None (Some s).
        p \<leftarrow> participants d, (pid, s) \<leftarrow> participant_systems d, pid = pr_id p \<and> s = st]))"

text \<open>The two inserts of \<open>Create\<close>: the participant, then the row of its kind.  The first inserts
  the id the caller gets; \<open>participant_users.user_id\<close> is unique and references \<open>users\<close>.\<close>

definition insert_participant :: "participant_type \<Rightarrow> (participant_id \<times> instant) io" where
  "insert_participant ty = sql T_participants 1 (\<lambda>i now d.
     Inr ((i, now), d\<lparr>participants := participants d @
       [\<lparr>pr_id = i, pr_type = ty, pr_created_at = now\<rparr>]\<rparr>))"

definition insert_participant_user :: "participant_id \<Rightarrow> user_id \<Rightarrow> unit io" where
  "insert_participant_user i u = Exec (\<lambda>_ d.
     if \<exists>r \<in> set (participant_users d). fst r = i \<or> snd r = u then Inl Pg_UniqueViolation
     else if u \<notin> us_id ` set (users d) then Inl Pg_ForeignKey
     else Inr (d\<lparr>participant_users := participant_users d @ [(i, u)]\<rparr>))"

text \<open>The table of system types is outside of the model: its foreign key is taken to hold.\<close>

definition insert_participant_agent :: "participant_id \<Rightarrow> int \<Rightarrow> unit io" where
  "insert_participant_agent i a = Exec (\<lambda>_ d.
     if \<exists>r \<in> set (participant_agents d). fst r = i \<or> snd r = a then Inl Pg_UniqueViolation
     else if a \<notin> ag_id ` set (agents d) then Inl Pg_ForeignKey
     else Inr (d\<lparr>participant_agents := participant_agents d @ [(i, a)]\<rparr>))"

definition insert_participant_system :: "participant_id \<Rightarrow> string \<Rightarrow> unit io" where
  "insert_participant_system i s = Exec (\<lambda>_ d.
     if \<exists>r \<in> set (participant_systems d). fst r = i then Inl Pg_UniqueViolation
     else Inr (d\<lparr>participant_systems := participant_systems d @ [(i, s)]\<rparr>))"

text \<open>\<open>pgErr.Code == "23505"\<close> becomes \<open>ErrAlreadyExists\<close>.\<close>

definition insert_detail :: "participant_type \<Rightarrow> participant_id \<Rightarrow> participant \<Rightarrow> unit io" where
  "insert_detail ty i p =
     (case ty of
        UserType \<Rightarrow> (case pa_user_id p of None \<Rightarrow> fail Plain | Some u \<Rightarrow> insert_participant_user i u)
      | AgentType \<Rightarrow> (case pa_agent_id p of None \<Rightarrow> fail Plain | Some a \<Rightarrow> insert_participant_agent i a)
      | SystemType \<Rightarrow> (case pa_system_type p of None \<Rightarrow> fail Plain | Some s \<Rightarrow> insert_participant_system i s))"

definition Participant_Create :: "participant \<Rightarrow> participant io" where
  "Participant_Create p =
     bind (insert_participant (pa_type p)) (\<lambda>(i, at).
       attempt (insert_detail (pa_type p) i p)
         (\<lambda>e. fail (if e = Pg Pg_UniqueViolation then Part ErrPAlreadyExists else e))
         (\<lambda>_. ret (p\<lparr>pa_id := i, pa_created_at := at\<rparr>)))"

section \<open>Use cases\<close>

text \<open>\<open>if errors.Is(err, nf) { return a }; return b\<close> and \<open>if err != nil { return b }\<close> after a call, as
  every use case of the chat package writes them.\<close>

definition attempt_as :: "'a io \<Rightarrow> err \<Rightarrow> chat_err \<Rightarrow> chat_err \<Rightarrow> ('a \<Rightarrow> 'b io) \<Rightarrow> 'b io" where
  "attempt_as m nf a b k = attempt m (\<lambda>e. fail (Chat (if e = nf then a else b))) k"

definition attempt_or :: "'a io \<Rightarrow> chat_err \<Rightarrow> ('a \<Rightarrow> 'b io) \<Rightarrow> 'b io" where
  "attempt_or m b k = attempt m (\<lambda>_. fail (Chat b)) k"

record participant_output =
  po_id :: participant_id
  po_user_id :: user_id
  po_created_at :: instant

definition create_user_participant :: "user_id \<Rightarrow> participant_output io" where
  "create_user_participant userID = with_tx (\<lambda>_. Chat ErrCreateParticipant)
     (attempt (Participant_FindByUserID userID)
       (\<lambda>e. if e \<noteq> Part ErrPNotFound then fail (Chat ErrCreateParticipant) else
          attempt (Participant_Create \<lparr>pa_id = 0, pa_type = UserType, pa_user_id = Some userID,
                     pa_agent_id = None, pa_system_type = None, pa_created_at = 0\<rparr>)
            (\<lambda>e. fail (Chat (if e = Part ErrPAlreadyExists then ErrParticipantAlreadyExists
                              else ErrCreateParticipant)))
            (\<lambda>p. attempt commit_tx (\<lambda>_. fail (Chat ErrCreateParticipant))
               (\<lambda>_. ret \<lparr>po_id = pa_id p, po_user_id = userID, po_created_at = pa_created_at p\<rparr>)))
       (\<lambda>_. fail (Chat ErrParticipantAlreadyExists)))"

definition get_user_participant :: "user_id \<Rightarrow> participant_output io" where
  "get_user_participant userID =
     attempt (Participant_FindByUserID userID)
       (\<lambda>e. fail (Chat (if e = Part ErrPNotFound then ErrParticipantNotFound else ErrGetParticipant)))
       (\<lambda>p. ret \<lparr>po_id = pa_id p, po_user_id = userID, po_created_at = pa_created_at p\<rparr>)"

end
