(* ===== verification/GoStd.thy ===== *)
theory GoStd
  imports Prelude "HOL-Library.Word"
begin

text \<open>
  What the program uses of the Go standard library: \<open>strings.EqualFold\<close>, \<open>Contains\<close> and
  \<open>HasPrefix\<close>, \<open>strconv.FormatInt\<close> and \<open>ParseInt\<close> in base 10, \<open>encoding/base64.StdEncoding\<close>,
  \<open>net/url.PathUnescape\<close> and \<open>path.Clean\<close>.  A Go string is a list of bytes.
\<close>

section \<open>strings\<close>

definition to_lower :: "char \<Rightarrow> char" where
  "to_lower c = (let n = (of_char c :: nat) in if 65 \<le> n \<and> n \<le> 90 then char_of (n + 32) else c)"

text \<open>\<open>EqualFold\<close> against a constant whose letters have no case variant outside of ASCII.\<close>

definition EqualFold :: "string \<Rightarrow> string \<Rightarrow> bool" where
  "EqualFold a b \<longleftrightarrow> map to_lower a = map to_lower b"

fun HasPrefix :: "string \<Rightarrow> string \<Rightarrow> bool" where
  "HasPrefix s [] = True"
| "HasPrefix [] (p # ps) = False"
| "HasPrefix (c # s) (p # ps) = (c = p \<and> HasPrefix s ps)"

fun Contains :: "string \<Rightarrow> string \<Rightarrow> bool" where
  "Contains [] p = HasPrefix [] p"
| "Contains (c # s) p = (HasPrefix (c # s) p \<or> Contains s p)"

section \<open>strconv\<close>

definition digit :: "nat \<Rightarrow> char" where
  "digit n = char_of (48 + n)"

fun format_nat :: "nat \<Rightarrow> string" where
  "format_nat n = (if n < 10 then [digit n] else format_nat (n div 10) @ [digit (n mod 10)])"

declare format_nat.simps [simp del]

definition FormatInt :: "int \<Rightarrow> string" where
  "FormatInt i = (if i < 0 then CHR ''-'' # format_nat (nat (- i)) else format_nat (nat i))"

definition digit_value :: "char \<Rightarrow> nat option" where
  "digit_value c = (let n = (of_char c :: nat) in if 48 \<le> n \<and> n \<le> 57 then Some (n - 48) else None)"

fun parse_digits :: "nat \<Rightarrow> string \<Rightarrow> nat option" where
  "parse_digits acc [] = Some acc"
| "parse_digits acc (c # cs) =
     (case digit_value c of None \<Rightarrow> None | Some d \<Rightarrow> parse_digits (10 * acc + d) cs)"

definition parse_nat :: "string \<Rightarrow> nat option" where
  "parse_nat s = (if s = [] then None else parse_digits 0 s)"

definition in_int64 :: "int \<Rightarrow> bool" where
  "in_int64 i \<longleftrightarrow> - (2 ^ 63) \<le> i \<and> i < 2 ^ 63"

text \<open>\<open>ParseInt(s, 10, 64)\<close>: an optional sign, at least one digit, and the range of \<open>int64\<close>.\<close>

definition ParseInt :: "string \<Rightarrow> int option" where
  "ParseInt s =
     (let (neg, ds) = (case s of [] \<Rightarrow> (False, s)
          | c # cs \<Rightarrow> if c = CHR ''-'' then (True, cs) else if c = CHR ''+'' then (False, cs) else (False, s))
      in case parse_nat ds of None \<Rightarrow> None
         | Some n \<Rightarrow> (let i = (if neg then - int n else int n) in if in_int64 i then Some i else None))"

lemma digit_value_digit [simp]: "n < 10 \<Longrightarrow> digit_value (digit n) = Some n"
  by (simp add: digit_value_def digit_def Let_def)

lemma parse_digits_append:
  "parse_digits a (xs @ ys) = (case parse_digits a xs of None \<Rightarrow> None | Some b \<Rightarrow> parse_digits b ys)"
  by (induction xs arbitrary: a) (auto split: option.split)

lemma parse_format_nat: "parse_digits 0 (format_nat n) = Some n"
proof (induction n rule: format_nat.induct)
  case (1 n)
  show ?case
  proof (cases "n < 10")
    case True
    then show ?thesis by (simp add: format_nat.simps [of n])
  next
    case False
    with "1.IH" show ?thesis by (simp add: format_nat.simps [of n] parse_digits_append)
  qed
qed

lemma format_nat_nonempty: "format_nat n \<noteq> []"
  by (simp add: format_nat.simps [of n])

lemma digit_not_sign: "n < 10 \<Longrightarrow> digit n \<noteq> CHR ''-'' \<and> digit n \<noteq> CHR ''+''"
  by (auto simp: digit_def dest: arg_cong [where f = "of_char :: char \<Rightarrow> nat"])

lemma hd_format_nat: "hd (format_nat n) \<noteq> CHR ''-'' \<and> hd (format_nat n) \<noteq> CHR ''+''"
proof (induction n rule: format_nat.induct)
  case (1 n)
  then show ?case
    by (cases "n < 10")
       (simp_all add: format_nat.simps [of n] digit_not_sign hd_append format_nat_nonempty)
qed

lemma ParseInt_FormatInt: "in_int64 i \<Longrightarrow> ParseInt (FormatInt i) = Some i"
proof -
  assume i: "in_int64 i"
  have pn: "parse_nat (format_nat n) = Some n" for n
    by (simp add: parse_nat_def format_nat_nonempty parse_format_nat)
  show ?thesis
  proof (cases "i < 0")
    case True
    with i show ?thesis by (simp add: ParseInt_def FormatInt_def pn)
  next
    case False
    obtain c cs where f: "format_nat (nat i) = c # cs"
      using format_nat_nonempty by (meson list.exhaust)
    with hd_format_nat [of "nat i"] have "c \<noteq> CHR ''-''" "c \<noteq> CHR ''+''" by auto
    with False i f pn [of "nat i"] show ?thesis by (simp add: ParseInt_def FormatInt_def)
  qed
qed

lemma FormatInt_inj: "in_int64 i \<Longrightarrow> in_int64 j \<Longrightarrow> FormatInt i = FormatInt j \<Longrightarrow> i = j"
  using ParseInt_FormatInt by (metis option.inject)

section \<open>encoding/base64\<close>

definition b64_alphabet :: string where
  "b64_alphabet = ''ABCDEFGHIJKLMNOPQRSTUVWXYZabcdefghijklmnopqrstuvwxyz0123456789+/''"

definition b64_char :: "nat \<Rightarrow> char" where
  "b64_char v = b64_alphabet ! v"

fun index_of :: "'a \<Rightarrow> 'a list \<Rightarrow> nat option" where
  "index_of x [] = None"
| "index_of x (y # ys) = (if x = y then Some 0 else map_option Suc (index_of x ys))"

definition b64_value :: "char \<Rightarrow> nat option" where
  "b64_value c = index_of c b64_alphabet"

fun EncodeToString :: "8 word list \<Rightarrow> string" where
  "EncodeToString [] = []"
| "EncodeToString [x] = [b64_char (unat x div 4), b64_char (unat x mod 4 * 16), CHR ''='', CHR ''='']"
| "EncodeToString [x, y] =
     [b64_char (unat x div 4), b64_char (unat x mod 4 * 16 + unat y div 16),
      b64_char (unat y mod 16 * 4), CHR ''='']"
| "EncodeToString (x # y # z # r) =
     b64_char (unat x div 4) # b64_char (unat x mod 4 * 16 + unat y div 16) #
     b64_char (unat y mod 16 * 4 + unat z div 64) # b64_char (unat z mod 64) # EncodeToString r"

text \<open>One quantum of four characters; padding only in the last one.  As in Go's non-strict
  decoder the unused low bits of the last digit are ignored.\<close>

fun b64_decode :: "string \<Rightarrow> 8 word list option" where
  "b64_decode [] = Some []"
| "b64_decode (a # b # c # d # r) =
     (case (b64_value a, b64_value b) of
        (Some p, Some q) \<Rightarrow>
          (let b1 = of_nat (p * 4 + q div 16) in
           case b64_value c of
             None \<Rightarrow> if c = CHR ''='' \<and> d = CHR ''='' \<and> r = [] then Some [b1] else None
           | Some s \<Rightarrow>
               (let b2 = of_nat (q mod 16 * 16 + s div 4) in
                case b64_value d of
                  None \<Rightarrow> if d = CHR ''='' \<and> r = [] then Some [b1, b2] else None
                | Some t \<Rightarrow> map_option (\<lambda>bs. b1 # b2 # of_nat (s mod 4 * 64 + t) # bs) (b64_decode r)))
      | _ \<Rightarrow> None)"
| "b64_decode _ = None"

text \<open>\<open>DecodeString\<close> skips carriage returns and line feeds wherever they stand.\<close>

definition DecodeString :: "string \<Rightarrow> 8 word list option" where
  "DecodeString s = b64_decode (filter (\<lambda>c. of_char c \<noteq> (13 :: nat) \<and> of_char c \<noteq> (10 :: nat)) s)"

lemma index_of_nth: "distinct xs \<Longrightarrow> i < length xs \<Longrightarrow> index_of (xs ! i) xs = Some i"
proof (induction xs arbitrary: i)
  case (Cons x xs)
  then show ?case by (cases i) auto
qed simp

lemma b64_alphabet_length: "length b64_alphabet = 64"
  by (simp add: b64_alphabet_def)

lemma b64_value_char [simp]: "v < 64 \<Longrightarrow> b64_value (b64_char v) = Some v"
proof -
  have "distinct b64_alphabet" by code_simp
  then show "v < 64 \<Longrightarrow> ?thesis"
    unfolding b64_value_def b64_char_def by (rule index_of_nth) (simp add: b64_alphabet_length)
qed

lemma b64_value_pad [simp]: "b64_value (CHR ''='') = None"
  by (simp add: b64_value_def b64_alphabet_def)

lemma byte_bound [simp]: "unat (x :: 8 word) < 256"
  using unsigned_less [of x, where 'a = nat] by simp

lemma sextet_bounds:
  fixes a b :: nat
  assumes "a < 256" and "b < 256"
  shows "a div 4 < 64" "a mod 4 * 16 + b div 16 < 64" "a mod 4 * 16 < 64" "a mod 16 * 4 < 64"
    "a mod 16 * 4 + b div 64 < 64"
proof -
  have "a mod 4 < 4" "a mod 16 < 16" by simp_all
  moreover have "b div 16 < 16" "b div 64 < 4" "a div 4 < 64" using assms by simp_all
  ultimately show "a div 4 < 64" "a mod 4 * 16 + b div 16 < 64" "a mod 4 * 16 < 64"
    "a mod 16 * 4 < 64" "a mod 16 * 4 + b div 64 < 64" by linarith+
qed

lemma sextet_join:
  fixes a b c :: nat
  assumes "b < 256" and "c < 256"
  shows "a div 4 * 4 + a mod 4 * 16 div 16 = a"
    "a div 4 * 4 + (a mod 4 * 16 + b div 16) div 16 = a"
    "(a mod 4 * 16 + b div 16) mod 16 * 16 + b mod 16 * 4 div 4 = b"
    "(a mod 4 * 16 + b div 16) mod 16 * 16 + (b mod 16 * 4 + c div 64) div 4 = b"
    "(b mod 16 * 4 + c div 64) mod 4 * 64 + c mod 64 = c"
proof -
  have bd: "b div 16 < 16" and cd: "c div 64 < 4" using assms by simp_all
  have 1: "(a mod 4 * 16 + b div 16) div 16 = a mod 4" "(a mod 4 * 16 + b div 16) mod 16 = b div 16"
    using bd by simp_all
  have 2: "(b mod 16 * 4 + c div 64) div 4 = b mod 16" "(b mod 16 * 4 + c div 64) mod 4 = c div 64"
    using cd by simp_all
  have 3: "b div 16 * 16 + b mod 16 = b" "c div 64 * 64 + c mod 64 = c" by simp_all
  show "a div 4 * 4 + a mod 4 * 16 div 16 = a"
    "a div 4 * 4 + (a mod 4 * 16 + b div 16) div 16 = a"
    "(a mod 4 * 16 + b div 16) mod 16 * 16 + b mod 16 * 4 div 4 = b"
    "(a mod 4 * 16 + b div 16) mod 16 * 16 + (b mod 16 * 4 + c div 64) div 4 = b"
    "(b mod 16 * 4 + c div 64) mod 4 * 64 + c mod 64 = c"
    by (simp_all only: 1 2 3) simp_all
qed

lemma byte_sextets [simp]:
  fixes x y :: "8 word"
  shows "b64_value (b64_char (unat x div 4)) = Some (unat x div 4)"
    "b64_value (b64_char (unat x mod 4 * 16 + unat y div 16)) = Some (unat x mod 4 * 16 + unat y div 16)"
    "b64_value (b64_char (unat x mod 4 * 16)) = Some (unat x mod 4 * 16)"
    "b64_value (b64_char (unat x mod 16 * 4)) = Some (unat x mod 16 * 4)"
    "b64_value (b64_char (unat x mod 16 * 4 + unat y div 64)) = Some (unat x mod 16 * 4 + unat y div 64)"
    "b64_value (b64_char (unat x mod 64)) = Some (unat x mod 64)"
  using sextet_bounds [OF byte_bound [of x] byte_bound [of y]] by (auto intro!: b64_value_char)

lemma byte_join:
  fixes x y z :: "8 word"
  shows "unat x div 4 * 4 + unat x mod 4 * 16 div 16 = unat x"
    "unat x div 4 * 4 + (unat x mod 4 * 16 + unat y div 16) div 16 = unat x"
    "(unat x mod 4 * 16 + unat y div 16) mod 16 * 16 + unat y mod 16 * 4 div 4 = unat y"
    "(unat x mod 4 * 16 + unat y div 16) mod 16 * 16 + (unat y mod 16 * 4 + unat z div 64) div 4 = unat y"
    "(unat y mod 16 * 4 + unat z div 64) mod 4 * 64 + unat z mod 64 = unat z"
  using sextet_join(1-4) [OF byte_bound [of y] byte_bound [of z], of "unat x"]
    sextet_join(5) [OF byte_bound [of y] byte_bound [of z]] by blast+

lemma b64_decode_encode: "b64_decode (EncodeToString bs) = Some bs"
  by (induction bs rule: EncodeToString.induct)
     (simp_all only: EncodeToString.simps b64_decode.simps byte_sextets byte_join b64_value_pad
        prod.case option.case Let_def simp_thms if_True option.map, simp_all)

lemma index_of_mem: "index_of x xs = Some i \<Longrightarrow> x \<in> set xs"
  by (induction xs arbitrary: i) (auto split: if_splits)

lemma b64_value_not_newline:
  "b64_value c = Some v \<Longrightarrow> of_char c \<noteq> (13 :: nat) \<and> of_char c \<noteq> (10 :: nat)"
proof -
  have "\<forall>c \<in> set b64_alphabet. of_char c \<noteq> (13 :: nat) \<and> of_char c \<noteq> (10 :: nat)" by code_simp
  then show "b64_value c = Some v \<Longrightarrow> ?thesis"
    unfolding b64_value_def using index_of_mem by fast
qed

lemma encode_chars: "c \<in> set (EncodeToString bs) \<Longrightarrow> c = CHR ''='' \<or> (\<exists>v. b64_value c = Some v)"
  by (induction bs rule: EncodeToString.induct) auto

lemma encode_no_newline:
  "c \<in> set (EncodeToString bs) \<Longrightarrow> of_char c \<noteq> (13 :: nat) \<and> of_char c \<noteq> (10 :: nat)"
  using b64_value_not_newline by (auto dest!: encode_chars)

lemma DecodeString_EncodeToString: "DecodeString (EncodeToString bs) = Some bs"
proof -
  have "filter (\<lambda>c. of_char c \<noteq> (13 :: nat) \<and> of_char c \<noteq> (10 :: nat)) (EncodeToString bs) = EncodeToString bs"
    using encode_no_newline by (simp add: filter_id_conv)
  then show ?thesis by (simp add: DecodeString_def b64_decode_encode)
qed

text \<open>The raw encodings, without padding: \<open>RawStdEncoding\<close> and \<open>RawURLEncoding\<close>.\<close>

definition RawStd_EncodeToString :: "8 word list \<Rightarrow> string" where
  "RawStd_EncodeToString bs = filter (\<lambda>c. c \<noteq> CHR ''='') (EncodeToString bs)"

definition pad :: "string \<Rightarrow> string" where
  "pad s = s @ replicate ((4 - length s mod 4) mod 4) (CHR ''='')"

definition RawStd_DecodeString :: "string \<Rightarrow> 8 word list option" where
  "RawStd_DecodeString s = (if CHR ''='' \<in> set s then None
     else DecodeString (pad (filter (\<lambda>c. of_char c \<noteq> (13 :: nat) \<and> of_char c \<noteq> (10 :: nat)) s)))"

definition RawURL_EncodeToString :: "8 word list \<Rightarrow> string" where
  "RawURL_EncodeToString bs = map (\<lambda>c. if c = CHR ''+'' then CHR ''-'' else if c = CHR ''/'' then CHR ''_'' else c)
     (RawStd_EncodeToString bs)"

lemma b64_char_no_pad [simp]: "v < 64 \<Longrightarrow> b64_char v \<noteq> CHR ''=''"
  using b64_value_char [of v] by (metis b64_value_pad option.distinct(1))

lemma pad_encode: "pad (RawStd_EncodeToString bs) = EncodeToString bs"
proof -
  have c: "b64_char (unat x div 4) \<noteq> CHR ''=''" "b64_char (unat x mod 4 * 16 + unat y div 16) \<noteq> CHR ''=''"
    "b64_char (unat x mod 4 * 16) \<noteq> CHR ''=''" "b64_char (unat x mod 16 * 4) \<noteq> CHR ''=''"
    "b64_char (unat x mod 16 * 4 + unat y div 64) \<noteq> CHR ''=''" "b64_char (unat x mod 64) \<noteq> CHR ''=''" for x y :: "8 word"
    by (metis byte_sextets b64_value_pad option.distinct(1))+
  have four: "Suc (Suc (Suc (Suc n))) mod 4 = n mod 4" for n :: nat by presburger
  have two: "replicate 2 x = [x, x]" for x :: char by (simp add: numeral_eq_Suc)
  show ?thesis
    by (induction bs rule: EncodeToString.induct) (simp_all add: RawStd_EncodeToString_def pad_def c four two)
qed

lemma RawStd_roundtrip: "RawStd_DecodeString (RawStd_EncodeToString bs) = Some bs"
proof -
  let ?nl = "\<lambda>c. of_char c \<noteq> (13 :: nat) \<and> of_char c \<noteq> (10 :: nat)"
  have "filter ?nl (RawStd_EncodeToString bs) = RawStd_EncodeToString bs"
    using encode_no_newline [where bs = bs] unfolding filter_id_conv RawStd_EncodeToString_def by auto
  moreover have "CHR ''='' \<notin> set (RawStd_EncodeToString bs)" by (simp add: RawStd_EncodeToString_def)
  ultimately show ?thesis by (simp add: RawStd_DecodeString_def pad_encode DecodeString_EncodeToString)
qed

lemma RawStd_no_colon: "CHR '':'' \<notin> set (RawStd_EncodeToString bs)"
proof
  assume "CHR '':'' \<in> set (RawStd_EncodeToString bs)"
  then have "CHR '':'' \<in> set (EncodeToString bs)" by (simp add: RawStd_EncodeToString_def)
  moreover have "b64_value (CHR '':'') = None" by code_simp
  ultimately show False using encode_chars by fastforce
qed

section \<open>encoding/hex\<close>

definition hex_digit :: "nat \<Rightarrow> char" where
  "hex_digit n = ''0123456789abcdef'' ! n"

definition hex_EncodeToString :: "8 word list \<Rightarrow> string" where
  "hex_EncodeToString bs = concat (map (\<lambda>b. [hex_digit (unat b div 16), hex_digit (unat b mod 16)]) bs)"

section \<open>net/url.PathUnescape and path.Clean\<close>

definition hex_value :: "char \<Rightarrow> nat option" where
  "hex_value c = (let n = (of_char c :: nat) in
     if 48 \<le> n \<and> n \<le> 57 then Some (n - 48)
     else if 65 \<le> n \<and> n \<le> 70 then Some (n - 55)
     else if 97 \<le> n \<and> n \<le> 102 then Some (n - 87) else None)"

text \<open>\<open>%XX\<close> is one byte; a percent sign without two hexadecimal digits is an error.\<close>

fun PathUnescape :: "string \<Rightarrow> string option" where
  "PathUnescape [] = Some []"
| "PathUnescape (c # cs) =
     (if c = CHR ''%'' then
        (case cs of
           a # b # r \<Rightarrow>
             (case (hex_value a, hex_value b) of
                (Some x, Some y) \<Rightarrow> map_option (\<lambda>t. char_of (16 * x + y) # t) (PathUnescape r)
              | _ \<Rightarrow> None)
         | _ \<Rightarrow> None)
      else map_option (\<lambda>t. c # t) (PathUnescape cs))"

fun split_on :: "char \<Rightarrow> string \<Rightarrow> string list" where
  "split_on s [] = [[]]"
| "split_on s (c # cs) =
     (if c = s then [] # split_on s cs
      else (case split_on s cs of [] \<Rightarrow> [[c]] | x # xs \<Rightarrow> (c # x) # xs))"

fun join_with :: "char \<Rightarrow> string list \<Rightarrow> string" where
  "join_with s [] = []"
| "join_with s [x] = x"
| "join_with s (x # xs) = x @ s # join_with s xs"

text \<open>One path element: empty and \<open>.\<close> elements are dropped, \<open>..\<close> removes the element before it;
  with none to remove it is kept in a relative path and dropped after the root.\<close>

definition clean_step :: "bool \<Rightarrow> string list \<Rightarrow> string \<Rightarrow> string list" where
  "clean_step rooted st c =
     (if c = [] \<or> c = ''.'' then st
      else if c = ''..'' then
        (if st \<noteq> [] \<and> last st \<noteq> ''..'' then butlast st else if rooted then st else st @ [''..''])
      else st @ [c])"

definition path_Clean :: "string \<Rightarrow> string" where
  "path_Clean p =
     (let rooted = (case p of [] \<Rightarrow> False | c # _ \<Rightarrow> c = CHR ''/'');
          st = foldl (clean_step rooted) [] (split_on (CHR ''/'') p);
          body = join_with (CHR ''/'') st
      in if rooted then CHR ''/'' # body else if st = [] then ''.'' else body)"

text \<open>Following a path from a directory at depth \<open>n\<close> below the root directory of the storage:
  \<open>None\<close> once a \<open>..\<close> leaves that root.\<close>

fun walk :: "nat \<Rightarrow> string list \<Rightarrow> nat option" where
  "walk n [] = Some n"
| "walk n (c # cs) =
     (if c = [] \<or> c = ''.'' then walk n cs
      else if c = ''..'' then (case n of 0 \<Rightarrow> None | Suc m \<Rightarrow> walk m cs)
      else walk (Suc n) cs)"

text \<open>A \<open>..\<close> that was kept stays at the bottom of the cleaned path for good.\<close>

lemma clean_keeps_dotdot:
  "hd st = ''..'' \<Longrightarrow> st \<noteq> [] \<Longrightarrow>
   hd (foldl (clean_step False) st cs) = ''..'' \<and> foldl (clean_step False) st cs \<noteq> []"
proof (induction cs arbitrary: st)
  case (Cons c cs)
  have "hd (clean_step False st c) = ''..'' \<and> clean_step False st c \<noteq> []"
  proof (cases st rule: rev_cases)
    case Nil
    with Cons.prems show ?thesis by simp
  next
    case (snoc ys y)
    with Cons.prems show ?thesis by (cases ys) (auto simp: clean_step_def)
  qed
  then show ?case using Cons.IH by simp
qed simp

lemma walk_clean:
  assumes "''..'' \<notin> set st" and "''..'' \<notin> set (foldl (clean_step False) st cs)"
  shows "walk (length st) cs = Some (length (foldl (clean_step False) st cs))"
  using assms
proof (induction cs arbitrary: st)
  case (Cons c cs)
  show ?case
  proof (cases "c = ''..'' \<and> st = []")
    case True
    then have "clean_step False st c = [''..'']" by (simp add: clean_step_def)
    with clean_keeps_dotdot [of "[''..'']" cs] have "''..'' \<in> set (foldl (clean_step False) st (c # cs))"
      by (metis foldl_Cons hd_in_set list.sel(1) list.distinct(1))
    with Cons.prems show ?thesis by simp
  next
    case False
    then have "walk (length st) (c # cs) = walk (length (clean_step False st c)) cs"
      using Cons.prems(1) last_in_set [of st]
      by (cases st rule: rev_cases) (auto simp: clean_step_def)
    moreover have "''..'' \<notin> set (clean_step False st c)"
      using False Cons.prems(1) by (auto simp: clean_step_def dest: in_set_butlastD last_in_set)
    ultimately show ?thesis using Cons by simp
  qed
qed simp

lemma HasPrefix_append: "HasPrefix (p @ s) p"
  by (induction p) auto

lemma Contains_append: "Contains s p \<Longrightarrow> Contains (a @ s) p"
  by (induction a) auto

lemma Contains_infix: "Contains (a @ p @ b) p"
proof -
  have "Contains (p @ b) p"
    using HasPrefix_append [of p b] by (cases "p @ b") auto
  then show ?thesis by (rule Contains_append)
qed

lemma join_element: "c \<in> set st \<Longrightarrow> \<exists>a b. join_with s st = a @ c @ b"
proof (induction st rule: join_with.induct)
  case (3 s x y xs)
  show ?case
  proof (cases "c = x")
    case True
    then show ?thesis by (metis append_Nil join_with.simps(3))
  next
    case False
    with 3 obtain a b where "join_with s (y # xs) = a @ c @ b" by auto
    then have "join_with s (x # y # xs) = (x @ s # a) @ c @ b" by simp
    then show ?thesis by blast
  qed
qed (auto intro: exI [of _ "[]"])

text \<open>A relative path whose cleaned form has no \<open>..\<close> in it never leaves its root.\<close>

lemma clean_no_dotdot_stays:
  assumes "\<not> Contains (path_Clean p) ''..''" and "\<not> HasPrefix (path_Clean p) ''/''"
  shows "walk 0 (split_on (CHR ''/'') p) \<noteq> None"
proof -
  let ?st = "foldl (clean_step False) [] (split_on (CHR ''/'') p)"
  have rel: "(case p of [] \<Rightarrow> False | c # _ \<Rightarrow> c = CHR ''/'') = False"
    using assms(2) by (auto simp: path_Clean_def Let_def)
  have "''..'' \<notin> set ?st"
  proof
    assume dd: "''..'' \<in> set ?st"
    then obtain a b where "join_with (CHR ''/'') ?st = a @ ''..'' @ b" using join_element by blast
    moreover have "?st \<noteq> []" using dd by force
    ultimately have "path_Clean p = a @ ''..'' @ b" using rel by (simp add: path_Clean_def Let_def)
    with assms(1) Contains_infix [of a "''..''" b] show False by simp
  qed
  with walk_clean [of "[]" "split_on (CHR ''/'') p"] show ?thesis by simp
qed

section \<open>path.Join and filepath.Ext\<close>

text \<open>\<open>Join\<close> drops empty elements and cleans the result; of nothing it makes the empty path.\<close>

definition path_Join :: "string list \<Rightarrow> string" where
  "path_Join es = (let ns = filter (\<lambda>e. e \<noteq> []) es in
     if ns = [] then [] else path_Clean (join_with (CHR ''/'') ns))"

text \<open>\<open>Ext\<close> scans backwards to the last dot of the last element.\<close>

fun ext_scan :: "string \<Rightarrow> string \<Rightarrow> string" where
  "ext_scan [] acc = []"
| "ext_scan (c # cs) acc =
     (if c = CHR ''/'' then [] else if c = CHR ''.'' then c # acc else ext_scan cs (c # acc))"

definition filepath_Ext :: "string \<Rightarrow> string" where
  "filepath_Ext p = ext_scan (rev p) []"

lemma ext_scan_no_slash: "CHR ''/'' \<notin> set acc \<Longrightarrow> CHR ''/'' \<notin> set (ext_scan cs acc)"
  by (induction cs arbitrary: acc) auto

lemma filepath_Ext_no_slash: "CHR ''/'' \<notin> set (filepath_Ext p)"
  by (simp add: filepath_Ext_def ext_scan_no_slash)

lemma split_no_sep: "s \<notin> set xs \<Longrightarrow> split_on s xs = [xs]"
  by (induction xs) auto

lemma split_on_nonempty: "split_on s xs \<noteq> []"
  by (induction xs) (auto split: list.split)

lemma split_append: "s \<notin> set xs \<Longrightarrow> split_on s (xs @ s # ys) = xs # split_on s ys"
  by (induction xs) (auto split: list.split)

lemma format_nat_chars: "c \<in> set (format_nat n) \<Longrightarrow> \<exists>d < 10. c = digit d"
proof (induction n rule: format_nat.induct)
  case (1 n)
  show ?case
  proof (cases "n < 10")
    case True
    with 1(2) show ?thesis by (subst (asm) format_nat.simps) auto
  next
    case False
    with 1(2) have "c \<in> set (format_nat (n div 10)) \<or> c = digit (n mod 10)"
      by (subst (asm) format_nat.simps) auto
    moreover have "n mod 10 < 10" by simp
    ultimately show ?thesis using 1(1) False by blast
  qed
qed

end
