(* ===== verification/Rooms.thy ===== *)
theory Rooms
  imports Participants GoStd
begin

text \<open>
  The repositories of chat rooms, members and invitations (\<open>chat_group_repo.go\<close>,
  \<open>chat_member_repo.go\<close>, \<open>chat_invitation_repo.go\<close>) with the trigger that limits the members of a
  room, and the invariant of the membership tables.
\<close>

section \<open>Rooms\<close>

text \<open>The columns hold NULL where the Go struct has an empty string.\<close>

definition null_string :: "string \<Rightarrow> string option" where
  "null_string s = (if s = [] then None else Some s)"

definition or_empty :: "string option \<Rightarrow> string" where
  "or_empty s = (case s of None \<Rightarrow> [] | Some x \<Rightarrow> x)"

definition toChatRoomDomain :: "room_row \<Rightarrow> chat_room" where
  "toChatRoomDomain r = \<lparr>cr_id = rr_id r, cr_name = or_empty (rr_name r),
     cr_description = or_empty (rr_description r), cr_avatar_name = or_empty (rr_avatar_name r),
     cr_type = room_type_str (rr_type r), cr_max_members = rr_max_members r,
     cr_allow_agent = rr_allow_agent r, cr_is_deleted = rr_is_deleted r,
     cr_created_at = rr_created_at r, cr_updated_at = rr_updated_at r\<rparr>"

text \<open>The record of a room about to be written; \<open>ty\<close> is its type as a value of the enumeration.\<close>

definition toChatRoomRecord :: "room_type \<Rightarrow> chat_room \<Rightarrow> room_row" where
  "toChatRoomRecord ty r = \<lparr>rr_id = cr_id r, rr_name = null_string (cr_name r),
     rr_description = null_string (cr_description r),
     rr_avatar_name = null_string (cr_avatar_name r), rr_type = ty,
     rr_max_members = cr_max_members r, rr_allow_agent = cr_allow_agent r,
     rr_is_deleted = cr_is_deleted r, rr_created_at = cr_created_at r,
     rr_updated_at = cr_updated_at r\<rparr>"

definition in_int32 :: "int \<Rightarrow> bool" where
  "in_int32 i \<longleftrightarrow> - (2 ^ 31) \<le> i \<and> i < 2 ^ 31"

definition Room_FindByID :: "room_id \<Rightarrow> chat_room io" where
  "Room_FindByID i = not_found_as (NotFound ChatRoomNotFound)
     (bind (ScanOne (\<lambda>d. filter (\<lambda>r. rr_id r = i) (chat_rooms d))) (\<lambda>r. ret (toChatRoomDomain r)))"

text \<open>\<open>Create\<close> sets the id of the room it was given, and nothing else of it.\<close>

definition Room_Create :: "chat_room \<Rightarrow> chat_room io" where
  "Room_Create room = sql T_rooms 1 (\<lambda>i now d.
     case parse_room_type (cr_type room) of
       None \<Rightarrow> Inl Pg_InvalidEnum
     | Some ty \<Rightarrow>
         if \<not> in_int32 (cr_max_members room) then Inl Pg_OutOfRange
         else Inr (room\<lparr>cr_id := i\<rparr>, d\<lparr>chat_rooms := chat_rooms d @
           [(toChatRoomRecord ty room)\<lparr>rr_id := i, rr_is_deleted := False,
              rr_created_at := now, rr_updated_at := now\<rparr>]\<rparr>))"

definition is_active_member :: "db \<Rightarrow> room_id \<Rightarrow> participant_id \<Rightarrow> bool" where
  "is_active_member d r p \<longleftrightarrow>
     (\<exists>m \<in> set (chat_members d). cm_room_id m = r \<and> cm_participant_id m = p \<and> \<not> cm_is_deleted m)"

definition Room_FindDirectByParticipants :: "participant_id \<Rightarrow> participant_id \<Rightarrow> chat_room io" where
  "Room_FindDirectByParticipants p1 p2 = not_found_as (NotFound ChatRoomNotFound)
     (bind (ScanOne (\<lambda>d. filter (\<lambda>r. is_active_member d (rr_id r) p1 \<and> is_active_member d (rr_id r) p2
         \<and> rr_type r = Direct \<and> \<not> rr_is_deleted r) (chat_rooms d)))
       (\<lambda>r. ret (toChatRoomDomain r)))"

definition Room_Update :: "chat_room \<Rightarrow> unit io" where
  "Room_Update room = Exec (\<lambda>now d.
     if \<not> in_int32 (cr_max_members room) then Inl Pg_OutOfRange
     else Inr (d\<lparr>chat_rooms := map (\<lambda>r. if rr_id r = cr_id room then
       r\<lparr>rr_name := null_string (cr_name room), rr_description := null_string (cr_description room),
         rr_avatar_name := null_string (cr_avatar_name room),
         rr_max_members := cr_max_members room, rr_allow_agent := cr_allow_agent room,
         rr_updated_at := now\<rparr> else r) (chat_rooms d)\<rparr>))"

definition Room_SoftDelete :: "room_id \<Rightarrow> unit io" where
  "Room_SoftDelete i = Exec (\<lambda>now d. Inr (d\<lparr>chat_rooms := map (\<lambda>r. if rr_id r = i then
     r\<lparr>rr_is_deleted := True, rr_updated_at := now\<rparr> else r) (chat_rooms d)\<rparr>))"

section \<open>Members\<close>

definition Member_FindByID :: "member_id \<Rightarrow> chat_member io" where
  "Member_FindByID i = not_found_as (NotFound ChatMemberNotFound)
     (ScanOne (\<lambda>d. filter (\<lambda>m. cm_id m = i) (chat_members d)))"

definition Member_FindByRoomAndParticipant :: "room_id \<Rightarrow> participant_id \<Rightarrow> chat_member io" where
  "Member_FindByRoomAndParticipant r p = not_found_as (NotFound ChatMemberNotFound)
     (ScanOne (\<lambda>d. filter (\<lambda>m. cm_room_id m = r \<and> cm_participant_id m = p) (chat_members d)))"

definition Member_FindByRoom :: "room_id \<Rightarrow> chat_member list io" where
  "Member_FindByRoom r = ScanAll (\<lambda>d. filter (\<lambda>m. cm_room_id m = r) (chat_members d))"

definition Member_FindByParticipant :: "participant_id \<Rightarrow> chat_member list io" where
  "Member_FindByParticipant p = ScanAll (\<lambda>d. filter (\<lambda>m. cm_participant_id m = p) (chat_members d))"

text \<open>The members the trigger \<open>limit_member_of_room\<close> counts: active, and no system participant.\<close>

definition counted :: "db \<Rightarrow> room_id \<Rightarrow> chat_member \<Rightarrow> bool" where
  "counted d r m \<longleftrightarrow> cm_room_id m = r \<and> \<not> cm_is_deleted m \<and>
     (\<exists>p \<in> set (participants d). pr_id p = cm_participant_id m \<and> pr_type p \<noteq> SystemType)"

definition active_count :: "db \<Rightarrow> room_id \<Rightarrow> nat" where
  "active_count d r = length (filter (counted d r) (chat_members d))"

definition room_full :: "db \<Rightarrow> room_id \<Rightarrow> bool" where
  "room_full d r = (case List.find (\<lambda>x. rr_id x = r) (chat_rooms d) of
     None \<Rightarrow> False
   | Some x \<Rightarrow> 0 < rr_max_members x \<and> rr_max_members x \<le> int (active_count d r))"

definition same_membership :: "chat_member \<Rightarrow> chat_member \<Rightarrow> bool" where
  "same_membership m x \<longleftrightarrow> cm_room_id x = cm_room_id m \<and> cm_participant_id x = cm_participant_id m"

text \<open>The conflict branch of \<open>Add\<close>: \<open>is_deleted\<close>, \<open>deleted_at\<close>, \<open>joined_at\<close> and \<open>updated_at\<close> are
  reset; the role and the read mark stay as they were.\<close>

definition restore_member :: "instant \<Rightarrow> chat_member \<Rightarrow> chat_member" where
  "restore_member now x = x\<lparr>cm_is_deleted := False,
     cm_joined_at := (if cm_is_deleted x then now else cm_joined_at x),
     cm_updated_at := now, cm_deleted_at := None\<rparr>"

text \<open>The trigger fires before the row is inserted, so it also guards the conflict branch.\<close>

definition Member_Add :: "chat_member \<Rightarrow> chat_member io" where
  "Member_Add m = sql T_members 1 (\<lambda>i now d.
     if room_full d (cm_room_id m) then Inl Pg_LimitExceeded
     else case List.find (same_membership m) (chat_members d) of
       Some x \<Rightarrow>
         Inr (m\<lparr>cm_id := cm_id x, cm_joined_at := cm_joined_at (restore_member now x)\<rparr>,
              d\<lparr>chat_members := map (\<lambda>y. if same_membership m y then restore_member now y else y)
                                  (chat_members d)\<rparr>)
     | None \<Rightarrow>
         if cm_room_id m \<notin> rr_id ` set (chat_rooms d) \<or>
            cm_participant_id m \<notin> pr_id ` set (participants d) then Inl Pg_ForeignKey
         else Inr (m\<lparr>cm_id := i, cm_joined_at := now\<rparr>,
              d\<lparr>chat_members := chat_members d @
                [\<lparr>cm_id = i, cm_room_id = cm_room_id m, cm_participant_id = cm_participant_id m,
                  cm_role = cm_role m, cm_is_muted = False, cm_is_deleted = False,
                  cm_last_read_at = None, cm_joined_at = now, cm_updated_at = now,
                  cm_deleted_at = None\<rparr>]\<rparr>))"

definition Member_Update :: "chat_member \<Rightarrow> unit io" where
  "Member_Update m = Exec (\<lambda>now d. Inr (d\<lparr>chat_members := map (\<lambda>x. if cm_id x = cm_id m then
     x\<lparr>cm_role := cm_role m, cm_is_muted := cm_is_muted m, cm_last_read_at := cm_last_read_at m,
       cm_updated_at := now\<rparr> else x) (chat_members d)\<rparr>))"

definition Member_SoftDelete :: "member_id \<Rightarrow> unit io" where
  "Member_SoftDelete i = Exec (\<lambda>now d. Inr (d\<lparr>chat_members := map (\<lambda>x. if cm_id x = i then
     x\<lparr>cm_is_deleted := True, cm_deleted_at := Some now, cm_updated_at := now\<rparr> else x)
     (chat_members d)\<rparr>))"

definition Member_Remove :: "room_id \<Rightarrow> participant_id \<Rightarrow> unit io" where
  "Member_Remove r p = Exec (\<lambda>_ d. Inr (d\<lparr>chat_members :=
     filter (\<lambda>x. \<not> (cm_room_id x = r \<and> cm_participant_id x = p)) (chat_members d)\<rparr>))"

section \<open>Invitations\<close>

text \<open>
  \<open>notExpired\<close> is a package variable: its \<open>time.Now()\<close> is evaluated once, when the process starts.
\<close>

definition notExpired :: "instant \<Rightarrow> chat_invitation \<Rightarrow> bool" where
  "notExpired start iv \<longleftrightarrow> (case ci_expires_at iv of None \<Rightarrow> True | Some t \<Rightarrow> start < t)"

definition get_process_start :: "instant io" where
  "get_process_start = (\<lambda>w. (Inr (process_start w), w))"

text \<open>Foreign keys: the room and both participants.\<close>

definition Invitation_Create :: "chat_invitation \<Rightarrow> chat_invitation io" where
  "Invitation_Create iv = sql T_invitations 1 (\<lambda>i now d.
     if ci_room_id iv \<notin> rr_id ` set (chat_rooms d) \<or>
        ci_inviter_id iv \<notin> pr_id ` set (participants d) \<or>
        ci_invitee_id iv \<notin> pr_id ` set (participants d) then Inl Pg_ForeignKey
     else (let row = iv\<lparr>ci_id := i, ci_created_at := now, ci_updated_at := now\<rparr>
           in Inr (row, d\<lparr>chat_invitations := chat_invitations d @ [row]\<rparr>)))"

definition Invitation_FindByID :: "invitation_id \<Rightarrow> chat_invitation io" where
  "Invitation_FindByID i = not_found_as (NotFound ChatInvitationNotFound)
     (ScanOne (\<lambda>d. filter (\<lambda>v. ci_id v = i) (chat_invitations d)))"

definition Invitation_FindByRoomAndInvitee :: "room_id \<Rightarrow> participant_id \<Rightarrow> chat_invitation io" where
  "Invitation_FindByRoomAndInvitee r p = bind get_process_start (\<lambda>start.
     not_found_as (NotFound ChatInvitationNotFound)
       (ScanOne (\<lambda>d. filter (\<lambda>v. ci_room_id v = r \<and> ci_invitee_id v = p \<and> ci_status v = Pending
          \<and> notExpired start v) (chat_invitations d))))"

definition Invitation_FindPendingByRoomAndInviter :: "room_id \<Rightarrow> participant_id \<Rightarrow> chat_invitation io" where
  "Invitation_FindPendingByRoomAndInviter r p = bind get_process_start (\<lambda>start.
     not_found_as (NotFound ChatInvitationNotFound)
       (ScanOne (\<lambda>d. filter (\<lambda>v. ci_room_id v = r \<and> ci_inviter_id v = p \<and> ci_status v = Pending
          \<and> notExpired start v) (chat_invitations d))))"

definition Invitation_FindByRoom :: "room_id \<Rightarrow> chat_invitation list io" where
  "Invitation_FindByRoom r = ScanAll (\<lambda>d. filter (\<lambda>v. ci_room_id v = r) (chat_invitations d))"

definition Invitation_UpdateStatus :: "invitation_id \<Rightarrow> invitation_status \<Rightarrow> unit io" where
  "Invitation_UpdateStatus i st = Exec (\<lambda>now d. Inr (d\<lparr>chat_invitations :=
     map (\<lambda>v. if ci_id v = i then v\<lparr>ci_status := st, ci_updated_at := now\<rparr> else v)
       (chat_invitations d)\<rparr>))"

section \<open>The identity columns\<close>

interpretation room_ids: id_table chat_rooms "\<lambda>rs. chat_rooms_update (\<lambda>_. rs)" rr_id T_rooms
  by unfold_locales simp

interpretation member_ids: id_table chat_members "\<lambda>rs. chat_members_update (\<lambda>_. rs)" cm_id T_members
  by unfold_locales simp

interpretation invitation_ids:
  id_table chat_invitations "\<lambda>rs. chat_invitations_update (\<lambda>_. rs)" ci_id T_invitations
  by unfold_locales simp

interpretation participant_ids:
  id_table participants "\<lambda>rs. participants_update (\<lambda>_. rs)" pr_id T_participants
  by unfold_locales simp

lemma toChatRoom_roundtrip:
  "cr_type room = room_type_str ty \<Longrightarrow> toChatRoomDomain (toChatRoomRecord ty room) = room"
  by (cases room) (simp add: toChatRoomDomain_def toChatRoomRecord_def null_string_def or_empty_def)

end
