(* ===== verification/Friendship.thy ===== *)
theory Friendship
  imports Rooms
begin

text \<open>
  Friend requests, friendships and blocks: the repository \<open>friendship_repo.go\<close> and the use cases of
  \<open>internal/application/friendship/usecase\<close>, each one definition with the calls, guards and early
  returns of its \<open>Execute\<close>.
\<close>

section \<open>Repository\<close>

definition Friendship_FindByUserID :: "user_id \<Rightarrow> friendship list io" where
  "Friendship_FindByUserID u = ScanAll (\<lambda>d. filter (\<lambda>f. fr_user_id f = u) (friendships d))"

text \<open>\<open>createWithStatus\<close>: the pair is unique and both users must exist.\<close>

definition createWithStatus :: "user_id \<Rightarrow> user_id \<Rightarrow> friendship_status \<Rightarrow> unit io" where
  "createWithStatus u v st = sql T_friendships 1 (\<lambda>i now d.
     if \<exists>f \<in> set (friendships d). fr_user_id f = u \<and> fr_friend_id f = v then Inl Pg_UniqueViolation
     else if u \<notin> us_id ` set (users d) \<or> v \<notin> us_id ` set (users d) then Inl Pg_ForeignKey
     else Inr ((), d\<lparr>friendships := friendships d @
       [\<lparr>fr_id = i, fr_user_id = u, fr_friend_id = v, fr_status = st,
         fr_created_at = now, fr_updated_at = now\<rparr>]\<rparr>))"

definition Friendship_Create :: "user_id \<Rightarrow> user_id \<Rightarrow> unit io" where
  "Friendship_Create u v = createWithStatus u v StatusPending"

definition Friendship_CreateBlocked :: "user_id \<Rightarrow> user_id \<Rightarrow> unit io" where
  "Friendship_CreateBlocked u v = createWithStatus u v StatusBlocked"

definition Friendship_FindByID :: "int \<Rightarrow> friendship io" where
  "Friendship_FindByID i = not_found_as (Fr ErrFriendshipNotFound)
     (ScanOne (\<lambda>d. filter (\<lambda>f. fr_id f = i) (friendships d)))"

definition Friendship_FindByUserIDAndFriendID :: "user_id \<Rightarrow> user_id \<Rightarrow> friendship io" where
  "Friendship_FindByUserIDAndFriendID u v = not_found_as (Fr ErrFriendshipNotFound)
     (ScanOne (\<lambda>d. filter (\<lambda>f. fr_user_id f = u \<and> fr_friend_id f = v) (friendships d)))"

text \<open>Either direction; when both rows exist the statement does not say which one comes first.
  The model returns the first in the order of the table, which is universally quantified.\<close>

definition Friendship_FindBetweenUsers :: "user_id \<Rightarrow> user_id \<Rightarrow> friendship io" where
  "Friendship_FindBetweenUsers u v = not_found_as (Fr ErrFriendshipNotFound)
     (ScanOne (\<lambda>d. filter (\<lambda>f. fr_user_id f = u \<and> fr_friend_id f = v \<or>
        fr_user_id f = v \<and> fr_friend_id f = u) (friendships d)))"

definition Friendship_FindAllByUserID :: "user_id \<Rightarrow> friendship list io" where
  "Friendship_FindAllByUserID u =
     ScanAll (\<lambda>d. filter (\<lambda>f. fr_user_id f = u \<or> fr_friend_id f = u) (friendships d))"

definition Friendship_FindPendingByUserID :: "user_id \<Rightarrow> friendship list io" where
  "Friendship_FindPendingByUserID u =
     ScanAll (\<lambda>d. filter (\<lambda>f. fr_user_id f = u \<and> fr_status f = StatusPending) (friendships d))"

definition Friendship_FindPendingByFriendID :: "user_id \<Rightarrow> friendship list io" where
  "Friendship_FindPendingByFriendID v =
     ScanAll (\<lambda>d. filter (\<lambda>f. fr_friend_id f = v \<and> fr_status f = StatusPending) (friendships d))"

definition Friendship_Delete :: "int \<Rightarrow> unit io" where
  "Friendship_Delete i =
     Exec (\<lambda>_ d. Inr (d\<lparr>friendships := filter (\<lambda>f. fr_id f \<noteq> i) (friendships d)\<rparr>))"

definition set_status :: "int \<Rightarrow> friendship_status \<Rightarrow> instant \<Rightarrow> friendship \<Rightarrow> friendship" where
  "set_status i st now f = (if fr_id f = i then f\<lparr>fr_status := st, fr_updated_at := now\<rparr> else f)"

definition Friendship_UpdateStatus :: "int \<Rightarrow> friendship_status \<Rightarrow> unit io" where
  "Friendship_UpdateStatus i st =
     Exec (\<lambda>now d. Inr (d\<lparr>friendships := map (set_status i st now) (friendships d)\<rparr>))"

section \<open>Use cases\<close>

definition apply_friendship :: "user_id \<Rightarrow> user_id \<Rightarrow> unit io" where
  "apply_friendship me friendID =
     attempt (Friendship_FindByUserIDAndFriendID me friendID)
       (\<lambda>e. if e \<noteq> Fr ErrFriendshipNotFound then fail e else
          attempt (Friendship_FindByUserIDAndFriendID friendID me)
            (\<lambda>e. if e \<noteq> Fr ErrFriendshipNotFound then fail e else
               attempt (Friendship_Create me friendID)
                 (\<lambda>e. fail (if is_duplicate_key e then Fr ErrFriendshipAlreadyExists else e))
                 ret)
            (\<lambda>_. fail (Fr ErrFriendshipAlreadyExists)))
       (\<lambda>_. fail (Fr ErrFriendshipAlreadyExists))"

text \<open>After the commit of an acceptance: the direct room of the two friends.  Every failure here is
  logged and the acceptance still succeeds.\<close>

definition create_direct_room :: "user_id \<Rightarrow> user_id \<Rightarrow> unit io" where
  "create_direct_room me requester =
     attempt (Participant_FindByUserID me) (\<lambda>_. ret ()) (\<lambda>accepterP.
     attempt (Participant_FindByUserID requester) (\<lambda>_. ret ()) (\<lambda>requesterP.
     attempt (Room_FindDirectByParticipants (pa_id accepterP) (pa_id requesterP))
       (\<lambda>e. if e \<noteq> NotFound ChatRoomNotFound then ret () else
          attempt (Room_Create \<lparr>cr_id = 0, cr_name = [], cr_description = [], cr_avatar_name = [],
                     cr_type = room_type_str Direct, cr_max_members = 2, cr_allow_agent = False,
                     cr_is_deleted = False, cr_created_at = 0, cr_updated_at = 0\<rparr>)
            (\<lambda>_. ret ())
            (\<lambda>room.
               ignore (Member_Add \<lparr>cm_id = 0, cm_room_id = cr_id room,
                         cm_participant_id = pa_id accepterP, cm_role = Member, cm_is_muted = False,
                         cm_is_deleted = False, cm_last_read_at = None, cm_joined_at = 0,
                         cm_updated_at = 0, cm_deleted_at = None\<rparr>)
               (ignore (Member_Add \<lparr>cm_id = 0, cm_room_id = cr_id room,
                         cm_participant_id = pa_id requesterP, cm_role = Member, cm_is_muted = False,
                         cm_is_deleted = False, cm_last_read_at = None, cm_joined_at = 0,
                         cm_updated_at = 0, cm_deleted_at = None\<rparr>)
                 (ret ()))))
       (\<lambda>_. ret ())))"

text \<open>The steps of the acceptance between \<open>Begin\<close> and \<open>Commit\<close>; the result is the requester.\<close>

definition accept_steps :: "user_id \<Rightarrow> int \<Rightarrow> user_id io" where
  "accept_steps me friendshipID =
     bind (Friendship_FindByID friendshipID) (\<lambda>f.
     guard (fr_friend_id f = me) (Fr ErrForbidden)
     (guard (fr_status f = StatusPending) (Fr ErrFriendshipNotPending)
     (bind (Friendship_UpdateStatus (fr_id f) StatusAccepted) (\<lambda>_.
      attempt (attempt (Friendship_Create me (fr_user_id f))
                 (\<lambda>e. if is_duplicate_key e then ret () else fail e) ret) fail (\<lambda>_.
      bind (Friendship_FindByUserIDAndFriendID me (fr_user_id f)) (\<lambda>reverse.
      bind (Friendship_UpdateStatus (fr_id reverse) StatusAccepted) (\<lambda>_.
      ret (fr_user_id f))))))))"

definition accept_friendship :: "user_id \<Rightarrow> int \<Rightarrow> unit io" where
  "accept_friendship me friendshipID = with_tx id
     (bind (accept_steps me friendshipID) (\<lambda>requester.
      attempt commit_tx fail (\<lambda>_. create_direct_room me requester)))"

definition block_user :: "user_id \<Rightarrow> user_id \<Rightarrow> unit io" where
  "block_user me target =
     bind
       (attempt (Friendship_FindByUserIDAndFriendID me target)
          (\<lambda>e. if e \<noteq> Fr ErrFriendshipNotFound then fail e else
             attempt (Friendship_CreateBlocked me target)
               (\<lambda>e. fail (if is_duplicate_key e then Fr ErrAlreadyBlocked else e)) ret)
          (\<lambda>existing. guard (fr_status existing \<noteq> StatusBlocked) (Fr ErrAlreadyBlocked)
             (Friendship_UpdateStatus (fr_id existing) StatusBlocked)))
       (\<lambda>_. attempt (Friendship_FindByUserIDAndFriendID target me) (\<lambda>_. ret ())
          (\<lambda>reverse. ignore (Friendship_Delete (fr_id reverse)) (ret ())))"

definition cancel_sent_request :: "user_id \<Rightarrow> int \<Rightarrow> unit io" where
  "cancel_sent_request me friendshipID =
     bind (Friendship_FindByID friendshipID) (\<lambda>f.
     guard (fr_user_id f = me) (Fr ErrForbidden)
     (guard (fr_status f = StatusPending) (Fr ErrFriendshipNotPending)
     (Friendship_Delete (fr_id f))))"

definition remove_friendship :: "user_id \<Rightarrow> int \<Rightarrow> unit io" where
  "remove_friendship me friendshipID =
     bind (Friendship_FindByID friendshipID) (\<lambda>f.
     guard (\<not> (fr_user_id f \<noteq> me \<and> fr_friend_id f \<noteq> me)) (Fr ErrForbidden)
     (bind (Friendship_Delete (fr_id f)) (\<lambda>_.
      attempt (Friendship_FindByUserIDAndFriendID (fr_friend_id f) (fr_user_id f)) (\<lambda>_. ret ())
        (\<lambda>reverse. ignore (Friendship_Delete (fr_id reverse)) (ret ())))))"

definition unblock_user :: "user_id \<Rightarrow> user_id \<Rightarrow> unit io" where
  "unblock_user me target =
     attempt (Friendship_FindByUserIDAndFriendID me target)
       (\<lambda>e. fail (if e = Fr ErrFriendshipNotFound then Fr ErrNotBlocked else e))
       (\<lambda>existing. guard (fr_status existing = StatusBlocked) (Fr ErrNotBlocked)
          (Friendship_Delete (fr_id existing)))"

text \<open>The three listings: the rows whose user can be read, in the order of the rows.\<close>

record friend_item =
  fi_friendship_id :: int
  fi_user_id :: user_id
  fi_name :: string
  fi_avatar :: string
  fi_status :: friendship_status
  fi_created_at :: instant

definition get_friends :: "user_id \<Rightarrow> friend_item list io" where
  "get_friends me = bind (Friendship_FindByUserID me) (\<lambda>fs.
     collect fs (\<lambda>f. attempt (User_FindByID (fr_friend_id f)) (\<lambda>_. ret None)
       (\<lambda>u. ret (Some \<lparr>fi_friendship_id = fr_id f, fi_user_id = fr_friend_id f,
          fi_name = u_name u, fi_avatar = u_avatar u, fi_status = fr_status f,
          fi_created_at = fr_created_at f\<rparr>))))"

record request_item =
  ri_friendship_id :: int
  ri_user_id :: user_id
  ri_name :: string
  ri_avatar :: string
  ri_created_at :: instant

definition get_friend_requests :: "user_id \<Rightarrow> request_item list io" where
  "get_friend_requests me = bind (Friendship_FindPendingByFriendID me) (\<lambda>fs.
     collect fs (\<lambda>f. attempt (User_FindByID (fr_user_id f)) (\<lambda>_. ret None)
       (\<lambda>u. ret (Some \<lparr>ri_friendship_id = fr_id f, ri_user_id = fr_user_id f,
          ri_name = u_name u, ri_avatar = u_avatar u, ri_created_at = fr_created_at f\<rparr>))))"

definition get_sent_requests :: "user_id \<Rightarrow> request_item list io" where
  "get_sent_requests me = bind (Friendship_FindPendingByUserID me) (\<lambda>fs.
     collect fs (\<lambda>f. attempt (User_FindByID (fr_friend_id f)) (\<lambda>_. ret None)
       (\<lambda>u. ret (Some \<lparr>ri_friendship_id = fr_id f, ri_user_id = fr_friend_id f,
          ri_name = u_name u, ri_avatar = u_avatar u, ri_created_at = fr_created_at f\<rparr>))))"

section \<open>The invariant of the table\<close>

interpretation friendship_ids:
  id_table friendships "\<lambda>rs. friendships_update (\<lambda>_. rs)" fr_id T_friendships
  by unfold_locales simp

definition pair_of :: "friendship \<Rightarrow> user_id \<times> user_id" where
  "pair_of f = (fr_user_id f, fr_friend_id f)"

text \<open>Ids are unique and drawn, a pair has at most one row per direction.\<close>

definition friendship_inv :: "(table \<Rightarrow> int) \<Rightarrow> db \<Rightarrow> bool" where
  "friendship_inv s d \<longleftrightarrow> ids_ok friendships fr_id T_friendships s d \<and> distinct (map pair_of (friendships d))"

interpretation friendship_store: store_invariant friendship_inv
  using friendship_ids.mono by unfold_locales (auto simp: friendship_inv_def)

lemma friendship_inv_other:
  "friendship_inv s d \<Longrightarrow> friendships d' = friendships d \<Longrightarrow> s T_friendships \<le> s' T_friendships \<Longrightarrow>
   friendship_inv s' d'"
  by (fastforce simp: friendship_inv_def ids_ok_def)

lemma pair_set_status [simp]: "pair_of (set_status i st now f) = pair_of f"
  and id_set_status [simp]: "fr_id (set_status i st now f) = fr_id f"
  and user_set_status [simp]: "fr_user_id (set_status i st now f) = fr_user_id f"
  and friend_set_status [simp]: "fr_friend_id (set_status i st now f) = fr_friend_id f"
  by (simp_all add: pair_of_def set_status_def)

lemma pair_set_status_o [simp]: "pair_of \<circ> set_status i st now = pair_of"
  by (simp add: fun_eq_iff)

lemma keeps_create [frame_intros]: "keeps (inv_holds friendship_inv) (createWithStatus u v st)"
  unfolding createWithStatus_def
proof (rule friendship_store.keeps_sql, rule stmt_keepsI)
  fix s now d x d'
  assume I: "friendship_inv s d"
    and q: "(if \<exists>f \<in> set (friendships d). fr_user_id f = u \<and> fr_friend_id f = v then Inl Pg_UniqueViolation
     else if u \<notin> us_id ` set (users d) \<or> v \<notin> us_id ` set (users d) then Inl Pg_ForeignKey
     else Inr ((), d\<lparr>friendships := friendships d @
       [\<lparr>fr_id = s T_friendships + 1, fr_user_id = u, fr_friend_id = v, fr_status = st,
         fr_created_at = now, fr_updated_at = now\<rparr>]\<rparr>)) = Inr (x, d')"
  then have "ids_ok friendships fr_id T_friendships (s(T_friendships := s T_friendships + 1)) d'"
    by (auto intro!: friendship_ids.ids_insert [where d = d] simp: friendship_inv_def split: if_splits)
  moreover have "(u, v) \<notin> pair_of ` set (friendships d)"
    using q by (auto simp: pair_of_def split: if_splits)
  with I q have "distinct (map pair_of (friendships d'))"
    by (auto simp: friendship_inv_def pair_of_def split: if_splits)
  ultimately show "friendship_inv (s(T_friendships := s T_friendships + int 1)) d'"
    by (simp add: friendship_inv_def)
qed

lemma keeps_delete [frame_intros]: "keeps (inv_holds friendship_inv) (Friendship_Delete i)"
  unfolding Friendship_Delete_def
  by (rule friendship_store.keeps_Exec)
     (auto simp: friendship_inv_def distinct_map_filter intro: friendship_ids.ids_delete)

lemma keeps_update [frame_intros]: "keeps (inv_holds friendship_inv) (Friendship_UpdateStatus i st)"
  unfolding Friendship_UpdateStatus_def
  by (rule friendship_store.keeps_Exec)
     (auto simp: friendship_inv_def intro: friendship_ids.ids_update)

lemma keeps_other_sql:
  assumes "\<And>i now d x d'. q i now d = Inr (x, d') \<Longrightarrow> friendships d' = friendships d"
  shows "keeps (inv_holds friendship_inv) (sql t n q)"
  by (rule friendship_store.keeps_sql) (auto simp: stmt_keeps_def intro: friendship_inv_other dest: assms)

lemmas friendship_repo_defs =
  Friendship_FindByUserID_def Friendship_FindByID_def Friendship_FindByUserIDAndFriendID_def
  Friendship_FindBetweenUsers_def Friendship_FindPendingByUserID_def
  Friendship_FindPendingByFriendID_def Friendship_Create_def Friendship_CreateBlocked_def


text \<open>Every operation of the component, and the rooms an acceptance creates, keep the invariant, on
  success, on every error path and under every schedule of failures.\<close>

lemma keeps_room_create [frame_intros]: "keeps (inv_holds friendship_inv) (Room_Create room)"
  unfolding Room_Create_def
  by (rule keeps_other_sql) (auto split: option.splits if_splits)

lemma keeps_member_add [frame_intros]: "keeps (inv_holds friendship_inv) (Member_Add m)"
  unfolding Member_Add_def
  by (rule keeps_other_sql) (auto split: option.splits if_splits)

lemma keeps_direct_room [frame_intros]: "keeps (inv_holds friendship_inv) (create_direct_room a b)"
  unfolding create_direct_room_def Participant_FindByUserID_def Room_FindDirectByParticipants_def
  by (intro frame_intros)

lemma keeps_apply [frame_intros]: "keeps (inv_holds friendship_inv) (apply_friendship a b)"
  unfolding apply_friendship_def friendship_repo_defs by (intro frame_intros)

lemma keeps_accept [frame_intros]: "keeps (inv_holds friendship_inv) (accept_friendship a i)"
  unfolding accept_friendship_def accept_steps_def friendship_repo_defs by (intro frame_intros)

lemma keeps_block [frame_intros]: "keeps (inv_holds friendship_inv) (block_user a b)"
  unfolding block_user_def friendship_repo_defs by (intro frame_intros)

lemma keeps_cancel [frame_intros]: "keeps (inv_holds friendship_inv) (cancel_sent_request a i)"
  unfolding cancel_sent_request_def friendship_repo_defs by (intro frame_intros)

lemma keeps_remove [frame_intros]: "keeps (inv_holds friendship_inv) (remove_friendship a i)"
  unfolding remove_friendship_def friendship_repo_defs by (intro frame_intros)

lemma keeps_unblock [frame_intros]: "keeps (inv_holds friendship_inv) (unblock_user a b)"
  unfolding unblock_user_def friendship_repo_defs by (intro frame_intros)

end
