(* ===== verification/Friendship_Spec.thy ===== *)
theory Friendship_Spec
  imports Friendship
begin

text \<open>
  The abstract specification of the friendship component: the status of each directed pair of users.
  Each use case refines one function on that map, on every branch, and never touches the map on an
  error; the acceptance is atomic under every schedule of failures.
\<close>

section \<open>The abstract state\<close>

type_synonym links = "user_id \<times> user_id \<Rightarrow> friendship_status option"

definition link_row :: "db \<Rightarrow> user_id \<Rightarrow> user_id \<Rightarrow> friendship option" where
  "link_row d u v = List.find (\<lambda>f. fr_user_id f = u \<and> fr_friend_id f = v) (friendships d)"

definition links :: "db \<Rightarrow> links" where
  "links d = (\<lambda>(u, v). map_option fr_status (link_row d u v))"

definition known :: "db \<Rightarrow> user_id \<Rightarrow> bool" where
  "known d u \<longleftrightarrow> u \<in> us_id ` set (users d)"

text \<open>What a use case did: its error, or the abstract state it left.\<close>

definition outcome :: "(err + 'a) \<times> world \<Rightarrow> err + links" where
  "outcome r = (case fst r of Inl e \<Rightarrow> Inl e | Inr _ \<Rightarrow> Inr (links (tables (snd r))))"

section \<open>The specifications\<close>

definition spec_apply :: "(user_id \<Rightarrow> bool) \<Rightarrow> user_id \<Rightarrow> user_id \<Rightarrow> links \<Rightarrow> err + links" where
  "spec_apply kn me v m =
     (if m (me, v) \<noteq> None \<or> m (v, me) \<noteq> None then Inl (Fr ErrFriendshipAlreadyExists)
      else if \<not> kn me \<or> \<not> kn v then Inl (Pg Pg_ForeignKey)
      else Inr (m((me, v) \<mapsto> StatusPending)))"

text \<open>Cancel, remove and accept act on the row \<open>(requester, friend)\<close> of the id, if there is one.\<close>

definition spec_cancel :: "user_id \<Rightarrow> (user_id \<times> user_id) option \<Rightarrow> links \<Rightarrow> err + links" where
  "spec_cancel me p m = (case p of None \<Rightarrow> Inl (Fr ErrFriendshipNotFound)
     | Some (u, v) \<Rightarrow> if u \<noteq> me then Inl (Fr ErrForbidden)
         else if m (u, v) \<noteq> Some StatusPending then Inl (Fr ErrFriendshipNotPending)
         else Inr (m((u, v) := None)))"

definition spec_remove :: "user_id \<Rightarrow> (user_id \<times> user_id) option \<Rightarrow> links \<Rightarrow> err + links" where
  "spec_remove me p m = (case p of None \<Rightarrow> Inl (Fr ErrFriendshipNotFound)
     | Some (u, v) \<Rightarrow> if u \<noteq> me \<and> v \<noteq> me then Inl (Fr ErrForbidden)
         else Inr (m((u, v) := None, (v, u) := None)))"

definition spec_block :: "(user_id \<Rightarrow> bool) \<Rightarrow> user_id \<Rightarrow> user_id \<Rightarrow> links \<Rightarrow> err + links" where
  "spec_block kn me v m =
     (if m (me, v) = Some StatusBlocked then Inl (Fr ErrAlreadyBlocked)
      else if m (me, v) = None \<and> (\<not> kn me \<or> \<not> kn v) then Inl (Pg Pg_ForeignKey)
      else Inr ((m((me, v) \<mapsto> StatusBlocked))((v, me) := None)))"

definition spec_unblock :: "user_id \<Rightarrow> user_id \<Rightarrow> links \<Rightarrow> err + links" where
  "spec_unblock me v m =
     (if m (me, v) = Some StatusBlocked then Inr (m((me, v) := None)) else Inl (Fr ErrNotBlocked))"

definition spec_accept :: "(user_id \<Rightarrow> bool) \<Rightarrow> user_id \<Rightarrow> (user_id \<times> user_id) option \<Rightarrow> links \<Rightarrow> err + links" where
  "spec_accept kn me p m = (case p of None \<Rightarrow> Inl (Fr ErrFriendshipNotFound)
     | Some (u, v) \<Rightarrow> if v \<noteq> me then Inl (Fr ErrForbidden)
         else if m (u, v) \<noteq> Some StatusPending then Inl (Fr ErrFriendshipNotPending)
         else if m (v, u) \<noteq> None then Inl (Pg Pg_TxAborted)
         else if \<not> kn u \<or> \<not> kn v then Inl (Pg Pg_ForeignKey)
         else Inr (m((u, v) \<mapsto> StatusAccepted, (v, u) \<mapsto> StatusAccepted)))"

definition pair_of_id :: "db \<Rightarrow> int \<Rightarrow> (user_id \<times> user_id) option" where
  "pair_of_id d i = map_option pair_of (List.find (\<lambda>f. fr_id f = i) (friendships d))"

section \<open>The map under the statements of the repository\<close>

lemma case_filter_find:
  "(case filter P xs of [] \<Rightarrow> a | x # _ \<Rightarrow> b x) = (case List.find P xs of None \<Rightarrow> a | Some x \<Rightarrow> b x)"
  by (induction xs) auto

lemma find_map_same:
  "(\<And>x. P (g x) = P x) \<Longrightarrow> List.find P (map g xs) = map_option g (List.find P xs)"
  by (induction xs) auto

lemma find_filter_same:
  "(\<And>x. x \<in> set xs \<Longrightarrow> P x \<Longrightarrow> Q x) \<Longrightarrow> List.find P (filter Q xs) = List.find P xs"
  by (induction xs) auto

lemma link_row_Some: "link_row d u v = Some f \<Longrightarrow> f \<in> set (friendships d) \<and> fr_user_id f = u \<and> fr_friend_id f = v"
  unfolding link_row_def by (drule find_Some_iff_mem) auto

lemma links_None: "links d (u, v) = None \<longleftrightarrow> link_row d u v = None"
  by (simp add: links_def)

lemma links_cong: "friendships d' = friendships d \<Longrightarrow> links d' = links d"
  by (simp add: links_def link_row_def)

lemma inv_same_row:
  "friendship_inv s d \<Longrightarrow> f \<in> set (friendships d) \<Longrightarrow> g \<in> set (friendships d) \<Longrightarrow>
   fr_id f = fr_id g \<or> pair_of f = pair_of g \<Longrightarrow> f = g"
  by (auto simp: friendship_inv_def ids_ok_def distinct_map inj_on_def)

lemma link_row_of:
  assumes "friendship_inv s d" and "f \<in> set (friendships d)"
  shows "link_row d (fr_user_id f) (fr_friend_id f) = Some f"
  unfolding link_row_def
  by (rule find_unique [OF assms(2)]) (auto intro: inv_same_row [OF assms(1) _ assms(2)] simp: pair_of_def)

lemma links_append:
  assumes "links d (fr_user_id f, fr_friend_id f) = None"
  shows "links (d\<lparr>friendships := friendships d @ [f]\<rparr>) = (links d)(pair_of f \<mapsto> fr_status f)"
  using assms by (auto simp: links_def link_row_def pair_of_def find_append fun_eq_iff split: option.split)

lemma links_update:
  assumes I: "friendship_inv s d" and f: "f \<in> set (friendships d)"
  shows "links (d\<lparr>friendships := map (set_status (fr_id f) st now) (friendships d)\<rparr>) =
         (links d)(pair_of f \<mapsto> st)"
proof (rule ext, clarify)
  fix u v
  have m: "link_row (d\<lparr>friendships := map (set_status (fr_id f) st now) (friendships d)\<rparr>) u v =
      map_option (set_status (fr_id f) st now) (link_row d u v)"
    by (simp add: link_row_def find_map_same)
  show "links (d\<lparr>friendships := map (set_status (fr_id f) st now) (friendships d)\<rparr>) (u, v) =
      ((links d)(pair_of f \<mapsto> st)) (u, v)"
  proof (cases "(u, v) = pair_of f")
    case True
    then have "link_row d u v = Some f" using link_row_of [OF I f] by (simp add: pair_of_def)
    with m show ?thesis by (simp add: True [symmetric] links_def set_status_def)
  next
    case False
    have "fr_id g \<noteq> fr_id f" if "link_row d u v = Some g" for g
      using link_row_Some [OF that] inv_same_row [OF I _ f] False by (auto simp: pair_of_def)
    with False m show ?thesis by (cases "link_row d u v") (auto simp: links_def set_status_def)
  qed
qed

lemma links_delete:
  assumes I: "friendship_inv s d" and f: "f \<in> set (friendships d)"
  shows "links (d\<lparr>friendships := filter (\<lambda>g. fr_id g \<noteq> fr_id f) (friendships d)\<rparr>) =
         (links d)(pair_of f := None)"
proof (rule ext, clarify)
  fix u v
  let ?d = "d\<lparr>friendships := filter (\<lambda>g. fr_id g \<noteq> fr_id f) (friendships d)\<rparr>"
  show "links ?d (u, v) = ((links d)(pair_of f := None)) (u, v)"
  proof (cases "(u, v) = pair_of f")
    case True
    then have "link_row ?d u v = None"
      using inv_same_row [OF I _ f] by (auto simp: link_row_def find_None_iff pair_of_def)
    then show ?thesis by (simp add: True [symmetric] links_def)
  next
    case False
    then have "link_row ?d u v = link_row d u v"
      unfolding link_row_def using inv_same_row [OF I _ f]
      by (auto intro!: find_filter_same simp: pair_of_def)
    with False show ?thesis by (simp add: links_def)
  qed
qed

section \<open>Running the repository\<close>

lemma run_find_pair [run_simps]:
  "healthy w \<Longrightarrow> Friendship_FindByUserIDAndFriendID u v w =
     (case link_row (tables w) u v of None \<Rightarrow> (Inl (Fr ErrFriendshipNotFound), w) | Some f \<Rightarrow> (Inr f, w))"
  by (simp add: Friendship_FindByUserIDAndFriendID_def run_simps case_filter_find link_row_def
      split: option.split)

lemma run_find_id [run_simps]:
  "healthy w \<Longrightarrow> Friendship_FindByID i w =
     (case List.find (\<lambda>f. fr_id f = i) (friendships (tables w)) of
        None \<Rightarrow> (Inl (Fr ErrFriendshipNotFound), w) | Some f \<Rightarrow> (Inr f, w))"
  by (simp add: Friendship_FindByID_def run_simps case_filter_find split: option.split)

lemma run_delete [run_simps]:
  "healthy w \<Longrightarrow> Friendship_Delete i w =
     (Inr (), w\<lparr>tables := (tables w)\<lparr>friendships := filter (\<lambda>f. fr_id f \<noteq> i) (friendships (tables w))\<rparr>\<rparr>)"
  by (simp add: Friendship_Delete_def run_simps)

lemma run_update [run_simps]:
  "healthy w \<Longrightarrow> Friendship_UpdateStatus i st w =
     (Inr (), w\<lparr>tables := (tables w)\<lparr>friendships := map (set_status i st (clock w)) (friendships (tables w))\<rparr>\<rparr>)"
  by (simp add: Friendship_UpdateStatus_def run_simps)

definition new_friendship :: "world \<Rightarrow> user_id \<Rightarrow> user_id \<Rightarrow> friendship_status \<Rightarrow> friendship" where
  "new_friendship w u v st = \<lparr>fr_id = seq w T_friendships + 1, fr_user_id = u, fr_friend_id = v,
     fr_status = st, fr_created_at = clock w, fr_updated_at = clock w\<rparr>"

definition draw :: "table \<Rightarrow> world \<Rightarrow> world" where
  "draw t w = w\<lparr>seq := (seq w)(t := seq w t + 1)\<rparr>"

lemma draw_fields [simp]:
  "tables (draw t w) = tables w" "tx (draw t w) = tx w" "clock (draw t w) = clock w"
  "healthy (draw t w) = healthy w"
  by (simp_all add: draw_def)

lemma run_create [run_simps]:
  "healthy w \<Longrightarrow> createWithStatus u v st w =
     (if link_row (tables w) u v \<noteq> None then (Inl (Pg Pg_UniqueViolation), abort_tx (draw T_friendships w))
      else if \<not> known (tables w) u \<or> \<not> known (tables w) v then
        (Inl (Pg Pg_ForeignKey), abort_tx (draw T_friendships w))
      else (Inr (), (draw T_friendships w)\<lparr>tables := (tables w)\<lparr>friendships :=
             friendships (tables w) @ [new_friendship w u v st]\<rparr>\<rparr>))"
proof -
  have "(link_row (tables w) u v \<noteq> None) =
      (\<exists>f \<in> set (friendships (tables w)). fr_user_id f = u \<and> fr_friend_id f = v)"
    by (auto simp: link_row_def find_None_iff)
  then show "healthy w \<Longrightarrow> ?thesis"
    by (simp add: createWithStatus_def sql_run known_def draw_def new_friendship_def)
qed

section \<open>Refinement\<close>

lemma apply_refines:
  assumes w: "ready w"
  shows "outcome (apply_friendship me v w) = spec_apply (known (tables w)) me v (links (tables w))"
proof -
  have l: "links (tables w) (a, b) = map_option fr_status (link_row (tables w) a b)" for a b
    by (simp add: links_def)
  show ?thesis
    using w
    by (auto simp: apply_friendship_def attempt_run run_simps Friendship_Create_def spec_apply_def l
        outcome_def is_duplicate_key_def new_friendship_def links_append pair_of_def
        split: option.splits)
qed

lemma links_row: "link_row d u v = Some f \<Longrightarrow> links d (u, v) = Some (fr_status f) \<and> pair_of f = (u, v)"
  using link_row_Some [of d u v f] by (simp add: links_def pair_of_def)

lemma find_id_row:
  "friendship_inv s d \<Longrightarrow> List.find (\<lambda>f. fr_id f = i) (friendships d) = Some f \<Longrightarrow>
   f \<in> set (friendships d) \<and> fr_id f = i \<and> links d (pair_of f) = Some (fr_status f)
   \<and> pair_of_id d i = Some (pair_of f)"
  using find_Some_iff_mem [of "\<lambda>f. fr_id f = i" "friendships d" f] link_row_of [of s d f]
  by (auto simp: pair_of_id_def links_def pair_of_def)

lemma find_id_None:
  "List.find (\<lambda>f. fr_id f = i) (friendships d) = None \<Longrightarrow> pair_of_id d i = None"
  by (simp add: pair_of_id_def)

lemma cancel_refines:
  assumes w: "ready w" and I: "friendship_inv (seq w) (tables w)"
  shows "outcome (cancel_sent_request me i w) = spec_cancel me (pair_of_id (tables w) i) (links (tables w))"
proof (cases "List.find (\<lambda>f. fr_id f = i) (friendships (tables w))")
  case None
  with w find_id_None [OF None] show ?thesis
    by (simp add: cancel_sent_request_def run_simps outcome_def spec_cancel_def)
next
  case (Some f)
  note f = find_id_row [OF I Some]
  then obtain u v where p: "pair_of f = (u, v)" "fr_user_id f = u" by (auto simp: pair_of_def)
  with w Some f links_delete [OF I, of f] show ?thesis
    by (auto simp: cancel_sent_request_def run_simps outcome_def spec_cancel_def guard_def)
qed

lemma unblock_refines:
  assumes w: "ready w" and I: "friendship_inv (seq w) (tables w)"
  shows "outcome (unblock_user me v w) = spec_unblock me v (links (tables w))"
proof (cases "link_row (tables w) me v")
  case None
  with w show ?thesis
    by (simp add: unblock_user_def attempt_run run_simps outcome_def spec_unblock_def links_def)
next
  case (Some f)
  with w link_row_Some [OF Some] links_row [OF Some] links_delete [OF I, of f] show ?thesis
    by (simp add: unblock_user_def attempt_run run_simps outcome_def spec_unblock_def guard_def)
qed

text \<open>The last step of a block and of a removal: the reverse row goes, if there is one.\<close>

lemma drop_reverse:
  assumes w: "ready w" and I: "friendship_inv (seq w) (tables w)"
  shows "outcome (attempt (Friendship_FindByUserIDAndFriendID u v) (\<lambda>_. ret ())
           (\<lambda>r. ignore (Friendship_Delete (fr_id r)) (ret ())) w) = Inr ((links (tables w))((u, v) := None))"
proof (cases "link_row (tables w) u v")
  case None
  then have "links (tables w) (u, v) = None" by (simp add: links_def)
  with w None show ?thesis by (simp add: attempt_run run_simps outcome_def fun_upd_idem)
next
  case (Some f)
  with w link_row_Some [OF Some] links_row [OF Some] links_delete [OF I, of f] show ?thesis
    by (simp add: attempt_run run_simps outcome_def)
qed

lemma ready_inv_holds: "ready w \<Longrightarrow> inv_holds I w \<longleftrightarrow> I (seq w) (tables w)"
  by (simp add: inv_holds_def tx_snapshot_def)

lemma ready_step: "ready w \<Longrightarrow> ready (w\<lparr>tables := d\<rparr>)" "ready w \<Longrightarrow> ready (draw t w)"
  by (simp_all add: ready_def draw_def)

lemma step_inv:
  assumes "keeps (inv_holds I) m" and "ready w" and "I (seq w) (tables w)" and "m w = (r, w')" and "ready w'"
  shows "I (seq w') (tables w')"
  using keepsD [OF assms(1), of w] assms(2-) by (simp add: ready_inv_holds)

lemma remove_refines:
  assumes w: "ready w" and I: "friendship_inv (seq w) (tables w)"
  shows "outcome (remove_friendship me i w) = spec_remove me (pair_of_id (tables w) i) (links (tables w))"
proof (cases "List.find (\<lambda>f. fr_id f = i) (friendships (tables w))")
  case None
  with w find_id_None [OF None] show ?thesis
    by (simp add: remove_friendship_def run_simps outcome_def spec_remove_def)
next
  case (Some f)
  note f = find_id_row [OF I Some]
  then obtain u v where p: "pair_of f = (u, v)" "fr_user_id f = u" "fr_friend_id f = v"
    by (auto simp: pair_of_def)
  show ?thesis
  proof (cases "u \<noteq> me \<and> v \<noteq> me")
    case True
    with w Some f p show ?thesis
      by (simp add: remove_friendship_def run_simps outcome_def spec_remove_def guard_def)
  next
    case False
    obtain w1 where d: "Friendship_Delete i w = (Inr (), w1)" and w1: "ready w1"
      and l: "links (tables w1) = (links (tables w))((u, v) := None)"
      using w f p links_delete [OF I, of f] by (simp add: run_simps ready_step)
    have "friendship_inv (seq w1) (tables w1)" using step_inv [OF keeps_delete w I d w1] .
    from drop_reverse [OF w1 this, of v u] False w Some f p d l show ?thesis
      by (simp add: remove_friendship_def run_simps spec_remove_def)
  qed
qed

lemma block_refines:
  assumes w: "ready w" and I: "friendship_inv (seq w) (tables w)"
  shows "outcome (block_user me v w) = spec_block (known (tables w)) me v (links (tables w))"
proof (cases "link_row (tables w) me v")
  case None
  then have n: "links (tables w) (me, v) = None" by (simp add: links_def)
  show ?thesis
  proof (cases "known (tables w) me \<and> known (tables w) v")
    case False
    with w None n show ?thesis
      by (auto simp: block_user_def bind_def attempt_run run_simps Friendship_CreateBlocked_def outcome_def
          spec_block_def is_duplicate_key_def)
  next
    case True
    obtain w1 where d: "createWithStatus me v StatusBlocked w = (Inr (), w1)" and w1: "ready w1"
      and l: "links (tables w1) = (links (tables w))((me, v) \<mapsto> StatusBlocked)"
      using w None n True
      by (simp add: run_simps ready_step new_friendship_def links_append pair_of_def)
    have "friendship_inv (seq w1) (tables w1)" using step_inv [OF keeps_create w I d w1] .
    from drop_reverse [OF w1 this, of v me] w None n True d l show ?thesis
      by (simp add: block_user_def bind_def attempt_run run_simps Friendship_CreateBlocked_def spec_block_def)
  qed
next
  case (Some f)
  note f = link_row_Some [OF Some] links_row [OF Some]
  show ?thesis
  proof (cases "fr_status f = StatusBlocked")
    case True
    with w Some f show ?thesis
      by (simp add: block_user_def bind_def attempt_run run_simps outcome_def spec_block_def)
  next
    case False
    obtain w1 where d: "Friendship_UpdateStatus (fr_id f) StatusBlocked w = (Inr (), w1)" and w1: "ready w1"
      and l: "links (tables w1) = (links (tables w))((me, v) \<mapsto> StatusBlocked)"
      using w f links_update [OF I, of f] by (simp add: run_simps ready_step)
    have "friendship_inv (seq w1) (tables w1)" using step_inv [OF keeps_update w I d w1] .
    from drop_reverse [OF w1 this, of v me] w Some False f d l show ?thesis
      by (simp add: block_user_def bind_def attempt_run run_simps spec_block_def)
  qed
qed

section \<open>Acceptance\<close>

lemma ScanAll_aborted [run_simps]: "tx_aborted w \<Longrightarrow> ScanAll f w = (Inl (Pg Pg_TxAborted), w)"
  by (simp add: ScanAll_def sql_def)

lemma find_pair_aborted [run_simps]:
  "tx_aborted w \<Longrightarrow> Friendship_FindByUserIDAndFriendID u v w = (Inl (Pg Pg_TxAborted), w)"
  by (simp add: Friendship_FindByUserIDAndFriendID_def not_found_as_run ScanOne_def ScanAll_aborted)

lemma tx_aborted_abort [simp]: "tx w \<noteq> None \<Longrightarrow> tx_aborted (abort_tx w)"
  by (auto simp: tx_aborted_def abort_tx_def)

lemma keeps_friendships_sql:
  assumes "\<And>i now d x d'. q i now d = Inr (x, d') \<Longrightarrow> friendships d' = friendships d"
  shows "keeps_fn (\<lambda>w. friendships (tables w)) (sql t n q)"
  by (auto simp: keeps_fn_def sql_def Let_def split: sum.split dest: assms)

lemma keeps_friendships_queries:
  "keeps_fn (\<lambda>w. friendships (tables w)) (Participant_FindByUserID u)"
  "keeps_fn (\<lambda>w. friendships (tables w)) (Room_FindDirectByParticipants p q)"
  "keeps_fn (\<lambda>w. friendships (tables w)) (Room_Create room)"
  "keeps_fn (\<lambda>w. friendships (tables w)) (Member_Add m)"
proof -
  have tables: "keeps_fn (\<lambda>w. friendships (tables w)) n" if "keeps_fn tables n" for n :: "'b io"
    using that by (simp add: keeps_fn_def)
  show "keeps_fn (\<lambda>w. friendships (tables w)) (Participant_FindByUserID u)"
    unfolding Participant_FindByUserID_def by (rule tables) (intro frame_intros)
  show "keeps_fn (\<lambda>w. friendships (tables w)) (Room_FindDirectByParticipants p q)"
    unfolding Room_FindDirectByParticipants_def by (rule tables) (intro frame_intros)
  show "keeps_fn (\<lambda>w. friendships (tables w)) (Room_Create room)"
    unfolding Room_Create_def by (rule keeps_friendships_sql) (auto split: option.splits if_splits)
  show "keeps_fn (\<lambda>w. friendships (tables w)) (Member_Add m)"
    unfolding Member_Add_def by (rule keeps_friendships_sql) (auto split: option.splits if_splits)
qed

lemma direct_room_friendships:
  "keeps_fn (\<lambda>w. friendships (tables w)) (create_direct_room a b)"
  unfolding create_direct_room_def by (intro frame_intros keeps_friendships_queries)

lemma direct_room_never_fails: "never_fails (create_direct_room a b)"
  unfolding create_direct_room_def by (intro rollback_intros)

lemma keeps_tx_friendship [frame_intros]:
  "keeps_fn tx_snapshot (Friendship_FindByID i)"
  "keeps_fn tx_snapshot (Friendship_FindByUserIDAndFriendID u v)"
  "keeps_fn tx_snapshot (Friendship_UpdateStatus i st)"
  "keeps_fn tx_snapshot (createWithStatus u v st)"
  "keeps_fn tx_snapshot (Friendship_Create u v)"
  unfolding friendship_repo_defs createWithStatus_def Friendship_UpdateStatus_def by (intro frame_intros)+

lemma keeps_tx_accept_steps [frame_intros]: "keeps_fn tx_snapshot (accept_steps me i)"
  unfolding accept_steps_def by (intro frame_intros)

lemma accept_rolls_back:
  "rolls_back (bind (accept_steps me i) (\<lambda>r. attempt commit_tx fail (\<lambda>_. create_direct_room me r)))"
  by (intro rolls_back_bind keeps_tx_accept_steps rolls_back_commit rolls_back_fail
      direct_room_never_fails) auto

text \<open>The three writes of an acceptance, in a transaction, where the reverse row does not exist yet.\<close>

lemma accept_steps_run:
  assumes w: "healthy w" and I: "inv_holds friendship_inv w"
    and f: "List.find (\<lambda>f. fr_id f = i) (friendships (tables w)) = Some f" and p: "pair_of f = (u, me)"
    and st: "fr_status f = StatusPending"
    and n: "links (tables w) (me, u) = None" and k: "known (tables w) me" "known (tables w) u"
  shows "\<exists>w'. accept_steps me i w = (Inr u, w') \<and> healthy w' \<and>
    links (tables w') = (links (tables w))((u, me) \<mapsto> StatusAccepted, (me, u) \<mapsto> StatusAccepted)"
proof -
  have It: "friendship_inv (seq w) (tables w)" using I by (simp add: inv_holds_def)
  note fr = find_id_row [OF It f]
  from p have uv: "fr_user_id f = u" "fr_friend_id f = me" by (auto simp: pair_of_def)
  obtain w1 where 1: "Friendship_UpdateStatus (fr_id f) StatusAccepted w = (Inr (), w1)" "healthy w1"
    and l1: "links (tables w1) = (links (tables w))((u, me) \<mapsto> StatusAccepted)"
    and k1: "known (tables w1) me" "known (tables w1) u"
    using w fr p k links_update [OF It, of f] by (simp add: run_simps known_def)
  have I1: "inv_holds friendship_inv w1" using keepsD [OF keeps_update I] 1 by (metis snd_conv)
  have ne: "u \<noteq> me" using n fr p by auto
  then have n1: "links (tables w1) (me, u) = None" using l1 n by simp
  obtain w2 where 2: "createWithStatus me u StatusPending w1 = (Inr (), w2)" "healthy w2"
    and l2: "links (tables w2) = (links (tables w1))((me, u) \<mapsto> StatusPending)"
    using 1 k1 n1 by (simp add: run_simps links_None new_friendship_def links_append pair_of_def)
  have "inv_holds friendship_inv w2" using keepsD [OF keeps_create I1] 2 by (metis snd_conv)
  then have I2: "friendship_inv (seq w2) (tables w2)" by (simp add: inv_holds_def)
  have "links (tables w2) (me, u) \<noteq> None" using l2 by simp
  then obtain g where g: "link_row (tables w2) me u = Some g" by (auto simp: links_None)
  obtain w3 where 3: "Friendship_UpdateStatus (fr_id g) StatusAccepted w2 = (Inr (), w3)" "healthy w3"
    and l3: "links (tables w3) = (links (tables w2))((me, u) \<mapsto> StatusAccepted)"
    using 2 link_row_Some [OF g] links_row [OF g] links_update [OF I2, of g] by (simp add: run_simps)
  have "accept_steps me i w = (Inr u, w3)"
    using w f st uv 1 2 3 g by (simp add: accept_steps_def run_simps Friendship_Create_def)
  with 3 l1 l2 l3 show ?thesis by simp
qed

lemma accept_steps_fail:
  assumes w: "healthy w" and tx: "tx w \<noteq> None" and I: "inv_holds friendship_inv w"
    and s: "spec_accept (known (tables w)) me (pair_of_id (tables w) i) (links (tables w)) = Inl e"
  shows "\<exists>w'. accept_steps me i w = (Inl e, w')"
proof (cases "List.find (\<lambda>f. fr_id f = i) (friendships (tables w))")
  case None
  with w s find_id_None [OF None] show ?thesis
    by (simp add: accept_steps_def run_simps spec_accept_def)
next
  case (Some f)
  have It: "friendship_inv (seq w) (tables w)" using I by (simp add: inv_holds_def)
  note fr = find_id_row [OF It Some]
  obtain u v where p: "pair_of f = (u, v)" "fr_user_id f = u" "fr_friend_id f = v" by (auto simp: pair_of_def)
  show ?thesis
  proof (cases "v = me \<and> fr_status f = StatusPending")
    case False
    with w s Some fr p show ?thesis
      by (auto simp: accept_steps_def run_simps spec_accept_def guard_def)
  next
    case True
    then have pid: "pair_of_id (tables w) i = Some (u, me)"
      and pend: "links (tables w) (u, me) = Some StatusPending" using fr p by auto
    obtain w1 where 1: "Friendship_UpdateStatus (fr_id f) StatusAccepted w = (Inr (), w1)" "healthy w1"
      and l1: "links (tables w1) = (links (tables w))((u, me) \<mapsto> StatusAccepted)"
      and k1: "known (tables w1) = known (tables w)" and t1: "tx w1 \<noteq> None"
      using w fr p True tx links_update [OF It, of f] by (simp add: run_simps known_def fun_eq_iff)
    have ex: "link_row (tables w1) me u = None \<longleftrightarrow> links (tables w) (me, u) = None"
      using l1 pend by (cases "u = me") (simp_all add: links_None [symmetric])
    show ?thesis
    proof (cases "links (tables w) (me, u) = None")
      case False
      with s have e: "e = Pg Pg_TxAborted" by (simp add: spec_accept_def pid pend)
      have "createWithStatus me u StatusPending w1 =
          (Inl (Pg Pg_UniqueViolation), abort_tx (draw T_friendships w1))"
        using False ex 1 by (simp add: run_simps)
      with w Some True p 1 t1 e show ?thesis
        by (simp add: accept_steps_def run_simps Friendship_Create_def attempt_run is_duplicate_key_def)
    next
      case T: True
      with s have e: "e = Pg Pg_ForeignKey" and k: "\<not> known (tables w) me \<or> \<not> known (tables w) u"
        by (auto simp: spec_accept_def pid pend split: if_splits)
      have "createWithStatus me u StatusPending w1 =
          (Inl (Pg Pg_ForeignKey), abort_tx (draw T_friendships w1))"
        using T ex 1 k k1 by (auto simp: run_simps)
      with w Some True p 1 e show ?thesis
        by (simp add: accept_steps_def run_simps Friendship_Create_def attempt_run is_duplicate_key_def)
    qed
  qed
qed

lemma accept_refines:
  assumes w: "ready w" and I: "friendship_inv (seq w) (tables w)"
  shows "outcome (accept_friendship me i w) =
    spec_accept (known (tables w)) me (pair_of_id (tables w) i) (links (tables w))"
proof -
  let ?w0 = "w\<lparr>tx := Some \<lparr>snapshot = tables w, aborted = False\<rparr>\<rparr>"
  have h: "healthy ?w0" and t: "tx ?w0 \<noteq> None" using w by simp_all
  have I0: "inv_holds friendship_inv ?w0" using I by (simp add: inv_holds_def tx_snapshot_def)
  show ?thesis
  proof (cases "spec_accept (known (tables w)) me (pair_of_id (tables w) i) (links (tables w))")
    case (Inl e)
    then obtain w' where "accept_steps me i ?w0 = (Inl e, w')"
      using accept_steps_fail [OF h t I0, of me i e] by auto
    with w Inl show ?thesis by (simp add: accept_friendship_def with_tx_run outcome_def)
  next
    case (Inr m)
    then obtain u where p: "pair_of_id (tables w) i = Some (u, me)"
      and pend: "links (tables w) (u, me) = Some StatusPending" and n: "links (tables w) (me, u) = None"
      and k: "known (tables w) me" "known (tables w) u"
      and m: "m = (links (tables w))((u, me) \<mapsto> StatusAccepted, (me, u) \<mapsto> StatusAccepted)"
      by (auto simp: spec_accept_def split: option.splits prod.splits if_splits)
    then obtain f where f: "List.find (\<lambda>f. fr_id f = i) (friendships (tables w)) = Some f"
      by (auto simp: pair_of_id_def)
    note fr = find_id_row [OF I f]
    obtain w1 where 1: "accept_steps me i ?w0 = (Inr u, w1)" "healthy w1" and l1: "links (tables w1) = m"
      using accept_steps_run [OF h I0, of i f u me] f fr p pend n k m by auto
    obtain r w2 where 2: "create_direct_room me u (w1\<lparr>tx := None\<rparr>) = (r, w2)" by fastforce
    with direct_room_never_fails [of me u] obtain x where r: "r = Inr x"
      unfolding never_fails_def by (metis sum.exhaust)
    have "friendships (tables w2) = friendships (tables w1)"
      using keeps_fnD [OF direct_room_friendships [of me u], of "w1\<lparr>tx := None\<rparr>"] 2 by simp
    then have l2: "links (tables w2) = m" using l1 links_cong by metis
    have "keeps_fn tx_snapshot (create_direct_room me u)"
      unfolding create_direct_room_def Participant_FindByUserID_def Room_FindDirectByParticipants_def
        Room_Create_def Member_Add_def
      by (intro frame_intros)
    then have "tx_snapshot w2 = None" using 2 keeps_fnD [of tx_snapshot "create_direct_room me u" "w1\<lparr>tx := None\<rparr>"]
      by (simp add: tx_snapshot_def)
    then have "tx w2 = None" by (simp add: tx_snapshot_def)
    with w Inr 1 2 r l2 show ?thesis
      by (simp add: accept_friendship_def with_tx_run commit_tx_run outcome_def)
  qed
qed

end
