(* ===== verification/Friendship_Props.thy ===== *)
theory Friendship_Props
  imports Friendship_Spec
begin

text \<open>
  The properties of the friendship component: each use case refines its specification on the map of
  directed links, and an acceptance is atomic.  Each property with a hypothesis is followed by its
  witness on a small world.
\<close>

definition friends_world :: world where
  "friends_world = empty_world\<lparr>
     tables := empty_db\<lparr>
       users := map (\<lambda>i. \<lparr>us_id = i, us_account_id = i, us_name = ''u'', us_avatar = None,
                         us_created_at = 0, us_updated_at = 0\<rparr>) [1, 2, 3],
       friendships := [
         \<lparr>fr_id = 1, fr_user_id = 1, fr_friend_id = 2, fr_status = StatusPending,
          fr_created_at = 0, fr_updated_at = 0\<rparr>,
         \<lparr>fr_id = 2, fr_user_id = 3, fr_friend_id = 1, fr_status = StatusBlocked,
          fr_created_at = 0, fr_updated_at = 0\<rparr>]\<rparr>,
     seq := (\<lambda>_. 9), clock := 5\<rparr>"

lemma friends_world_ready: "ready friends_world"
  by (simp add: ready_def friends_world_def empty_world_def)

lemma friends_world_inv: "friendship_inv (seq friends_world) (tables friends_world)"
  by (simp add: friendship_inv_def ids_ok_def friends_world_def pair_of_def)

lemma friends_world_links:
  "links (tables friends_world) (1, 2) = Some StatusPending"
  "links (tables friends_world) (2, 1) = None"
  "links (tables friends_world) (3, 1) = Some StatusBlocked"
  "links (tables friends_world) (1, 3) = None"
  "links (tables friends_world) (2, 3) = None"
  "links (tables friends_world) (3, 2) = None"
  "known (tables friends_world) u \<longleftrightarrow> u \<in> {1, 2, 3}"
  "pair_of_id (tables friends_world) 1 = Some (1, 2)"
  by (simp_all add: links_def link_row_def known_def pair_of_id_def pair_of_def friends_world_def)

text \<open>C7: accepting a friend request implements its specification on every branch: unless the row is
  there, is addressed to the caller and is pending, the call reports the matching error; otherwise
  both directions become accepted.  Where the reverse row already exists the insert fails, which
  aborts the transaction and makes the whole acceptance fail.\<close>
theorem accept_friendship_meets_spec:
  assumes "ready w" and "friendship_inv (seq w) (tables w)"
  shows "outcome (accept_friendship me i w) =
    spec_accept (known (tables w)) me (pair_of_id (tables w) i) (links (tables w))"
  using assms by (rule accept_refines)

theorem accept_friendship_meets_spec_witness:
  "outcome (accept_friendship 2 1 friends_world) =
     Inr ((links (tables friends_world))((1, 2) \<mapsto> StatusAccepted, (2, 1) \<mapsto> StatusAccepted))"
  using accept_friendship_meets_spec [OF friends_world_ready friends_world_inv, of 2 1]
  by (simp add: spec_accept_def friends_world_links)

text \<open>An acceptance is atomic under every schedule of failures: a call that returns an error leaves
  every table as it was, with no transaction open.\<close>
lemma accept_friendship_atomic:
  assumes "tx w = None" and "accept_friendship me i w = (Inl e, w')"
  shows "tables w' = tables w \<and> tx w' = None"
  using assms accept_rolls_back unfolding accept_friendship_def by (blast dest: with_tx_atomic)

lemma accept_friendship_atomic_witness:
  "\<exists>w'. accept_friendship 2 1 (friends_world\<lparr>faults := [False, False, False, False, False, False, True]\<rparr>) =
      (Inl (Pg Pg_Unavailable), w') \<and> tables w' = tables friends_world"
proof -
  let ?w = "friends_world\<lparr>faults := [False, False, False, False, False, False, True]\<rparr>"
  have e: "fst (accept_friendship 2 1 ?w) = Inl (Pg Pg_Unavailable)" by code_simp
  then obtain w' where r: "accept_friendship 2 1 ?w = (Inl (Pg Pg_Unavailable), w')"
    by (cases "accept_friendship 2 1 ?w") auto
  have "tx ?w = None" by (simp add: friends_world_def empty_world_def)
  from accept_friendship_atomic [OF this r] r show ?thesis by simp
qed

text \<open>C8: the other calls implement their specifications: blocking makes the caller's own row blocked, or creates it so, and
  deletes the row in the other direction; unblocking removes only the caller's own blocked row; an application is stored
  as pending only where neither direction has a row; cancelling deletes the caller's own pending request; removing
  deletes both directions of a row that the caller is part of; every other call reports the matching error.\<close>
theorem friendship_calls_meet_spec:
  assumes "ready w" and "friendship_inv (seq w) (tables w)"
  shows "outcome (block_user me v w) = spec_block (known (tables w)) me v (links (tables w)) \<and>
    outcome (unblock_user me v w) = spec_unblock me v (links (tables w)) \<and>
    outcome (apply_friendship me v w) = spec_apply (known (tables w)) me v (links (tables w)) \<and>
    outcome (cancel_sent_request me i w) = spec_cancel me (pair_of_id (tables w) i) (links (tables w)) \<and>
    outcome (remove_friendship me i w) = spec_remove me (pair_of_id (tables w) i) (links (tables w))"
  using assms by (simp add: block_refines unblock_refines apply_refines cancel_refines remove_refines)

theorem friendship_calls_meet_spec_witness:
  "outcome (block_user 2 1 friends_world) =
     Inr ((links (tables friends_world))((2, 1) \<mapsto> StatusBlocked, (1, 2) := None)) \<and>
   outcome (unblock_user 1 3 friends_world) = Inl (Fr ErrNotBlocked) \<and>
   outcome (unblock_user 3 1 friends_world) = Inr ((links (tables friends_world))((3, 1) := None)) \<and>
   outcome (apply_friendship 1 3 friends_world) = Inl (Fr ErrFriendshipAlreadyExists) \<and>
   outcome (apply_friendship 2 3 friends_world) = Inr ((links (tables friends_world))((2, 3) \<mapsto> StatusPending)) \<and>
   outcome (cancel_sent_request 2 1 friends_world) = Inl (Fr ErrForbidden) \<and>
   outcome (remove_friendship 2 1 friends_world) =
     Inr ((links (tables friends_world))((1, 2) := None, (2, 1) := None))"
  using friendship_calls_meet_spec [OF friends_world_ready friends_world_inv]
  by (simp add: spec_block_def spec_unblock_def spec_apply_def spec_cancel_def spec_remove_def friends_world_links)

end
