(* ===== verification/Room_Invariant.thy ===== *)
theory Room_Invariant
  imports Rooms
begin

text \<open>
  The invariant of the membership tables: a participant has at most one membership row per room,
  memberships point to existing rooms and participants, and a room with a limit never has more
  active members than it allows.  Every statement of the repositories keeps it.
\<close>

definition member_key :: "chat_member \<Rightarrow> room_id \<times> participant_id" where
  "member_key m = (cm_room_id m, cm_participant_id m)"

definition within_limit :: "db \<Rightarrow> room_row \<Rightarrow> bool" where
  "within_limit d r \<longleftrightarrow> 0 < rr_max_members r \<longrightarrow> int (active_count d (rr_id r)) \<le> rr_max_members r"

definition membership_inv :: "(table \<Rightarrow> int) \<Rightarrow> db \<Rightarrow> bool" where
  "membership_inv s d \<longleftrightarrow>
     ids_ok chat_rooms rr_id T_rooms s d \<and> ids_ok chat_members cm_id T_members s d \<and>
     ids_ok participants pr_id T_participants s d \<and>
     distinct (map member_key (chat_members d)) \<and>
     (\<forall>m \<in> set (chat_members d). cm_room_id m \<in> rr_id ` set (chat_rooms d)
        \<and> cm_participant_id m \<in> pr_id ` set (participants d)) \<and>
     (\<forall>r \<in> set (chat_rooms d). within_limit d r)"

text \<open>To re-establish the invariant where the rooms only grow and the members keep their keys.\<close>

lemma membership_invI:
  assumes "ids_ok chat_rooms rr_id T_rooms s d'" and "membership_inv s d"
    and "participants d' = participants d"
    and "set (map member_key (chat_members d')) \<subseteq> set (map member_key (chat_members d))"
    and "distinct (map member_key (chat_members d'))"
    and "set (map cm_id (chat_members d')) \<subseteq> set (map cm_id (chat_members d))"
    and "distinct (map cm_id (chat_members d'))"
    and "rr_id ` set (chat_rooms d) \<subseteq> rr_id ` set (chat_rooms d')"
    and "\<And>r. r \<in> set (chat_rooms d') \<Longrightarrow> within_limit d' r"
  shows "membership_inv s d'"
proof -
  have fk: "cm_room_id m \<in> rr_id ` set (chat_rooms d') \<and> cm_participant_id m \<in> pr_id ` set (participants d')"
    if "m \<in> set (chat_members d')" for m
  proof -
    from that assms(4) have "member_key m \<in> member_key ` set (chat_members d)" by auto
    then obtain n where n: "n \<in> set (chat_members d)" "member_key m = member_key n" by auto
    with assms(2) have "cm_room_id n \<in> rr_id ` set (chat_rooms d) \<and> cm_participant_id n \<in> pr_id ` set (participants d)"
      by (simp add: membership_inv_def)
    with n(2) assms(3,8) show ?thesis by (auto simp: member_key_def)
  qed
  have "ids_ok chat_members cm_id T_members s d'"
    unfolding ids_ok_def
  proof (intro conjI ballI assms(7))
    fix m assume "m \<in> set (chat_members d')"
    then have "cm_id m \<in> cm_id ` set (chat_members d)" using assms(6) by auto
    then obtain n where "n \<in> set (chat_members d)" "cm_id m = cm_id n" by auto
    with assms(2) show "cm_id m \<le> s T_members" by (simp add: membership_inv_def ids_ok_def)
  qed
  moreover have "ids_ok participants pr_id T_participants s d'"
    using assms(2,3) by (simp add: membership_inv_def ids_ok_def)
  ultimately show ?thesis using assms(1,5,9) fk by (simp add: membership_inv_def)
qed

lemma membership_invD:
  assumes "membership_inv s d"
  shows "ids_ok chat_rooms rr_id T_rooms s d" and "distinct (map member_key (chat_members d))"
    and "distinct (map cm_id (chat_members d))" and "distinct (map rr_id (chat_rooms d))"
    and "\<And>r. r \<in> set (chat_rooms d) \<Longrightarrow> within_limit d r"
    and "\<And>m. m \<in> set (chat_members d) \<Longrightarrow> cm_room_id m \<in> rr_id ` set (chat_rooms d)"
    and "\<And>m. m \<in> set (chat_members d) \<Longrightarrow> cm_participant_id m \<in> pr_id ` set (participants d)"
  using assms unfolding membership_inv_def ids_ok_def by blast+

definition membership_obs :: "db \<Rightarrow> room_row list \<times> chat_member list \<times> participant_row list" where
  "membership_obs d = (chat_rooms d, chat_members d, participants d)"

lemma counted_cong: "participants d' = participants d \<Longrightarrow> counted d' = counted d"
  by (simp add: counted_def fun_eq_iff)

lemma active_count_cong:
  "chat_members d' = chat_members d \<Longrightarrow> participants d' = participants d \<Longrightarrow> active_count d' = active_count d"
  by (simp add: active_count_def fun_eq_iff counted_cong [of d'])

interpretation membership_store: framed_invariant membership_inv membership_obs
proof
  fix s s' d assume I: "membership_inv s d" and le: "\<And>t. s t \<le> s' t"
  show "membership_inv s' d"
    using I room_ids.mono [of s d s', OF _ le] member_ids.mono [of s d s', OF _ le]
      participant_ids.mono [of s d s', OF _ le]
    by (simp add: membership_inv_def)
next
  fix s d d' assume I: "membership_inv s d" and o': "membership_obs d' = membership_obs d"
  then have "active_count d' = active_count d"
    by (intro active_count_cong) (simp_all add: membership_obs_def)
  with I o' show "membership_inv s d'"
    by (simp add: membership_inv_def membership_obs_def ids_ok_def within_limit_def)
qed

section \<open>The number of active members\<close>

text \<open>Where no row of the room is counted for a new participant, room or member, the count is the same.\<close>

lemma active_count_new_participant:
  assumes "\<forall>m \<in> set (chat_members d). cm_participant_id m \<noteq> i"
  shows "active_count (d\<lparr>participants := participants d @ [\<lparr>pr_id = i, pr_type = ty, pr_created_at = now\<rparr>]\<rparr>) r
       = active_count d r"
proof -
  have "filter (counted (d\<lparr>participants := participants d @ [\<lparr>pr_id = i, pr_type = ty, pr_created_at = now\<rparr>]\<rparr>) r)
      (chat_members d) = filter (counted d r) (chat_members d)"
    using assms by (intro filter_cong) (auto simp: counted_def)
  then show ?thesis by (simp add: active_count_def)
qed

lemma active_count_append:
  "active_count (d\<lparr>chat_members := chat_members d @ [m]\<rparr>) r =
     active_count d r + (if counted d r m then 1 else 0)"
proof -
  have "counted (d\<lparr>chat_members := chat_members d @ [m]\<rparr>) = counted d" by (rule counted_cong) simp
  then show ?thesis by (simp add: active_count_def)
qed

text \<open>Updating one row changes the count by at most one, and only for the room of the row.\<close>

lemma length_filter_map_one:
  assumes "distinct (map key xs)" and "\<And>x. key x \<noteq> k \<Longrightarrow> P (f x) = P x"
  shows "length (filter P (map f xs)) \<le> Suc (length (filter P xs))"
  using assms(1)
proof (induction xs)
  case (Cons x xs)
  show ?case
  proof (cases "key x = k")
    case True
    with Cons.prems have "key y \<noteq> k" if "y \<in> set xs" for y using that by (metis distinct.simps(2) image_eqI list.simps(9) set_map)
    then have "\<forall>y \<in> set xs. P (f y) = P y" by (simp add: assms(2))
    then have "filter (P \<circ> f) xs = filter P xs" by (intro filter_cong) auto
    then show ?thesis by (simp add: filter_map)
  next
    case False
    with Cons show ?thesis by (simp add: assms(2))
  qed
qed simp

lemma length_filter_map_le:
  assumes "\<And>x. x \<in> set xs \<Longrightarrow> P (f x) \<Longrightarrow> P x"
  shows "length (filter P (map f xs)) \<le> length (filter P xs)"
  using assms by (induction xs) auto

lemma within_limit_mono:
  "within_limit d r \<Longrightarrow> active_count d' (rr_id r) \<le> active_count d (rr_id r) \<Longrightarrow> within_limit d' r"
  by (cases "0 < rr_max_members r") (simp_all add: within_limit_def)

lemma length_filter_filter_le: "length (filter P (filter Q xs)) \<le> length (filter P xs)"
  by (induction xs) auto

lemma active_count_shrinks:
  assumes "\<And>m. cm_room_id (f m) = cm_room_id m" and "\<And>m. cm_participant_id (f m) = cm_participant_id m"
    and "\<And>m. cm_is_deleted m \<Longrightarrow> cm_is_deleted (f m)"
  shows "active_count (d\<lparr>chat_members := map f (chat_members d)\<rparr>) r \<le> active_count d r"
proof -
  have "length (filter (counted d r) (map f (chat_members d))) \<le> length (filter (counted d r) (chat_members d))"
    by (rule length_filter_map_le) (auto simp: counted_def assms)
  moreover have "counted (d\<lparr>chat_members := map f (chat_members d)\<rparr>) = counted d"
    by (rule counted_cong) simp
  ultimately show ?thesis by (simp add: active_count_def)
qed

lemma active_count_restore:
  assumes "distinct (map member_key (chat_members d))"
  shows "active_count (d\<lparr>chat_members := map (\<lambda>y. if same_membership m y then restore_member now y else y)
            (chat_members d)\<rparr>) r
       \<le> active_count d r + (if r = cm_room_id m then 1 else 0)"
    (is "active_count ?d r \<le> _")
proof -
  let ?f = "\<lambda>y. if same_membership m y then restore_member now y else y"
  have c: "counted ?d = counted d" by (rule counted_cong) simp
  show ?thesis
  proof (cases "r = cm_room_id m")
    case True
    have "length (filter (counted d r) (map ?f (chat_members d))) \<le> Suc (length (filter (counted d r) (chat_members d)))"
      by (rule length_filter_map_one [OF assms, where k = "member_key m"])
         (auto simp: same_membership_def member_key_def)
    with True c show ?thesis by (simp add: active_count_def)
  next
    case False
    have "length (filter (counted d r) (map ?f (chat_members d))) \<le> length (filter (counted d r) (chat_members d))"
      using False by (intro length_filter_map_le)
        (auto simp: counted_def same_membership_def restore_member_def split: if_splits)
    with False c show ?thesis by (simp add: active_count_def)
  qed
qed

lemma room_full_limit:
  assumes "membership_inv s d" and "r \<in> set (chat_rooms d)" and "\<not> room_full d (rr_id r)"
    and "0 < rr_max_members r"
  shows "int (active_count d (rr_id r)) < rr_max_members r"
proof -
  have "List.find (\<lambda>x. rr_id x = rr_id r) (chat_rooms d) = Some r"
    using assms(1,2) by (intro find_unique) (auto intro: room_ids.ids_unique simp: membership_inv_def)
  with assms(3,4) show ?thesis by (simp add: room_full_def)
qed

section \<open>The statements of the repositories\<close>

lemma keeps_m_insert_participant [frame_intros]:
  "keeps (inv_holds membership_inv) (insert_participant ty)"
  unfolding insert_participant_def
proof (rule membership_store.keeps_sql, rule stmt_keepsI)
  fix s now d x d'
  assume I: "membership_inv s d"
    and q: "Inr ((s T_participants + 1, now), d\<lparr>participants := participants d @
       [\<lparr>pr_id = s T_participants + 1, pr_type = ty, pr_created_at = now\<rparr>]\<rparr>) = Inr (x, d')"
  have "\<forall>m \<in> set (chat_members d). cm_participant_id m \<noteq> s T_participants + 1"
    using I by (fastforce simp: membership_inv_def ids_ok_def)
  note c = active_count_new_participant [OF this]
  have "ids_ok participants pr_id T_participants (s(T_participants := s T_participants + 1)) d'"
    using I q by (intro participant_ids.ids_insert [where d = d]) (auto simp: membership_inv_def)
  with I q c show "membership_inv (s(T_participants := s T_participants + int 1)) d'"
    by (auto simp: membership_inv_def ids_ok_def within_limit_def)
qed

lemma keeps_m_room_create [frame_intros]: "keeps (inv_holds membership_inv) (Room_Create room)"
  unfolding Room_Create_def
proof (rule membership_store.keeps_sql, rule stmt_keepsI)
  fix s now d x d'
  assume I: "membership_inv s d"
    and q: "(case parse_room_type (cr_type room) of
       None \<Rightarrow> Inl Pg_InvalidEnum
     | Some ty \<Rightarrow>
         if \<not> in_int32 (cr_max_members room) then Inl Pg_OutOfRange
         else Inr (room\<lparr>cr_id := s T_rooms + 1\<rparr>, d\<lparr>chat_rooms := chat_rooms d @
           [(toChatRoomRecord ty room)\<lparr>rr_id := s T_rooms + 1, rr_is_deleted := False,
              rr_created_at := now, rr_updated_at := now\<rparr>]\<rparr>)) = Inr (x, d')"
  from q obtain r where d': "d' = d\<lparr>chat_rooms := chat_rooms d @ [r]\<rparr>" and r: "rr_id r = s T_rooms + 1"
    by (auto split: option.splits if_splits)
  have c: "active_count d' = active_count d" using d' by (intro active_count_cong) simp_all
  have "\<forall>m \<in> set (chat_members d). cm_room_id m \<noteq> rr_id r"
  proof
    fix m assume "m \<in> set (chat_members d)"
    then obtain q where q: "q \<in> set (chat_rooms d)" "cm_room_id m = rr_id q"
      using membership_invD(6) [OF I] by fastforce
    with r show "cm_room_id m \<noteq> rr_id r" using room_ids.ids_fresh [OF membership_invD(1) [OF I] q(1)] by simp
  qed
  then have z: "active_count d (rr_id r) = 0" by (simp add: active_count_def counted_def filter_empty_conv)
  have "ids_ok chat_rooms rr_id T_rooms (s(T_rooms := s T_rooms + 1)) d'"
    using d' r by (intro room_ids.ids_insert [OF membership_invD(1) [OF I]]) simp_all
  moreover have up: "membership_inv (s(T_rooms := s T_rooms + 1)) d"
    by (rule membership_store.mono [OF I]) simp
  moreover have "within_limit d' q" if "q \<in> set (chat_rooms d')" for q
    using that membership_invD(5) [OF I] by (auto simp: d' within_limit_def c [unfolded d'] z)
  ultimately have "membership_inv (s(T_rooms := s T_rooms + 1)) d'"
    using membership_invD(2,3) [OF I] by - (rule membership_invI [where d = d], simp_all add: d' subset_insertI)
  then show "membership_inv (s(T_rooms := s T_rooms + int 1)) d'" by simp
qed

text \<open>Both branches of \<open>Add\<close>: the trigger has just found room for one more member.\<close>

lemma add_restore_inv:
  assumes I: "membership_inv s d" and full: "\<not> room_full d (cm_room_id m)"
  shows "membership_inv s (d\<lparr>chat_members := map (\<lambda>y. if same_membership m y then restore_member now y else y)
           (chat_members d)\<rparr>)" (is "membership_inv s ?d")
proof -
  let ?f = "\<lambda>y. if same_membership m y then restore_member now y else y"
  have lim: "within_limit ?d r" if r: "r \<in> set (chat_rooms d)" for r
    using active_count_restore [OF membership_invD(2) [OF I], of m now "rr_id r"] room_full_limit [OF I r] full
      membership_invD(5) [OF I r]
    by (cases "rr_id r = cm_room_id m"; cases "0 < rr_max_members r") (simp_all add: within_limit_def)
  moreover have "member_key \<circ> ?f = member_key" and "cm_id \<circ> ?f = cm_id"
    by (simp_all add: fun_eq_iff member_key_def restore_member_def)
  moreover have "ids_ok chat_rooms rr_id T_rooms s ?d" using membership_invD(1) [OF I] by (simp add: ids_ok_def)
  ultimately show ?thesis
    using I membership_invD(2,3) [OF I] by - (rule membership_invI [where d = d], simp_all add: image_comp)
qed

lemma add_insert_inv:
  assumes I: "membership_inv s d" and full: "\<not> room_full d (cm_room_id x)"
    and new: "List.find (same_membership x) (chat_members d) = None"
    and fk: "cm_room_id x \<in> rr_id ` set (chat_rooms d)" "cm_participant_id x \<in> pr_id ` set (participants d)"
    and id: "cm_id x = s T_members + 1"
  shows "membership_inv (s(T_members := s T_members + 1)) (d\<lparr>chat_members := chat_members d @ [x]\<rparr>)"
    (is "membership_inv _ ?d")
proof -
  have lim: "within_limit ?d r" if r: "r \<in> set (chat_rooms d)" for r
    using active_count_append [of d x "rr_id r"] room_full_limit [OF I r] full membership_invD(5) [OF I r]
    by (cases "rr_id r = cm_room_id x"; cases "0 < rr_max_members r")
      (simp_all add: within_limit_def counted_def split: if_splits)
  have "ids_ok chat_members cm_id T_members (s(T_members := s T_members + 1)) ?d"
    using I id by (intro member_ids.ids_insert [where d = d]) (auto simp: membership_inv_def)
  moreover have "member_key x \<notin> member_key ` set (chat_members d)"
    using new by (auto simp: find_None_iff same_membership_def member_key_def)
  ultimately show ?thesis
    using I lim fk by (auto simp: membership_inv_def ids_ok_def)
qed

lemma keeps_m_member_add [frame_intros]: "keeps (inv_holds membership_inv) (Member_Add m)"
  unfolding Member_Add_def
proof (rule membership_store.keeps_sql, rule stmt_keepsI)
  fix s now d x d'
  let ?new = "\<lparr>cm_id = s T_members + 1, cm_room_id = cm_room_id m, cm_participant_id = cm_participant_id m,
                  cm_role = cm_role m, cm_is_muted = False, cm_is_deleted = False,
                  cm_last_read_at = None, cm_joined_at = now, cm_updated_at = now,
                  cm_deleted_at = None\<rparr>"
  assume I: "membership_inv s d"
    and q: "(if room_full d (cm_room_id m) then Inl Pg_LimitExceeded
     else case List.find (same_membership m) (chat_members d) of
       Some x \<Rightarrow>
         Inr (m\<lparr>cm_id := cm_id x, cm_joined_at := cm_joined_at (restore_member now x)\<rparr>,
              d\<lparr>chat_members := map (\<lambda>y. if same_membership m y then restore_member now y else y)
                                  (chat_members d)\<rparr>)
     | None \<Rightarrow>
         if cm_room_id m \<notin> rr_id ` set (chat_rooms d) \<or>
            cm_participant_id m \<notin> pr_id ` set (participants d) then Inl Pg_ForeignKey
         else Inr (m\<lparr>cm_id := s T_members + 1, cm_joined_at := now\<rparr>,
              d\<lparr>chat_members := chat_members d @ [?new]\<rparr>)) = Inr (x, d')"
  then have full: "\<not> room_full d (cm_room_id m)" by (auto split: if_splits)
  show "membership_inv (s(T_members := s T_members + int 1)) d'"
  proof (cases "List.find (same_membership m) (chat_members d)")
    case None
    have "same_membership ?new = same_membership m" by (simp add: same_membership_def fun_eq_iff)
    with None q full I show ?thesis
      by (auto intro!: add_insert_inv simp: comp_def split: if_splits)
  next
    case (Some y)
    with q full have d': "d' = d\<lparr>chat_members := map (\<lambda>y. if same_membership m y then restore_member now y else y)
                                  (chat_members d)\<rparr>" by simp
    have "membership_inv (s(T_members := s T_members + int 1)) d"
      by (rule membership_store.mono [OF I]) simp
    then show ?thesis unfolding d' using full by (rule add_restore_inv)
  qed
qed

text \<open>The updates of one row that leave its key alone and never bring a deleted row back.\<close>

lemma keeps_m_map:
  assumes "\<And>now m. cm_room_id (f now m) = cm_room_id m" "\<And>now m. cm_participant_id (f now m) = cm_participant_id m"
    and "\<And>now m. cm_id (f now m) = cm_id m" "\<And>now m. cm_is_deleted m \<Longrightarrow> cm_is_deleted (f now m)"
  shows "keeps (inv_holds membership_inv)
    (Exec (\<lambda>now d. Inr (d\<lparr>chat_members := map (f now) (chat_members d)\<rparr>)))"
proof (rule membership_store.keeps_Exec)
  fix s now d d'
  assume I: "membership_inv s d" and "Inr (d\<lparr>chat_members := map (f now) (chat_members d)\<rparr>) = Inr d'"
  then have d': "d' = d\<lparr>chat_members := map (f now) (chat_members d)\<rparr>" by simp
  have lim: "within_limit d' r" if r: "r \<in> set (chat_rooms d)" for r
  proof -
    have "active_count d' (rr_id r) \<le> active_count d (rr_id r)"
      unfolding d' by (rule active_count_shrinks) (simp_all add: assms)
    with membership_invD(5) [OF I r] show ?thesis by (rule within_limit_mono)
  qed
  moreover have "member_key \<circ> f now = member_key" and "cm_id \<circ> f now = cm_id"
    by (simp_all add: fun_eq_iff member_key_def assms)
  moreover have "ids_ok chat_rooms rr_id T_rooms s d'" using membership_invD(1) [OF I] d' by (simp add: ids_ok_def)
  ultimately show "membership_inv s d'"
    using I membership_invD(2,3) [OF I] by - (rule membership_invI [where d = d], simp_all add: d' image_comp)
qed

lemma keeps_m_member_update [frame_intros]: "keeps (inv_holds membership_inv) (Member_Update m)"
  unfolding Member_Update_def by (rule keeps_m_map) auto

lemma keeps_m_member_softdelete [frame_intros]: "keeps (inv_holds membership_inv) (Member_SoftDelete i)"
  unfolding Member_SoftDelete_def by (rule keeps_m_map) auto

lemma keeps_m_member_remove [frame_intros]: "keeps (inv_holds membership_inv) (Member_Remove r p)"
  unfolding Member_Remove_def
proof (rule membership_store.keeps_Exec)
  fix s now d d'
  let ?P = "\<lambda>x. \<not> (cm_room_id x = r \<and> cm_participant_id x = p)"
  assume I: "membership_inv s d" and "Inr (d\<lparr>chat_members := filter ?P (chat_members d)\<rparr>) = Inr d'"
  then have d': "d' = d\<lparr>chat_members := filter ?P (chat_members d)\<rparr>" by simp
  have "counted d' = counted d" using d' by (intro counted_cong) simp
  then have le: "active_count d' q \<le> active_count d q" for q
    using d' length_filter_filter_le [of "counted d q" ?P "chat_members d"] by (simp add: active_count_def)
  have lim: "within_limit d' q" if "q \<in> set (chat_rooms d)" for q
    using within_limit_mono [OF membership_invD(5) [OF I that] le] .
  have "ids_ok chat_rooms rr_id T_rooms s d'"
    using membership_invD(1) [OF I] d' by (simp add: ids_ok_def)
  moreover have "within_limit d' q" if "q \<in> set (chat_rooms d')" for q
    using lim that d' by simp
  ultimately show "membership_inv s d'"
    using I membership_invD(2,3) [OF I]
    by - (rule membership_invI [where d = d], simp_all add: d' distinct_map_filter image_mono)
qed

lemma keeps_m_room_softdelete [frame_intros]: "keeps (inv_holds membership_inv) (Room_SoftDelete i)"
  unfolding Room_SoftDelete_def
proof (rule membership_store.keeps_Exec)
  fix s now d d'
  let ?f = "\<lambda>r. if rr_id r = i then r\<lparr>rr_is_deleted := True, rr_updated_at := now\<rparr> else r"
  assume I: "membership_inv s d" and "Inr (d\<lparr>chat_rooms := map ?f (chat_rooms d)\<rparr>) = Inr d'"
  then have d': "d' = d\<lparr>chat_rooms := map ?f (chat_rooms d)\<rparr>" by simp
  have c: "active_count d' = active_count d" using d' by (intro active_count_cong) simp_all
  have "ids_ok chat_rooms rr_id T_rooms s d'"
    by (rule room_ids.ids_update [OF membership_invD(1) [OF I], where f = ?f]) (simp_all add: d')
  moreover have "rr_id ` set (chat_rooms d') = rr_id ` set (chat_rooms d)"
  proof -
    have "chat_rooms d' = map ?f (chat_rooms d)" by (simp add: d')
    moreover have "map rr_id (map ?f (chat_rooms d)) = map rr_id (chat_rooms d)"
      by (rule map_key_update) simp
    ultimately show ?thesis by (metis set_map)
  qed
  moreover have "within_limit d' r" if "r \<in> set (chat_rooms d')" for r
    using that membership_invD(5) [OF I] by (auto simp: d' within_limit_def c [unfolded d'])
  ultimately show "membership_inv s d'"
    using I membership_invD(2,3) [OF I] by - (rule membership_invI [where d = d], simp_all add: d')
qed

end
