(* ===== verification/Membership.thy ===== *)
theory Membership
  imports Friendship Room_Invariant
begin

text \<open>
  The use cases that create rooms and change who is a member of them: \<open>create_chat_room.go\<close>,
  \<open>join_chat_room.go\<close>, \<open>approve_join_request.go\<close>, \<open>respond_to_invitation.go\<close>,
  \<open>update_member_status.go\<close> and \<open>get_my_room_invitation.go\<close>, each with the calls, guards and early
  returns of its \<open>Execute\<close>.
\<close>

section \<open>Values the use cases write\<close>

definition fresh_member :: "room_id \<Rightarrow> participant_id \<Rightarrow> member_role \<Rightarrow> chat_member" where
  "fresh_member r p role = \<lparr>cm_id = 0, cm_room_id = r, cm_participant_id = p, cm_role = role,
     cm_is_muted = False, cm_is_deleted = False, cm_last_read_at = None, cm_joined_at = 0,
     cm_updated_at = 0, cm_deleted_at = None\<rparr>"

definition fresh_invitation ::
  "room_id \<Rightarrow> participant_id \<Rightarrow> participant_id \<Rightarrow> invitation_type \<Rightarrow> chat_invitation" where
  "fresh_invitation r inviter invitee ty = \<lparr>ci_id = 0, ci_room_id = r, ci_inviter_id = inviter,
     ci_invitee_id = invitee, ci_status = Pending, ci_type = ty, ci_expires_at = None,
     ci_created_at = 0, ci_updated_at = 0\<rparr>"

section \<open>Optional look-ups\<close>

text \<open>\<open>x, err := find(); if err != nil && !errors.Is(err, nf)\<close>: \<open>None\<close> where there is no row.\<close>

definition find_optional :: "'a io \<Rightarrow> err \<Rightarrow> chat_err \<Rightarrow> 'a option io" where
  "find_optional m nf b = attempt m (\<lambda>e. if e \<noteq> nf then fail (Chat b) else ret None) (\<lambda>x. ret (Some x))"

text \<open>\<open>x, err := find(); if err == nil && ...\<close>: every error counts as no row.\<close>

definition look_up :: "'a io \<Rightarrow> 'a option io" where
  "look_up m = attempt m (\<lambda>_. ret None) (\<lambda>x. ret (Some x))"

section \<open>Creating a room\<close>

record create_room_input =
  in_name :: string
  in_description :: string
  in_type :: string
  in_max_members :: int
  in_allow_agent :: bool
  in_member_ids :: "user_id list"

record create_room_output =
  co_id :: room_id
  co_name :: string
  co_type :: string
  co_max_members :: int
  co_allow_agent :: bool
  co_created_at :: instant
  co_already_existed :: bool

definition room_output :: "bool \<Rightarrow> chat_room \<Rightarrow> create_room_output" where
  "room_output existed r = \<lparr>co_id = cr_id r, co_name = cr_name r, co_type = cr_type r,
     co_max_members = cr_max_members r, co_allow_agent = cr_allow_agent r,
     co_created_at = cr_created_at r, co_already_existed = existed\<rparr>"

definition new_room :: "create_room_input \<Rightarrow> chat_room" where
  "new_room i = \<lparr>cr_id = 0, cr_name = in_name i, cr_description = in_description i,
     cr_avatar_name = [], cr_type = in_type i, cr_max_members = in_max_members i,
     cr_allow_agent = in_allow_agent i, cr_is_deleted = False, cr_created_at = 0, cr_updated_at = 0\<rparr>"

text \<open>The direct room with exactly one invited user: an existing room of the two is returned, a block
  in the row found between them forbids the room.\<close>

definition create_direct_invited :: "create_room_input \<Rightarrow> user_id \<Rightarrow> participant \<Rightarrow> user_id \<Rightarrow> create_room_output io" where
  "create_direct_invited i userID p invited =
     attempt_as (Participant_FindByUserID invited) (Part ErrPNotFound) ErrParticipantNotFound ErrChatRoomCreate (\<lambda>invitedP.
     bind (find_optional (Friendship_FindBetweenUsers userID invited) (Fr ErrFriendshipNotFound)
             ErrChatRoomCreate) (\<lambda>fs.
     guard (map_option fr_status fs \<noteq> Some StatusBlocked) (Chat ErrUserBlocked) (
     bind (find_optional (Room_FindDirectByParticipants (pa_id p) (pa_id invitedP)) (NotFound ChatRoomNotFound)
             ErrChatRoomCreate) (\<lambda>existing.
     case existing of
       Some r \<Rightarrow> ret (room_output True r)
     | None \<Rightarrow>
         attempt_or (Room_Create (new_room i)) ErrChatRoomCreate (\<lambda>room.
         attempt_or (Member_Add (fresh_member (cr_id room) (pa_id p) Owner)) ErrChatRoomCreate (\<lambda>_.
         attempt_or (Invitation_Create (fresh_invitation (cr_id room) (pa_id p) (pa_id invitedP) Invitation))
           ErrInvitationCreate (\<lambda>_.
         attempt commit_tx (\<lambda>_. fail (Chat ErrChatRoomCreate)) (\<lambda>_. ret (room_output False room)))))))))"

definition invite_all :: "room_id \<Rightarrow> participant_id \<Rightarrow> user_id list \<Rightarrow> unit io" where
  "invite_all r p ids = for_each ids (\<lambda>uid.
     attempt_as (Participant_FindByUserID uid) (Part ErrPNotFound) ErrParticipantNotFound ErrChatRoomCreate (\<lambda>invitedP.
     attempt_or (Invitation_Create (fresh_invitation r p (pa_id invitedP) Invitation)) ErrInvitationCreate
       (\<lambda>_. ret ())))"

definition create_with_members :: "create_room_input \<Rightarrow> participant \<Rightarrow> create_room_output io" where
  "create_with_members i p =
     attempt_or (Room_Create (new_room i)) ErrChatRoomCreate (\<lambda>room.
     attempt_or (Member_Add (fresh_member (cr_id room) (pa_id p) Owner)) ErrChatRoomCreate (\<lambda>_.
     bind (invite_all (cr_id room) (pa_id p) (in_member_ids i)) (\<lambda>_.
     attempt commit_tx (\<lambda>_. fail (Chat ErrChatRoomCreate)) (\<lambda>_. ret (room_output False room)))))"

definition create_chat_room :: "user_id \<Rightarrow> create_room_input \<Rightarrow> create_room_output io" where
  "create_chat_room userID i = with_tx (\<lambda>_. Chat ErrChatRoomCreate)
     (attempt_as (Participant_FindByUserID userID) (Part ErrPNotFound) ErrParticipantNotFound ErrChatRoomCreate (\<lambda>p.
      if EqualFold (in_type i) ''direct'' \<and> length (in_member_ids i) = 1
      then create_direct_invited i userID p (hd (in_member_ids i))
      else create_with_members i p))"

section \<open>Joining\<close>

record join_output =
  jo_member_id :: "member_id option"
  jo_role :: "member_role option"
  jo_joined_at :: "instant option"
  jo_invitation_id :: "invitation_id option"
  jo_status :: "invitation_status option"

definition is_active :: "chat_member option \<Rightarrow> bool" where
  "is_active m \<longleftrightarrow> (case m of None \<Rightarrow> False | Some x \<Rightarrow> \<not> cm_is_deleted x)"

definition join_chat_room :: "user_id \<Rightarrow> room_id \<Rightarrow> join_output io" where
  "join_chat_room userID roomID = with_tx (\<lambda>_. Chat ErrChatRoomCreate)
     (attempt_as (Room_FindByID roomID) (NotFound ChatRoomNotFound) ErrChatRoomNotFound ErrChatRoomCreate (\<lambda>_.
      attempt_as (Participant_FindByUserID userID) (Part ErrPNotFound) ErrParticipantNotFound ErrChatRoomCreate (\<lambda>p.
      bind (find_optional (Member_FindByRoomAndParticipant roomID (pa_id p)) (NotFound ChatMemberNotFound)
              ErrChatRoomCreate) (\<lambda>existing.
      guard (\<not> is_active existing) (Chat ErrAlreadyMember) (
      if pa_type p = AgentType \<or> pa_type p = SystemType then
        attempt_or (Member_Add (fresh_member roomID (pa_id p) Member)) ErrChatRoomCreate (\<lambda>member.
        attempt_or commit_tx ErrChatRoomCreate (\<lambda>_.
        ret \<lparr>jo_member_id = Some (cm_id member), jo_role = Some (cm_role member),
             jo_joined_at = Some (cm_joined_at member), jo_invitation_id = None, jo_status = None\<rparr>))
      else
        attempt (Invitation_FindByRoomAndInvitee roomID (pa_id p))
          (\<lambda>e. guard (e = NotFound ChatInvitationNotFound) (Chat ErrInvitationCreate) (
             attempt_or (Invitation_Create (fresh_invitation roomID (pa_id p) (pa_id p) JoinRequest))
               ErrInvitationCreate (\<lambda>iv.
             attempt_or commit_tx ErrInvitationCreate (\<lambda>_.
             ret \<lparr>jo_member_id = None, jo_role = None, jo_joined_at = None,
                  jo_invitation_id = Some (ci_id iv), jo_status = Some (ci_status iv)\<rparr>))))
          (\<lambda>_. fail (Chat ErrInvitationAlreadyExists)))))))"

section \<open>Resolving an invitation\<close>

record resolve_output =
  ro_invitation_id :: invitation_id
  ro_status :: invitation_status
  ro_member_id :: "member_id option"
  ro_role :: "member_role option"
  ro_joined_at :: "instant option"

definition resolved_without_member :: "invitation_id \<Rightarrow> invitation_status \<Rightarrow> resolve_output" where
  "resolved_without_member i st = \<lparr>ro_invitation_id = i, ro_status = st, ro_member_id = None,
     ro_role = None, ro_joined_at = None\<rparr>"

text \<open>\<open>UpdateStatus\<close> and \<open>Commit\<close>, the end of every branch.\<close>

definition finish_resolution :: "invitation_id \<Rightarrow> invitation_status \<Rightarrow> resolve_output \<Rightarrow> resolve_output io" where
  "finish_resolution i st out =
     attempt_or (Invitation_UpdateStatus i st) ErrInvitationCreate (\<lambda>_.
     attempt_or commit_tx ErrInvitationCreate (\<lambda>_. ret out))"

text \<open>The accepting branch of both use cases: the guard against an active membership (an error of the
  look-up counts as no membership), the upsert, the status and the commit.\<close>

definition admit_invitee :: "chat_invitation \<Rightarrow> resolve_output io" where
  "admit_invitee iv =
     bind (look_up (Member_FindByRoomAndParticipant (ci_room_id iv) (ci_invitee_id iv))) (\<lambda>existing.
     guard (\<not> is_active existing) (Chat ErrAlreadyMember) (
     attempt_or (Member_Add (fresh_member (ci_room_id iv) (ci_invitee_id iv) Member))
       ErrInvitationCreate (\<lambda>member.
     finish_resolution (ci_id iv) Accepted
       \<lparr>ro_invitation_id = ci_id iv, ro_status = Accepted, ro_member_id = Some (cm_id member),
        ro_role = Some (cm_role member), ro_joined_at = Some (cm_joined_at member)\<rparr>)))"

text \<open>\<open>FindByID\<close> and the two checks that start both use cases.\<close>

definition pending_invitation :: "invitation_id \<Rightarrow> invitation_type \<Rightarrow> (chat_invitation \<Rightarrow> 'a io) \<Rightarrow> 'a io" where
  "pending_invitation i ty k =
     attempt_as (Invitation_FindByID i) (NotFound ChatInvitationNotFound) ErrInvitationNotFound ErrInvitationCreate (\<lambda>iv.
     guard (ci_status iv = Pending) (Chat ErrInvitationAlreadyResolved) (
     guard (ci_type iv = ty) (Chat ErrInvalidInvitationType) (k iv)))"

definition approve_join_request :: "user_id \<Rightarrow> invitation_id \<Rightarrow> bool \<Rightarrow> resolve_output io" where
  "approve_join_request userID invitationID approve = with_tx (\<lambda>_. Chat ErrInvitationCreate)
     (pending_invitation invitationID JoinRequest (\<lambda>iv.
      attempt_as (Participant_FindByUserID userID) (Part ErrPNotFound) ErrParticipantNotFound ErrInvitationCreate (\<lambda>caller.
      attempt_as (Member_FindByRoomAndParticipant (ci_room_id iv) (pa_id caller)) (NotFound ChatMemberNotFound)
        ErrNotRoomAdmin ErrInvitationCreate (\<lambda>callerMember.
      guard (\<not> (cm_role callerMember \<noteq> Owner \<and> cm_role callerMember \<noteq> Admin)) (Chat ErrNotRoomAdmin) (
      if \<not> approve
      then finish_resolution (ci_id iv) Rejected (resolved_without_member (ci_id iv) Rejected)
      else admit_invitee iv)))))"

text \<open>The block written to the friendship row of the two users; every failure is dropped.\<close>

definition sync_block :: "user_id \<Rightarrow> participant_id \<Rightarrow> unit io" where
  "sync_block userID inviterID =
     attempt (Participant_FindByID inviterID) (\<lambda>_. ret ()) (\<lambda>inviter.
     case pa_user_id inviter of
       None \<Rightarrow> ret ()
     | Some inviterUser \<Rightarrow>
         attempt (Friendship_FindBetweenUsers userID inviterUser)
           (\<lambda>e. if e = Fr ErrFriendshipNotFound
                then ignore (Friendship_CreateBlocked userID inviterUser) (ret ()) else ret ())
           (\<lambda>fs. ignore (Friendship_UpdateStatus (fr_id fs) StatusBlocked) (ret ())))"

definition respond_to_invitation :: "user_id \<Rightarrow> invitation_id \<Rightarrow> string \<Rightarrow> resolve_output io" where
  "respond_to_invitation userID invitationID action =
     guard (\<not> (action \<noteq> ''accept'' \<and> action \<noteq> ''reject'' \<and> action \<noteq> ''block'')) (Chat ErrInvalidInvitationAction)
     (with_tx (\<lambda>_. Chat ErrInvitationCreate)
       (pending_invitation invitationID Invitation (\<lambda>iv.
        attempt_as (Participant_FindByUserID userID) (Part ErrPNotFound) ErrParticipantNotFound ErrInvitationCreate (\<lambda>caller.
        guard (ci_invitee_id iv = pa_id caller) (Chat ErrNotInvitee) (
        if action = ''reject''
        then finish_resolution (ci_id iv) Rejected (resolved_without_member (ci_id iv) Rejected)
        else if action = ''block''
        then bind (sync_block userID (ci_inviter_id iv)) (\<lambda>_.
             finish_resolution (ci_id iv) Blocked (resolved_without_member (ci_id iv) Blocked))
        else admit_invitee iv)))))"

section \<open>Reading\<close>

record member_status =
  mt_member_id :: member_id
  mt_last_read_at :: "instant option"

definition update_member_status :: "user_id \<Rightarrow> room_id \<Rightarrow> member_status list io" where
  "update_member_status userID roomID =
     attempt (Participant_FindByUserID userID)
       (\<lambda>e. fail (if e = Part ErrPNotFound then Chat ErrParticipantNotFound else e)) (\<lambda>caller.
     attempt (Member_FindByRoomAndParticipant roomID (pa_id caller)) (\<lambda>_. fail (Chat ErrNotRoomMember)) (\<lambda>callerMember.
     guard (\<not> cm_is_deleted callerMember) (Chat ErrNotRoomMember) (
     bind get_clock (\<lambda>now.
     bind (Member_Update (callerMember\<lparr>cm_last_read_at := Some now\<rparr>)) (\<lambda>_.
     bind (Member_FindByRoom roomID) (\<lambda>all_members.
     ret (map (\<lambda>m. \<lparr>mt_member_id = cm_id m, mt_last_read_at = cm_last_read_at m\<rparr>)
            (filter (\<lambda>m. \<not> cm_is_deleted m) all_members))))))))"

datatype invitation_role = AsInviter | AsInvitee

record my_invitation =
  mi_found :: bool
  mi_invitation_id :: invitation_id
  mi_role :: "invitation_role option"
  mi_inviter_name :: string
  mi_inviter_avatar :: "string option"
  mi_inviter_user_id :: "user_id option"

definition no_invitation :: my_invitation where
  "no_invitation = \<lparr>mi_found = False, mi_invitation_id = 0, mi_role = None, mi_inviter_name = [],
     mi_inviter_avatar = None, mi_inviter_user_id = None\<rparr>"

definition resolveInviterInfo :: "participant_id \<Rightarrow> my_invitation \<Rightarrow> my_invitation io" where
  "resolveInviterInfo inviterID out =
     attempt (Participant_FindByID inviterID) (\<lambda>_. ret out) (\<lambda>p.
     case pa_user_id p of
       None \<Rightarrow> ret out
     | Some uid \<Rightarrow>
         (let out1 = out\<lparr>mi_inviter_user_id := Some uid\<rparr> in
          attempt (User_FindByID uid) (\<lambda>_. ret out1) (\<lambda>u.
          ret (out1\<lparr>mi_inviter_name := u_name u,
                    mi_inviter_avatar := (if u_avatar u \<noteq> [] then Some (u_avatar u) else None)\<rparr>))))"

definition get_my_room_invitation :: "user_id \<Rightarrow> room_id \<Rightarrow> my_invitation io" where
  "get_my_room_invitation userID roomID =
     attempt_as (Participant_FindByUserID userID) (Part ErrPNotFound) ErrParticipantNotFound ErrInvitationQuery (\<lambda>caller.
     attempt (Invitation_FindByRoomAndInvitee roomID (pa_id caller))
       (\<lambda>e. guard (e = NotFound ChatInvitationNotFound) (Chat ErrInvitationQuery) (
          attempt (Invitation_FindPendingByRoomAndInviter roomID (pa_id caller))
            (\<lambda>e. guard (e = NotFound ChatInvitationNotFound) (Chat ErrInvitationQuery) (ret no_invitation))
            (\<lambda>iv. if ci_inviter_id iv \<noteq> ci_invitee_id iv
               then ret (no_invitation\<lparr>mi_found := True, mi_invitation_id := ci_id iv, mi_role := Some AsInviter\<rparr>)
               else ret no_invitation)))
       (\<lambda>iv. resolveInviterInfo (ci_inviter_id iv)
          (no_invitation\<lparr>mi_found := True, mi_invitation_id := ci_id iv, mi_role := Some AsInvitee\<rparr>)))"

end
