(* ===== verification/Inversion.thy ===== *)
theory Inversion
  imports Participants
begin

text \<open>
  Inversion of successful runs: what must have happened, under any schedule of failures, for an
  operation to return a value.  The equations peel an operation from the outside in; what is left is a
  chain of existential worlds with one fact per statement.
\<close>

named_theorems succ \<open>equations that invert a successful run\<close>

lemma ret_succ [succ]: "ret x w = (Inr y, w') \<longleftrightarrow> y = x \<and> w' = w"
  by auto

lemma fail_succ [succ]: "fail e w = (Inr y, w') \<longleftrightarrow> False"
  by simp

lemma bind_succ [succ]:
  "bind m k w = (Inr y, w') \<longleftrightarrow> (\<exists>x w1. m w = (Inr x, w1) \<and> k x w1 = (Inr y, w'))"
  by (auto simp: bind_def attempt_def split: prod.splits sum.splits)

lemma attempt_as_succ [succ]:
  "attempt_as m nf a b k w = (Inr y, w') \<longleftrightarrow> (\<exists>x w1. m w = (Inr x, w1) \<and> k x w1 = (Inr y, w'))"
  by (auto simp: attempt_as_def attempt_def split: prod.splits sum.splits)

lemma attempt_or_succ [succ]:
  "attempt_or m b k w = (Inr y, w') \<longleftrightarrow> (\<exists>x w1. m w = (Inr x, w1) \<and> k x w1 = (Inr y, w'))"
  by (auto simp: attempt_or_def attempt_def split: prod.splits sum.splits)

lemma attempt_succ:
  "attempt m h k w = (Inr y, w') \<longleftrightarrow>
     (\<exists>x w1. m w = (Inr x, w1) \<and> k x w1 = (Inr y, w')) \<or>
     (\<exists>e w1. m w = (Inl e, w1) \<and> h e w1 = (Inr y, w'))"
  by (auto simp: attempt_def split: prod.splits sum.splits)

lemma guard_succ [succ]: "guard c e k w = (Inr y, w') \<longleftrightarrow> c \<and> k w = (Inr y, w')"
  by (cases c) auto

lemma if_succ [succ]:
  "(if c then a else b) w = (Inr y, w') \<longleftrightarrow> (c \<and> a w = (Inr y, w')) \<or> (\<not> c \<and> b w = (Inr y, w'))"
  by simp

lemma not_found_as_succ [succ]: "not_found_as e m w = (Inr y, w') \<longleftrightarrow> m w = (Inr y, w')"
  by (auto simp: not_found_as_def attempt_def split: prod.splits sum.splits)

text \<open>The world after a statement that succeeded, given the tables and the sequence values it leaves.\<close>

definition ran :: "table \<Rightarrow> nat \<Rightarrow> db \<Rightarrow> world \<Rightarrow> world" where
  "ran t n d w = (pop_fault w)\<lparr>seq := (seq w)(t := seq w t + int n), tables := d\<rparr>"

lemma ran_fields [simp]:
  "tables (ran t n d w) = d" "seq (ran t n d w) = (seq w)(t := seq w t + int n)" "tx (ran t n d w) = tx w"
  "clock (ran t n d w) = clock w" "tasks (ran t n d w) = tasks w" "outbox (ran t n d w) = outbox w"
  "process_start (ran t n d w) = process_start w" "tx_aborted (ran t n d w) = tx_aborted w"
  by (simp_all add: ran_def tx_aborted_def)

lemma sql_succ:
  "sql t n q w = (Inr x, w') \<longleftrightarrow>
     \<not> tx_aborted w \<and> \<not> faulty w \<and>
     (\<exists>d. q (seq w t + 1) (clock w) (tables w) = Inr (x, d) \<and> w' = ran t n d w)"
  by (auto simp: sql_def Let_def ran_def split: sum.split)

text \<open>A query that succeeded: the tables and the transaction are as before.\<close>

definition queried :: "world \<Rightarrow> world" where
  "queried w = ran T_participants 0 (tables w) w"

lemma queried_fields [simp]:
  "tables (queried w) = tables w" "seq (queried w) = seq w" "tx (queried w) = tx w"
  "clock (queried w) = clock w" "tasks (queried w) = tasks w" "outbox (queried w) = outbox w"
  "process_start (queried w) = process_start w" "tx_aborted (queried w) = tx_aborted w"
  by (simp_all add: queried_def)

lemma ScanAll_succ [succ]:
  "ScanAll f w = (Inr xs, w') \<longleftrightarrow> \<not> tx_aborted w \<and> \<not> faulty w \<and> xs = f (tables w) \<and> w' = queried w"
  by (auto simp: ScanAll_def sql_succ queried_def)

lemma ScanOne_succ [succ]:
  "ScanOne f w = (Inr x, w') \<longleftrightarrow>
     \<not> tx_aborted w \<and> \<not> faulty w \<and> (\<exists>xs. f (tables w) = x # xs) \<and> w' = queried w"
  by (auto simp: ScanOne_def bind_succ ScanAll_succ ret_succ split: list.splits)

lemma Exec_succ [succ]:
  "Exec g w = (Inr u, w') \<longleftrightarrow>
     \<not> tx_aborted w \<and> \<not> faulty w \<and> (\<exists>d. g (clock w) (tables w) = Inr d \<and> w' = ran T_participants 0 d w)"
  by (auto simp: Exec_def sql_succ split: sum.splits)

lemma commit_succ [succ]:
  "commit_tx w = (Inr u, w') \<longleftrightarrow> \<not> tx_aborted w \<and> \<not> faulty w \<and> w' = (pop_fault w)\<lparr>tx := None\<rparr>"
  by (auto simp: commit_tx_def)

definition in_tx :: "world \<Rightarrow> world" where
  "in_tx w = (pop_fault w)\<lparr>tx := Some \<lparr>snapshot = tables w, aborted = False\<rparr>\<rparr>"

lemma in_tx_fields [simp]:
  "tables (in_tx w) = tables w" "seq (in_tx w) = seq w" "clock (in_tx w) = clock w"
  "tasks (in_tx w) = tasks w" "outbox (in_tx w) = outbox w" "process_start (in_tx w) = process_start w"
  "tx_aborted (in_tx w) = False" "tx_snapshot (in_tx w) = Some (tables w)" "tx (in_tx w) \<noteq> None"
  by (simp_all add: in_tx_def tx_aborted_def tx_snapshot_def)

lemma with_tx_succ [succ]:
  "with_tx e body w = (Inr y, w') \<longleftrightarrow>
     \<not> faulty w \<and> (\<exists>w1. body (in_tx w) = (Inr y, w1) \<and> w' = rollback_tx w1)"
  by (auto simp: with_tx_def attempt_def begin_tx_def in_tx_def split: prod.splits sum.splits)

lemma rollback_after_commit [simp]: "rollback_tx (w\<lparr>tx := None\<rparr>) = w\<lparr>tx := None\<rparr>"
  by simp

text \<open>An optional look-up that found nothing has failed no statement.\<close>

lemma ScanOne_fails:
  "ScanOne f w = (Inl e, w') \<Longrightarrow> e \<noteq> Pg Pg_NotFound \<Longrightarrow>
     e = Pg Pg_TxAborted \<and> tx_aborted w \<and> w' = w \<or> e = Pg Pg_Unavailable \<and> w' = abort_tx (pop_fault w)"
  by (auto simp: ScanOne_def ScanAll_def sql_def bind_def attempt_def split: if_splits list.splits)

lemma ScanOne_empty:
  "ScanOne f w = (Inl (Pg Pg_NotFound), w') \<longleftrightarrow>
     \<not> tx_aborted w \<and> \<not> faulty w \<and> f (tables w) = [] \<and> w' = queried w"
  by (auto simp: ScanOne_def ScanAll_def sql_def bind_def attempt_def queried_def ran_def
      split: if_splits list.splits)

text \<open>After an aborted statement nothing succeeds in the transaction any more.\<close>

lemma aborted_after: "tx w \<noteq> None \<Longrightarrow> tx_aborted (abort_tx (pop_fault w))"
  by (auto simp: tx_aborted_def abort_tx_def)

lemma not_found_as_fails:
  "not_found_as e m w = (Inl x, w') \<longleftrightarrow>
     (\<exists>y. m w = (Inl y, w') \<and> x = (if y = Pg Pg_NotFound then e else y))"
  by (auto simp: not_found_as_def attempt_def split: prod.splits sum.splits)

end
