(* ===== verification/Membership_Rules.thy ===== *)
theory Membership_Rules
  imports Membership Inversion Friendship_Spec
begin

text \<open>
  Who is an active member of which room, with which role, as a map; what the statements of the
  repositories do to it; and what a successful run of each membership use case says about the state
  it started in.  Everything here holds under every schedule of failures.
\<close>

section \<open>The membership map\<close>

definition member_row :: "db \<Rightarrow> room_id \<Rightarrow> participant_id \<Rightarrow> chat_member option" where
  "member_row d r p = List.find (\<lambda>m. cm_room_id m = r \<and> cm_participant_id m = p) (chat_members d)"

definition membership :: "db \<Rightarrow> room_id \<times> participant_id \<Rightarrow> member_role option" where
  "membership d = (\<lambda>(r, p). case member_row d r p of None \<Rightarrow> None
     | Some m \<Rightarrow> if cm_is_deleted m then None else Some (cm_role m))"

text \<open>The participant of a user, as \<open>FindByUserID\<close> joins it.\<close>

definition user_participant :: "db \<Rightarrow> user_id \<Rightarrow> participant_id \<Rightarrow> bool" where
  "user_participant d u p \<longleftrightarrow> p \<in> pr_id ` set (participants d) \<and> (p, u) \<in> set (participant_users d)"

lemma membership_cong: "chat_members d' = chat_members d \<Longrightarrow> membership d' = membership d"
  by (simp add: membership_def member_row_def)

lemma member_row_Some:
  "member_row d r p = Some m \<Longrightarrow> m \<in> set (chat_members d) \<and> cm_room_id m = r \<and> cm_participant_id m = p"
  unfolding member_row_def by (drule find_Some_iff_mem) auto

lemma member_row_of:
  assumes "distinct (map member_key (chat_members d))" and "m \<in> set (chat_members d)"
  shows "member_row d (cm_room_id m) (cm_participant_id m) = Some m"
  unfolding member_row_def
  by (rule find_unique [OF assms(2)])
     (use assms in \<open>auto simp: distinct_map member_key_def inj_on_def\<close>)

text \<open>The role an upsert leaves: the one of the row that was there, the requested one otherwise.\<close>

definition upsert_role :: "db \<Rightarrow> chat_member \<Rightarrow> member_role" where
  "upsert_role d m = (case member_row d (cm_room_id m) (cm_participant_id m) of
     None \<Rightarrow> cm_role m | Some x \<Rightarrow> cm_role x)"

lemma find_same_membership:
  "List.find (same_membership m) xs =
   List.find (\<lambda>x. cm_room_id x = cm_room_id m \<and> cm_participant_id x = cm_participant_id m) xs"
  by (simp add: same_membership_def [abs_def])

lemma find_map_keep:
  "(\<And>x. P (f x) = P x) \<Longrightarrow> List.find P (map f xs) = map_option f (List.find P xs)"
  by (induction xs) auto

lemma Member_Add_succ:
  assumes "Member_Add m w = (Inr x, w')"
  shows "tx w' = tx w \<and> \<not> tx_aborted w \<and> clock w' = clock w \<and> process_start w' = process_start w \<and>
    membership (tables w') = (membership (tables w))
      ((cm_room_id m, cm_participant_id m) \<mapsto> upsert_role (tables w) m) \<and>
    tables w' = (tables w)\<lparr>chat_members := chat_members (tables w')\<rparr> \<and>
    \<not> room_full (tables w) (cm_room_id m) \<and> cm_role x = cm_role m"
proof -
  let ?d = "tables w"
  from assms obtain d' where nf: "\<not> tx_aborted w" "\<not> room_full ?d (cm_room_id m)"
    and w': "w' = ran T_members 1 d' w" and q: "(case List.find (same_membership m) (chat_members ?d) of
       Some x \<Rightarrow>
         Inr (m\<lparr>cm_id := cm_id x, cm_joined_at := cm_joined_at (restore_member (clock w) x)\<rparr>,
              ?d\<lparr>chat_members := map (\<lambda>y. if same_membership m y then restore_member (clock w) y else y)
                                  (chat_members ?d)\<rparr>)
     | None \<Rightarrow>
         if cm_room_id m \<notin> rr_id ` set (chat_rooms ?d) \<or>
            cm_participant_id m \<notin> pr_id ` set (participants ?d) then Inl Pg_ForeignKey
         else Inr (m\<lparr>cm_id := seq w T_members + 1, cm_joined_at := clock w\<rparr>,
              ?d\<lparr>chat_members := chat_members ?d @
                [\<lparr>cm_id = seq w T_members + 1, cm_room_id = cm_room_id m, cm_participant_id = cm_participant_id m,
                  cm_role = cm_role m, cm_is_muted = False, cm_is_deleted = False,
                  cm_last_read_at = None, cm_joined_at = clock w, cm_updated_at = clock w,
                  cm_deleted_at = None\<rparr>]\<rparr>)) = Inr (x, d')"
    unfolding Member_Add_def sql_succ by (auto split: if_splits)
  have d': "d' = ?d\<lparr>chat_members := chat_members d'\<rparr> \<and> cm_role x = cm_role m"
    using q by (auto split: option.splits if_splits)
  have mem: "membership d' = (membership ?d)((cm_room_id m, cm_participant_id m) \<mapsto> upsert_role ?d m)"
  proof (rule ext, clarify)
    fix r p
    show "membership d' (r, p) = ((membership ?d)((cm_room_id m, cm_participant_id m) \<mapsto> upsert_role ?d m)) (r, p)"
    proof (cases "List.find (same_membership m) (chat_members ?d)")
      case None
      then have "member_row ?d (cm_room_id m) (cm_participant_id m) = None"
        by (simp add: member_row_def find_same_membership)
      with None q show ?thesis
        by (auto simp: membership_def member_row_def upsert_role_def find_append split: option.splits if_splits)
    next
      case (Some y)
      let ?f = "\<lambda>y. if same_membership m y then restore_member (clock w) y else y"
      from Some have row: "member_row ?d (cm_room_id m) (cm_participant_id m) = Some y"
        by (simp add: member_row_def find_same_membership)
      from Some q have "chat_members d' = map ?f (chat_members ?d)" by auto
      then have "member_row d' r p = map_option ?f (member_row ?d r p)"
        unfolding member_row_def by (simp add: find_map_keep restore_member_def)
      with row show ?thesis
        by (cases "member_row ?d r p")
          (auto simp: membership_def upsert_role_def same_membership_def restore_member_def
            dest: member_row_Some)
    qed
  qed
  with nf w' d' show ?thesis by simp
qed

section \<open>What the look-ups say\<close>

lemma find_member_succ:
  "Member_FindByRoomAndParticipant r p w = (Inr m, w') \<Longrightarrow> w' = queried w \<and> member_row (tables w) r p = Some m"
  by (auto simp: Member_FindByRoomAndParticipant_def succ member_row_def dest: filter_Cons_find)

lemma find_user_succ:
  "Participant_FindByUserID u w = (Inr p, w') \<Longrightarrow>
     w' = queried w \<and> user_participant (tables w) u (pa_id p) \<and>
     (\<exists>x \<in> set (participants (tables w)). pr_id x = pa_id p \<and> pr_type x = pa_type p)"
proof -
  assume "Participant_FindByUserID u w = (Inr p, w')"
  then obtain xs where w': "w' = queried w" and
    q: "[toParticipantDomain q (Some v) None None.
        q \<leftarrow> participants (tables w), (pid, v) \<leftarrow> participant_users (tables w), pid = pr_id q \<and> v = u] = p # xs"
    by (auto simp: Participant_FindByUserID_def succ)
  have "p \<in> set (p # xs)" by simp
  then obtain x where x: "x \<in> set (participants (tables w))" "(pr_id x, u) \<in> set (participant_users (tables w))"
    and p: "p = toParticipantDomain x (Some u) None None"
    unfolding q [symmetric] by auto
  with w' show ?thesis by (auto simp: user_participant_def toParticipantDomain_def)
qed

lemma find_invitation_succ:
  "Invitation_FindByID i w = (Inr v, w') \<Longrightarrow>
     w' = queried w \<and> v \<in> set (chat_invitations (tables w)) \<and> ci_id v = i"
proof -
  assume "Invitation_FindByID i w = (Inr v, w')"
  then obtain xs where "w' = queried w" "filter (\<lambda>v. ci_id v = i) (chat_invitations (tables w)) = v # xs"
    by (auto simp: Invitation_FindByID_def succ)
  then show ?thesis using find_Some_iff_mem [OF filter_Cons_find] by fastforce
qed

lemma find_room_succ: "Room_FindByID i w = (Inr r, w') \<Longrightarrow> w' = queried w"
  by (auto simp: Room_FindByID_def succ)

text \<open>A look-up that failed without aborting its transaction has found no row.\<close>

lemma find_member_fails:
  assumes "Member_FindByRoomAndParticipant r p w = (Inl e, w')" and "tx w \<noteq> None" and "\<not> tx_aborted w'"
  shows "w' = queried w \<and> member_row (tables w) r p = None"
proof -
  let ?f = "\<lambda>d. filter (\<lambda>m. cm_room_id m = r \<and> cm_participant_id m = p) (chat_members d)"
  from assms(1) obtain y where y: "ScanOne ?f w = (Inl y, w')"
    by (auto simp: Member_FindByRoomAndParticipant_def not_found_as_fails)
  have "y = Pg Pg_NotFound"
  proof (rule ccontr)
    assume "y \<noteq> Pg Pg_NotFound"
    with ScanOne_fails [OF y] have "tx_aborted w'" using aborted_after [OF assms(2)] by blast
    with assms(3) show False ..
  qed
  with y have "w' = queried w" "?f (tables w) = []" by (auto simp: ScanOne_empty)
  then show ?thesis by (simp add: member_row_def find_None_filter)
qed

section \<open>What the writes say\<close>

lemma Invitation_Create_succ:
  "Invitation_Create v w = (Inr x, w') \<Longrightarrow>
     \<not> tx_aborted w \<and> tx w' = tx w \<and> clock w' = clock w \<and> seq w' T_invitations = seq w T_invitations + 1 \<and>
     x = v\<lparr>ci_id := seq w T_invitations + 1, ci_created_at := clock w, ci_updated_at := clock w\<rparr> \<and>
     tables w' = (tables w)\<lparr>chat_invitations := chat_invitations (tables w) @ [x]\<rparr>"
  by (auto simp: Invitation_Create_def sql_succ Let_def split: if_splits)

definition set_invitation :: "invitation_id \<Rightarrow> invitation_status \<Rightarrow> instant \<Rightarrow> chat_invitation \<Rightarrow> chat_invitation" where
  "set_invitation i st now v = (if ci_id v = i then v\<lparr>ci_status := st, ci_updated_at := now\<rparr> else v)"

lemma finish_resolution_succ:
  "finish_resolution i st out w = (Inr y, w') \<Longrightarrow>
     y = out \<and> tx w' = None \<and> \<not> tx_aborted w \<and>
     tables w' = (tables w)\<lparr>chat_invitations := map (set_invitation i st (clock w)) (chat_invitations (tables w))\<rparr>"
  by (auto simp: finish_resolution_def Invitation_UpdateStatus_def succ set_invitation_def [abs_def])

lemma Room_Create_succ:
  "Room_Create room w = (Inr x, w') \<Longrightarrow>
     \<not> tx_aborted w \<and> tx w' = tx w \<and> clock w' = clock w \<and> cr_id x = seq w T_rooms + 1 \<and>
     (\<exists>r. tables w' = (tables w)\<lparr>chat_rooms := chat_rooms (tables w) @ [r]\<rparr> \<and> rr_id r = cr_id x)"
  by (auto simp: Room_Create_def sql_succ split: option.splits if_splits)

lemma admit_invitee_succ:
  assumes "admit_invitee v w = (Inr out, w')" and "tx w \<noteq> None" and "\<not> tx_aborted w"
  shows "tx w' = None \<and> ro_status out = Accepted \<and>
    membership (tables w) (ci_room_id v, ci_invitee_id v) = None \<and>
    membership (tables w') = (membership (tables w))((ci_room_id v, ci_invitee_id v) \<mapsto>
      upsert_role (tables w) (fresh_member (ci_room_id v) (ci_invitee_id v) Member)) \<and>
    chat_invitations (tables w') = map (set_invitation (ci_id v) Accepted (clock w)) (chat_invitations (tables w)) \<and>
    friendships (tables w') = friendships (tables w) \<and> chat_rooms (tables w') = chat_rooms (tables w)"
proof -
  let ?m = "fresh_member (ci_room_id v) (ci_invitee_id v) Member"
  from assms(1) obtain existing w1 x w2 where
    g: "look_up (Member_FindByRoomAndParticipant (ci_room_id v) (ci_invitee_id v)) w = (Inr existing, w1)"
    and na: "\<not> is_active existing" and add: "Member_Add ?m w1 = (Inr x, w2)"
    and fin: "finish_resolution (ci_id v) Accepted
       \<lparr>ro_invitation_id = ci_id v, ro_status = Accepted, ro_member_id = Some (cm_id x),
        ro_role = Some (cm_role x), ro_joined_at = Some (cm_joined_at x)\<rparr> w2 = (Inr out, w')"
    by (auto simp: admit_invitee_def succ)
  note a = Member_Add_succ [OF add]
  have w1: "w1 = queried w \<and> existing = member_row (tables w) (ci_room_id v) (ci_invitee_id v)"
    using g find_member_succ find_member_fails [OF _ assms(2)] a by (auto simp: look_up_def attempt_succ succ)
  note f' = finish_resolution_succ [OF fin]
  have "membership (tables w) (ci_room_id v, ci_invitee_id v) = None"
    using na w1 by (auto simp: membership_def is_active_def split: option.splits)
  moreover have "membership (tables w') = membership (tables w2)" using f' by (intro membership_cong) simp
  moreover obtain ms where "tables w2 = (tables w)\<lparr>chat_members := ms\<rparr>" using a w1 by fastforce
  then have "chat_invitations (tables w2) = chat_invitations (tables w)"
    "friendships (tables w2) = friendships (tables w)" "chat_rooms (tables w2) = chat_rooms (tables w)" by simp_all
  ultimately show ?thesis
    using a w1 f' by (simp add: fresh_member_def)
qed


section \<open>The calls of the component\<close>

datatype room_call =
    CreateRoom user_id create_room_input
  | JoinRoom user_id room_id
  | Approve user_id invitation_id bool
  | Respond user_id invitation_id string
  | ReadMark user_id room_id

text \<open>\<open>void m\<close> runs \<open>m\<close> and drops its value.\<close>

definition void :: "'a io \<Rightarrow> unit io" where
  "void m = bind m (\<lambda>_. ret ())"

definition run_room_call :: "room_call \<Rightarrow> unit io" where
  "run_room_call c = (case c of
     CreateRoom u i \<Rightarrow> void (create_chat_room u i)
   | JoinRoom u r \<Rightarrow> void (join_chat_room u r)
   | Approve u i ok \<Rightarrow> void (approve_join_request u i ok)
   | Respond u i a \<Rightarrow> void (respond_to_invitation u i a)
   | ReadMark u r \<Rightarrow> void (update_member_status u r))"

text \<open>A pending invitation with this id, of this type, for participant \<open>p\<close> in room \<open>r\<close>.\<close>

definition invited :: "db \<Rightarrow> invitation_id \<Rightarrow> invitation_type \<Rightarrow> room_id \<Rightarrow> participant_id \<Rightarrow> bool" where
  "invited d i ty r p \<longleftrightarrow> (\<exists>v \<in> set (chat_invitations d). ci_id v = i \<and> ci_status v = Pending \<and>
     ci_type v = ty \<and> ci_room_id v = r \<and> ci_invitee_id v = p)"

text \<open>Who may make \<open>p\<close> a member of \<open>r\<close>, and with which call.\<close>

definition authorized :: "room_call \<Rightarrow> db \<Rightarrow> room_id \<Rightarrow> participant_id \<Rightarrow> bool" where
  "authorized c d r p = (case c of
     CreateRoom u i \<Rightarrow> user_participant d u p \<and> r \<notin> rr_id ` set (chat_rooms d)
   | JoinRoom u r' \<Rightarrow> r' = r \<and> user_participant d u p \<and>
       (\<exists>x \<in> set (participants d). pr_id x = p \<and> pr_type x \<noteq> UserType)
   | Approve u i ok \<Rightarrow> ok \<and> invited d i JoinRequest r p \<and>
       (\<exists>q m. user_participant d u q \<and> member_row d r q = Some m \<and> cm_role m \<in> {Owner, Admin})
   | Respond u i a \<Rightarrow> a = ''accept'' \<and> invited d i Invitation r p \<and> user_participant d u p
   | ReadMark u r' \<Rightarrow> False)"

lemma void_succ [succ]: "void m w = (Inr u, w') \<longleftrightarrow> (\<exists>x. m w = (Inr x, w'))"
  by (auto simp: void_def succ)

lemma void_fails: "void m w = (Inl e, w') \<longleftrightarrow> m w = (Inl e, w')"
  by (auto simp: void_def bind_def attempt_def split: prod.splits sum.splits)

section \<open>Atomicity\<close>

lemmas room_repo_defs =
  Participant_FindByUserID_def Participant_FindByID_def User_FindByID_def findRoleCodes_def
  Room_FindByID_def Room_Create_def
  Room_FindDirectByParticipants_def Member_FindByRoomAndParticipant_def Member_FindByRoom_def
  Member_Add_def Member_Update_def Invitation_Create_def Invitation_FindByID_def
  Invitation_FindByRoomAndInvitee_def Invitation_FindPendingByRoomAndInviter_def
  Invitation_UpdateStatus_def Friendship_FindBetweenUsers_def

lemma keeps_tx_process_start [frame_intros]: "keeps_fn tx_snapshot get_process_start"
  by (simp add: keeps_fn_def get_process_start_def)

lemma keeps_tx_rooms [frame_intros]:
  "keeps_fn tx_snapshot (Participant_FindByUserID u)"
  "keeps_fn tx_snapshot (Participant_FindByID p)"
  "keeps_fn tx_snapshot (Room_FindByID r)"
  "keeps_fn tx_snapshot (Room_Create room)"
  "keeps_fn tx_snapshot (Room_FindDirectByParticipants p q)"
  "keeps_fn tx_snapshot (Member_FindByRoomAndParticipant r p)"
  "keeps_fn tx_snapshot (Member_FindByRoom r)"
  "keeps_fn tx_snapshot (Member_Add m)"
  "keeps_fn tx_snapshot (Member_Update m)"
  "keeps_fn tx_snapshot (Invitation_Create v)"
  "keeps_fn tx_snapshot (Invitation_FindByID i)"
  "keeps_fn tx_snapshot (Invitation_FindByRoomAndInvitee r p)"
  "keeps_fn tx_snapshot (Invitation_UpdateStatus i st)"
  "keeps_fn tx_snapshot (Friendship_FindBetweenUsers u u')"
  "keeps_fn tx_snapshot (Friendship_CreateBlocked u u')"
  unfolding room_repo_defs Friendship_CreateBlocked_def by (intro frame_intros)+

lemma keeps_tx_sync [frame_intros]: "keeps_fn tx_snapshot (sync_block u p)"
  unfolding sync_block_def by (intro frame_intros)

lemma keeps_tx_find_optional [frame_intros]:
  "keeps_fn f m \<Longrightarrow> keeps_fn f (find_optional m nf b)"
  and keeps_tx_look_up [frame_intros]: "keeps_fn f m \<Longrightarrow> keeps_fn f (look_up m)"
  and keeps_find_optional [frame_intros]: "keeps P m \<Longrightarrow> keeps P (find_optional m nf b)"
  and keeps_look_up [frame_intros]: "keeps P m \<Longrightarrow> keeps P (look_up m)"
  unfolding find_optional_def look_up_def by (intro frame_intros; simp)+

lemma keeps_fn_attempt_as [frame_intros]:
  "keeps_fn f m \<Longrightarrow> (\<And>x. keeps_fn f (k x)) \<Longrightarrow> keeps_fn f (attempt_as m nf a b k)"
  and keeps_fn_attempt_or [frame_intros]:
  "keeps_fn f m \<Longrightarrow> (\<And>x. keeps_fn f (k x)) \<Longrightarrow> keeps_fn f (attempt_or m b k)"
  and keeps_attempt_as [frame_intros]:
  "keeps P m \<Longrightarrow> (\<And>x. keeps P (k x)) \<Longrightarrow> keeps P (attempt_as m nf a b k)"
  and keeps_attempt_or [frame_intros]:
  "keeps P m \<Longrightarrow> (\<And>x. keeps P (k x)) \<Longrightarrow> keeps P (attempt_or m b k)"
  unfolding attempt_as_def attempt_or_def by (intro frame_intros; simp)+

lemma rolls_back_attempt_as [rollback_intros]:
  "keeps_fn tx_snapshot m \<Longrightarrow> (\<And>x. rolls_back (k x)) \<Longrightarrow> rolls_back (attempt_as m nf a b k)"
  unfolding attempt_as_def by (intro rollback_intros)

lemma rolls_back_attempt_or [rollback_intros]:
  "keeps_fn tx_snapshot m \<Longrightarrow> (\<And>x. rolls_back (k x)) \<Longrightarrow> rolls_back (attempt_or m b k)"
  unfolding attempt_or_def by (intro rollback_intros)

lemma rolls_back_commit_ret [rollback_intros]:
  "rolls_back (attempt_or commit_tx b (\<lambda>_. ret x))"
  unfolding attempt_or_def by (rule rolls_back_commit) (auto intro: rollback_intros)

lemma rolls_back_commit_ret' [rollback_intros]:
  "rolls_back (attempt commit_tx (\<lambda>_. fail e) (\<lambda>_. ret x))"
  by (rule rolls_back_commit) (auto intro: rollback_intros)

lemma rolls_back_finish [rollback_intros]: "rolls_back (finish_resolution i st out)"
  unfolding finish_resolution_def by (intro rollback_intros frame_intros)

lemma rolls_back_admit [rollback_intros]: "rolls_back (admit_invitee v)"
  unfolding admit_invitee_def by (intro rollback_intros frame_intros)

lemma rolls_back_pending [rollback_intros]:
  "(\<And>v. rolls_back (k v)) \<Longrightarrow> rolls_back (pending_invitation i ty k)"
  unfolding pending_invitation_def by (intro rollback_intros frame_intros)

lemma keeps_tx_invite_all [frame_intros]: "keeps_fn tx_snapshot (invite_all r p ids)"
  unfolding invite_all_def by (intro frame_intros)

lemma rolls_back_create [rollback_intros]:
  "rolls_back (create_direct_invited i u p v)" "rolls_back (create_with_members i p)"
  unfolding create_direct_invited_def create_with_members_def
  by (intro rollback_intros frame_intros)+

lemma room_call_atomic:
  assumes "run_room_call c w = (Inl e, w')" and "tx w = None" and "\<And>u r. c \<noteq> ReadMark u r"
  shows "tables w' = tables w \<and> tx w' = None"
proof (cases c)
  case (CreateRoom u i)
  with assms(1) have "create_chat_room u i w = (Inl e, w')" by (simp add: run_room_call_def void_fails)
  then show ?thesis unfolding create_chat_room_def
    by (rule with_tx_atomic [OF _ assms(2), rotated]) (intro rollback_intros frame_intros)
next
  case (JoinRoom u r)
  with assms(1) have "join_chat_room u r w = (Inl e, w')" by (simp add: run_room_call_def void_fails)
  then show ?thesis unfolding join_chat_room_def
    by (rule with_tx_atomic [OF _ assms(2), rotated]) (intro rollback_intros frame_intros)
next
  case (Approve u i ok)
  with assms(1) have "approve_join_request u i ok w = (Inl e, w')" by (simp add: run_room_call_def void_fails)
  then show ?thesis unfolding approve_join_request_def
    by (rule with_tx_atomic [OF _ assms(2), rotated]) (intro rollback_intros frame_intros)
next
  case (Respond u i a)
  with assms(1) have r: "respond_to_invitation u i a w = (Inl e, w')" by (simp add: run_room_call_def void_fails)
  show ?thesis
  proof (cases "a \<noteq> ''accept'' \<and> a \<noteq> ''reject'' \<and> a \<noteq> ''block''")
    case True
    with r assms(2) show ?thesis by (simp add: respond_to_invitation_def)
  next
    case False
    with r show ?thesis unfolding respond_to_invitation_def guard_def
      by (simp only: if_True simp_thms)
        (erule with_tx_atomic [OF _ assms(2), rotated], intro rollback_intros frame_intros)
  qed
next
  case (ReadMark u r)
  with assms(3) show ?thesis by blast
qed

end
