(* ===== verification/Membership_Safety.thy ===== *)
theory Membership_Safety
  imports Membership_Rules
begin

text \<open>
  What a call of the component can do to the membership map: nothing, or making one participant an
  active member of one room, for which the caller was authorized in the state the call started in.
\<close>

definition admits :: "room_call \<Rightarrow> db \<Rightarrow> db \<Rightarrow> bool" where
  "admits c d d' \<longleftrightarrow> membership d' = membership d \<or>
     (\<exists>r p role. authorized c d r p \<and> membership d (r, p) = None \<and>
        membership d' = (membership d)((r, p) \<mapsto> role))"

lemma admits_same: "membership d' = membership d \<Longrightarrow> admits c d d'"
  by (simp add: admits_def)

lemma admits_one:
  "authorized c d r p \<Longrightarrow> membership d (r, p) = None \<Longrightarrow> membership d' = (membership d)((r, p) \<mapsto> role) \<Longrightarrow>
   admits c d d'"
  unfolding admits_def by blast

lemma rollback_snapshot: "tx_snapshot w = Some s \<Longrightarrow> tables (rollback_tx w) = s"
  by (auto simp: tx_snapshot_def rollback_tx_def)

text \<open>A room whose id has just been drawn has no members.\<close>

lemma fresh_room_empty:
  assumes "membership_inv s d" and "s T_rooms < r"
  shows "membership d (r, p) = None"
proof -
  have "cm_room_id m \<noteq> r" if "m \<in> set (chat_members d)" for m
  proof -
    from membership_invD(6) [OF assms(1) that] obtain q where "q \<in> set (chat_rooms d)" "cm_room_id m = rr_id q"
      by blast
    moreover from this membership_invD(1) [OF assms(1)] have "rr_id q \<le> s T_rooms" by (simp add: ids_ok_def)
    ultimately show ?thesis using assms(2) by simp
  qed
  then have "member_row d r p = None" by (auto simp: member_row_def find_None_iff)
  then show ?thesis by (simp add: membership_def)
qed

lemma fresh_room_id:
  "membership_inv s d \<Longrightarrow> s T_rooms < r \<Longrightarrow> r \<notin> rr_id ` set (chat_rooms d)"
  by (fastforce simp: membership_inv_def ids_ok_def)

section \<open>Approving and responding\<close>

lemma set_invitation_membership:
  "membership (d\<lparr>chat_invitations := vs\<rparr>) = membership d"
  by (rule membership_cong) simp

lemma pending_succ:
  "pending_invitation i ty k w = (Inr y, w') \<Longrightarrow>
     \<exists>v. v \<in> set (chat_invitations (tables w)) \<and> ci_id v = i \<and> ci_status v = Pending \<and> ci_type v = ty \<and>
       k v (queried w) = (Inr y, w')"
  by (auto simp: pending_invitation_def succ dest!: find_invitation_succ)

lemma approve_succ:
  assumes "approve_join_request u i ok w = (Inr out, w')"
  shows "\<exists>v q m. v \<in> set (chat_invitations (tables w)) \<and> ci_id v = i \<and> ci_status v = Pending \<and>
    ci_type v = JoinRequest \<and> user_participant (tables w) u q \<and>
    member_row (tables w) (ci_room_id v) q = Some m \<and> cm_role m \<in> {Owner, Admin} \<and> tx w' = None \<and>
    chat_invitations (tables w') = map (set_invitation i (ro_status out) (clock w)) (chat_invitations (tables w)) \<and>
    (if ok then ro_status out = Accepted \<and> membership (tables w) (ci_room_id v, ci_invitee_id v) = None \<and>
       membership (tables w') = (membership (tables w))((ci_room_id v, ci_invitee_id v) \<mapsto>
         upsert_role (tables w) (fresh_member (ci_room_id v) (ci_invitee_id v) Member))
     else ro_status out = Rejected \<and> membership (tables w') = membership (tables w))"
proof -
  from assms obtain w1 where w': "w' = rollback_tx w1" and b: "pending_invitation i JoinRequest (\<lambda>v.
      attempt_as (Participant_FindByUserID u) (Part ErrPNotFound) ErrParticipantNotFound ErrInvitationCreate (\<lambda>caller.
      attempt_as (Member_FindByRoomAndParticipant (ci_room_id v) (pa_id caller)) (NotFound ChatMemberNotFound)
        ErrNotRoomAdmin ErrInvitationCreate (\<lambda>callerMember.
      guard (\<not> (cm_role callerMember \<noteq> Owner \<and> cm_role callerMember \<noteq> Admin)) (Chat ErrNotRoomAdmin) (
      if \<not> ok
      then finish_resolution (ci_id v) Rejected (resolved_without_member (ci_id v) Rejected)
      else admit_invitee v)))) (in_tx w) = (Inr out, w1)"
    by (auto simp: approve_join_request_def with_tx_succ)
  from pending_succ [OF b] obtain v q m w3 w2 where
    v: "v \<in> set (chat_invitations (tables w))" "ci_id v = i" "ci_status v = Pending" "ci_type v = JoinRequest"
    and fq: "Participant_FindByUserID u (queried (in_tx w)) = (Inr q, w3)"
    and fm: "Member_FindByRoomAndParticipant (ci_room_id v) (pa_id q) w3 = (Inr m, w2)"
    and g: "\<not> (cm_role m \<noteq> Owner \<and> cm_role m \<noteq> Admin)"
    and fin: "(if \<not> ok then finish_resolution (ci_id v) Rejected (resolved_without_member (ci_id v) Rejected)
        else admit_invitee v) w2 = (Inr out, w1)"
    unfolding attempt_as_succ guard_succ by (auto simp del: if_succ)
  have q: "user_participant (tables w) u (pa_id q)" and m: "member_row (tables w) (ci_room_id v) (pa_id q) = Some m"
    and w2: "tables w2 = tables w" "tx w2 \<noteq> None" "\<not> tx_aborted w2" "clock w2 = clock w"
    and role: "cm_role m \<in> {Owner, Admin}"
    using find_user_succ [OF fq] find_member_succ [OF fm] g by auto
  show ?thesis
  proof (cases ok)
    case True
    with fin have "admit_invitee v w2 = (Inr out, w1)" by simp
    note a = admit_invitee_succ [OF this w2(2,3)]
    then have "w' = w1" using w' by simp
    with a v q m role w2 True show ?thesis by (intro exI [of _ v] exI [of _ "pa_id q"] exI [of _ m]) simp
  next
    case False
    with fin have "finish_resolution (ci_id v) Rejected (resolved_without_member (ci_id v) Rejected) w2 = (Inr out, w1)"
      by simp
    note a = finish_resolution_succ [OF this]
    then have "w' = w1" using w' by simp
    with a v q m role w2 False show ?thesis
      by (intro exI [of _ v] exI [of _ "pa_id q"] exI [of _ m])
        (simp add: resolved_without_member_def set_invitation_membership)
  qed
qed

lemma keeps_members_sync:
  "keeps_fn (\<lambda>w. (chat_members (tables w), chat_invitations (tables w), clock w)) (sync_block u p)"
proof -
  let ?f = "\<lambda>w. (chat_members (tables w), chat_invitations (tables w), clock w)"
  have sql: "keeps_fn ?f (sql t n g)"
    if "\<And>i now d x d'. g i now d = Inr (x, d') \<Longrightarrow>
      chat_members d' = chat_members d \<and> chat_invitations d' = chat_invitations d" for t n and g :: "int \<Rightarrow> instant \<Rightarrow> db \<Rightarrow> pg_error + ('b \<times> db)"
    by (auto simp: keeps_fn_def sql_def Let_def split: sum.split dest: that)
  have q: "keeps_fn ?f (ScanAll h)" for h :: "db \<Rightarrow> 'c list"
    unfolding ScanAll_def by (rule sql) simp
  have q1: "keeps_fn ?f (ScanOne h)" for h :: "db \<Rightarrow> 'c list"
    unfolding ScanOne_def by (intro frame_intros q) (auto intro!: frame_intros split: list.split)
  have u: "keeps_fn ?f (Exec g)" if "\<And>now d d'. g now d = Inr d' \<Longrightarrow>
      chat_members d' = chat_members d \<and> chat_invitations d' = chat_invitations d" for g
    unfolding Exec_def by (rule sql) (auto split: sum.splits dest: that)
  have nf: "keeps_fn ?f (not_found_as e m)" if "keeps_fn ?f m" for e and m :: "'d io"
    unfolding not_found_as_def by (intro frame_intros that)
  show ?thesis
    unfolding sync_block_def Participant_FindByID_def Friendship_FindBetweenUsers_def
      Friendship_CreateBlocked_def createWithStatus_def Friendship_UpdateStatus_def
    by (intro frame_intros q1 u sql nf) (auto split: if_splits)
qed

lemma respond_succ:
  assumes "respond_to_invitation u i a w = (Inr out, w')"
  shows "\<exists>v. v \<in> set (chat_invitations (tables w)) \<and> ci_id v = i \<and> ci_status v = Pending \<and>
    ci_type v = Invitation \<and> user_participant (tables w) u (ci_invitee_id v) \<and> tx w' = None \<and>
    chat_invitations (tables w') = map (set_invitation i (ro_status out) (clock w)) (chat_invitations (tables w)) \<and>
    (if a = ''accept'' then ro_status out = Accepted \<and> membership (tables w) (ci_room_id v, ci_invitee_id v) = None \<and>
       membership (tables w') = (membership (tables w))((ci_room_id v, ci_invitee_id v) \<mapsto>
         upsert_role (tables w) (fresh_member (ci_room_id v) (ci_invitee_id v) Member))
     else ro_status out = (if a = ''block'' then Blocked else Rejected) \<and>
       a \<in> {''block'', ''reject''} \<and> membership (tables w') = membership (tables w))"
proof -
  from assms obtain w1 where w': "w' = rollback_tx w1"
    and a: "a = ''accept'' \<or> a = ''reject'' \<or> a = ''block''"
    and b: "pending_invitation i Invitation (\<lambda>v.
      attempt_as (Participant_FindByUserID u) (Part ErrPNotFound) ErrParticipantNotFound ErrInvitationCreate (\<lambda>caller.
      guard (ci_invitee_id v = pa_id caller) (Chat ErrNotInvitee) (
      if a = ''reject''
      then finish_resolution (ci_id v) Rejected (resolved_without_member (ci_id v) Rejected)
      else if a = ''block''
      then bind (sync_block u (ci_inviter_id v)) (\<lambda>_.
           finish_resolution (ci_id v) Blocked (resolved_without_member (ci_id v) Blocked))
      else admit_invitee v))) (in_tx w) = (Inr out, w1)"
    unfolding respond_to_invitation_def guard_succ with_tx_succ by blast
  from pending_succ [OF b] obtain v q w2 where
    v: "v \<in> set (chat_invitations (tables w))" "ci_id v = i" "ci_status v = Pending" "ci_type v = Invitation"
    and fq: "Participant_FindByUserID u (queried (in_tx w)) = (Inr q, w2)" and e: "ci_invitee_id v = pa_id q"
    and fin: "(if a = ''reject''
        then finish_resolution (ci_id v) Rejected (resolved_without_member (ci_id v) Rejected)
        else if a = ''block''
        then bind (sync_block u (ci_inviter_id v)) (\<lambda>_.
             finish_resolution (ci_id v) Blocked (resolved_without_member (ci_id v) Blocked))
        else admit_invitee v) w2 = (Inr out, w1)"
    unfolding attempt_as_succ guard_succ by (auto simp del: if_succ)
  have q: "user_participant (tables w) u (ci_invitee_id v)"
    and w2: "tables w2 = tables w" "tx w2 \<noteq> None" "\<not> tx_aborted w2" "clock w2 = clock w"
    using find_user_succ [OF fq] e by auto
  consider (acc) "a = ''accept''" | (rej) "a = ''reject''" | (blk) "a = ''block''" using a by blast
  then show ?thesis
  proof cases
    case acc
    with fin have "admit_invitee v w2 = (Inr out, w1)" by simp
    note a = admit_invitee_succ [OF this w2(2,3)]
    then have "w' = w1" using w' by simp
    with a v q w2 acc show ?thesis by (intro exI [of _ v]) simp
  next
    case rej
    with fin have "finish_resolution (ci_id v) Rejected (resolved_without_member (ci_id v) Rejected) w2 = (Inr out, w1)"
      by simp
    note a = finish_resolution_succ [OF this]
    then have "w' = w1" using w' by simp
    with a v q w2 rej show ?thesis
      by (intro exI [of _ v]) (simp add: resolved_without_member_def set_invitation_membership)
  next
    case blk
    with fin obtain x w3 where s: "sync_block u (ci_inviter_id v) w2 = (Inr x, w3)"
      and f: "finish_resolution (ci_id v) Blocked (resolved_without_member (ci_id v) Blocked) w3 = (Inr out, w1)"
      by (auto simp: bind_succ)
    note a = finish_resolution_succ [OF f]
    then have "w' = w1" using w' by simp
    moreover have "chat_members (tables w3) = chat_members (tables w) \<and>
        chat_invitations (tables w3) = chat_invitations (tables w) \<and> clock w3 = clock w"
      using keeps_fnD [OF keeps_members_sync, of u "ci_inviter_id v" w2] s w2 by simp
    moreover from this have "membership (tables w3) = membership (tables w)" by (intro membership_cong) simp
    ultimately show ?thesis using a v q blk
      by (intro exI [of _ v]) (simp add: resolved_without_member_def set_invitation_membership)
  qed
qed

section \<open>Creating and joining\<close>

text \<open>What a query leaves alone.\<close>

definition stable :: "world \<Rightarrow> db \<times> (table \<Rightarrow> int) \<times> instant" where
  "stable w = (tables w, seq w, clock w)"

lemma stable_ScanAll [frame_intros]: "keeps_fn stable (ScanAll f)"
  by (auto simp: keeps_fn_def stable_def ScanAll_def sql_def Let_def)

lemma stable_ScanOne [frame_intros]: "keeps_fn stable (ScanOne f)"
  unfolding ScanOne_def by (intro frame_intros) (auto intro!: frame_intros split: list.split)

lemma stable_not_found_as [frame_intros]: "keeps_fn stable m \<Longrightarrow> keeps_fn stable (not_found_as e m)"
  unfolding not_found_as_def by (intro frame_intros)

lemma stable_process_start [frame_intros]: "keeps_fn stable get_process_start"
  by (simp add: keeps_fn_def get_process_start_def)

lemma stable_look_ups [frame_intros]:
  "keeps_fn stable (Participant_FindByUserID u)"
  "keeps_fn stable (Member_FindByRoomAndParticipant r p)"
  "keeps_fn stable (Room_FindByID r)"
  "keeps_fn stable (Room_FindDirectByParticipants p q)"
  "keeps_fn stable (Friendship_FindBetweenUsers u v)"
  "keeps_fn stable (Invitation_FindByRoomAndInvitee r p)"
  unfolding room_repo_defs by (intro frame_intros)+

lemma stable_run:
  "keeps_fn stable m \<Longrightarrow> m w = (y, w') \<Longrightarrow> tables w' = tables w \<and> seq w' = seq w \<and> clock w' = clock w"
  by (drule keeps_fnD [of stable m w]) (simp add: stable_def)

lemma tx_run: "keeps_fn tx_snapshot m \<Longrightarrow> m w = (y, w') \<Longrightarrow> tx_snapshot w' = tx_snapshot w"
  by (drule keeps_fnD [of tx_snapshot m w]) simp

lemma find_optional_stable:
  assumes "find_optional m nf b w = (y, w')" and "keeps_fn stable m"
  shows "tables w' = tables w \<and> seq w' = seq w \<and> clock w' = clock w"
  using stable_run [of "find_optional m nf b", OF _ assms(1)] assms(2) by (simp add: keeps_tx_find_optional)

text \<open>The invitations written after a room is created only extend the table.\<close>

definition extends_invitations :: "world \<Rightarrow> world \<Rightarrow> bool" where
  "extends_invitations w w' \<longleftrightarrow> tables w' = (tables w)\<lparr>chat_invitations := chat_invitations (tables w')\<rparr> \<and>
     (\<exists>vs. chat_invitations (tables w') = chat_invitations (tables w) @ vs)"

lemma extends_refl: "tables w' = tables w \<Longrightarrow> extends_invitations w w'"
  by (simp add: extends_invitations_def)

lemma extends_trans:
  assumes "extends_invitations w w1" and "extends_invitations w1 w2"
  shows "extends_invitations w w2"
proof -
  from assms obtain vs us where "tables w1 = (tables w)\<lparr>chat_invitations := chat_invitations (tables w) @ vs\<rparr>"
    "tables w2 = (tables w1)\<lparr>chat_invitations := chat_invitations (tables w1) @ us\<rparr>"
    unfolding extends_invitations_def by metis
  then show ?thesis by (simp add: extends_invitations_def)
qed

lemma extends_create: "Invitation_Create v w = (Inr x, w') \<Longrightarrow> extends_invitations w w'"
  by (drule Invitation_Create_succ) (simp add: extends_invitations_def)

lemma invite_all_extends: "invite_all r p ids w = (Inr u, w') \<Longrightarrow> extends_invitations w w'"
proof (induction ids arbitrary: w)
  case Nil
  then show ?case by (simp add: invite_all_def extends_refl)
next
  case (Cons i ids)
  from Cons.prems obtain q w1 x w2 where q: "Participant_FindByUserID i w = (Inr q, w1)"
    and c: "Invitation_Create (fresh_invitation r p (pa_id q) Invitation) w1 = (Inr x, w2)"
    and rest: "invite_all r p ids w2 = (Inr u, w')"
    by (auto simp: invite_all_def succ)
  have "extends_invitations w w1" using find_user_succ [OF q] by (intro extends_refl) simp
  then show ?case using extends_create [OF c] Cons.IH [OF rest] extends_trans by blast
qed

lemma extends_membership: "extends_invitations w w' \<Longrightarrow> membership (tables w') = membership (tables w)"
  unfolding extends_invitations_def by (metis set_invitation_membership)

text \<open>The room and its owner, then the invitations, as both branches of the creation run them.\<close>

lemma owner_succ:
  assumes c: "Room_Create room w = (Inr x, w1)" and a: "Member_Add (fresh_member (cr_id x) p Owner) w1 = (Inr m, w2)"
    and e: "extends_invitations w2 w3"
  shows "\<exists>r. chat_rooms (tables w3) = chat_rooms (tables w) @ [r] \<and> rr_id r = seq w T_rooms + 1 \<and>
    (\<exists>vs. chat_invitations (tables w3) = chat_invitations (tables w) @ vs) \<and>
    (\<exists>role. membership (tables w3) = (membership (tables w))((seq w T_rooms + 1, p) \<mapsto> role))"
proof -
  note c' = Room_Create_succ [OF c] and a' = Member_Add_succ [OF a]
  then obtain r where r: "tables w1 = (tables w)\<lparr>chat_rooms := chat_rooms (tables w) @ [r]\<rparr>" "rr_id r = cr_id x" by blast
  have m1: "membership (tables w1) = membership (tables w)" using r by (intro membership_cong) simp
  from a' obtain ms where t2: "tables w2 = (tables w1)\<lparr>chat_members := ms\<rparr>" by blast
  from e obtain us where t3: "tables w3 = (tables w2)\<lparr>chat_invitations := us\<rparr>"
    unfolding extends_invitations_def by blast
  from t2 t3 have "chat_rooms (tables w2) = chat_rooms (tables w1)"
    "chat_invitations (tables w2) = chat_invitations (tables w1)" "chat_rooms (tables w3) = chat_rooms (tables w2)"
    by simp_all
  moreover obtain vs where "chat_invitations (tables w3) = chat_invitations (tables w2) @ vs"
    using e unfolding extends_invitations_def by blast
  moreover have "membership (tables w3) = (membership (tables w))((seq w T_rooms + 1, p) \<mapsto>
      upsert_role (tables w1) (fresh_member (cr_id x) p Owner))"
    using extends_membership [OF e] a' m1 c' by (simp add: fresh_member_def)
  ultimately show ?thesis using r c' by (intro exI [of _ r]) auto
qed

lemma create_succ:
  assumes "create_chat_room u i w = (Inr out, w')"
  shows "tables w' = tables w \<or>
    (\<exists>p r. user_participant (tables w) u p \<and>
      chat_rooms (tables w') = chat_rooms (tables w) @ [r] \<and> rr_id r = seq w T_rooms + 1 \<and>
      (\<exists>vs. chat_invitations (tables w') = chat_invitations (tables w) @ vs) \<and>
      (\<exists>role. membership (tables w') = (membership (tables w))((seq w T_rooms + 1, p) \<mapsto> role)))"
proof -
  from assms obtain p w0 w1 where fq: "Participant_FindByUserID u (in_tx w) = (Inr p, w0)"
    and b: "(if EqualFold (in_type i) ''direct'' \<and> length (in_member_ids i) = 1
      then create_direct_invited i u p (hd (in_member_ids i)) else create_with_members i p) w0 = (Inr out, w1)"
    and w': "w' = rollback_tx w1"
    unfolding create_chat_room_def with_tx_succ attempt_as_succ by blast
  have p: "user_participant (tables w) u (pa_id p)" and w0: "w0 = queried (in_tx w)"
    using find_user_succ [OF fq] by auto
  show ?thesis
  proof (cases "EqualFold (in_type i) ''direct'' \<and> length (in_member_ids i) = 1")
    case True
    with b have "create_direct_invited i u p (hd (in_member_ids i)) w0 = (Inr out, w1)" by simp
    then obtain q w2 fs w3 existing w4 where
      q: "Participant_FindByUserID (hd (in_member_ids i)) w0 = (Inr q, w2)"
      and f: "find_optional (Friendship_FindBetweenUsers u (hd (in_member_ids i))) (Fr ErrFriendshipNotFound)
             ErrChatRoomCreate w2 = (Inr fs, w3)"
      and e: "find_optional (Room_FindDirectByParticipants (pa_id p) (pa_id q)) (NotFound ChatRoomNotFound)
             ErrChatRoomCreate w3 = (Inr existing, w4)"
      and rest: "(case existing of Some r \<Rightarrow> ret (room_output True r)
       | None \<Rightarrow>
         attempt_or (Room_Create (new_room i)) ErrChatRoomCreate (\<lambda>room.
         attempt_or (Member_Add (fresh_member (cr_id room) (pa_id p) Owner)) ErrChatRoomCreate (\<lambda>_.
         attempt_or (Invitation_Create (fresh_invitation (cr_id room) (pa_id p) (pa_id q) Invitation))
           ErrInvitationCreate (\<lambda>_.
         attempt commit_tx (\<lambda>_. fail (Chat ErrChatRoomCreate)) (\<lambda>_. ret (room_output False room)))))) w4 = (Inr out, w1)"
      unfolding create_direct_invited_def attempt_as_succ bind_succ guard_succ by blast
    have w4: "tables w4 = tables w \<and> seq w4 = seq w"
      using find_optional_stable [OF f] find_optional_stable [OF e] find_user_succ [OF q] w0
      by (simp add: stable_look_ups)
    have s4: "tx_snapshot w4 = Some (tables w)"
      using tx_run [where w = w0, OF keeps_tx_rooms(1) q] tx_run [where w = w2, OF keeps_tx_find_optional [OF keeps_tx_rooms(14)] f]
        tx_run [where w = w3, OF keeps_tx_find_optional [OF keeps_tx_rooms(5)] e]
        tx_run [where w = "in_tx w", OF keeps_tx_rooms(1) fq]
      by simp
    show ?thesis
    proof (cases existing)
      case (Some r)
      with rest have "w1 = w4" by simp
      with w' s4 show ?thesis by (simp add: rollback_snapshot)
    next
      case None
      with rest obtain x w5 m w6 iv w7 where c: "Room_Create (new_room i) w4 = (Inr x, w5)"
        and a: "Member_Add (fresh_member (cr_id x) (pa_id p) Owner) w5 = (Inr m, w6)"
        and v: "Invitation_Create (fresh_invitation (cr_id x) (pa_id p) (pa_id q) Invitation) w6 = (Inr iv, w7)"
        and w1: "w1 = (pop_fault w7)\<lparr>tx := None\<rparr>"
        by (auto simp: attempt_or_succ attempt_succ commit_succ)
      from owner_succ [OF c a extends_create [OF v]] w' w1 w4 p show ?thesis by simp blast
    qed
  next
    case False
    from b have "create_with_members i p w0 = (Inr out, w1)" unfolding if_not_P [OF False] .
    then obtain x w5 m w6 w7 where c: "Room_Create (new_room i) w0 = (Inr x, w5)"
      and a: "Member_Add (fresh_member (cr_id x) (pa_id p) Owner) w5 = (Inr m, w6)"
      and v: "invite_all (cr_id x) (pa_id p) (in_member_ids i) w6 = (Inr (), w7)"
      and w1: "w1 = (pop_fault w7)\<lparr>tx := None\<rparr>"
      by (auto simp: create_with_members_def attempt_or_succ attempt_succ bind_succ commit_succ)
    from owner_succ [OF c a invite_all_extends [OF v]] w' w1 w0 p show ?thesis by simp blast
  qed
qed

lemma join_succ:
  assumes "join_chat_room u r w = (Inr out, w')"
  shows "\<exists>p. user_participant (tables w) u p \<and> membership (tables w) (r, p) = None \<and>
    (\<exists>vs. chat_invitations (tables w') = chat_invitations (tables w) @ vs) \<and>
    (membership (tables w') = membership (tables w) \<or>
     (\<exists>x \<in> set (participants (tables w)). pr_id x = p \<and> pr_type x \<noteq> UserType) \<and>
     (\<exists>role. membership (tables w') = (membership (tables w))((r, p) \<mapsto> role)))"
proof -
  from assms obtain room w0 p w1 ex w2 w3 where
    rf: "Room_FindByID r (in_tx w) = (Inr room, w0)" and fq: "Participant_FindByUserID u w0 = (Inr p, w1)"
    and e: "find_optional (Member_FindByRoomAndParticipant r (pa_id p)) (NotFound ChatMemberNotFound)
              ErrChatRoomCreate w1 = (Inr ex, w2)"
    and na: "\<not> is_active ex" and w': "w' = rollback_tx w3"
    and rest: "(if pa_type p = AgentType \<or> pa_type p = SystemType then
        attempt_or (Member_Add (fresh_member r (pa_id p) Member)) ErrChatRoomCreate (\<lambda>member.
        attempt_or commit_tx ErrChatRoomCreate (\<lambda>_.
        ret \<lparr>jo_member_id = Some (cm_id member), jo_role = Some (cm_role member),
             jo_joined_at = Some (cm_joined_at member), jo_invitation_id = None, jo_status = None\<rparr>))
      else
        attempt (Invitation_FindByRoomAndInvitee r (pa_id p))
          (\<lambda>e. guard (e = NotFound ChatInvitationNotFound) (Chat ErrInvitationCreate) (
             attempt_or (Invitation_Create (fresh_invitation r (pa_id p) (pa_id p) JoinRequest))
               ErrInvitationCreate (\<lambda>iv.
             attempt_or commit_tx ErrInvitationCreate (\<lambda>_.
             ret \<lparr>jo_member_id = None, jo_role = None, jo_joined_at = None,
                  jo_invitation_id = Some (ci_id iv), jo_status = Some (ci_status iv)\<rparr>))))
          (\<lambda>_. fail (Chat ErrInvitationAlreadyExists))) w2 = (Inr out, w3)"
    unfolding join_chat_room_def with_tx_succ attempt_as_succ bind_succ guard_succ by blast
  have p: "user_participant (tables w) u (pa_id p)"
      "\<exists>x \<in> set (participants (tables w)). pr_id x = pa_id p \<and> pr_type x = pa_type p"
    and w1: "tables w1 = tables w" "tx w1 \<noteq> None"
    using find_room_succ [OF rf] find_user_succ [OF fq] by auto
  have w2: "tables w2 = tables w" using find_optional_stable [OF e] w1 by (simp add: stable_look_ups)
  have row: "\<not> tx_aborted w2 \<Longrightarrow> ex = member_row (tables w) r (pa_id p)"
    using e find_member_succ [of r "pa_id p" w1 _ w2] find_member_fails [OF _ w1(2), of r "pa_id p" _ w2] w1(1)
    by (auto simp: find_optional_def attempt_succ succ)
  show ?thesis
  proof (cases "pa_type p = AgentType \<or> pa_type p = SystemType")
    case True
    with rest obtain m w4 where a: "Member_Add (fresh_member r (pa_id p) Member) w2 = (Inr m, w4)"
      and w3: "w3 = (pop_fault w4)\<lparr>tx := None\<rparr>"
      by (auto simp: attempt_or_succ commit_succ)
    note a' = Member_Add_succ [OF a]
    then obtain ms where t4: "tables w4 = (tables w2)\<lparr>chat_members := ms\<rparr>" by blast
    have "membership (tables w) (r, pa_id p) = None"
      using na row a' by (auto simp: membership_def is_active_def split: option.splits)
    moreover from True p(2) have "\<exists>x \<in> set (participants (tables w)). pr_id x = pa_id p \<and> pr_type x \<noteq> UserType"
      by auto
    ultimately show ?thesis
      using p a' t4 w2 w3 w' by (intro exI [of _ "pa_id p"]) (auto simp: fresh_member_def)
  next
    case False
    with rest obtain er w4 v w5 where fi: "Invitation_FindByRoomAndInvitee r (pa_id p) w2 = (Inl er, w4)"
      and c: "Invitation_Create (fresh_invitation r (pa_id p) (pa_id p) JoinRequest) w4 = (Inr v, w5)"
      and w3: "w3 = (pop_fault w5)\<lparr>tx := None\<rparr>"
      by (auto simp: attempt_succ attempt_or_succ guard_succ commit_succ)
    note c' = Invitation_Create_succ [OF c]
    have w4: "tables w4 = tables w2" using stable_run [where w = w2, OF stable_look_ups(6) fi] by simp
    have "\<not> tx_aborted w2"
    proof
      assume "tx_aborted w2"
      then have "w4 = w2" using fi
        by (auto simp: Invitation_FindByRoomAndInvitee_def get_process_start_def bind_def attempt_def
            not_found_as_def ScanOne_def ScanAll_def sql_def split: if_splits)
      with c' \<open>tx_aborted w2\<close> show False by simp
    qed
    then have "membership (tables w) (r, pa_id p) = None"
      using na row by (auto simp: membership_def is_active_def split: option.splits)
    then show ?thesis
      using p c' w2 w3 w4 w' by (intro exI [of _ "pa_id p"]) (simp add: set_invitation_membership)
  qed
qed

section \<open>Reading marks\<close>

lemma attempt_cases:
  "attempt m h k w = (y, w') \<Longrightarrow>
     (\<exists>x w1. m w = (Inr x, w1) \<and> k x w1 = (y, w')) \<or> (\<exists>e w1. m w = (Inl e, w1) \<and> h e w1 = (y, w'))"
  by (auto simp: attempt_def split: prod.splits sum.splits)

lemma Member_Update_membership:
  assumes "membership_inv s (tables w)" and "member_row (tables w) r p = Some m"
    and "Member_Update (m\<lparr>cm_last_read_at := t\<rparr>) w = (y, w')"
  shows "membership (tables w') = membership (tables w) \<and>
    chat_invitations (tables w') = chat_invitations (tables w)"
proof -
  let ?f = "\<lambda>now x. if cm_id x = cm_id m then x\<lparr>cm_role := cm_role m, cm_is_muted := cm_is_muted m,
     cm_last_read_at := t, cm_updated_at := now\<rparr> else x"
  have m: "m \<in> set (chat_members (tables w))" using member_row_Some [OF assms(2)] by blast
  have eq: "x = m" if "x \<in> set (chat_members (tables w))" "cm_id x = cm_id m" for x
    using membership_invD(3) [OF assms(1)] that m by (simp add: distinct_map inj_on_def)
  have "membership (d\<lparr>chat_members := map (?f now) (chat_members d)\<rparr>) = membership d" if d: "d = tables w" for d now
  proof (rule ext, clarify)
    fix a b
    have "member_row (d\<lparr>chat_members := map (?f now) (chat_members d)\<rparr>) a b = map_option (?f now) (member_row d a b)"
      unfolding member_row_def by (simp add: find_map_keep)
    then show "membership (d\<lparr>chat_members := map (?f now) (chat_members d)\<rparr>) (a, b) = membership d (a, b)"
      using eq member_row_Some [of d a b] d by (auto simp: membership_def split: option.splits)
  qed
  moreover have "Member_Update (m\<lparr>cm_last_read_at := t\<rparr>) =
      Exec (\<lambda>now d. Inr (d\<lparr>chat_members := map (?f now) (chat_members d)\<rparr>))"
    by (simp add: Member_Update_def cong: if_cong)
  ultimately show ?thesis using assms(3)
    by (auto simp: Exec_def sql_def Let_def split: if_splits)
qed

lemma read_mark_membership:
  assumes "update_member_status u r w = (y, w')" and I: "membership_inv (seq w) (tables w)"
  shows "membership (tables w') = membership (tables w) \<and> chat_invitations (tables w') = chat_invitations (tables w)"
proof -
  let ?ok = "\<lambda>w'. membership (tables w') = membership (tables w) \<and> chat_invitations (tables w') = chat_invitations (tables w)"
  from attempt_cases [OF assms(1) [unfolded update_member_status_def]]
  consider (a) e w1 where "Participant_FindByUserID u w = (Inl e, w1)" "w1 = w'"
    | (b) p w1 where "Participant_FindByUserID u w = (Inr p, w1)"
        "attempt (Member_FindByRoomAndParticipant r (pa_id p)) (\<lambda>_. fail (Chat ErrNotRoomMember)) (\<lambda>callerMember.
     guard (\<not> cm_is_deleted callerMember) (Chat ErrNotRoomMember) (
     bind get_clock (\<lambda>now.
     bind (Member_Update (callerMember\<lparr>cm_last_read_at := Some now\<rparr>)) (\<lambda>_.
     bind (Member_FindByRoom r) (\<lambda>all_members.
     ret (map (\<lambda>m. \<lparr>mt_member_id = cm_id m, mt_last_read_at = cm_last_read_at m\<rparr>)
            (filter (\<lambda>m. \<not> cm_is_deleted m) all_members))))))) w1 = (y, w')"
    by auto
  then show ?thesis
  proof cases
    case a
    then show ?thesis using stable_run [where w = w, OF stable_look_ups(1)] by fastforce
  next
    case b
    have w1: "tables w1 = tables w" using stable_run [where w = w, OF stable_look_ups(1) b(1)] by simp
    from attempt_cases [OF b(2)] consider
      (c) e where "Member_FindByRoomAndParticipant r (pa_id p) w1 = (Inl e, w')"
      | (d) m w2 where "Member_FindByRoomAndParticipant r (pa_id p) w1 = (Inr m, w2)"
        "guard (\<not> cm_is_deleted m) (Chat ErrNotRoomMember) (
     bind get_clock (\<lambda>now.
     bind (Member_Update (m\<lparr>cm_last_read_at := Some now\<rparr>)) (\<lambda>_.
     bind (Member_FindByRoom r) (\<lambda>all_members.
     ret (map (\<lambda>m. \<lparr>mt_member_id = cm_id m, mt_last_read_at = cm_last_read_at m\<rparr>)
            (filter (\<lambda>m. \<not> cm_is_deleted m) all_members)))))) w2 = (y, w')"
      by auto
    then show ?thesis
    proof cases
      case c
      with w1 show ?thesis using stable_run [where w = w1, OF stable_look_ups(2)] by fastforce
    next
      case d
      note row = find_member_succ [OF d(1)]
      obtain z w3 where upd: "Member_Update (m\<lparr>cm_last_read_at := Some (clock w2)\<rparr>) w2 = (z, w3)" by fastforce
      have w3: "?ok w3" using Member_Update_membership [OF _ _ upd, of "seq w" r "pa_id p"] row w1 I by simp
      have "w' = w2 \<or> tables w' = tables w3"
        using d(2) upd keeps_fnD [of tables "Member_FindByRoom r" w3]
        by (cases z; cases "cm_is_deleted m"; cases "Member_FindByRoom r w3")
          (auto simp: guard_def bind_def attempt_def get_clock_def Member_FindByRoom_def frame_intros split: sum.splits)
      then show ?thesis using w3 row w1 by auto
    qed
  qed
qed

section \<open>Every call\<close>

lemma run_call_cases:
  assumes "run_room_call c w = (y, w')" and "tx w = None" and "membership_inv (seq w) (tables w)"
  obtains (failed) "tables w' = tables w"
  | (marked) u r where "c = ReadMark u r" "membership (tables w') = membership (tables w)"
      "chat_invitations (tables w') = chat_invitations (tables w)"
  | (created) u i out where "c = CreateRoom u i" "create_chat_room u i w = (Inr out, w')"
  | (joined) u r out where "c = JoinRoom u r" "join_chat_room u r w = (Inr out, w')"
  | (approved) u i ok out where "c = Approve u i ok" "approve_join_request u i ok w = (Inr out, w')"
  | (responded) u i a out where "c = Respond u i a" "respond_to_invitation u i a w = (Inr out, w')"
proof (cases "\<exists>u r. c = ReadMark u r")
  case True
  then obtain u r where c: "c = ReadMark u r" by blast
  obtain z where "update_member_status u r w = (z, w')"
    using assms(1) c by (auto simp: run_room_call_def void_def bind_def attempt_def split: prod.splits sum.splits)
  with marked [OF c] read_mark_membership [OF _ assms(3)] show ?thesis by blast
next
  case False
  show ?thesis
  proof (cases y)
    case (Inl e)
    with assms(1) room_call_atomic [OF _ assms(2)] False failed show ?thesis by blast
  next
    case (Inr x)
    with assms(1) False show ?thesis
      by (cases c) (auto simp: run_room_call_def void_succ intro: created joined approved responded)
  qed
qed

lemma room_call_admits:
  assumes "run_room_call c w = (y, w')" and "tx w = None" and I: "membership_inv (seq w) (tables w)"
  shows "admits c (tables w) (tables w')"
  using assms
proof (cases rule: run_call_cases)
  case failed
  then show ?thesis by (simp add: admits_same)
next
  case (marked u r)
  then show ?thesis by (simp add: admits_same)
next
  case (created u i out)
  from create_succ [OF created(2)] show ?thesis
  proof (elim disjE exE conjE)
    fix p r role assume "user_participant (tables w) u p"
      and "membership (tables w') = (membership (tables w))((seq w T_rooms + 1, p) \<mapsto> role)"
    then show ?thesis using created(1) I
      by (intro admits_one [of _ _ "seq w T_rooms + 1" p])
        (auto simp: authorized_def fresh_room_id intro: fresh_room_empty)
  qed (simp add: admits_same)
next
  case (joined u r out)
  from join_succ [OF joined(2)] obtain p where p: "user_participant (tables w) u p" "membership (tables w) (r, p) = None"
    and e: "membership (tables w') = membership (tables w) \<or>
     (\<exists>x \<in> set (participants (tables w)). pr_id x = p \<and> pr_type x \<noteq> UserType) \<and>
     (\<exists>role. membership (tables w') = (membership (tables w))((r, p) \<mapsto> role))" by blast
  from e show ?thesis
  proof (elim disjE conjE exE)
    fix role assume "\<exists>x \<in> set (participants (tables w)). pr_id x = p \<and> pr_type x \<noteq> UserType"
      and "membership (tables w') = (membership (tables w))((r, p) \<mapsto> role)"
    with p joined(1) show ?thesis by (intro admits_one [of _ _ r p]) (simp_all add: authorized_def)
  qed (simp add: admits_same)
next
  case (approved u i ok out)
  from approve_succ [OF approved(2)] obtain v q m where v:
    "v \<in> set (chat_invitations (tables w))" "ci_id v = i" "ci_status v = Pending" "ci_type v = JoinRequest"
    "user_participant (tables w) u q" "member_row (tables w) (ci_room_id v) q = Some m" "cm_role m \<in> {Owner, Admin}"
    and e: "if ok then ro_status out = Accepted \<and> membership (tables w) (ci_room_id v, ci_invitee_id v) = None \<and>
       membership (tables w') = (membership (tables w))((ci_room_id v, ci_invitee_id v) \<mapsto>
         upsert_role (tables w) (fresh_member (ci_room_id v) (ci_invitee_id v) Member))
     else ro_status out = Rejected \<and> membership (tables w') = membership (tables w)" by blast
  show ?thesis
  proof (cases ok)
    case True
    have "invited (tables w) i JoinRequest (ci_room_id v) (ci_invitee_id v)" using v by (auto simp: invited_def)
    with True v approved(1) have "authorized c (tables w) (ci_room_id v) (ci_invitee_id v)"
      by (simp add: authorized_def) blast
    with e True show ?thesis by (auto intro: admits_one)
  qed (use e in \<open>simp add: admits_same\<close>)
next
  case (responded u i a out)
  from respond_succ [OF responded(2)] obtain v where v:
    "v \<in> set (chat_invitations (tables w))" "ci_id v = i" "ci_status v = Pending" "ci_type v = Invitation"
    "user_participant (tables w) u (ci_invitee_id v)"
    and e: "if a = ''accept'' then ro_status out = Accepted \<and> membership (tables w) (ci_room_id v, ci_invitee_id v) = None \<and>
       membership (tables w') = (membership (tables w))((ci_room_id v, ci_invitee_id v) \<mapsto>
         upsert_role (tables w) (fresh_member (ci_room_id v) (ci_invitee_id v) Member))
     else ro_status out = (if a = ''block'' then Blocked else Rejected) \<and>
       a \<in> {''block'', ''reject''} \<and> membership (tables w') = membership (tables w)" by blast
  show ?thesis
  proof (cases "a = ''accept''")
    case True
    have "invited (tables w) i Invitation (ci_room_id v) (ci_invitee_id v)" using v by (auto simp: invited_def)
    with True v responded(1) have "authorized c (tables w) (ci_room_id v) (ci_invitee_id v)"
      by (simp add: authorized_def)
    with e True show ?thesis by (auto intro: admits_one)
  qed (use e in \<open>simp add: admits_same\<close>)
qed

text \<open>An invitation that is not pending any more is never touched again.\<close>

lemma room_call_resolved:
  assumes "run_room_call c w = (y, w')" and "tx w = None" and "membership_inv (seq w) (tables w)"
    and ids: "ids_ok chat_invitations ci_id T_invitations (seq w) (tables w)"
    and v: "v \<in> set (chat_invitations (tables w))" "ci_status v \<noteq> Pending"
  shows "v \<in> set (chat_invitations (tables w'))"
proof -
  have keep: "v \<in> set (map (set_invitation i st now) (chat_invitations (tables w)))"
    if "x \<in> set (chat_invitations (tables w))" "ci_id x = i" "ci_status x = Pending" for i st now x
  proof -
    have "ci_id v \<noteq> i" using invitation_ids.ids_unique [OF ids v(1) that(1)] that v(2) by auto
    then have "set_invitation i st now v = v" by (simp add: set_invitation_def)
    with v(1) show ?thesis by (auto simp: image_iff intro!: bexI [of _ v])
  qed
  from assms(1-3) show ?thesis
  proof (cases rule: run_call_cases)
    case (created u i out)
    from create_succ [OF created(2)] v show ?thesis by auto
  next
    case (joined u r out)
    from join_succ [OF joined(2)] v show ?thesis by auto
  next
    case (approved u i ok out)
    from approve_succ [OF approved(2)] keep show ?thesis by metis
  next
    case (responded u i a out)
    from respond_succ [OF responded(2)] keep show ?thesis by metis
  qed (use v in simp_all)
qed

end
