(* ===== verification/Membership_Props.thy ===== *)
theory Membership_Props
  imports Membership_Safety
begin

text \<open>
  The properties of room membership, each with its witness on a small world: three users and their
  participants, a room owned by the first, an invitation for the second, a join request of the third.
\<close>

definition demo_member :: "member_id \<Rightarrow> room_id \<Rightarrow> participant_id \<Rightarrow> member_role \<Rightarrow> bool \<Rightarrow> chat_member" where
  "demo_member i r p role deleted = \<lparr>cm_id = i, cm_room_id = r, cm_participant_id = p, cm_role = role,
     cm_is_muted = False, cm_is_deleted = deleted, cm_last_read_at = None, cm_joined_at = 0,
     cm_updated_at = 0, cm_deleted_at = None\<rparr>"

definition demo_invitation :: "invitation_id \<Rightarrow> participant_id \<Rightarrow> participant_id \<Rightarrow> invitation_type \<Rightarrow>
    instant option \<Rightarrow> chat_invitation" where
  "demo_invitation i inviter invitee ty expires = \<lparr>ci_id = i, ci_room_id = 5, ci_inviter_id = inviter,
     ci_invitee_id = invitee, ci_status = Pending, ci_type = ty, ci_expires_at = expires,
     ci_created_at = 0, ci_updated_at = 0\<rparr>"

definition rooms_db :: db where
  "rooms_db = empty_db\<lparr>
     users := map (\<lambda>i. \<lparr>us_id = i, us_account_id = i, us_name = ''u'', us_avatar = None,
                       us_created_at = 0, us_updated_at = 0\<rparr>) [1, 2, 3],
     participants := map (\<lambda>i. \<lparr>pr_id = i, pr_type = UserType, pr_created_at = 0\<rparr>) [11, 12, 13],
     participant_users := [(11, 1), (12, 2), (13, 3)],
     chat_rooms := [\<lparr>rr_id = 5, rr_name = None, rr_description = None, rr_avatar_name = None,
       rr_type = Group, rr_max_members = 2, rr_allow_agent = False, rr_is_deleted = False,
       rr_created_at = 0, rr_updated_at = 0\<rparr>],
     chat_members := [demo_member 1 5 11 Owner False],
     chat_invitations := [demo_invitation 7 11 12 Invitation None, demo_invitation 8 13 13 JoinRequest None]\<rparr>"

definition rooms_world :: world where
  "rooms_world = empty_world\<lparr>tables := rooms_db, seq := (\<lambda>_. 20), clock := 5\<rparr>"

lemma rooms_world_tx: "tx rooms_world = None"
  by (simp add: rooms_world_def empty_world_def)

lemmas rooms_world_defs = rooms_world_def rooms_db_def empty_world_def empty_db_def demo_member_def
  demo_invitation_def

lemma rooms_world_inv: "membership_inv (seq rooms_world) (tables rooms_world)"
  by (simp add: membership_inv_def ids_ok_def rooms_world_defs member_key_def within_limit_def
      active_count_def counted_def)

lemma rooms_world_invitations:
  "ids_ok chat_invitations ci_id T_invitations (seq rooms_world) (tables rooms_world)"
  by (simp add: ids_ok_def rooms_world_defs)



text \<open>C6: creating a room, joining, approving and responding are atomic under every schedule of failures:
  a call that returns an error leaves every table as it was, with no transaction open.\<close>
theorem room_calls_are_atomic:
  assumes "tx w = None" and "run_room_call c w = (Inl e, w')" and "\<And>u r. c \<noteq> ReadMark u r"
  shows "tables w' = tables w \<and> tx w' = None"
  using assms(2,1,3) by (rule room_call_atomic)

theorem room_calls_are_atomic_witness:
  "tables (snd (run_room_call (Approve 1 8 True) (rooms_world\<lparr>faults := replicate 6 False @ [True]\<rparr>))) =
   tables rooms_world"
proof -
  let ?w = "rooms_world\<lparr>faults := replicate 6 False @ [True]\<rparr>" and ?c = "Approve 1 8 True"
  have "fst (run_room_call ?c ?w) = Inl (Chat ErrInvitationCreate)" by code_simp
  then obtain w' where r: "run_room_call ?c ?w = (Inl (Chat ErrInvitationCreate), w')"
    by (cases "run_room_call ?c ?w") auto
  have "tx ?w = None" by (simp add: rooms_world_tx)
  from room_calls_are_atomic [OF this r] r show ?thesis by simp
qed

text \<open>C25: an invitation that has been accepted, rejected or blocked is never changed again by any call,
  under any schedule of failures.\<close>
theorem resolved_invitations_are_final:
  assumes "tx w = None" and "membership_inv (seq w) (tables w)"
    and "ids_ok chat_invitations ci_id T_invitations (seq w) (tables w)"
    and "v \<in> set (chat_invitations (tables w))" and "ci_status v \<noteq> Pending"
  shows "v \<in> set (chat_invitations (tables (snd (run_room_call c w))))"
  using room_call_resolved [of c w "fst (run_room_call c w)" "snd (run_room_call c w)" v] assms by simp

theorem resolved_invitations_are_final_witness:
  "(demo_invitation 7 11 12 Invitation None)\<lparr>ci_status := Rejected\<rparr> \<in> set (chat_invitations (tables
     (snd (run_room_call (Respond 2 7 ''accept'') (rooms_world\<lparr>tables := rooms_db\<lparr>chat_invitations :=
        [(demo_invitation 7 11 12 Invitation None)\<lparr>ci_status := Rejected\<rparr>]\<rparr>\<rparr>)))))"
proof -
  let ?v = "(demo_invitation 7 11 12 Invitation None)\<lparr>ci_status := Rejected\<rparr>"
  let ?w = "rooms_world\<lparr>tables := rooms_db\<lparr>chat_invitations := [?v]\<rparr>\<rparr>"
  show ?thesis
  proof (rule resolved_invitations_are_final)
    show "tx ?w = None" by (simp add: rooms_world_tx)
    show "membership_inv (seq ?w) (tables ?w)"
      using membership_store.frame [OF rooms_world_inv, of "tables ?w"]
      by (simp add: membership_obs_def rooms_world_def)
    show "ids_ok chat_invitations ci_id T_invitations (seq ?w) (tables ?w)"
      by (simp add: ids_ok_def rooms_world_defs)
  qed simp_all
qed

text \<open>C26: accepting an invitation, when it succeeds, leaves the invitation accepted and the caller's
  participant an active member of the room, who was none before.\<close>
theorem accepted_invitee_is_member:
  assumes "respond_to_invitation u i ''accept'' w = (Inr out, w')"
  shows "\<exists>v. v \<in> set (chat_invitations (tables w)) \<and> ci_id v = i \<and> ci_status v = Pending \<and>
    ci_type v = Invitation \<and> user_participant (tables w) u (ci_invitee_id v) \<and>
    membership (tables w) (ci_room_id v, ci_invitee_id v) = None \<and>
    membership (tables w') (ci_room_id v, ci_invitee_id v) \<noteq> None \<and>
    v\<lparr>ci_status := Accepted, ci_updated_at := clock w\<rparr> \<in> set (chat_invitations (tables w'))"
proof -
  from respond_succ [OF assms] obtain v where v: "v \<in> set (chat_invitations (tables w))" "ci_id v = i"
    "ci_status v = Pending" "ci_type v = Invitation" "user_participant (tables w) u (ci_invitee_id v)"
    and m: "membership (tables w) (ci_room_id v, ci_invitee_id v) = None"
      "membership (tables w') (ci_room_id v, ci_invitee_id v) \<noteq> None"
    and c: "chat_invitations (tables w') = map (set_invitation i Accepted (clock w)) (chat_invitations (tables w))"
    by auto
  have "set_invitation i Accepted (clock w) v = v\<lparr>ci_status := Accepted, ci_updated_at := clock w\<rparr>"
    using v(2) by (simp add: set_invitation_def)
  with c v(1) have "v\<lparr>ci_status := Accepted, ci_updated_at := clock w\<rparr> \<in> set (chat_invitations (tables w'))"
    by (metis image_eqI list.set_map)
  with v m show ?thesis by blast
qed

theorem accepted_invitee_is_member_witness:
  "\<exists>(v :: chat_invitation) out w'. respond_to_invitation 2 7 ''accept'' rooms_world = (Inr out, w') \<and>
     ci_id v = 7 \<and> membership (tables w') (ci_room_id v, ci_invitee_id v) \<noteq> None"
proof -
  have "isl (fst (respond_to_invitation 2 7 ''accept'' rooms_world)) = False" by code_simp
  then obtain out w' where r: "respond_to_invitation 2 7 ''accept'' rooms_world = (Inr out, w')"
    by (cases "respond_to_invitation 2 7 ''accept'' rooms_world"; cases "fst (respond_to_invitation 2 7 ''accept'' rooms_world)") auto
  from accepted_invitee_is_member [OF r] obtain v :: chat_invitation where "ci_id v = 7"
    "membership (tables w') (ci_room_id v, ci_invitee_id v) \<noteq> None" by blast
  with r show ?thesis by blast
qed

text \<open>Adding a participant who already has a row in the room brings the row back with the role it
  had, whatever role was asked for, while the caller is told the requested role; a participant without
  a row gets the requested role.\<close>
lemma readmission_keeps_old_role:
  assumes "Member_Add m w = (Inr x, w')"
  shows "membership (tables w') (cm_room_id m, cm_participant_id m) =
    Some (case member_row (tables w) (cm_room_id m) (cm_participant_id m) of None \<Rightarrow> cm_role m | Some old \<Rightarrow> cm_role old)
    \<and> cm_role x = cm_role m"
  using Member_Add_succ [OF assms] by (simp add: upsert_role_def)

lemma readmission_keeps_old_role_witness:
  "\<exists>x w'. Member_Add (fresh_member 5 11 Member) (rooms_world\<lparr>tables := rooms_db\<lparr>chat_members :=
      [demo_member 1 5 11 Owner True]\<rparr>\<rparr>) = (Inr x, w') \<and>
     membership (tables w') (5, 11) = Some Owner \<and> cm_role x = Member"
proof -
  let ?w = "rooms_world\<lparr>tables := rooms_db\<lparr>chat_members := [demo_member 1 5 11 Owner True]\<rparr>\<rparr>"
  let ?m = "fresh_member 5 11 Member"
  have "isl (fst (Member_Add ?m ?w)) = False" by code_simp
  then obtain x w' where r: "Member_Add ?m ?w = (Inr x, w')"
    by (cases "Member_Add ?m ?w"; cases "fst (Member_Add ?m ?w)") auto
  have "member_row (tables ?w) 5 11 = Some (demo_member 1 5 11 Owner True)"
    by (simp add: member_row_def demo_member_def)
  with readmission_keeps_old_role [OF r] r show ?thesis by (simp add: fresh_member_def demo_member_def)
qed

text \<open>A former owner whose membership has been deleted can still approve join requests of the room:
  the check of the role does not look at the deletion mark.\<close>
lemma removed_owner_can_approve:
  "\<exists>w out w'. ready w \<and> membership_inv (seq w) (tables w) \<and> (\<forall>p. membership (tables w) (5, p) = None) \<and>
     user_participant (tables w) 1 11 \<and> approve_join_request 1 8 True w = (Inr out, w') \<and>
     membership (tables w') (5, 13) = Some Member"
proof -
  let ?d = "rooms_db\<lparr>chat_members := [demo_member 1 5 11 Owner True]\<rparr>"
  let ?w = "rooms_world\<lparr>tables := ?d\<rparr>"
  have "isl (fst (approve_join_request 1 8 True ?w)) = False"
    and m: "membership (tables (snd (approve_join_request 1 8 True ?w))) (5, 13) = Some Member" by code_simp+
  then obtain out w' where "approve_join_request 1 8 True ?w = (Inr out, w')"
    by (cases "approve_join_request 1 8 True ?w"; cases "fst (approve_join_request 1 8 True ?w)") auto
  moreover from this m have "membership (tables w') (5, 13) = Some Member" by simp
  moreover have "ready ?w" by (simp add: ready_def rooms_world_defs)
  moreover have "membership_inv (seq ?w) (tables ?w)"
    by (simp add: membership_inv_def ids_ok_def rooms_world_defs member_key_def within_limit_def
      active_count_def counted_def)
  moreover have "membership (tables ?w) (5, p) = None" for p
    by (simp add: membership_def member_row_def demo_member_def)
  moreover have "user_participant (tables ?w) 1 11" by (simp add: user_participant_def rooms_db_def empty_db_def)
  ultimately show ?thesis by blast
qed

end
