(* ===== verification/Messages.thy ===== *)
theory Messages
  imports Membership
begin

text \<open>
  Messages: the repository \<open>chat_message_repo.go\<close> and the use cases that write and read them,
  \<open>send_message.go\<close> with its fan-out goroutine, \<open>get_chat_room_messages.go\<close>,
  \<open>get_chat_room_detail.go\<close>, \<open>get_user_chat_rooms.go\<close> and \<open>upload_room_media.go\<close>.  Strings are
  sequences of bytes; texts are taken to be valid for the database.
\<close>

section \<open>Repository\<close>

definition parse_message_type :: "string \<Rightarrow> message_type option" where
  "parse_message_type s =
     (if s = ''text'' then Some Text else if s = ''image'' then Some Image
      else if s = ''file'' then Some File else if s = ''icon'' then Some Icon
      else if s = ''system'' then Some System else None)"

text \<open>\<open>ORDER BY k DESC\<close>; rows with equal keys stay in the order of the table, which is universally
  quantified.\<close>

definition order_desc :: "('r \<Rightarrow> int) \<Rightarrow> 'r list \<Rightarrow> 'r list" where
  "order_desc k rs = sort_key (\<lambda>r. - k r) rs"

definition Message_FindByID :: "message_id \<Rightarrow> chat_message io" where
  "Message_FindByID i = not_found_as (NotFound ChatMessageNotFound)
     (ScanOne (\<lambda>d. filter (\<lambda>m. ms_id m = i) (chat_records d)))"

definition Message_FindByRoom :: "room_id \<Rightarrow> 64 word \<Rightarrow> 64 word \<Rightarrow> chat_message list io" where
  "Message_FindByRoom r lim off = ScanAll (\<lambda>d. take (unat lim) (drop (unat off)
     (order_desc ms_created_at (filter (\<lambda>m. ms_room_id m = r) (chat_records d)))))"

text \<open>The newest messages before an id, reversed to ascending order.\<close>

definition Message_FindByRoomBefore :: "room_id \<Rightarrow> message_id \<Rightarrow> 64 word \<Rightarrow> chat_message list io" where
  "Message_FindByRoomBefore r before lim = bind (ScanAll (\<lambda>d. take (unat lim)
     (order_desc ms_id (filter (\<lambda>m. ms_room_id m = r \<and> \<not> ms_is_deleted m \<and> ms_id m < before)
        (chat_records d))))) (\<lambda>rs. ret (rev rs))"

definition Message_FindLatestByRoom :: "room_id \<Rightarrow> chat_message io" where
  "Message_FindLatestByRoom r = not_found_as (NotFound ChatMessageNotFound)
     (ScanOne (\<lambda>d. order_desc ms_id
        (filter (\<lambda>m. ms_room_id m = r \<and> \<not> ms_is_deleted m) (chat_records d))))"

definition Message_CountByRoomAfter :: "room_id \<Rightarrow> instant \<Rightarrow> int io" where
  "Message_CountByRoomAfter r since = bind (ScanAll (\<lambda>d.
     filter (\<lambda>m. ms_room_id m = r \<and> \<not> ms_is_deleted m \<and> since < ms_created_at m) (chat_records d)))
     (\<lambda>rs. ret (int (length rs)))"

definition Message_FindBySender :: "member_id \<Rightarrow> chat_message list io" where
  "Message_FindBySender s =
     ScanAll (\<lambda>d. order_desc ms_created_at (filter (\<lambda>m. ms_sender_id m = s) (chat_records d)))"

text \<open>Foreign keys: the room, the sending member and the message replied to.\<close>

definition Message_Create :: "chat_message \<Rightarrow> chat_message io" where
  "Message_Create m = sql T_records 1 (\<lambda>i now d.
     if ms_room_id m \<notin> rr_id ` set (chat_rooms d) \<or> ms_sender_id m \<notin> cm_id ` set (chat_members d) \<or>
        (case ms_reply_to m of None \<Rightarrow> False | Some r \<Rightarrow> r \<noteq> i \<and> r \<notin> ms_id ` set (chat_records d))
     then Inl Pg_ForeignKey
     else Inr (m\<lparr>ms_id := i, ms_created_at := now\<rparr>, d\<lparr>chat_records := chat_records d @
       [m\<lparr>ms_id := i, ms_is_edited := False, ms_is_deleted := False, ms_created_at := now,
          ms_updated_at := now\<rparr>]\<rparr>))"

definition Message_Update :: "chat_message \<Rightarrow> unit io" where
  "Message_Update m = Exec (\<lambda>now d. Inr (d\<lparr>chat_records := map (\<lambda>x. if ms_id x = ms_id m then
     x\<lparr>ms_content := ms_content m, ms_is_edited := ms_is_edited m, ms_updated_at := now\<rparr> else x)
     (chat_records d)\<rparr>))"

definition Message_SoftDelete :: "message_id \<Rightarrow> unit io" where
  "Message_SoftDelete i = Exec (\<lambda>now d. Inr (d\<lparr>chat_records := map (\<lambda>x. if ms_id x = i then
     x\<lparr>ms_is_deleted := True, ms_updated_at := now\<rparr> else x) (chat_records d)\<rparr>))"

section \<open>The caller as an active member\<close>

text \<open>How every use case of this file starts: the caller's participant, and its membership in the room,
  which must not be deleted.\<close>

definition as_participant :: "user_id \<Rightarrow> (participant \<Rightarrow> 'a io) \<Rightarrow> 'a io" where
  "as_participant userID k = attempt (Participant_FindByUserID userID)
     (\<lambda>e. fail (if e = Part ErrPNotFound then Chat ErrParticipantNotFound else e)) k"

definition as_active_member :: "room_id \<Rightarrow> participant \<Rightarrow> (chat_member \<Rightarrow> 'a io) \<Rightarrow> 'a io" where
  "as_active_member roomID caller k =
     attempt (Member_FindByRoomAndParticipant roomID (pa_id caller)) (\<lambda>_. fail (Chat ErrNotRoomMember)) (\<lambda>m.
     guard (\<not> cm_is_deleted m) (Chat ErrNotRoomMember) (k m))"

section \<open>Sending\<close>

record send_message_input =
  si_room_id :: room_id
  si_content :: string
  si_type :: string
  si_reply_to :: "message_id option"

text \<open>The check of the content of a file or image message.\<close>

definition safe_path :: "string \<Rightarrow> bool" where
  "safe_path content = (case PathUnescape content of
     None \<Rightarrow> False
   | Some decoded \<Rightarrow>
       (let cleaned = path_Clean decoded in
        \<not> (Contains cleaned ''..'' \<or> HasPrefix cleaned ''/'' \<or> Contains cleaned [CHR 0x5C])))"

definition sendable_type :: "string \<Rightarrow> message_type option" where
  "sendable_type s = (case parse_message_type s of
     Some Text \<Rightarrow> Some Text | Some Image \<Rightarrow> Some Image | Some File \<Rightarrow> Some File | _ \<Rightarrow> None)"

definition message_output :: "chat_message \<Rightarrow> send_message_output" where
  "message_output m = \<lparr>so_message_id = ms_id m, so_room_id = ms_room_id m, so_sender_id = ms_sender_id m,
     so_content = ms_content m, so_type = ms_type m, so_reply_to = ms_reply_to m,
     so_created_at = ms_created_at m\<rparr>"

definition send_message :: "user_id \<Rightarrow> send_message_input \<Rightarrow> send_message_output io" where
  "send_message userID i =
     as_participant userID (\<lambda>caller.
     as_active_member (si_room_id i) caller (\<lambda>callerMember.
     guard (CanSendMessage (cm_role callerMember)) (Chat ErrNotAllowed) (
     case sendable_type (si_type i) of
       None \<Rightarrow> fail (Chat ErrInvalidMessageType)
     | Some ty \<Rightarrow>
         guard (ty = Image \<or> ty = File \<longrightarrow> safe_path (si_content i)) (Chat ErrInvalidMessageType) (
         attempt (Message_Create \<lparr>ms_id = 0, ms_room_id = si_room_id i, ms_sender_id = cm_id callerMember,
                    ms_content = si_content i, ms_type = ty, ms_reply_to = si_reply_to i,
                    ms_is_edited = False, ms_is_deleted = False, ms_created_at = 0, ms_updated_at = 0\<rparr>)
           (\<lambda>_. fail (Chat ErrSendMessage)) (\<lambda>msg.
         bind (spawn (FanOut (message_output msg))) (\<lambda>_.
         ret (message_output msg)))))))"

text \<open>The goroutine: one push to every active member that is a user, the sender included.\<close>

definition fanOut :: "send_message_output \<Rightarrow> unit io" where
  "fanOut out =
     attempt (Member_FindByRoom (so_room_id out)) (\<lambda>_. ret ()) (\<lambda>members.
     for_each members (\<lambda>m.
       if cm_is_deleted m then ret ()
       else attempt (Participant_FindByID (cm_participant_id m)) (\<lambda>_. ret ()) (\<lambda>p.
         case pa_user_id p of
           None \<Rightarrow> ret ()
         | Some u \<Rightarrow> SendToUser (FormatInt u) (PushChatMessage out))))"

section \<open>Reading the messages of a room\<close>

record chat_message_info =
  mf_message_id :: message_id
  mf_sender_id :: member_id
  mf_sender_participant_id :: participant_id
  mf_content :: string
  mf_type :: message_type
  mf_reply_to :: "message_id option"
  mf_is_edited :: bool
  mf_created_at :: instant

text \<open>A Go map built by a loop: the last entry of a key counts, a missing key reads as zero.\<close>

definition memberParticipantMap :: "chat_member list \<Rightarrow> member_id \<Rightarrow> participant_id" where
  "memberParticipantMap ms i = (case map_of (rev (map (\<lambda>m. (cm_id m, cm_participant_id m)) ms)) i of
     None \<Rightarrow> 0 | Some p \<Rightarrow> p)"

definition message_infos :: "chat_member list \<Rightarrow> chat_message list \<Rightarrow> chat_message_info list" where
  "message_infos members msgs = map (\<lambda>m. \<lparr>mf_message_id = ms_id m, mf_sender_id = ms_sender_id m,
       mf_sender_participant_id = memberParticipantMap members (ms_sender_id m),
       mf_content = ms_content m, mf_type = ms_type m, mf_reply_to = ms_reply_to m,
       mf_is_edited = ms_is_edited m, mf_created_at = ms_created_at m\<rparr>)
     (filter (\<lambda>m. \<not> ms_is_deleted m) msgs)"

record messages_output =
  mo_messages :: "chat_message_info list"
  mo_has_more :: bool

definition page_limit :: "64 word \<Rightarrow> 64 word" where
  "page_limit lim = (let l = (if lim = 0 then 20 else lim) in if 100 < l then 100 else l)"

definition get_chat_room_messages :: "user_id \<Rightarrow> room_id \<Rightarrow> message_id \<Rightarrow> 64 word \<Rightarrow> messages_output io" where
  "get_chat_room_messages userID roomID beforeID lim0 =
     as_participant userID (\<lambda>caller.
     as_active_member roomID caller (\<lambda>_.
     (let lim = page_limit lim0 in
      bind (Member_FindByRoom roomID) (\<lambda>allMembers.
      bind (if beforeID = 0
            then bind (Message_FindByRoom roomID lim 0) (\<lambda>ms. ret (rev ms))
            else Message_FindByRoomBefore roomID beforeID lim) (\<lambda>msgs.
      ret \<lparr>mo_messages = message_infos allMembers msgs,
           mo_has_more = (word_of_nat (length msgs) = lim)\<rparr>)))))"

section \<open>Room details\<close>

record member_info =
  mb_member_id :: member_id
  mb_participant_id :: participant_id
  mb_user_id :: "user_id option"
  mb_display_name :: string
  mb_avatar_url :: "string option"
  mb_role :: member_role
  mb_last_read_at :: "instant option"
  mb_joined_at :: instant

record room_detail =
  rd_room_id :: room_id
  rd_room_type :: string
  rd_name :: string
  rd_description :: "string option"
  rd_avatar_url :: "string option"
  rd_members :: "member_info list"
  rd_messages :: "chat_message_info list"

definition buildMemberInfo :: "chat_member \<Rightarrow> member_info io" where
  "buildMemberInfo m =
     (let info = \<lparr>mb_member_id = cm_id m, mb_participant_id = cm_participant_id m, mb_user_id = None,
        mb_display_name = [], mb_avatar_url = None, mb_role = cm_role m,
        mb_last_read_at = cm_last_read_at m, mb_joined_at = cm_joined_at m\<rparr> in
      attempt (Participant_FindByID (cm_participant_id m)) (\<lambda>_. ret info) (\<lambda>p.
      case pa_user_id p of
        Some uid \<Rightarrow>
          (let info1 = info\<lparr>mb_user_id := Some uid\<rparr> in
           attempt (User_FindByID uid) (\<lambda>_. ret info1) (\<lambda>u.
           ret (info1\<lparr>mb_display_name := u_name u, mb_avatar_url := null_string (u_avatar u)\<rparr>)))
      | None \<Rightarrow>
          (case pa_agent_id p of
             None \<Rightarrow> ret info
           | Some aid \<Rightarrow> attempt (Agent_FindByID aid) (\<lambda>_. ret info) (\<lambda>a.
               ret (info\<lparr>mb_display_name := ag_name a\<rparr>)))))"

text \<open>The avatar of a room: its own for groups and channels, for a direct room the one of the first
  other active member; a bot room has none.\<close>

definition resolveRoomAvatarURL :: "chat_room \<Rightarrow> participant_id \<Rightarrow> chat_member list \<Rightarrow> string option io" where
  "resolveRoomAvatarURL room caller allMembers =
     (if cr_type room = ''group'' \<or> cr_type room = ''channel'' then ret (null_string (cr_avatar_name room))
      else if cr_type room = ''direct'' \<or> cr_type room = ''bot'' then
        (case List.find (\<lambda>m. \<not> (cm_is_deleted m \<or> cm_participant_id m = caller)) allMembers of
           None \<Rightarrow> ret None
         | Some m \<Rightarrow> attempt (Participant_FindByID (cm_participant_id m)) (\<lambda>_. ret None) (\<lambda>p.
             case pa_user_id p of
               None \<Rightarrow> ret None
             | Some uid \<Rightarrow>
                 if cr_type room = ''direct''
                 then attempt (User_FindByID uid) (\<lambda>_. ret None) (\<lambda>u. ret (null_string (u_avatar u)))
                 else ret None))
      else ret None)"

definition get_chat_room_detail :: "user_id \<Rightarrow> room_id \<Rightarrow> room_detail io" where
  "get_chat_room_detail userID roomID =
     as_participant userID (\<lambda>caller.
     as_active_member roomID caller (\<lambda>_.
     attempt (Room_FindByID roomID) (\<lambda>_. fail (Chat ErrChatRoomNotFound)) (\<lambda>room.
     bind (Member_FindByRoom roomID) (\<lambda>allMembers.
     bind (collect allMembers (\<lambda>m. if cm_is_deleted m then ret None
                                else bind (buildMemberInfo m) (\<lambda>i. ret (Some i)))) (\<lambda>members.
     bind (Message_FindByRoom roomID 20 0) (\<lambda>msgs.
     bind (resolveRoomAvatarURL room (pa_id caller) allMembers) (\<lambda>avatar.
     ret \<lparr>rd_room_id = cr_id room, rd_room_type = cr_type room, rd_name = cr_name room,
          rd_description = (if cr_type room \<noteq> ''direct'' \<and> cr_description room \<noteq> []
                            then Some (cr_description room) else None),
          rd_avatar_url = avatar, rd_members = members,
          rd_messages = message_infos allMembers (rev msgs)\<rparr>)))))))"

section \<open>The rooms of a user\<close>

record room_summary =
  rs_room_id :: room_id
  rs_room_type :: string
  rs_display_name :: string
  rs_avatar_url :: "string option"
  rs_latest_msg :: "string option"
  rs_unread_count :: int

record user_rooms =
  ur_direct :: "room_summary list"
  ur_group :: "room_summary list"
  ur_channel :: "room_summary list"
  ur_bot :: "room_summary list"

definition findOtherParticipant :: "chat_room \<Rightarrow> participant_id \<Rightarrow> participant io" where
  "findOtherParticipant room caller = bind (Member_FindByRoom (cr_id room)) (\<lambda>ms.
     case List.find (\<lambda>m. \<not> cm_is_deleted m \<and> cm_participant_id m \<noteq> caller) ms of
       None \<Rightarrow> fail Plain
     | Some m \<Rightarrow> Participant_FindByID (cm_participant_id m))"

definition resolveRoomDisplay :: "chat_room \<Rightarrow> participant_id \<Rightarrow> (string \<times> string option) io" where
  "resolveRoomDisplay room caller =
     (if cr_type room = ''group'' \<or> cr_type room = ''channel''
      then ret (cr_name room, null_string (cr_avatar_name room))
      else if cr_type room = ''direct'' \<or> cr_type room = ''bot'' then
        attempt (findOtherParticipant room caller) (\<lambda>_. ret (cr_name room, None)) (\<lambda>p.
        case (if cr_type room = ''direct'' then pa_user_id p else None) of
          Some uid \<Rightarrow> attempt (User_FindByID uid) (\<lambda>_. ret (cr_name room, None))
            (\<lambda>u. ret (u_name u, null_string (u_avatar u)))
        | None \<Rightarrow>
            (case (if cr_type room = ''bot'' then pa_agent_id p else None) of
               Some aid \<Rightarrow> attempt (Agent_FindByID aid) (\<lambda>_. ret (cr_name room, None))
                 (\<lambda>a. ret (ag_name a, None))
             | None \<Rightarrow> ret (cr_name room, None)))
      else ret (cr_name room, None))"

text \<open>The summary of one membership; \<open>None\<close> where the loop continues without one.\<close>

definition room_summary_of :: "participant_id \<Rightarrow> chat_member \<Rightarrow> room_summary option io" where
  "room_summary_of caller m =
     (if cm_is_deleted m then ret None else
      attempt (Room_FindByID (cm_room_id m)) (\<lambda>_. ret None) (\<lambda>room.
      if cr_is_deleted room then ret None else
      bind (resolveRoomDisplay room caller) (\<lambda>(displayName, avatarURL).
      bind (attempt (Message_FindLatestByRoom (cr_id room)) (\<lambda>_. ret None) (\<lambda>msg. ret (Some (ms_content msg)))) (\<lambda>latestMsg.
      bind (attempt (Message_CountByRoomAfter (cr_id room)
              (case cm_last_read_at m of None \<Rightarrow> cm_joined_at m | Some t \<Rightarrow> t)) (\<lambda>_. ret 0) ret) (\<lambda>unread.
      ret (Some \<lparr>rs_room_id = cr_id room, rs_room_type = cr_type room, rs_display_name = displayName,
        rs_avatar_url = avatarURL, rs_latest_msg = latestMsg, rs_unread_count = unread\<rparr>))))))"

definition get_user_chat_rooms :: "user_id \<Rightarrow> user_rooms io" where
  "get_user_chat_rooms userID =
     as_participant userID (\<lambda>caller.
     bind (Member_FindByParticipant (pa_id caller)) (\<lambda>members.
     bind (collect members (room_summary_of (pa_id caller))) (\<lambda>ss.
     ret \<lparr>ur_direct = filter (\<lambda>s. rs_room_type s = ''direct'') ss,
          ur_group = filter (\<lambda>s. rs_room_type s = ''group'') ss,
          ur_channel = filter (\<lambda>s. rs_room_type s = ''channel'') ss,
          ur_bot = filter (\<lambda>s. rs_room_type s = ''bot'') ss\<rparr>)))"

section \<open>Uploading media\<close>

definition allowedMIMETypes :: "string list" where
  "allowedMIMETypes = [''image/jpeg'', ''image/png'', ''image/webp'', ''image/gif'', ''application/pdf'',
     ''application/zip'', ''text/plain'', ''application/octet-stream'', ''application/msword'',
     ''application/vnd.openxmlformats-officedocument.wordprocessingml.document'',
     ''application/vnd.ms-excel'',
     ''application/vnd.openxmlformats-officedocument.spreadsheetml.sheet'']"

record media_input =
  md_room_id :: room_id
  md_filename :: string
  md_mime_type :: string

record save_result =
  sv_url :: string
  sv_path :: string
  sv_size :: int

record media_output =
  mu_path :: string
  mu_url :: string
  mu_mime_type :: string
  mu_size :: int

definition media_dest :: "room_id \<Rightarrow> string \<Rightarrow> string \<Rightarrow> string" where
  "media_dest roomID uuid filename =
     path_Join [''rooms'', FormatInt roomID, uuid @ filepath_Ext filename]"

text \<open>\<open>newV4\<close> is the random UUID in its text form and \<open>SaveStream\<close> the file storage: parameters.\<close>

definition upload_room_media ::
  "(err + string) \<Rightarrow> (string \<Rightarrow> save_result io) \<Rightarrow> user_id \<Rightarrow> media_input \<Rightarrow> media_output io" where
  "upload_room_media newV4 SaveStream userID i =
     as_participant userID (\<lambda>caller.
     as_active_member (md_room_id i) caller (\<lambda>callerMember.
     guard (CanUploadMedia (cm_role callerMember)) (Chat ErrNotAllowed) (
     guard (md_mime_type i \<in> set allowedMIMETypes) (Chat ErrInvalidFileType) (
     case newV4 of
       Inl _ \<Rightarrow> fail (Chat ErrUploadRoomMedia)
     | Inr uuid \<Rightarrow>
         attempt (SaveStream (media_dest (md_room_id i) uuid (md_filename i)))
           (\<lambda>_. fail (Chat ErrUploadRoomMedia)) (\<lambda>result.
         ret \<lparr>mu_path = sv_path result, mu_url = sv_url result, mu_mime_type = md_mime_type i,
              mu_size = sv_size result\<rparr>)))))"

end
