(* ===== verification/Message_Rules.thy ===== *)
theory Message_Rules
  imports Messages Membership_Safety
begin

text \<open>
  What the use cases on messages guarantee: who may send, what reaches whom, and which messages a page
  holds.
\<close>

section \<open>The caller\<close>

lemma as_participant_succ [succ]:
  "as_participant u k w = (Inr y, w') \<longleftrightarrow>
     (\<exists>p w1. Participant_FindByUserID u w = (Inr p, w1) \<and> k p w1 = (Inr y, w'))"
  by (auto simp: as_participant_def attempt_succ succ)

lemma as_active_member_succ [succ]:
  "as_active_member r c k w = (Inr y, w') \<longleftrightarrow>
     (\<exists>m w1. Member_FindByRoomAndParticipant r (pa_id c) w = (Inr m, w1) \<and> \<not> cm_is_deleted m \<and>
        k m w1 = (Inr y, w'))"
  by (auto simp: as_active_member_def attempt_succ succ)

text \<open>The two look-ups together: the world has only been queried and the caller is an active member.\<close>

lemma active_caller:
  assumes "Participant_FindByUserID u w = (Inr p, w1)"
    and "Member_FindByRoomAndParticipant r (pa_id p) w1 = (Inr m, w2)" and "\<not> cm_is_deleted m"
  shows "w2 = queried (queried w) \<and> user_participant (tables w) u (pa_id p) \<and>
    member_row (tables w) r (pa_id p) = Some m \<and> membership (tables w) (r, pa_id p) = Some (cm_role m)"
proof -
  have w1: "w1 = queried w" "user_participant (tables w) u (pa_id p)" using find_user_succ [OF assms(1)] by auto
  with find_member_succ [OF assms(2)] have "w2 = queried (queried w)"
    and "member_row (tables w) r (pa_id p) = Some m" by auto
  with w1 assms(3) show ?thesis by (simp add: membership_def)
qed

section \<open>Sending\<close>

lemma Message_Create_succ:
  "Message_Create m w = (Inr x, w') \<Longrightarrow>
     x = m\<lparr>ms_id := seq w T_records + 1, ms_created_at := clock w\<rparr> \<and> tasks w' = tasks w \<and>
     tables w' = (tables w)\<lparr>chat_records := chat_records (tables w) @
       [m\<lparr>ms_id := seq w T_records + 1, ms_is_edited := False, ms_is_deleted := False,
          ms_created_at := clock w, ms_updated_at := clock w\<rparr>]\<rparr>"
  by (auto simp: Message_Create_def sql_succ split: if_splits option.splits)

definition sent_message :: "world \<Rightarrow> member_id \<Rightarrow> send_message_input \<Rightarrow> message_type \<Rightarrow> chat_message" where
  "sent_message w sender i ty = \<lparr>ms_id = seq w T_records + 1, ms_room_id = si_room_id i,
     ms_sender_id = sender, ms_content = si_content i, ms_type = ty, ms_reply_to = si_reply_to i,
     ms_is_edited = False, ms_is_deleted = False, ms_created_at = clock w, ms_updated_at = clock w\<rparr>"

lemma send_message_succ:
  assumes "send_message u i w = (Inr out, w')"
  shows "\<exists>p m ty. user_participant (tables w) u p \<and> member_row (tables w) (si_room_id i) p = Some m \<and>
    membership (tables w) (si_room_id i, p) = Some (cm_role m) \<and> CanSendMessage (cm_role m) \<and>
    sendable_type (si_type i) = Some ty \<and> (ty \<in> {Image, File} \<longrightarrow> safe_path (si_content i)) \<and>
    tables w' = (tables w)\<lparr>chat_records := chat_records (tables w) @ [sent_message w (cm_id m) i ty]\<rparr> \<and>
    tasks w' = tasks w @ [FanOut out] \<and>
    out = \<lparr>so_message_id = seq w T_records + 1, so_room_id = si_room_id i, so_sender_id = cm_id m,
      so_content = si_content i, so_type = ty, so_reply_to = si_reply_to i, so_created_at = clock w\<rparr>"
proof -
  from assms obtain p w1 m w2 where p: "Participant_FindByUserID u w = (Inr p, w1)"
    and m: "Member_FindByRoomAndParticipant (si_room_id i) (pa_id p) w1 = (Inr m, w2)" "\<not> cm_is_deleted m"
    and c: "CanSendMessage (cm_role m)"
    and rest: "(case sendable_type (si_type i) of
       None \<Rightarrow> fail (Chat ErrInvalidMessageType)
     | Some ty \<Rightarrow>
         guard (ty = Image \<or> ty = File \<longrightarrow> safe_path (si_content i)) (Chat ErrInvalidMessageType) (
         attempt (Message_Create \<lparr>ms_id = 0, ms_room_id = si_room_id i, ms_sender_id = cm_id m,
                    ms_content = si_content i, ms_type = ty, ms_reply_to = si_reply_to i,
                    ms_is_edited = False, ms_is_deleted = False, ms_created_at = 0, ms_updated_at = 0\<rparr>)
           (\<lambda>_. fail (Chat ErrSendMessage)) (\<lambda>msg.
         bind (spawn (FanOut (message_output msg))) (\<lambda>_. ret (message_output msg))))) w2 = (Inr out, w')"
    unfolding send_message_def as_participant_succ as_active_member_succ guard_succ by blast
  note a = active_caller [OF p m]
  from rest obtain ty where ty: "sendable_type (si_type i) = Some ty" by (cases "sendable_type (si_type i)") auto
  with rest obtain x w3 where safe: "ty = Image \<or> ty = File \<longrightarrow> safe_path (si_content i)"
    and x: "Message_Create \<lparr>ms_id = 0, ms_room_id = si_room_id i, ms_sender_id = cm_id m,
                    ms_content = si_content i, ms_type = ty, ms_reply_to = si_reply_to i,
                    ms_is_edited = False, ms_is_deleted = False, ms_created_at = 0, ms_updated_at = 0\<rparr> w2 = (Inr x, w3)"
    and o: "out = message_output x" and w': "w' = w3\<lparr>tasks := tasks w3 @ [FanOut out]\<rparr>"
    by (auto simp: attempt_succ guard_succ bind_succ spawn_run succ)
  note r = Message_Create_succ [OF x]
  show ?thesis
    using a c ty safe r o w'
    by (intro exI [of _ "pa_id p"] exI [of _ m] exI [of _ ty]) (auto simp: sent_message_def message_output_def)
qed

lemma safe_path_stays:
  assumes "safe_path s"
  obtains p where "PathUnescape s = Some p" and "walk 0 (split_on (CHR ''/'') p) \<noteq> None"
proof -
  from assms obtain p where "PathUnescape s = Some p" "\<not> Contains (path_Clean p) ''..''"
    "\<not> HasPrefix (path_Clean p) ''/''"
    by (auto simp: safe_path_def Let_def split: option.splits)
  with clean_no_dotdot_stays that show ?thesis by blast
qed

section \<open>The fan-out\<close>

text \<open>The user a push for a member goes to: the user of its participant, for an active member.\<close>

definition push_target :: "db \<Rightarrow> chat_member \<Rightarrow> string list" where
  "push_target d m = (if cm_is_deleted m then [] else
     (case participant_rows d (cm_participant_id m) of
        [] \<Rightarrow> []
      | p # _ \<Rightarrow> (case pa_user_id p of None \<Rightarrow> [] | Some u \<Rightarrow> [FormatInt u])))"

definition room_targets :: "db \<Rightarrow> room_id \<Rightarrow> string list" where
  "room_targets d r = concat (map (push_target d) (filter (\<lambda>m. cm_room_id m = r) (chat_members d)))"

definition push_member :: "send_message_output \<Rightarrow> chat_member \<Rightarrow> unit io" where
  "push_member out m =
     (if cm_is_deleted m then ret ()
      else attempt (Participant_FindByID (cm_participant_id m)) (\<lambda>_. ret ()) (\<lambda>p.
        case pa_user_id p of
          None \<Rightarrow> ret ()
        | Some u \<Rightarrow> SendToUser (FormatInt u) (PushChatMessage out)))"

lemma fanOut_push:
  "fanOut out = attempt (Member_FindByRoom (so_room_id out)) (\<lambda>_. ret ()) (\<lambda>ms. for_each ms (push_member out))"
  by (simp add: fanOut_def push_member_def [abs_def])

lemma push_member_run:
  "healthy w \<Longrightarrow> push_member out m w =
     (Inr (), w\<lparr>outbox := outbox w @ map (\<lambda>u. (u, PushChatMessage out)) (push_target (tables w) m)\<rparr>)"
  by (simp add: push_member_def push_target_def attempt_run Participant_FindByID_def not_found_as_run ScanOne_run
      SendToUser_run split: list.split option.split)

lemma push_members_run:
  "healthy w \<Longrightarrow> for_each ms (push_member out) w =
     (Inr (), w\<lparr>outbox := outbox w @ map (\<lambda>u. (u, PushChatMessage out)) (concat (map (push_target (tables w)) ms))\<rparr>)"
  by (induction ms arbitrary: w) (simp_all add: push_member_run)

lemma fanOut_run:
  "healthy w \<Longrightarrow> fanOut out w =
     (Inr (), w\<lparr>outbox := outbox w @ map (\<lambda>u. (u, PushChatMessage out)) (room_targets (tables w) (so_room_id out))\<rparr>)"
  by (simp add: fanOut_push attempt_run Member_FindByRoom_def ScanAll_run push_members_run room_targets_def)

text \<open>Under failures some pushes may be missing; none goes anywhere else.\<close>

lemma push_member_faulty:
  "\<exists>us w'. push_member out m w = (Inr (), w') \<and> tables w' = tables w \<and>
     outbox w' = outbox w @ map (\<lambda>u. (u, PushChatMessage out)) us \<and> set us \<subseteq> set (push_target (tables w) m)"
proof (cases "cm_is_deleted m")
  case True
  then show ?thesis by (intro exI [of _ "[]"]) (simp add: push_member_def)
next
  case False
  obtain y w1 where f: "Participant_FindByID (cm_participant_id m) w = (y, w1)" by fastforce
  have fr: "keeps_fn (\<lambda>w. (tables w, outbox w)) (Participant_FindByID (cm_participant_id m))"
    by (auto simp: keeps_fn_def Participant_FindByID_def not_found_as_def ScanOne_def ScanAll_def sql_def
        bind_def attempt_def split: list.split)
  then have w1: "tables w1 = tables w" "outbox w1 = outbox w" using keeps_fnD [OF fr, of w] f by simp_all
  show ?thesis
  proof (cases y)
    case (Inl e)
    with False f w1 show ?thesis by (intro exI [of _ "[]"] exI [of _ w1]) (simp add: push_member_def)
  next
    case (Inr p)
    with f obtain ps where "participant_rows (tables w) (cm_participant_id m) = p # ps"
      by (auto simp: Participant_FindByID_def succ)
    show ?thesis
    proof (cases "pa_user_id p")
      case None
      with False f w1 Inr show ?thesis by (intro exI [of _ "[]"] exI [of _ w1]) (simp add: push_member_def)
    next
      case (Some a)
      with \<open>participant_rows (tables w) (cm_participant_id m) = p # ps\<close> False f w1 Inr show ?thesis
        by (intro exI [of _ "[FormatInt a]"]) (simp add: push_member_def push_target_def SendToUser_run)
    qed
  qed
qed

lemma push_members_faulty:
  "\<exists>us w'. for_each ms (push_member out) w = (Inr (), w') \<and>
     outbox w' = outbox w @ map (\<lambda>u. (u, PushChatMessage out)) us \<and>
     set us \<subseteq> set (concat (map (push_target (tables w)) ms))"
proof (induction ms arbitrary: w)
  case (Cons m ms)
  from push_member_faulty [of out m w] obtain us w1 where 1: "push_member out m w = (Inr (), w1)" "tables w1 = tables w"
    "outbox w1 = outbox w @ map (\<lambda>u. (u, PushChatMessage out)) us" "set us \<subseteq> set (push_target (tables w) m)" by blast
  from Cons [of w1] obtain vs w2 where 2: "for_each ms (push_member out) w1 = (Inr (), w2)"
    "outbox w2 = outbox w1 @ map (\<lambda>u. (u, PushChatMessage out)) vs"
    "set vs \<subseteq> set (concat (map (push_target (tables w1)) ms))" by blast
  show ?case using 1 2 by (intro exI [of _ "us @ vs"] exI [of _ w2]) auto
qed (intro exI [of _ "[]"], simp)

lemma fanOut_faulty:
  "\<exists>us w'. fanOut out w = (Inr (), w') \<and>
     outbox w' = outbox w @ map (\<lambda>u. (u, PushChatMessage out)) us \<and>
     set us \<subseteq> set (room_targets (tables w) (so_room_id out))"
proof -
  obtain y w1 where f: "Member_FindByRoom (so_room_id out) w = (y, w1)" by fastforce
  have fr: "keeps_fn (\<lambda>w. (tables w, outbox w)) (Member_FindByRoom (so_room_id out))"
    by (auto simp: keeps_fn_def Member_FindByRoom_def ScanAll_def sql_def)
  then have w1: "tables w1 = tables w" "outbox w1 = outbox w" using keeps_fnD [OF fr, of w] f by simp_all
  show ?thesis
  proof (cases y)
    case (Inl e)
    with f w1 show ?thesis by (intro exI [of _ "[]"] exI [of _ w1]) (simp add: fanOut_push)
  next
    case (Inr ms)
    with f have ms: "ms = filter (\<lambda>m. cm_room_id m = so_room_id out) (chat_members (tables w))"
      by (auto simp: Member_FindByRoom_def succ)
    from push_members_faulty [of ms out w1] f Inr w1 show ?thesis
      by (auto simp: fanOut_push room_targets_def ms)
  qed
qed

text \<open>A target is the user of an active member of the room.\<close>

lemma room_targets_active:
  assumes "u \<in> set (room_targets d r)" and "distinct (map member_key (chat_members d))"
  shows "\<exists>uid p. u = FormatInt uid \<and> user_participant d uid p \<and> membership d (r, p) \<noteq> None"
proof -
  from assms(1) obtain m where m: "m \<in> set (chat_members d)" "cm_room_id m = r" "\<not> cm_is_deleted m"
    and "u \<in> set (push_target d m)"
    by (auto simp: room_targets_def push_target_def split: if_splits)
  moreover from this obtain p ps where p: "participant_rows d (cm_participant_id m) = p # ps"
    by (cases "participant_rows d (cm_participant_id m)") (auto simp: push_target_def)
  ultimately obtain uid where "pa_user_id p = Some uid" "u = FormatInt uid"
    by (cases "pa_user_id p") (auto simp: push_target_def)
  note p = p this
  have "p \<in> set (participant_rows d (cm_participant_id m))" by (simp add: p)
  with p(2) have "user_participant d uid (cm_participant_id m)"
    by (auto simp: participant_rows_def toParticipantDomain_def user_participant_def left_join_def Let_def
        intro: rev_image_eqI split: if_splits)
  moreover have "membership d (r, cm_participant_id m) = Some (cm_role m)"
    using member_row_of [OF assms(2) m(1)] m by (simp add: membership_def)
  ultimately show ?thesis using p(3) by auto
qed

section \<open>Pages\<close>

lemma order_desc_set [simp]: "set (order_desc k xs) = set xs"
  and order_desc_length [simp]: "length (order_desc k xs) = length xs"
  by (simp_all add: order_desc_def)

lemma order_desc_sorted: "sorted_wrt (\<lambda>a b. k b \<le> k a) (order_desc k xs)"
proof -
  have "sorted (map (\<lambda>r. - k r) (order_desc k xs))" by (simp add: order_desc_def)
  then show ?thesis by (simp add: sorted_wrt_map)
qed

lemma order_desc_distinct: "distinct (map f xs) \<Longrightarrow> distinct (map f (order_desc k xs))"
  by (metis distinct_map order_desc_def distinct_sort set_sort)

text \<open>The first elements of a list in descending order, reversed: the largest ones, ascending.\<close>

lemma page_of_sorted:
  assumes "sorted_wrt (\<lambda>a b. k b \<le> k a) xs"
  shows "sorted (map k (rev (take n xs)))"
    and "x \<in> set xs \<Longrightarrow> x \<notin> set (take n xs) \<Longrightarrow> y \<in> set (take n xs) \<Longrightarrow> k x \<le> k y"
proof -
  have "sorted_wrt (\<lambda>a b. k b \<le> k a) (take n xs)" using assms by (rule sorted_wrt_take)
  then show "sorted (map k (rev (take n xs)))" by (simp add: sorted_wrt_map sorted_wrt_rev)
next
  assume x: "x \<in> set xs" "x \<notin> set (take n xs)" and y: "y \<in> set (take n xs)"
  from x have "x \<in> set (drop n xs)" by (metis Un_iff append_take_drop_id set_append)
  moreover have "sorted_wrt (\<lambda>a b. k b \<le> k a) (take n xs @ drop n xs)" using assms by simp
  ultimately show "k x \<le> k y" using y by (simp only: sorted_wrt_append)
qed

lemma page_limit_bounds: "page_limit l \<noteq> 0 \<and> unat (page_limit l) \<le> 100"
proof -
  have "unat (page_limit l) \<le> unat (100 :: 64 word)"
    by (simp only: word_le_nat_alt [symmetric]) (auto simp: page_limit_def Let_def not_less)
  moreover have "page_limit l \<noteq> 0" by (auto simp: page_limit_def Let_def)
  ultimately show ?thesis by simp
qed

text \<open>The messages of a room before an id.\<close>

definition visible_before :: "db \<Rightarrow> room_id \<Rightarrow> message_id \<Rightarrow> chat_message list" where
  "visible_before d r before =
     filter (\<lambda>m. ms_room_id m = r \<and> \<not> ms_is_deleted m \<and> ms_id m < before) (chat_records d)"

lemma messages_succ:
  assumes "get_chat_room_messages u r before l w = (Inr out, w')"
  shows "\<exists>p ms msgs. user_participant (tables w) u p \<and> membership (tables w) (r, p) \<noteq> None \<and>
    mo_messages out = message_infos ms msgs \<and> mo_has_more out = (word_of_nat (length msgs) = page_limit l) \<and>
    tables w' = tables w \<and>
    msgs = (if before = 0
      then rev (take (unat (page_limit l)) (order_desc ms_created_at (filter (\<lambda>m. ms_room_id m = r) (chat_records (tables w)))))
      else rev (take (unat (page_limit l)) (order_desc ms_id (visible_before (tables w) r before))))"
proof -
  from assms obtain p w1 m w2 ms w3 msgs where p: "Participant_FindByUserID u w = (Inr p, w1)"
    and m: "Member_FindByRoomAndParticipant r (pa_id p) w1 = (Inr m, w2)" "\<not> cm_is_deleted m"
    and ms: "Member_FindByRoom r w2 = (Inr ms, w3)"
    and msgs: "(if before = 0 then bind (Message_FindByRoom r (page_limit l) 0) (\<lambda>ms. ret (rev ms))
            else Message_FindByRoomBefore r before (page_limit l)) w3 = (Inr msgs, w')"
    and out: "out = \<lparr>mo_messages = message_infos ms msgs, mo_has_more = (word_of_nat (length msgs) = page_limit l)\<rparr>"
    unfolding get_chat_room_messages_def as_participant_succ as_active_member_succ Let_def bind_succ ret_succ by blast
  note a = active_caller [OF p m]
  have "w3 = queried w2" using ms by (simp add: Member_FindByRoom_def succ)
  with a have w3: "tables w3 = tables w" by simp
  with msgs have "tables w' = tables w \<and> msgs = (if before = 0
      then rev (take (unat (page_limit l)) (order_desc ms_created_at (filter (\<lambda>m. ms_room_id m = r) (chat_records (tables w)))))
      else rev (take (unat (page_limit l)) (order_desc ms_id (visible_before (tables w) r before))))"
    by (auto simp: Message_FindByRoom_def Message_FindByRoomBefore_def visible_before_def succ split: if_splits)
  with a out show ?thesis by (intro exI [of _ "pa_id p"] exI [of _ ms] exI [of _ msgs]) simp
qed

lemma message_infos_ids:
  "map mf_message_id (message_infos ms msgs) = map ms_id (filter (\<lambda>m. \<not> ms_is_deleted m) msgs)"
  by (simp add: message_infos_def)

end
