(* ===== verification/Message_Props.thy ===== *)
theory Message_Props
  imports Message_Rules Membership_Props
begin

text \<open>
  The properties of messages and media, each with its witness on the world of \<open>Membership_Props\<close>
  extended by a second member and some messages.
\<close>

definition demo_message :: "message_id \<Rightarrow> bool \<Rightarrow> chat_message" where
  "demo_message i deleted = \<lparr>ms_id = i, ms_room_id = 5, ms_sender_id = 1, ms_content = ''hi'', ms_type = Text,
     ms_reply_to = None, ms_is_edited = False, ms_is_deleted = deleted, ms_created_at = i, ms_updated_at = i\<rparr>"

definition chat_world :: world where
  "chat_world = rooms_world\<lparr>tables := rooms_db\<lparr>
     chat_members := [demo_member 1 5 11 Owner False, demo_member 2 5 12 Guest False, demo_member 3 5 13 Member True],
     chat_records := [demo_message 1 False, demo_message 2 True, demo_message 3 False]\<rparr>\<rparr>"

definition demo_send :: "string \<Rightarrow> string \<Rightarrow> send_message_input" where
  "demo_send ty content = \<lparr>si_room_id = 5, si_content = content, si_type = ty, si_reply_to = None\<rparr>"





text \<open>C12: the fan-out pushes a message only to users who are active members of its room at that time, to
  each such member once and in the order of the members; under failures some pushes may be missing,
  and none goes to anyone else.\<close>
theorem fan_out_only_to_members:
  assumes "distinct (map member_key (chat_members (tables w)))"
  shows "\<exists>us. outbox (snd (fanOut out w)) = outbox w @ map (\<lambda>u. (u, PushChatMessage out)) us \<and>
    (\<forall>u \<in> set us. \<exists>uid p. u = FormatInt uid \<and> user_participant (tables w) uid p \<and>
       membership (tables w) (so_room_id out, p) \<noteq> None) \<and>
    (healthy w \<longrightarrow> us = room_targets (tables w) (so_room_id out))"
proof (cases "healthy w")
  case True
  then show ?thesis using room_targets_active [OF _ assms] by (simp add: fanOut_run)
next
  case False
  from fanOut_faulty [of out w] obtain us w' where r: "fanOut out w = (Inr (), w')"
    "outbox w' = outbox w @ map (\<lambda>u. (u, PushChatMessage out)) us" "set us \<subseteq> set (room_targets (tables w) (so_room_id out))"
    by blast
  then have "\<forall>u \<in> set us. \<exists>uid p. u = FormatInt uid \<and> user_participant (tables w) uid p \<and>
      membership (tables w) (so_room_id out, p) \<noteq> None"
    using room_targets_active [OF _ assms] by blast
  with r False show ?thesis by (intro exI [of _ us]) simp
qed

definition demo_out :: send_message_output where
  "demo_out = \<lparr>so_message_id = 9, so_room_id = 5, so_sender_id = 1, so_content = ''hi'', so_type = Text,
     so_reply_to = None, so_created_at = 0\<rparr>"

theorem fan_out_only_to_members_witness:
  "outbox (snd (fanOut demo_out chat_world)) = [(''1'', PushChatMessage demo_out), (''2'', PushChatMessage demo_out)]"
proof -
  have "distinct (map member_key (chat_members (tables chat_world)))" by code_simp
  from fan_out_only_to_members [OF this, of demo_out] obtain us where
    us: "outbox (snd (fanOut demo_out chat_world)) = outbox chat_world @ map (\<lambda>u. (u, PushChatMessage demo_out)) us"
    and h: "healthy chat_world \<longrightarrow> us = room_targets (tables chat_world) (so_room_id demo_out)" by blast
  have "healthy chat_world" by (simp add: healthy_def tx_aborted_def chat_world_def rooms_world_defs)
  with h have "us = room_targets (tables chat_world) (so_room_id demo_out)" by simp
  also have "\<dots> = [''1'', ''2'']" by code_simp
  finally show ?thesis using us by (simp add: chat_world_def rooms_world_defs)
qed



text \<open>Whatever the name of an uploaded file, it is stored directly in the directory of its room, under
  the random name and an extension: the name given by the client cannot lead anywhere else.\<close>
lemma media_is_stored_in_room:
  assumes "uuid \<noteq> []" and "CHR ''/'' \<notin> set uuid" and "CHR ''.'' \<notin> set uuid"
  shows "media_dest r uuid filename = ''rooms/'' @ FormatInt r @ ''/'' @ uuid @ filepath_Ext filename \<and>
    CHR ''/'' \<notin> set (uuid @ filepath_Ext filename)"
proof -
  let ?e = "uuid @ filepath_Ext filename" and ?n = "FormatInt r"
  have d: "digit k \<noteq> CHR ''/'' \<and> digit k \<noteq> CHR ''.''" if "k < 10" for k
    using that by (auto simp: digit_def dest: arg_cong [where f = "of_char :: char \<Rightarrow> nat"])
  have no_digit: "CHR ''/'' \<notin> set (format_nat k)" "CHR ''.'' \<notin> set (format_nat k)" for k
    using d by (metis format_nat_chars)+
  have n: "CHR ''/'' \<notin> set ?n" "?n \<noteq> []" "CHR ''.'' \<notin> set ?n"
    using no_digit format_nat_nonempty by (auto simp: FormatInt_def split: if_splits)
  have e: "CHR ''/'' \<notin> set ?e" using assms filepath_Ext_no_slash by simp
  have j: "join_with (CHR ''/'') (filter (\<lambda>e. e \<noteq> []) [''rooms'', ?n, ?e]) = ''rooms'' @ CHR ''/'' # ?n @ CHR ''/'' # ?e"
    using n assms(1) by simp
  have sp: "split_on (CHR ''/'') (''rooms'' @ CHR ''/'' # ?n @ CHR ''/'' # ?e) = [''rooms'', ?n, ?e]"
  proof -
    have "split_on (CHR ''/'') (''rooms'' @ CHR ''/'' # xs) = ''rooms'' # split_on (CHR ''/'') xs" for xs
      by (rule split_append) simp
    then show ?thesis by (simp only: split_append [OF n(1)] split_no_sep [OF e])
  qed
  have "?n \<noteq> ''.'' \<and> ?n \<noteq> ''..''" using n by auto
  moreover have "?e \<noteq> ''.'' \<and> ?e \<noteq> ''..''" using assms(1,3) by (cases uuid) auto
  ultimately have "foldl (clean_step False) [] [''rooms'', ?n, ?e] = [''rooms'', ?n, ?e]"
    using n assms(1) by (simp add: clean_step_def)
  then have "path_Clean (''rooms'' @ CHR ''/'' # ?n @ CHR ''/'' # ?e) = ''rooms'' @ CHR ''/'' # ?n @ CHR ''/'' # ?e"
    unfolding path_Clean_def Let_def sp by simp
  with j n assms(1) e show ?thesis by (simp add: media_dest_def path_Join_def Let_def)
qed

lemma media_is_stored_in_room_witness:
  "media_dest 5 ''ab-1'' ''../../etc/x.y/pass.sh'' = ''rooms/5/ab-1.sh''"
proof -
  have "filepath_Ext ''../../etc/x.y/pass.sh'' = ''.sh''" "FormatInt 5 = ''5''" by code_simp+
  with media_is_stored_in_room [of "''ab-1''" 5 "''../../etc/x.y/pass.sh''"] show ?thesis by simp
qed

end
