(* ===== verification/Delivery.thy ===== *)
theory Delivery
  imports Rooms
begin

text \<open>
  The delivery queue: its repository (\<open>deliveryqueue/repo.go\<close>), the dispatcher that stores an event
  and starts a push (\<open>push/db_dispatcher.go\<close>) and the retry scheduler (\<open>push/scheduler.go\<close>).  The
  push itself, which waits for the acknowledgement of the client, is the parameter \<open>PushAndWaitAck\<close>:
  it receives the user, the delivery id, the payload type and the payload.
\<close>

section \<open>Repository\<close>

definition Queue_Enqueue :: "user_id \<Rightarrow> string \<Rightarrow> string \<Rightarrow> delivery_item io" where
  "Queue_Enqueue u ty payload = sql T_queue 1 (\<lambda>i now d.
     (let item = \<lparr>dq_id = i, dq_user_id = u, dq_payload_type = ty, dq_payload = payload,
        dq_status = DeliveryPending, dq_created_at = now, dq_delivered_at = None\<rparr>
      in Inr (item, d\<lparr>delivery_queue := delivery_queue d @ [item]\<rparr>)))"

definition delivered :: "instant \<Rightarrow> delivery_item \<Rightarrow> delivery_item" where
  "delivered now q = q\<lparr>dq_status := DeliveryDelivered, dq_delivered_at := Some now\<rparr>"

text \<open>The statement reports the number of rows it changed; none is \<open>ErrNotFound\<close>.\<close>

definition Queue_MarkDelivered :: "int \<Rightarrow> unit io" where
  "Queue_MarkDelivered i = bind (sql T_queue 0 (\<lambda>_ now d. Inr (length (filter (\<lambda>q. dq_id q = i) (delivery_queue d)),
       d\<lparr>delivery_queue := map (\<lambda>q. if dq_id q = i then delivered now q else q) (delivery_queue d)\<rparr>)))
     (\<lambda>rows. if rows = 0 then fail (NotFound DeliveryItemNotFound) else ret ())"

text \<open>\<open>time.Now()\<close> is taken to agree with the clock of the database.\<close>

definition Queue_FindPendingOlderThan :: "int \<Rightarrow> delivery_item list io" where
  "Queue_FindPendingOlderThan age = bind get_clock (\<lambda>now. ScanAll (\<lambda>d.
     filter (\<lambda>q. dq_status q = DeliveryPending \<and> dq_created_at q < now - age) (delivery_queue d)))"

section \<open>Dispatcher and scheduler\<close>

type_synonym pusher = "string \<Rightarrow> int \<Rightarrow> string \<Rightarrow> string \<Rightarrow> bool io"

definition Dispatch :: "user_id \<Rightarrow> string \<Rightarrow> string \<Rightarrow> unit io" where
  "Dispatch u ty payload = bind (Queue_Enqueue u ty payload) (\<lambda>item. spawn (PushAndTrack u item))"

definition pushAndTrack :: "pusher \<Rightarrow> user_id \<Rightarrow> delivery_item \<Rightarrow> unit io" where
  "pushAndTrack PushAndWaitAck u item =
     attempt (PushAndWaitAck (FormatInt u) (dq_id item) (dq_payload_type item) (dq_payload item))
       (\<lambda>_. ret ())
       (\<lambda>acked. if acked then ignore (Queue_MarkDelivered (dq_id item)) (ret ()) else ret ())"

definition pendingAge :: int where
  "pendingAge = 30"

text \<open>One tick of the scheduler: every item still pending is pushed again by a goroutine of its own.\<close>

definition retry_pending :: "unit io" where
  "retry_pending = attempt (Queue_FindPendingOlderThan pendingAge) (\<lambda>_. ret ()) (\<lambda>items.
     for_each items (\<lambda>item. spawn (PushAndTrack (dq_user_id item) item)))"

section \<open>What the component guarantees\<close>

interpretation queue_ids: id_table delivery_queue "\<lambda>rs. delivery_queue_update (\<lambda>_. rs)" dq_id T_queue
  by unfold_locales simp

text \<open>An item is marked as delivered exactly when it carries the time of its delivery.\<close>

definition queue_inv :: "(table \<Rightarrow> int) \<Rightarrow> db \<Rightarrow> bool" where
  "queue_inv s d \<longleftrightarrow> ids_ok delivery_queue dq_id T_queue s d \<and>
     (\<forall>q \<in> set (delivery_queue d). dq_status q = DeliveryDelivered \<longleftrightarrow> dq_delivered_at q \<noteq> None)"

interpretation queue_store: framed_invariant queue_inv delivery_queue
  using queue_ids.mono by unfold_locales (auto simp: queue_inv_def ids_ok_def)

lemma keeps_q_enqueue [frame_intros]: "keeps (inv_holds queue_inv) (Queue_Enqueue u ty payload)"
  unfolding Queue_Enqueue_def
  by (rule queue_store.keeps_sql, rule stmt_keepsI)
    (auto simp: queue_inv_def Let_def intro: queue_ids.ids_insert)

lemma keeps_q_mark [frame_intros]: "keeps (inv_holds queue_inv) (Queue_MarkDelivered i)"
proof -
  have "keeps (inv_holds queue_inv) (sql T_queue 0 (\<lambda>_ now d. Inr (length (filter (\<lambda>q. dq_id q = i) (delivery_queue d)),
       d\<lparr>delivery_queue := map (\<lambda>q. if dq_id q = i then delivered now q else q) (delivery_queue d)\<rparr>)))"
  proof (rule queue_store.keeps_sql, rule stmt_keepsI)
    fix s now d x d'
    assume I: "queue_inv s d" and "Inr (length (filter (\<lambda>q. dq_id q = i) (delivery_queue d)),
       d\<lparr>delivery_queue := map (\<lambda>q. if dq_id q = i then delivered now q else q) (delivery_queue d)\<rparr>) = Inr (x, d')"
    then have d': "delivery_queue d' = map (\<lambda>q. if dq_id q = i then delivered now q else q) (delivery_queue d)" by auto
    have "ids_ok delivery_queue dq_id T_queue s d" using I by (simp add: queue_inv_def)
    then have "ids_ok delivery_queue dq_id T_queue s d'"
      using d' by (rule queue_ids.ids_update) (simp add: delivered_def)
    with I d' show "queue_inv (s(T_queue := s T_queue + int 0)) d'"
      by (auto simp: queue_inv_def delivered_def)
  qed
  then show ?thesis unfolding Queue_MarkDelivered_def by (intro frame_intros)
qed

end
