(* ===== verification/E2EE_Keys.thy ===== *)
theory E2EE_Keys
  imports Delivery
begin

text \<open>
  The keys of the end-to-end encryption that belong to a device: identity keys, signed pre-keys and
  one-time pre-keys, with their repositories and the use cases that upload them and hand out a bundle.
  The UUID library and the cryptographic primitives are parameters: \<open>FromString\<close> and \<open>uuid_String\<close>,
  \<open>VerifySignedPreKey\<close> (Ed25519) and \<open>FingerprintKey\<close> (SHA-256).
\<close>

section \<open>Identifiers\<close>

definition ParseUserID :: "string \<Rightarrow> err + user_id" where
  "ParseUserID s = (case ParseInt s of None \<Rightarrow> Inl ErrInvalidID | Some i \<Rightarrow> Inr i)"

definition ParseDeviceID :: "(string \<Rightarrow> device_id option) \<Rightarrow> string \<Rightarrow> err + device_id" where
  "ParseDeviceID FromString s = (case FromString s of None \<Rightarrow> Inl ErrInvalidID | Some i \<Rightarrow> Inr i)"

text \<open>\<open>x, err := f(); if err != nil { return wrapped err }\<close> for a pure \<open>f\<close>.\<close>

definition check :: "err + 'a \<Rightarrow> ('a \<Rightarrow> 'b io) \<Rightarrow> 'b io" where
  "check r k = (case r of Inl e \<Rightarrow> fail e | Inr x \<Rightarrow> k x)"

text \<open>Base64 text that must decode to exactly \<open>n\<close> bytes; every failure is \<open>ErrInvalidSignature\<close>.\<close>

definition decode_sized :: "nat \<Rightarrow> string \<Rightarrow> err + bytes" where
  "decode_sized n s = (case DecodeString s of
     None \<Rightarrow> Inl (E2EE ErrInvalidSignature)
   | Some bs \<Rightarrow> if length bs = n then Inr bs else Inl (E2EE ErrInvalidSignature))"

section \<open>Identity keys\<close>

text \<open>The mappers reject rows whose arrays have the wrong length.\<close>

definition toIdentityKeyDomain :: "identity_key \<Rightarrow> err + identity_key" where
  "toIdentityKeyDomain r = (if length (ik_public_key r) \<noteq> 32 \<or> length (ik_sign_public_key r) \<noteq> 32
     then Inl Plain else Inr r)"

definition Identity_FindByUserAndDevice :: "user_id \<Rightarrow> device_id \<Rightarrow> identity_key io" where
  "Identity_FindByUserAndDevice u v = bind (not_found_as (NotFound IdentityKeyNotFound)
     (ScanOne (\<lambda>d. filter (\<lambda>k. ik_user_id k = u \<and> ik_device_id k = v) (identity_keys d))))
     (\<lambda>r. check (toIdentityKeyDomain r) ret)"

definition Identity_FindByUser :: "user_id \<Rightarrow> identity_key list io" where
  "Identity_FindByUser u = bind (ScanAll (\<lambda>d. filter (\<lambda>k. ik_user_id k = u) (identity_keys d)))
     (\<lambda>rs. collect rs (\<lambda>r. check (toIdentityKeyDomain r) (\<lambda>k. ret (Some k))))"

definition same_device :: "identity_key \<Rightarrow> identity_key \<Rightarrow> bool" where
  "same_device k x \<longleftrightarrow> ik_user_id x = ik_user_id k \<and> ik_device_id x = ik_device_id k"

definition Identity_Upsert :: "identity_key \<Rightarrow> identity_key io" where
  "Identity_Upsert k = sql T_identity_keys 1 (\<lambda>i now d.
     case List.find (same_device k) (identity_keys d) of
       Some x \<Rightarrow>
         Inr (k\<lparr>ik_id := ik_id x, ik_uploaded_at := now\<rparr>,
              d\<lparr>identity_keys := map (\<lambda>y. if same_device k y
                 then y\<lparr>ik_public_key := ik_public_key k, ik_sign_public_key := ik_sign_public_key k,
                        ik_fingerprint := ik_fingerprint k, ik_uploaded_at := now\<rparr> else y) (identity_keys d)\<rparr>)
     | None \<Rightarrow>
         if ik_user_id k \<notin> us_id ` set (users d) \<or> ik_device_id k \<notin> dv_id ` set (devices d)
         then Inl Pg_ForeignKey
         else (let row = k\<lparr>ik_id := i, ik_uploaded_at := now\<rparr>
               in Inr (row, d\<lparr>identity_keys := identity_keys d @ [row]\<rparr>)))"

section \<open>Signed pre-keys\<close>

text \<open>The \<open>uint32\<close> key id goes into an \<open>INT\<close> column.\<close>

definition fits_int :: "32 word \<Rightarrow> bool" where
  "fits_int k \<longleftrightarrow> unat k < 2 ^ 31"

definition toSignedPreKeyDomain :: "signed_prekey \<Rightarrow> err + signed_prekey" where
  "toSignedPreKeyDomain r = (if length (sp_public_key r) \<noteq> 32 \<or> length (sp_signature r) \<noteq> 64
     then Inl Plain else Inr r)"

definition owned_by :: "user_id \<Rightarrow> device_id \<Rightarrow> signed_prekey \<Rightarrow> bool" where
  "owned_by u v k \<longleftrightarrow> sp_user_id k = u \<and> sp_device_id k = v"

definition SPK_FindActive :: "user_id \<Rightarrow> device_id \<Rightarrow> signed_prekey io" where
  "SPK_FindActive u v = bind (not_found_as (NotFound SignedPreKeyNotFound)
     (ScanOne (\<lambda>d. filter (\<lambda>k. owned_by u v k \<and> sp_is_active k) (signed_prekeys d))))
     (\<lambda>r. check (toSignedPreKeyDomain r) ret)"

definition SPK_FindByKeyID :: "user_id \<Rightarrow> device_id \<Rightarrow> 32 word \<Rightarrow> signed_prekey io" where
  "SPK_FindByKeyID u v i = bind (not_found_as (NotFound SignedPreKeyNotFound)
     (ScanOne (\<lambda>d. filter (\<lambda>k. owned_by u v k \<and> sp_key_id k = i) (signed_prekeys d))))
     (\<lambda>r. check (toSignedPreKeyDomain r) ret)"

definition SPK_Add :: "signed_prekey \<Rightarrow> signed_prekey io" where
  "SPK_Add k = sql T_signed_prekeys 1 (\<lambda>i now d.
     if \<not> fits_int (sp_key_id k) then Inl Pg_OutOfRange
     else if \<exists>x \<in> set (signed_prekeys d). owned_by (sp_user_id k) (sp_device_id k) x \<and> sp_key_id x = sp_key_id k
     then Inl Pg_UniqueViolation
     else if sp_user_id k \<notin> us_id ` set (users d) \<or> sp_device_id k \<notin> dv_id ` set (devices d)
     then Inl Pg_ForeignKey
     else (let row = k\<lparr>sp_id := i, sp_created_at := now\<rparr>
           in Inr (row, d\<lparr>signed_prekeys := signed_prekeys d @ [row]\<rparr>)))"

definition SPK_DeactivateAll :: "user_id \<Rightarrow> device_id \<Rightarrow> unit io" where
  "SPK_DeactivateAll u v = Exec (\<lambda>_ d. Inr (d\<lparr>signed_prekeys :=
     map (\<lambda>k. if owned_by u v k \<and> sp_is_active k then k\<lparr>sp_is_active := False\<rparr> else k) (signed_prekeys d)\<rparr>))"

section \<open>One-time pre-keys\<close>

definition toOTPPreKeyDomain :: "otp_prekey \<Rightarrow> err + otp_prekey" where
  "toOTPPreKeyDomain r = (if length (op_public_key r) \<noteq> 32 then Inl Plain else Inr r)"

definition otp_owned_by :: "user_id \<Rightarrow> device_id \<Rightarrow> otp_prekey \<Rightarrow> bool" where
  "otp_owned_by u v k \<longleftrightarrow> op_user_id k = u \<and> op_device_id k = v"

text \<open>
  One statement picks a row, deletes it and returns it.  Its \<open>RETURNING id, ...\<close> names a column that
  both the table and the common table expression \<open>victim\<close> have, unqualified.  The parameter says whether
  the database in use rejects such a reference as ambiguous, which PostgreSQL does.
\<close>

definition consume_row :: "bool \<Rightarrow> user_id \<Rightarrow> device_id \<Rightarrow> db \<Rightarrow> pg_error + (otp_prekey option \<times> db)" where
  "consume_row rejects_id u v d =
     (if rejects_id then Inl Pg_AmbiguousColumn
      else (case List.find (otp_owned_by u v) (otp_prekeys d) of
        None \<Rightarrow> Inr (None, d)
      | Some k \<Rightarrow> Inr (Some k, d\<lparr>otp_prekeys := filter (\<lambda>x. op_id x \<noteq> op_id k) (otp_prekeys d)\<rparr>)))"

definition OTP_ConsumeOne :: "bool \<Rightarrow> user_id \<Rightarrow> device_id \<Rightarrow> otp_prekey io" where
  "OTP_ConsumeOne rejects_id u v = bind (not_found_as (Otp ErrPoolEmpty)
     (bind (sql T_otp_prekeys 0 (\<lambda>_ _. consume_row rejects_id u v))
       (\<lambda>r. case r of None \<Rightarrow> fail (Pg Pg_NotFound) | Some k \<Rightarrow> ret k)))
     (\<lambda>r. check (toOTPPreKeyDomain r) ret)"

definition otp_key :: "otp_prekey \<Rightarrow> user_id \<times> device_id \<times> 32 word" where
  "otp_key k = (op_user_id k, op_device_id k, op_key_id k)"

fun otp_rows :: "int \<Rightarrow> instant \<Rightarrow> otp_prekey list \<Rightarrow> otp_prekey list" where
  "otp_rows i now [] = []"
| "otp_rows i now (k # ks) = k\<lparr>op_id := i, op_uploaded_at := now\<rparr> # otp_rows (i + 1) now ks"

text \<open>One multi-row insert: all rows or none.\<close>

definition OTP_AddBatch :: "otp_prekey list \<Rightarrow> unit io" where
  "OTP_AddBatch ks =
     (if ks = [] then ret ()
      else sql T_otp_prekeys (length ks) (\<lambda>i now d.
        if \<not> list_all (\<lambda>k. fits_int (op_key_id k)) ks then Inl Pg_OutOfRange
        else if \<not> distinct (map otp_key ks) \<or> (\<exists>k \<in> set ks. otp_key k \<in> otp_key ` set (otp_prekeys d))
        then Inl Pg_UniqueViolation
        else if \<exists>k \<in> set ks. op_user_id k \<notin> us_id ` set (users d) \<or> op_device_id k \<notin> dv_id ` set (devices d)
        then Inl Pg_ForeignKey
        else Inr ((), d\<lparr>otp_prekeys := otp_prekeys d @ otp_rows i now ks\<rparr>)))"

definition OTP_CountAvailable :: "user_id \<Rightarrow> device_id \<Rightarrow> int io" where
  "OTP_CountAvailable u v = bind (ScanAll (\<lambda>d. filter (otp_owned_by u v) (otp_prekeys d)))
     (\<lambda>rs. ret (int (length rs)))"

section \<open>Uploading\<close>

definition upload_identity_key ::
  "(string \<Rightarrow> device_id option) \<Rightarrow> (bytes \<Rightarrow> string) \<Rightarrow> user_id \<Rightarrow> string \<Rightarrow> string \<Rightarrow> string \<Rightarrow> string io" where
  "upload_identity_key FromString FingerprintKey userID DeviceID PublicKey SignPublicKey =
     check (decode_sized 32 PublicKey) (\<lambda>keyBytes.
     check (decode_sized 32 SignPublicKey) (\<lambda>signKeyBytes.
     check (ParseDeviceID FromString DeviceID) (\<lambda>deviceID.
     bind (Identity_Upsert \<lparr>ik_id = 0, ik_user_id = userID, ik_device_id = deviceID,
             ik_public_key = keyBytes, ik_sign_public_key = signKeyBytes,
             ik_fingerprint = FingerprintKey keyBytes, ik_uploaded_at = 0\<rparr>) (\<lambda>_.
     ret (FingerprintKey keyBytes)))))"

definition upload_signed_prekey ::
  "(string \<Rightarrow> device_id option) \<Rightarrow> (bytes \<Rightarrow> bytes \<Rightarrow> bytes \<Rightarrow> bool) \<Rightarrow>
   user_id \<Rightarrow> string \<Rightarrow> 32 word \<Rightarrow> string \<Rightarrow> string \<Rightarrow> unit io" where
  "upload_signed_prekey FromString VerifySignedPreKey userID DeviceID KeyID PublicKey Signature =
     check (ParseDeviceID FromString DeviceID) (\<lambda>deviceID.
     check (decode_sized 32 PublicKey) (\<lambda>pubBytes.
     check (decode_sized 64 Signature) (\<lambda>sigBytes.
     attempt (Identity_FindByUserAndDevice userID deviceID) (\<lambda>_. fail (E2EE ErrIdentityNotFound)) (\<lambda>identityKey.
     guard (VerifySignedPreKey (ik_sign_public_key identityKey) pubBytes sigBytes) (E2EE ErrInvalidSignature) (
     bind (SPK_DeactivateAll userID deviceID) (\<lambda>_.
     bind (SPK_Add \<lparr>sp_id = 0, sp_user_id = userID, sp_device_id = deviceID, sp_key_id = KeyID,
             sp_public_key = pubBytes, sp_signature = sigBytes, sp_is_active = True,
             sp_created_at = 0, sp_expires_at = None\<rparr>) (\<lambda>_. ret ())))))))"

text \<open>The loop that decodes the items of a batch.\<close>

fun decode_items :: "user_id \<Rightarrow> device_id \<Rightarrow> (32 word \<times> string) list \<Rightarrow> err + otp_prekey list" where
  "decode_items u v [] = Inr []"
| "decode_items u v ((i, s) # items) =
     (case decode_sized 32 s of
        Inl e \<Rightarrow> Inl e
      | Inr bs \<Rightarrow> (case decode_items u v items of
          Inl e \<Rightarrow> Inl e
        | Inr ks \<Rightarrow> Inr (\<lparr>op_id = 0, op_user_id = u, op_device_id = v, op_key_id = i,
                         op_public_key = bs, op_uploaded_at = 0\<rparr> # ks)))"

definition upload_otp_prekeys ::
  "(string \<Rightarrow> device_id option) \<Rightarrow> user_id \<Rightarrow> string \<Rightarrow> (32 word \<times> string) list \<Rightarrow> int io" where
  "upload_otp_prekeys FromString userID DeviceID Keys =
     check (ParseDeviceID FromString DeviceID) (\<lambda>deviceID.
     check (decode_items userID deviceID Keys) (\<lambda>keys.
     bind (OTP_AddBatch keys) (\<lambda>_. OTP_CountAvailable userID deviceID)))"

definition count_otp_prekeys :: "(string \<Rightarrow> device_id option) \<Rightarrow> user_id \<Rightarrow> string \<Rightarrow> int io" where
  "count_otp_prekeys FromString userID DeviceID =
     check (ParseDeviceID FromString DeviceID) (\<lambda>deviceID. OTP_CountAvailable userID deviceID)"

section \<open>The key bundle\<close>

record key_bundle =
  kb_identity_key :: string
  kb_identity_key_sign :: string
  kb_signed_prekey :: string
  kb_spk_signature :: string
  kb_spk_key_id :: "32 word"
  kb_otp_prekey :: "string option"
  kb_otp_prekey_id :: "32 word option"

definition OTPReplenishThreshold :: int where
  "OTPReplenishThreshold = 5"

text \<open>\<open>json.Marshal\<close> of the map: its keys in alphabetical order.\<close>

definition replenish_payload :: "string \<Rightarrow> user_id \<Rightarrow> string" where
  "replenish_payload device u =
     CHR ''{'' # CHR 0x22 # ''device_id'' @ CHR 0x22 # CHR '':'' # CHR 0x22 # device @ CHR 0x22 # CHR '','' #
     CHR 0x22 # ''user_id'' @ CHR 0x22 # CHR '':'' # FormatInt u @ ''}''"

definition target_device :: "(string \<Rightarrow> device_id option) \<Rightarrow> user_id \<Rightarrow> string \<Rightarrow> device_id io" where
  "target_device FromString target DeviceID =
     (if DeviceID = []
      then attempt (Identity_FindByUser target) (\<lambda>_. fail (E2EE ErrIdentityNotFound))
             (\<lambda>keys. case keys of [] \<Rightarrow> fail (E2EE ErrIdentityNotFound) | k # _ \<Rightarrow> ret (ik_device_id k))
      else check (ParseDeviceID FromString DeviceID) ret)"

definition bundle_of :: "identity_key \<Rightarrow> signed_prekey \<Rightarrow> otp_prekey option \<Rightarrow> key_bundle" where
  "bundle_of identityKey signedPreKey otpKey =
     \<lparr>kb_identity_key = EncodeToString (ik_public_key identityKey),
      kb_identity_key_sign = EncodeToString (ik_sign_public_key identityKey),
      kb_signed_prekey = EncodeToString (sp_public_key signedPreKey),
      kb_spk_signature = EncodeToString (sp_signature signedPreKey),
      kb_spk_key_id = sp_key_id signedPreKey,
      kb_otp_prekey = map_option (\<lambda>k. EncodeToString (op_public_key k)) otpKey,
      kb_otp_prekey_id = map_option op_key_id otpKey\<rparr>"

text \<open>The end of the use case: a request for new one-time keys when few are left.\<close>

definition replenish :: "(device_id \<Rightarrow> string) \<Rightarrow> user_id \<Rightarrow> device_id \<Rightarrow> key_bundle \<Rightarrow> key_bundle io" where
  "replenish uuid_String target deviceID out =
     attempt (OTP_CountAvailable target deviceID) (\<lambda>_. ret out) (\<lambda>remaining.
     if remaining < OTPReplenishThreshold
     then ignore (Dispatch target ''e2ee.replenish_otp_keys'' (replenish_payload (uuid_String deviceID) target)) (ret out)
     else ret out)"

definition get_key_bundle ::
  "bool \<Rightarrow> (string \<Rightarrow> device_id option) \<Rightarrow> (device_id \<Rightarrow> string) \<Rightarrow> string \<Rightarrow> string \<Rightarrow> key_bundle io" where
  "get_key_bundle rejects_id FromString uuid_String TargetUserID DeviceID =
     check (ParseUserID TargetUserID) (\<lambda>target.
     bind (target_device FromString target DeviceID) (\<lambda>deviceID.
     attempt (Identity_FindByUserAndDevice target deviceID) (\<lambda>_. fail (E2EE ErrIdentityNotFound)) (\<lambda>identityKey.
     bind (SPK_FindActive target deviceID) (\<lambda>signedPreKey.
     bind (attempt (OTP_ConsumeOne rejects_id target deviceID) (\<lambda>_. ret None) (\<lambda>k. ret (Some k))) (\<lambda>otpKey.
     replenish uuid_String target deviceID (bundle_of identityKey signedPreKey otpKey))))))"

end
