(* ===== verification/E2EE_Rules.thy ===== *)
theory E2EE_Rules
  imports E2EE_Keys Inversion
begin

text \<open>
  Facts about the device keys: what a successful statement or use case did, and the invariant of the
  three key tables with its interpretation on the model's statements.
\<close>

section \<open>Successful runs\<close>

lemma check_succ [succ]: "check r k w = (Inr y, w') \<longleftrightarrow> (\<exists>x. r = Inr x \<and> k x w = (Inr y, w'))"
  by (cases r) (simp_all add: check_def)

lemma ParseDeviceID_succ [succ]: "ParseDeviceID FromString s = Inr v \<longleftrightarrow> FromString s = Some v"
  by (simp add: ParseDeviceID_def split: option.split)

lemma decode_sized_succ [succ]: "decode_sized n s = Inr bs \<longleftrightarrow> DecodeString s = Some bs \<and> length bs = n"
  by (auto simp: decode_sized_def split: option.split)

lemma toIdentityKeyDomain_succ [succ]:
  "toIdentityKeyDomain r = Inr k \<longleftrightarrow> k = r \<and> length (ik_public_key r) = 32 \<and> length (ik_sign_public_key r) = 32"
  by (auto simp: toIdentityKeyDomain_def)

lemma toSignedPreKeyDomain_succ [succ]:
  "toSignedPreKeyDomain r = Inr k \<longleftrightarrow> k = r \<and> length (sp_public_key r) = 32 \<and> length (sp_signature r) = 64"
  by (auto simp: toSignedPreKeyDomain_def)

lemma toOTPPreKeyDomain_succ [succ]:
  "toOTPPreKeyDomain r = Inr k \<longleftrightarrow> k = r \<and> length (op_public_key r) = 32"
  by (auto simp: toOTPPreKeyDomain_def)

text \<open>The identity key and the active signed pre-key a look-up returns.\<close>

definition identity_of :: "db \<Rightarrow> user_id \<Rightarrow> device_id \<Rightarrow> identity_key option" where
  "identity_of d u v = List.find (\<lambda>k. ik_user_id k = u \<and> ik_device_id k = v) (identity_keys d)"

definition active_spks :: "db \<Rightarrow> user_id \<Rightarrow> device_id \<Rightarrow> signed_prekey list" where
  "active_spks d u v = filter (\<lambda>k. owned_by u v k \<and> sp_is_active k) (signed_prekeys d)"

definition otp_pool :: "db \<Rightarrow> user_id \<Rightarrow> device_id \<Rightarrow> otp_prekey list" where
  "otp_pool d u v = filter (otp_owned_by u v) (otp_prekeys d)"

lemma find_identity_succ:
  "Identity_FindByUserAndDevice u v w = (Inr k, w') \<Longrightarrow>
     identity_of (tables w) u v = Some k \<and> w' = queried w \<and> length (ik_public_key k) = 32 \<and> length (ik_sign_public_key k) = 32"
  by (auto simp: Identity_FindByUserAndDevice_def succ identity_of_def dest: filter_Cons_find)

lemma find_active_succ:
  "SPK_FindActive u v w = (Inr k, w') \<Longrightarrow> (\<exists>ks. active_spks (tables w) u v = k # ks) \<and> w' = queried w \<and>
     length (sp_public_key k) = 32 \<and> length (sp_signature k) = 64"
  by (auto simp: SPK_FindActive_def succ active_spks_def)

lemma Upsert_succ:
  assumes "Identity_Upsert k w = (Inr r, w')"
  shows "\<exists>ks. tables w' = (tables w)\<lparr>identity_keys := ks\<rparr>"
    and "\<exists>r. identity_of (tables w') (ik_user_id k) (ik_device_id k) = Some r \<and> ik_public_key r = ik_public_key k
          \<and> ik_sign_public_key r = ik_sign_public_key k \<and> ik_fingerprint r = ik_fingerprint k \<and> ik_uploaded_at r = clock w"
    and "clock w' = clock w" and "tasks w' = tasks w" and "tx w' = tx w"
proof -
  let ?up = "\<lambda>y. y\<lparr>ik_public_key := ik_public_key k, ik_sign_public_key := ik_sign_public_key k,
    ik_fingerprint := ik_fingerprint k, ik_uploaded_at := clock w\<rparr>"
  have id: "identity_of d (ik_user_id k) (ik_device_id k) = List.find (same_device k) (identity_keys d)" for d
    by (simp add: identity_of_def same_device_def [abs_def])
  have m: "List.find (same_device k) (map (\<lambda>y. if same_device k y then ?up y else y) xs)
      = map_option ?up (List.find (same_device k) xs)" for xs
    by (induction xs) (auto simp: same_device_def)
  have t: "(\<exists>x. List.find (same_device k) (identity_keys (tables w)) = Some x \<and>
        tables w' = (tables w)\<lparr>identity_keys := map (\<lambda>y. if same_device k y then ?up y else y) (identity_keys (tables w))\<rparr>)
      \<or> List.find (same_device k) (identity_keys (tables w)) = None \<and>
        tables w' = (tables w)\<lparr>identity_keys := identity_keys (tables w) @
          [k\<lparr>ik_id := seq w T_identity_keys + 1, ik_uploaded_at := clock w\<rparr>]\<rparr>"
    using assms by (auto simp: Identity_Upsert_def sql_succ Let_def split: option.splits if_splits)
  then show "\<exists>ks. tables w' = (tables w)\<lparr>identity_keys := ks\<rparr>" by blast
  from t show "\<exists>r. identity_of (tables w') (ik_user_id k) (ik_device_id k) = Some r \<and> ik_public_key r = ik_public_key k
          \<and> ik_sign_public_key r = ik_sign_public_key k \<and> ik_fingerprint r = ik_fingerprint k \<and> ik_uploaded_at r = clock w"
    by (auto simp: id m find_append) (simp_all add: same_device_def)
  show "clock w' = clock w" "tasks w' = tasks w" "tx w' = tx w"
    using assms by (auto simp: Identity_Upsert_def sql_succ Let_def split: option.splits if_splits)
qed

text \<open>The rows after the active ones of a device have been deactivated.\<close>

definition deactivated :: "user_id \<Rightarrow> device_id \<Rightarrow> signed_prekey list \<Rightarrow> signed_prekey list" where
  "deactivated u v = map (\<lambda>k. if owned_by u v k \<and> sp_is_active k then k\<lparr>sp_is_active := False\<rparr> else k)"

lemma deactivated_none: "filter (\<lambda>k. owned_by u v k \<and> sp_is_active k) (deactivated u v ks) = []"
  by (induction ks) (auto simp: deactivated_def owned_by_def)

lemma deactivated_other: "filter (\<lambda>k. \<not> owned_by u v k) (deactivated u v ks) = filter (\<lambda>k. \<not> owned_by u v k) ks"
  by (induction ks) (auto simp: deactivated_def owned_by_def)

lemma deactivated_keys: "map (\<lambda>k. (owned_by a b k, sp_key_id k)) (deactivated u v ks) = map (\<lambda>k. (owned_by a b k, sp_key_id k)) ks"
  by (induction ks) (auto simp: deactivated_def owned_by_def)

lemma DeactivateAll_succ:
  "SPK_DeactivateAll u v w = (Inr x, w') \<longleftrightarrow> \<not> tx_aborted w \<and> \<not> faulty w \<and>
     w' = ran T_participants 0 ((tables w)\<lparr>signed_prekeys := deactivated u v (signed_prekeys (tables w))\<rparr>) w"
  by (auto simp: SPK_DeactivateAll_def succ deactivated_def)

lemma SPK_Add_succ:
  "SPK_Add k w = (Inr x, w') \<Longrightarrow>
     x = k\<lparr>sp_id := seq w T_signed_prekeys + 1, sp_created_at := clock w\<rparr> \<and> fits_int (sp_key_id k) \<and>
     \<not> (\<exists>y \<in> set (signed_prekeys (tables w)). owned_by (sp_user_id k) (sp_device_id k) y \<and> sp_key_id y = sp_key_id k) \<and>
     w' = ran T_signed_prekeys 1 ((tables w)\<lparr>signed_prekeys := signed_prekeys (tables w) @ [x]\<rparr>) w"
  by (auto simp: SPK_Add_def sql_succ Let_def split: if_splits)

lemma consume_row_Some:
  "consume_row rejects_id u v d = Inr (Some k, d') \<longleftrightarrow> \<not> rejects_id \<and>
     List.find (otp_owned_by u v) (otp_prekeys d) = Some k \<and>
     d' = d\<lparr>otp_prekeys := filter (\<lambda>x. op_id x \<noteq> op_id k) (otp_prekeys d)\<rparr>"
  by (cases "List.find (otp_owned_by u v) (otp_prekeys d)") (auto simp: consume_row_def)

lemma consume_row_None: "consume_row rejects_id u v d = Inr (None, d') \<Longrightarrow> d' = d"
  by (cases "List.find (otp_owned_by u v) (otp_prekeys d)") (auto simp: consume_row_def split: if_splits)

lemma ConsumeOne_succ:
  assumes "OTP_ConsumeOne rejects_id u v w = (Inr k, w')"
  shows "\<not> rejects_id" and "List.find (otp_owned_by u v) (otp_prekeys (tables w)) = Some k"
    and "length (op_public_key k) = 32"
    and "tables w' = (tables w)\<lparr>otp_prekeys := filter (\<lambda>x. op_id x \<noteq> op_id k) (otp_prekeys (tables w))\<rparr>"
    and "seq w' = seq w" and "tasks w' = tasks w"
proof -
  from assms obtain r w1 where r: "sql T_otp_prekeys 0 (\<lambda>_ _. consume_row rejects_id u v) w = (Inr r, w1)"
    and k: "(case r of None \<Rightarrow> fail (Pg Pg_NotFound) | Some k \<Rightarrow> ret k) w1 = (Inr k, w')"
    and len: "length (op_public_key k) = 32"
    by (auto simp: OTP_ConsumeOne_def succ)
  from k have "r = Some k" and "w1 = w'" by (cases r; simp)+
  with r obtain d where "consume_row rejects_id u v (tables w) = Inr (Some k, d)" "w' = ran T_otp_prekeys 0 d w"
    by (auto simp: sql_succ)
  then show "\<not> rejects_id" and "List.find (otp_owned_by u v) (otp_prekeys (tables w)) = Some k"
    and "tables w' = (tables w)\<lparr>otp_prekeys := filter (\<lambda>x. op_id x \<noteq> op_id k) (otp_prekeys (tables w))\<rparr>"
    and "seq w' = seq w" and "tasks w' = tasks w"
    by (simp_all add: consume_row_Some)
  show "length (op_public_key k) = 32" by (rule len)
qed

text \<open>A call that hands out no key left the tables alone, where no stored key is malformed.\<close>

lemma sql_fails:
  "sql t n q w = (Inl e, w') \<Longrightarrow> tables w' = tables w \<and> tasks w' = tasks w \<and> tx_snapshot w' = tx_snapshot w"
  by (auto simp: sql_def Let_def split: if_splits sum.splits)

lemma bind_fails:
  "bind m k w = (Inl e, w') \<longleftrightarrow> m w = (Inl e, w') \<or> (\<exists>x w1. m w = (Inr x, w1) \<and> k x w1 = (Inl e, w'))"
  by (auto simp: bind_def attempt_def split: prod.splits sum.splits)

lemma ConsumeOne_fails:
  assumes "OTP_ConsumeOne rejects_id u v w = (Inl e, w')"
    and len: "\<forall>k \<in> set (otp_prekeys (tables w)). length (op_public_key k) = 32"
  shows "tables w' = tables w \<and> tasks w' = tasks w"
proof -
  let ?s = "sql T_otp_prekeys 0 (\<lambda>_ _. consume_row rejects_id u v)"
  consider (stmt) y where "?s w = (Inl y, w')"
    | (row) r w1 y where "?s w = (Inr r, w1)" "(case r of None \<Rightarrow> fail (Pg Pg_NotFound) | Some k \<Rightarrow> ret k) w1 = (Inl y, w')"
    | (mapper) r k w1 w2 where "?s w = (Inr r, w1)" "(case r of None \<Rightarrow> fail (Pg Pg_NotFound) | Some k \<Rightarrow> ret k) w1 = (Inr k, w2)"
        "check (toOTPPreKeyDomain k) ret w2 = (Inl e, w')"
    using assms(1) unfolding OTP_ConsumeOne_def bind_fails not_found_as_fails not_found_as_succ bind_succ by blast
  then show ?thesis
  proof cases
    case stmt
    then show ?thesis using sql_fails by blast
  next
    case row
    then have "r = None" and "w1 = w'" by (cases r; simp)+
    with row(1) show ?thesis using consume_row_None by (auto simp: sql_succ)
  next
    case mapper
    then have "r = Some k" by (cases r) auto
    with mapper(1) have "List.find (otp_owned_by u v) (otp_prekeys (tables w)) = Some k"
      by (auto simp: sql_succ consume_row_Some)
    then have "k \<in> set (otp_prekeys (tables w))" by (simp add: find_Some_iff_mem)
    with len have "length (op_public_key k) = 32" by simp
    then have "toOTPPreKeyDomain k = Inr k" by (simp add: toOTPPreKeyDomain_def)
    with mapper(3) show ?thesis by (simp only: check_def sum.case ret_run prod.inject sum.distinct simp_thms)
  qed
qed

section \<open>The bundle\<close>

lemma attempt_fail_succ [succ]:
  "attempt m (\<lambda>_. fail e) k w = (Inr y, w') \<longleftrightarrow> (\<exists>x w1. m w = (Inr x, w1) \<and> k x w1 = (Inr y, w'))"
  by (auto simp: attempt_succ)

lemma replenish_run:
  "healthy w \<Longrightarrow> replenish uuid_String u v out w = (Inr out,
     if length (otp_pool (tables w) u v) < 5 then
       (let item = \<lparr>dq_id = seq w T_queue + 1, dq_user_id = u, dq_payload_type = ''e2ee.replenish_otp_keys'',
          dq_payload = replenish_payload (uuid_String v) u, dq_status = DeliveryPending,
          dq_created_at = clock w, dq_delivered_at = None\<rparr>
        in w\<lparr>seq := (seq w)(T_queue := seq w T_queue + 1),
             tables := (tables w)\<lparr>delivery_queue := delivery_queue (tables w) @ [item]\<rparr>,
             tasks := tasks w @ [PushAndTrack u item]\<rparr>)
     else w)"
  by (simp add: replenish_def OTP_CountAvailable_def ScanAll_run otp_pool_def OTPReplenishThreshold_def ignore_run
      Dispatch_def Queue_Enqueue_def sql_run spawn_run Let_def)

lemma replenish_keeps:
  "fst (replenish uuid_String u v out w) = Inr out \<and>
   keeps_fn (\<lambda>w. (tables w)\<lparr>delivery_queue := []\<rparr>) (replenish uuid_String u v out)"
proof -
  have "keeps_fn (\<lambda>w. (tables w)\<lparr>delivery_queue := []\<rparr>) (Queue_Enqueue u ty p)" for u ty p
    by (auto simp: Queue_Enqueue_def sql_def Let_def keeps_fn_def)
  moreover have "keeps_fn (\<lambda>w. (tables w)\<lparr>delivery_queue := []\<rparr>) (OTP_CountAvailable u v)"
    by (auto simp: OTP_CountAvailable_def ScanAll_def sql_def Let_def keeps_fn_def bind_def attempt_def)
  ultimately have "keeps_fn (\<lambda>w. (tables w)\<lparr>delivery_queue := []\<rparr>) (replenish uuid_String u v out)"
    unfolding replenish_def Dispatch_def by (intro frame_intros) (simp_all add: keeps_fn_def spawn_run)
  moreover have "fst (replenish uuid_String u v out w) = Inr out"
    by (auto simp: replenish_def ignore_run attempt_def split: prod.splits sum.splits)
  ultimately show ?thesis by simp
qed

text \<open>The device a bundle is for: the one asked for, or the first one of the user with an identity key.\<close>

definition bundle_device :: "(string \<Rightarrow> device_id option) \<Rightarrow> db \<Rightarrow> user_id \<Rightarrow> string \<Rightarrow> device_id option" where
  "bundle_device FromString d u DeviceID = (if DeviceID = []
     then map_option ik_device_id (List.find (\<lambda>k. ik_user_id k = u) (identity_keys d)) else FromString DeviceID)"

lemma collect_succ_same:
  "collect rs (\<lambda>r. check (toIdentityKeyDomain r) (\<lambda>k. ret (Some k))) w = (Inr ks, w') \<Longrightarrow> ks = rs \<and> w' = w"
  by (induction rs arbitrary: ks) (auto simp: succ split: option.splits)

lemma target_device_succ:
  assumes "target_device FromString u DeviceID w = (Inr v, w')"
  shows "bundle_device FromString (tables w) u DeviceID = Some v \<and> tables w' = tables w \<and> (healthy w \<longrightarrow> w' = w)"
proof (cases "DeviceID = []")
  case False
  with assms show ?thesis by (auto simp: target_device_def bundle_device_def succ)
next
  case True
  with assms obtain keys w1 where k: "Identity_FindByUser u w = (Inr keys, w1)"
    and r: "(case keys of [] \<Rightarrow> fail (E2EE ErrIdentityNotFound) | k # _ \<Rightarrow> ret (ik_device_id k)) w1 = (Inr v, w')"
    by (auto simp: target_device_def succ)
  from k have "keys = filter (\<lambda>k. ik_user_id k = u) (identity_keys (tables w)) \<and> w1 = queried w"
    by (auto simp: Identity_FindByUser_def succ dest: collect_succ_same)
  with r True show ?thesis
    by (auto simp: bundle_device_def queried_def ran_def split: list.splits dest: filter_Cons_find)
qed

lemma queried_healthy: "healthy w \<Longrightarrow> queried w = w"
  by (simp add: queried_def ran_def)

lemma get_key_bundle_succ:
  assumes "get_key_bundle rejects_id FromString uuid_String target DeviceID w = (Inr out, w')"
  obtains u v ik spk otp spks w1 where
    "ParseInt target = Some u" "bundle_device FromString (tables w) u DeviceID = Some v"
    "identity_of (tables w) u v = Some ik" "active_spks (tables w) u v = spk # spks"
    "length (ik_public_key ik) = 32" "length (sp_public_key spk) = 32"
    "out = bundle_of ik spk otp"
    "tables w1 = tables w" "healthy w \<longrightarrow> w1 = w"
    "attempt (OTP_ConsumeOne rejects_id u v) (\<lambda>_. ret None) (\<lambda>k. ret (Some k)) w1 = (Inr otp, snd (attempt (OTP_ConsumeOne rejects_id u v) (\<lambda>_. ret None) (\<lambda>k. ret (Some k)) w1))"
    "w' = snd (replenish uuid_String u v out (snd (attempt (OTP_ConsumeOne rejects_id u v) (\<lambda>_. ret None) (\<lambda>k. ret (Some k)) w1)))"
proof -
  from assms obtain u v wa ik wb spk wc otp wd where u: "ParseUserID target = Inr u"
    and v: "target_device FromString u DeviceID w = (Inr v, wa)"
    and ik: "Identity_FindByUserAndDevice u v wa = (Inr ik, wb)"
    and spk: "SPK_FindActive u v wb = (Inr spk, wc)"
    and otp: "attempt (OTP_ConsumeOne rejects_id u v) (\<lambda>_. ret None) (\<lambda>k. ret (Some k)) wc = (Inr otp, wd)"
    and rep: "replenish uuid_String u v (bundle_of ik spk otp) wd = (Inr out, w')"
    unfolding get_key_bundle_def check_succ bind_succ attempt_fail_succ by blast
  have "ParseInt target = Some u" using u by (simp add: ParseUserID_def split: option.splits)
  moreover obtain spks where "active_spks (tables wb) u v = spk # spks" using find_active_succ [OF spk] by blast
  moreover note target_device_succ [OF v] find_identity_succ [OF ik] find_active_succ [OF spk]
  moreover have "out = bundle_of ik spk otp" using rep replenish_keeps [of uuid_String u v "bundle_of ik spk otp" wd] by simp
  ultimately show ?thesis using otp rep queried_healthy [of w]
    by (intro that [of u v ik spk spks otp wc]) auto
qed

text \<open>What a bundle did to the pool of one-time keys.\<close>

lemma bundle_pool:
  assumes "get_key_bundle rejects_id FromString uuid_String target DeviceID w = (Inr out, w')"
    and sized: "\<forall>k \<in> set (otp_prekeys (tables w)). length (op_public_key k) = 32"
  shows "kb_otp_prekey_id out = None \<and> kb_otp_prekey out = None \<and> otp_prekeys (tables w') = otp_prekeys (tables w) \<or>
    (\<exists>k. \<not> rejects_id \<and> k \<in> set (otp_prekeys (tables w)) \<and> kb_otp_prekey_id out = Some (op_key_id k) \<and>
       kb_otp_prekey out = Some (EncodeToString (op_public_key k)) \<and>
       otp_prekeys (tables w') = filter (\<lambda>x. op_id x \<noteq> op_id k) (otp_prekeys (tables w)))"
  using assms(1)
proof (rule get_key_bundle_succ)
  fix u v and ik :: identity_key and spk :: signed_prekey and otp spks w1
  let ?c = "attempt (OTP_ConsumeOne rejects_id u v) (\<lambda>_. ret None) (\<lambda>k. ret (Some k))"
  assume out: "out = bundle_of ik spk otp" and t1: "tables w1 = tables w"
    and c: "?c w1 = (Inr otp, snd (?c w1))" and w': "w' = snd (replenish uuid_String u v out (snd (?c w1)))"
  have "(tables w')\<lparr>delivery_queue := []\<rparr> = (tables (snd (?c w1)))\<lparr>delivery_queue := []\<rparr>"
    using replenish_keeps by (simp add: w' keeps_fn_def)
  then have "otp_prekeys ((tables w')\<lparr>delivery_queue := []\<rparr>) = otp_prekeys ((tables (snd (?c w1)))\<lparr>delivery_queue := []\<rparr>)"
    by (simp only:)
  then have same: "otp_prekeys (tables w') = otp_prekeys (tables (snd (?c w1)))" by simp
  obtain r w2 where r: "OTP_ConsumeOne rejects_id u v w1 = (r, w2)" by (cases "OTP_ConsumeOne rejects_id u v w1")
  show ?thesis
  proof (cases r)
    case (Inl e)
    with c r have "otp = None" "snd (?c w1) = w2" by simp_all
    moreover have "tables w2 = tables w1" using ConsumeOne_fails [OF r [unfolded Inl]] sized t1 by simp
    ultimately show ?thesis using same t1 by (simp add: out bundle_of_def)
  next
    case (Inr k)
    with c r have o: "otp = Some k" and w2: "snd (?c w1) = w2" by simp_all
    note s = ConsumeOne_succ [OF r [unfolded Inr]]
    have "k \<in> set (otp_prekeys (tables w))" using s(2) find_Some_iff_mem t1 by metis
    moreover have "otp_prekeys (tables w') = filter (\<lambda>x. op_id x \<noteq> op_id k) (otp_prekeys (tables w))"
      using same w2 s(4) t1 by simp
    ultimately show ?thesis using s(1) by (intro disjI2 exI [of _ k]) (simp add: out o bundle_of_def)
  qed
qed

end
