(* ===== verification/E2EE_Invariant.thy ===== *)
theory E2EE_Invariant
  imports E2EE_Rules
begin

text \<open>
  The invariant of the device keys: row ids are unique and already drawn, a device has one identity
  key, key ids are unique per device, and stored keys and signatures have their sizes.  Every statement
  of the repositories keeps it, and every use case keeps the stronger invariant that a device has at
  most one active signed pre-key.
\<close>

section \<open>The invariant\<close>

definition ik_owner :: "identity_key \<Rightarrow> user_id \<times> device_id" where
  "ik_owner k = (ik_user_id k, ik_device_id k)"

definition spk_key :: "signed_prekey \<Rightarrow> user_id \<times> device_id \<times> 32 word" where
  "spk_key k = (sp_user_id k, sp_device_id k, sp_key_id k)"

definition sized_identity :: "identity_key \<Rightarrow> bool" where
  "sized_identity k \<longleftrightarrow> length (ik_public_key k) = 32 \<and> length (ik_sign_public_key k) = 32"

definition sized_spk :: "signed_prekey \<Rightarrow> bool" where
  "sized_spk k \<longleftrightarrow> length (sp_public_key k) = 32 \<and> length (sp_signature k) = 64"

definition sized_otp :: "otp_prekey \<Rightarrow> bool" where
  "sized_otp k \<longleftrightarrow> length (op_public_key k) = 32"

definition identity_inv :: "(table \<Rightarrow> int) \<Rightarrow> db \<Rightarrow> bool" where
  "identity_inv s d \<longleftrightarrow> ids_ok identity_keys ik_id T_identity_keys s d \<and>
     distinct (map ik_owner (identity_keys d)) \<and> (\<forall>k \<in> set (identity_keys d). sized_identity k)"

definition spk_inv :: "(table \<Rightarrow> int) \<Rightarrow> db \<Rightarrow> bool" where
  "spk_inv s d \<longleftrightarrow> ids_ok signed_prekeys sp_id T_signed_prekeys s d \<and>
     distinct (map spk_key (signed_prekeys d)) \<and> (\<forall>k \<in> set (signed_prekeys d). sized_spk k)"

definition otp_inv :: "(table \<Rightarrow> int) \<Rightarrow> db \<Rightarrow> bool" where
  "otp_inv s d \<longleftrightarrow> ids_ok otp_prekeys op_id T_otp_prekeys s d \<and>
     distinct (map otp_key (otp_prekeys d)) \<and> (\<forall>k \<in> set (otp_prekeys d). sized_otp k)"

interpretation identity_ids: id_table identity_keys "\<lambda>rs. identity_keys_update (\<lambda>_. rs)" ik_id T_identity_keys
  by unfold_locales simp

interpretation spk_ids: id_table signed_prekeys "\<lambda>rs. signed_prekeys_update (\<lambda>_. rs)" sp_id T_signed_prekeys
  by unfold_locales simp

interpretation otp_ids: id_table otp_prekeys "\<lambda>rs. otp_prekeys_update (\<lambda>_. rs)" op_id T_otp_prekeys
  by unfold_locales simp

interpretation identity_store: framed_invariant identity_inv identity_keys
  using identity_ids.mono by unfold_locales (auto simp: identity_inv_def ids_ok_def)

interpretation spk_store: framed_invariant spk_inv signed_prekeys
  using spk_ids.mono by unfold_locales (auto simp: spk_inv_def ids_ok_def)

interpretation otp_store: framed_invariant otp_inv otp_prekeys
  using otp_ids.mono by unfold_locales (auto simp: otp_inv_def ids_ok_def)

text \<open>To re-establish an invariant from the new rows alone.\<close>

lemma identity_invI:
  "identity_keys d' = ks \<Longrightarrow> ids_ok identity_keys ik_id T_identity_keys s d' \<Longrightarrow> distinct (map ik_owner ks) \<Longrightarrow>
   (\<And>k. k \<in> set ks \<Longrightarrow> sized_identity k) \<Longrightarrow> identity_inv s d'"
  by (auto simp: identity_inv_def)

lemma spk_invI:
  "signed_prekeys d' = ks \<Longrightarrow> ids_ok signed_prekeys sp_id T_signed_prekeys s d' \<Longrightarrow> distinct (map spk_key ks) \<Longrightarrow>
   (\<And>k. k \<in> set ks \<Longrightarrow> sized_spk k) \<Longrightarrow> spk_inv s d'"
  by (auto simp: spk_inv_def)

lemma otp_invI:
  "otp_prekeys d' = ks \<Longrightarrow> ids_ok otp_prekeys op_id T_otp_prekeys s d' \<Longrightarrow> distinct (map otp_key ks) \<Longrightarrow>
   (\<And>k. k \<in> set ks \<Longrightarrow> sized_otp k) \<Longrightarrow> otp_inv s d'"
  by (auto simp: otp_inv_def)

section \<open>The statements of the repositories\<close>

lemma keeps_ik_upsert:
  assumes "sized_identity k"
  shows "keeps (inv_holds identity_inv) (Identity_Upsert k)"
  unfolding Identity_Upsert_def
proof (rule identity_store.keeps_sql, rule stmt_keepsI)
  fix s :: "table \<Rightarrow> int" and now :: instant and d d' :: db and x
  let ?up = "\<lambda>y. y\<lparr>ik_public_key := ik_public_key k, ik_sign_public_key := ik_sign_public_key k,
    ik_fingerprint := ik_fingerprint k, ik_uploaded_at := now\<rparr>"
  let ?ks = "map (\<lambda>y. if same_device k y then ?up y else y) (identity_keys d)"
  assume I: "identity_inv s d"
    and q: "(case List.find (same_device k) (identity_keys d) of
       Some x \<Rightarrow> Inr (k\<lparr>ik_id := ik_id x, ik_uploaded_at := now\<rparr>, d\<lparr>identity_keys := ?ks\<rparr>)
     | None \<Rightarrow>
         if ik_user_id k \<notin> us_id ` set (users d) \<or> ik_device_id k \<notin> dv_id ` set (devices d) then Inl Pg_ForeignKey
         else (let row = k\<lparr>ik_id := s T_identity_keys + 1, ik_uploaded_at := now\<rparr>
               in Inr (row, d\<lparr>identity_keys := identity_keys d @ [row]\<rparr>))) = Inr (x, d')"
  have ids: "ids_ok identity_keys ik_id T_identity_keys s d" using I by (simp add: identity_inv_def)
  show "identity_inv (s(T_identity_keys := s T_identity_keys + int 1)) d'"
  proof (cases "List.find (same_device k) (identity_keys d)")
    case None
    let ?row = "k\<lparr>ik_id := s T_identity_keys + 1, ik_uploaded_at := now\<rparr>"
    have d': "d' = d\<lparr>identity_keys := identity_keys d @ [?row]\<rparr>"
      using q None by (auto simp: Let_def split: if_splits)
    have "ik_owner ?row \<notin> ik_owner ` set (identity_keys d)"
      using None by (auto simp: find_None_iff same_device_def ik_owner_def)
    moreover have "ids_ok identity_keys ik_id T_identity_keys (s(T_identity_keys := s T_identity_keys + 1)) d'"
      by (rule identity_ids.ids_insert [OF ids, of _ ?row]) (simp_all add: d')
    moreover have "sized_identity ?row" using assms by (simp add: sized_identity_def)
    ultimately show ?thesis using I by (auto simp: identity_inv_def d')
  next
    case (Some y)
    then have d': "d' = d\<lparr>identity_keys := ?ks\<rparr>" using q by simp
    have "map ik_owner ?ks = map ik_owner (identity_keys d)" by (rule map_key_update) (simp add: ik_owner_def)
    then have own: "distinct (map ik_owner ?ks)" using I by (simp only: identity_inv_def)
    have ids': "ids_ok identity_keys ik_id T_identity_keys s d'"
      by (rule identity_ids.ids_update [OF ids, where f = "\<lambda>y. if same_device k y then ?up y else y"]) (simp_all add: d')
    have sized: "sized_identity x" if "x \<in> set ?ks" for x
      using that I assms by (auto simp: identity_inv_def sized_identity_def)
    have "identity_keys d' = ?ks" by (simp add: d')
    then have "identity_inv s d'" using ids' own sized by (rule identity_invI)
    then show ?thesis by (rule identity_store.mono) simp
  qed
qed

lemma keeps_spk_add:
  assumes "sized_spk k"
  shows "keeps (inv_holds spk_inv) (SPK_Add k)"
  unfolding SPK_Add_def
proof (rule spk_store.keeps_sql, rule stmt_keepsI)
  fix s :: "table \<Rightarrow> int" and now :: instant and d d' :: db and x
  let ?row = "k\<lparr>sp_id := s T_signed_prekeys + 1, sp_created_at := now\<rparr>"
  assume I: "spk_inv s d"
    and q: "(if \<not> fits_int (sp_key_id k) then Inl Pg_OutOfRange
     else if \<exists>x \<in> set (signed_prekeys d). owned_by (sp_user_id k) (sp_device_id k) x \<and> sp_key_id x = sp_key_id k
     then Inl Pg_UniqueViolation
     else if sp_user_id k \<notin> us_id ` set (users d) \<or> sp_device_id k \<notin> dv_id ` set (devices d)
     then Inl Pg_ForeignKey
     else (let row = ?row in Inr (row, d\<lparr>signed_prekeys := signed_prekeys d @ [row]\<rparr>))) = Inr (x, d')"
  have d': "d' = d\<lparr>signed_prekeys := signed_prekeys d @ [?row]\<rparr>"
    and new: "\<not> (\<exists>x \<in> set (signed_prekeys d). owned_by (sp_user_id k) (sp_device_id k) x \<and> sp_key_id x = sp_key_id k)"
    using q by (auto simp: Let_def split: if_splits)
  from new have "spk_key ?row \<notin> spk_key ` set (signed_prekeys d)" by (auto simp: spk_key_def owned_by_def)
  moreover have "ids_ok signed_prekeys sp_id T_signed_prekeys (s(T_signed_prekeys := s T_signed_prekeys + 1)) d'"
    using I by (intro spk_ids.ids_insert [of s d _ ?row]) (simp_all add: d' spk_inv_def)
  moreover have "sized_spk ?row" using assms by (simp add: sized_spk_def)
  ultimately show "spk_inv (s(T_signed_prekeys := s T_signed_prekeys + int 1)) d'"
    using I by (auto simp: spk_inv_def d')
qed

lemma keeps_spk_deactivate: "keeps (inv_holds spk_inv) (SPK_DeactivateAll u v)"
  unfolding SPK_DeactivateAll_def
proof (rule spk_store.keeps_Exec)
  fix s :: "table \<Rightarrow> int" and now :: instant and d d' :: db
  let ?f = "\<lambda>k. if owned_by u v k \<and> sp_is_active k then k\<lparr>sp_is_active := False\<rparr> else k"
  assume I: "spk_inv s d" and "Inr (d\<lparr>signed_prekeys := map ?f (signed_prekeys d)\<rparr>) = Inr d'"
  then have d': "d' = d\<lparr>signed_prekeys := map ?f (signed_prekeys d)\<rparr>" by simp
  have "map spk_key (map ?f (signed_prekeys d)) = map spk_key (signed_prekeys d)"
    by (rule map_key_update) (simp add: spk_key_def)
  then have own: "distinct (map spk_key (map ?f (signed_prekeys d)))" using I by (simp only: spk_inv_def)
  have "ids_ok signed_prekeys sp_id T_signed_prekeys s d" using I by (simp only: spk_inv_def)
  then have ids': "ids_ok signed_prekeys sp_id T_signed_prekeys s d'"
    by (rule spk_ids.ids_update [where f = ?f]) (simp_all add: d')
  have sized: "sized_spk x" if x: "x \<in> set (map ?f (signed_prekeys d))" for x
  proof -
    obtain y where y: "y \<in> set (signed_prekeys d)" "x = ?f y" using x by auto
    then have "sized_spk y" using I unfolding spk_inv_def by blast
    with y(2) show ?thesis by (simp add: sized_spk_def)
  qed
  have "signed_prekeys d' = map ?f (signed_prekeys d)" by (simp add: d')
  then show "spk_inv s d'" using ids' own sized by (rule spk_invI)
qed

lemma otp_rows_ids: "map op_id (otp_rows i now ks) = map (\<lambda>j. i + int j) [0..<length ks]"
proof (induction ks arbitrary: i)
  case (Cons k ks)
  have "map (\<lambda>j. i + int j) [0..<length (k # ks)] = i # map (\<lambda>j. i + 1 + int j) [0..<length ks]"
    by (simp add: upt_conv_Cons map_Suc_upt [symmetric] add.assoc del: upt_Suc)
  with Cons show ?case by simp
qed simp

lemma otp_rows_keys: "map otp_key (otp_rows i now ks) = map otp_key ks"
  by (induction ks arbitrary: i) (simp_all add: otp_key_def)

lemma otp_rows_sized: "(\<forall>k \<in> set (otp_rows i now ks). sized_otp k) = (\<forall>k \<in> set ks. sized_otp k)"
  by (induction ks arbitrary: i) (simp_all add: sized_otp_def)

lemma keeps_otp_add:
  assumes "\<forall>k \<in> set ks. sized_otp k"
  shows "keeps (inv_holds otp_inv) (OTP_AddBatch ks)"
proof -
  have "keeps (inv_holds otp_inv) (sql T_otp_prekeys (length ks) (\<lambda>i now d.
        if \<not> list_all (\<lambda>k. fits_int (op_key_id k)) ks then Inl Pg_OutOfRange
        else if \<not> distinct (map otp_key ks) \<or> (\<exists>k \<in> set ks. otp_key k \<in> otp_key ` set (otp_prekeys d))
        then Inl Pg_UniqueViolation
        else if \<exists>k \<in> set ks. op_user_id k \<notin> us_id ` set (users d) \<or> op_device_id k \<notin> dv_id ` set (devices d)
        then Inl Pg_ForeignKey
        else Inr ((), d\<lparr>otp_prekeys := otp_prekeys d @ otp_rows i now ks\<rparr>)))"
  proof (rule otp_store.keeps_sql, rule stmt_keepsI)
    fix s :: "table \<Rightarrow> int" and now :: instant and d d' :: db and x
    let ?rows = "otp_rows (s T_otp_prekeys + 1) now ks"
    assume I: "otp_inv s d" and q: "(if \<not> list_all (\<lambda>k. fits_int (op_key_id k)) ks then Inl Pg_OutOfRange
        else if \<not> distinct (map otp_key ks) \<or> (\<exists>k \<in> set ks. otp_key k \<in> otp_key ` set (otp_prekeys d))
        then Inl Pg_UniqueViolation
        else if \<exists>k \<in> set ks. op_user_id k \<notin> us_id ` set (users d) \<or> op_device_id k \<notin> dv_id ` set (devices d)
        then Inl Pg_ForeignKey
        else Inr ((), d\<lparr>otp_prekeys := otp_prekeys d @ ?rows\<rparr>)) = Inr (x, d')"
    then have d': "d' = d\<lparr>otp_prekeys := otp_prekeys d @ ?rows\<rparr>" and keys: "distinct (map otp_key ks)"
      "\<forall>k \<in> set ks. otp_key k \<notin> otp_key ` set (otp_prekeys d)" by (auto split: if_splits)
    have ids: "distinct (map op_id ?rows)" "\<forall>r \<in> set ?rows. s T_otp_prekeys < op_id r \<and> op_id r \<le> s T_otp_prekeys + int (length ks)"
    proof -
      show "distinct (map op_id ?rows)" by (simp add: otp_rows_ids distinct_map inj_on_def)
      show "\<forall>r \<in> set ?rows. s T_otp_prekeys < op_id r \<and> op_id r \<le> s T_otp_prekeys + int (length ks)"
      proof
        fix r assume "r \<in> set ?rows"
        then have "op_id r \<in> set (map op_id ?rows)" by simp
        then obtain j where "j < length ks" "op_id r = s T_otp_prekeys + 1 + int j" by (auto simp: otp_rows_ids)
        then show "s T_otp_prekeys < op_id r \<and> op_id r \<le> s T_otp_prekeys + int (length ks)" by linarith
      qed
    qed
    have old: "distinct (map op_id (otp_prekeys d))" "\<forall>r \<in> set (otp_prekeys d). op_id r \<le> s T_otp_prekeys"
      using I by (simp_all add: otp_inv_def ids_ok_def)
    have "op_id ` set (otp_prekeys d) \<inter> op_id ` set ?rows = {}" using ids(2) old(2) by fastforce
    then have "ids_ok otp_prekeys op_id T_otp_prekeys (s(T_otp_prekeys := s T_otp_prekeys + int (length ks))) d'"
      using ids old by (fastforce simp: ids_ok_def d')
    moreover have "otp_key ` set ?rows = otp_key ` set ks" by (metis otp_rows_keys list.set_map)
    then have "distinct (map otp_key (otp_prekeys d @ ?rows))"
      using I keys by (auto simp: otp_inv_def otp_rows_keys)
    moreover have "\<forall>k \<in> set ?rows. sized_otp k" using assms by (simp add: otp_rows_sized)
    ultimately show "otp_inv (s(T_otp_prekeys := s T_otp_prekeys + int (length ks))) d'"
      using I by (auto simp: otp_inv_def d')
  qed
  then show ?thesis unfolding OTP_AddBatch_def by (auto intro!: frame_intros)
qed

lemma keeps_otp_consume: "keeps (inv_holds otp_inv) (OTP_ConsumeOne rejects_id u v)"
proof -
  have "keeps (inv_holds otp_inv) (sql T_otp_prekeys 0 (\<lambda>_ _. consume_row rejects_id u v))"
  proof (rule otp_store.keeps_sql, rule stmt_keepsI)
    fix s :: "table \<Rightarrow> int" and now :: instant and d d' :: db and x
    assume I: "otp_inv s d" and q: "consume_row rejects_id u v d = Inr (x, d')"
    have "otp_inv s d'"
    proof (cases x)
      case None
      with q I consume_row_None show ?thesis by blast
    next
      case (Some k)
      with q have d': "d' = d\<lparr>otp_prekeys := filter (\<lambda>x. op_id x \<noteq> op_id k) (otp_prekeys d)\<rparr>"
        by (simp add: consume_row_Some)
      from I have old: "ids_ok otp_prekeys op_id T_otp_prekeys s d" "distinct (map otp_key (otp_prekeys d))"
        "\<And>k. k \<in> set (otp_prekeys d) \<Longrightarrow> sized_otp k" unfolding otp_inv_def by blast+
      have eq: "otp_prekeys d' = filter (\<lambda>x. op_id x \<noteq> op_id k) (otp_prekeys d)" by (simp add: d')
      show ?thesis
        by (rule otp_invI [OF eq otp_ids.ids_delete [OF old(1) eq]])
          (use old in \<open>simp_all add: distinct_map_filter\<close>)
    qed
    then show "otp_inv (s(T_otp_prekeys := s T_otp_prekeys + int 0)) d'" by (rule otp_store.mono) simp
  qed
  then show ?thesis unfolding OTP_ConsumeOne_def check_def
    by (auto intro!: frame_intros otp_store.keeps_not_found_as split: option.split sum.split)
qed

end
