(* ===== verification/E2EE_Calls.thy ===== *)
theory E2EE_Calls
  imports E2EE_Invariant
begin

text \<open>
  The calls a client can make on device keys, and what no call can break.  A locale states which
  statements an invariant must survive; its lemmas carry the invariant through every use case, and it is
  interpreted on the three key invariants and on the invariant of the delivery queue.
\<close>

section \<open>Calls\<close>

datatype device_call =
    UploadIdentity user_id string string string
  | UploadSPK user_id string "32 word" string string
  | UploadOTP user_id string "(32 word \<times> string) list"
  | CountOTP user_id string
  | GetBundle string string

text \<open>The parameters of the model: the UUID library, the cryptography, the database's name resolution.\<close>

record key_env =
  env_FromString :: "string \<Rightarrow> device_id option"
  env_String :: "device_id \<Rightarrow> string"
  env_Verify :: "bytes \<Rightarrow> bytes \<Rightarrow> bytes \<Rightarrow> bool"
  env_Fingerprint :: "bytes \<Rightarrow> string"
  env_rejects_id :: bool

definition drop_result :: "'a io \<Rightarrow> unit io" where
  "drop_result m = bind m (\<lambda>_. ret ())"

definition run_device_call :: "key_env \<Rightarrow> device_call \<Rightarrow> unit io" where
  "run_device_call env c =
     (case c of
        UploadIdentity u v pk sk \<Rightarrow> drop_result (upload_identity_key (env_FromString env) (env_Fingerprint env) u v pk sk)
      | UploadSPK u v i pk sg \<Rightarrow> upload_signed_prekey (env_FromString env) (env_Verify env) u v i pk sg
      | UploadOTP u v ks \<Rightarrow> drop_result (upload_otp_prekeys (env_FromString env) u v ks)
      | CountOTP u v \<Rightarrow> drop_result (count_otp_prekeys (env_FromString env) u v)
      | GetBundle t v \<Rightarrow> drop_result (get_key_bundle (env_rejects_id env) (env_FromString env) (env_String env) t v))"

section \<open>Rules for the shapes of the use cases\<close>

lemma keeps_check [frame_intros]: "(\<And>x. r = Inr x \<Longrightarrow> keeps P (k x)) \<Longrightarrow> keeps P (check r k)"
  by (cases r) (simp_all add: check_def frame_intros)

lemma keeps_fn_check [frame_intros]: "(\<And>x. r = Inr x \<Longrightarrow> keeps_fn f (k x)) \<Longrightarrow> keeps_fn f (check r k)"
  by (cases r) (simp_all add: check_def frame_intros)

lemma ensures_check [ensures_intros]:
  "(\<And>x. r = Inr x \<Longrightarrow> ensures P (k x) Q E) \<Longrightarrow> (\<And>w. P w \<Longrightarrow> E w) \<Longrightarrow> ensures P (check r k) Q E"
  by (cases r) (simp_all add: check_def ensures_fail)

lemma keeps_drop [frame_intros]: "keeps P m \<Longrightarrow> keeps P (drop_result m)"
  unfolding drop_result_def by (intro frame_intros)

lemma keeps_fn_drop [frame_intros]: "keeps_fn f m \<Longrightarrow> keeps_fn f (drop_result m)"
  unfolding drop_result_def by (intro frame_intros)

lemma decode_items_sized: "decode_items u v items = Inr ks \<Longrightarrow> k \<in> set ks \<Longrightarrow> sized_otp k"
  by (induction items arbitrary: ks)
    (auto simp: succ sized_otp_def split: sum.splits)

lemma decode_items_rows:
  "decode_items u v items = Inr ks \<Longrightarrow>
     map op_key_id ks = map fst items \<and> (\<forall>k \<in> set ks. op_user_id k = u \<and> op_device_id k = v) \<and> length ks = length items"
  by (induction items arbitrary: ks) (auto split: sum.splits)

section \<open>What every call keeps\<close>

locale device_key_invariant = store_invariant I for I :: "(table \<Rightarrow> int) \<Rightarrow> db \<Rightarrow> bool" +
  assumes upsert: "sized_identity k \<Longrightarrow> keeps (inv_holds I) (Identity_Upsert k)"
    and add: "sized_spk p \<Longrightarrow> keeps (inv_holds I) (SPK_Add p)"
    and deactivate: "keeps (inv_holds I) (SPK_DeactivateAll u v)"
    and consume: "keeps (inv_holds I) (OTP_ConsumeOne rejects_id u v)"
    and batch: "\<forall>k \<in> set ks. sized_otp k \<Longrightarrow> keeps (inv_holds I) (OTP_AddBatch ks)"
    and enqueue: "keeps (inv_holds I) (Queue_Enqueue u ty payload)"
begin

lemma keeps_find_identity [frame_intros]:
  "keeps (inv_holds I) (Identity_FindByUserAndDevice u v)"
  "keeps (inv_holds I) (Identity_FindByUser u)"
  "keeps (inv_holds I) (SPK_FindActive u v)"
  "keeps (inv_holds I) (OTP_CountAvailable u v)"
  unfolding Identity_FindByUserAndDevice_def Identity_FindByUser_def SPK_FindActive_def OTP_CountAvailable_def
  by (intro frame_intros)+

lemma keeps_upload_identity: "keeps (inv_holds I) (upload_identity_key FromString Fp u v pk sk)"
  unfolding upload_identity_key_def
  by (intro frame_intros upsert) (simp add: succ sized_identity_def)

lemma keeps_upload_spk: "keeps (inv_holds I) (upload_signed_prekey FromString Verify u v i pk sg)"
  unfolding upload_signed_prekey_def
  by (intro frame_intros add deactivate) (simp add: succ sized_spk_def)

lemma keeps_upload_otp: "keeps (inv_holds I) (upload_otp_prekeys FromString u v ks)"
  unfolding upload_otp_prekeys_def
  by (intro frame_intros batch ballI) (rule decode_items_sized)

lemma keeps_bundle: "keeps (inv_holds I) (get_key_bundle rejects_id FromString uuid_String t v)"
  unfolding get_key_bundle_def replenish_def target_device_def Dispatch_def
  by (intro frame_intros consume enqueue) (auto intro!: frame_intros split: list.split)

lemma keeps_call: "keeps (inv_holds I) (run_device_call env c)"
  by (cases c)
    (auto simp: run_device_call_def count_otp_prekeys_def
      intro!: frame_intros keeps_upload_identity keeps_upload_spk keeps_upload_otp keeps_bundle)

end

text \<open>The statements on one table leave the others alone.\<close>

lemma consume_row_frame:
  "consume_row rejects_id u v d = Inr (x, d') \<Longrightarrow> identity_keys d' = identity_keys d \<and>
     signed_prekeys d' = signed_prekeys d \<and> delivery_queue d' = delivery_queue d"
  by (cases x) (auto simp: consume_row_Some dest: consume_row_None)

context framed_invariant
begin

lemma other_upsert:
  assumes "\<And>d ks. obs (d\<lparr>identity_keys := ks\<rparr>) = obs d"
  shows "keeps (inv_holds I) (Identity_Upsert k)"
  unfolding Identity_Upsert_def
  by (rule keeps_sql_other) (auto simp: Let_def assms split: option.splits if_splits)

lemma other_spk:
  assumes "\<And>d ks. obs (d\<lparr>signed_prekeys := ks\<rparr>) = obs d"
  shows "keeps (inv_holds I) (SPK_Add p)" and "keeps (inv_holds I) (SPK_DeactivateAll u v)"
proof -
  show "keeps (inv_holds I) (SPK_Add p)" unfolding SPK_Add_def
    by (rule keeps_sql_other) (auto simp: Let_def assms split: if_splits)
  show "keeps (inv_holds I) (SPK_DeactivateAll u v)" unfolding SPK_DeactivateAll_def
    by (rule keeps_Exec_other) (auto simp: assms)
qed

lemma other_batch:
  assumes "\<And>d ks. obs (d\<lparr>otp_prekeys := ks\<rparr>) = obs d"
  shows "keeps (inv_holds I) (OTP_AddBatch ks)"
  unfolding OTP_AddBatch_def
  by (intro frame_intros keeps_sql_other) (auto simp: assms split: if_splits)

lemma other_consume:
  assumes "\<And>d ks. obs (d\<lparr>otp_prekeys := ks\<rparr>) = obs d"
  shows "keeps (inv_holds I) (OTP_ConsumeOne rejects_id u v)"
proof -
  have "obs d' = obs d" if "consume_row rejects_id u v d = Inr (x, d')" for d x d'
    using that by (cases x) (auto simp: consume_row_Some assms dest: consume_row_None)
  then have "keeps (inv_holds I) (sql T_otp_prekeys 0 (\<lambda>_ _. consume_row rejects_id u v))"
    by (intro keeps_sql_other)
  then show ?thesis unfolding OTP_ConsumeOne_def by (intro frame_intros)
qed

lemma other_enqueue:
  assumes "\<And>d ks. obs (d\<lparr>delivery_queue := ks\<rparr>) = obs d"
  shows "keeps (inv_holds I) (Queue_Enqueue u ty payload)"
  unfolding Queue_Enqueue_def by (rule keeps_sql_other) (auto simp: Let_def assms)

end

interpretation identity_calls: device_key_invariant identity_inv
  by unfold_locales (simp_all add: keeps_ik_upsert identity_store.other_spk identity_store.other_batch
      identity_store.other_consume identity_store.other_enqueue)

interpretation spk_calls: device_key_invariant spk_inv
  by unfold_locales (simp_all add: keeps_spk_add keeps_spk_deactivate spk_store.other_upsert spk_store.other_batch
      spk_store.other_consume spk_store.other_enqueue)

interpretation otp_calls: device_key_invariant otp_inv
  by unfold_locales (simp_all add: keeps_otp_add keeps_otp_consume otp_store.other_upsert otp_store.other_spk
      otp_store.other_enqueue)

interpretation queue_calls: device_key_invariant queue_inv
  by unfold_locales (simp_all add: keeps_q_enqueue queue_store.other_upsert queue_store.other_spk
      queue_store.other_batch queue_store.other_consume)

section \<open>One active signed pre-key\<close>

definition one_active :: "db \<Rightarrow> bool" where
  "one_active d \<longleftrightarrow> (\<forall>k \<in> set (signed_prekeys d). length (active_spks d (sp_user_id k) (sp_device_id k)) \<le> 1)"

lemma one_active_iff: "one_active d \<longleftrightarrow> (\<forall>u v. length (active_spks d u v) \<le> 1)"
proof
  assume o: "one_active d"
  show "\<forall>u v. length (active_spks d u v) \<le> 1"
  proof (intro allI)
    fix u v
    show "length (active_spks d u v) \<le> 1"
    proof (cases "active_spks d u v")
      case (Cons k ks)
      then have "k \<in> set (active_spks d u v)" by simp
      then have "k \<in> set (signed_prekeys d)" "sp_user_id k = u" "sp_device_id k = v"
        by (auto simp: active_spks_def owned_by_def)
      with o show ?thesis by (auto simp: one_active_def)
    qed simp
  qed
qed (simp add: one_active_def)

lemma active_spks_cong: "signed_prekeys d' = signed_prekeys d \<Longrightarrow> active_spks d' = active_spks d"
  by (simp add: active_spks_def fun_eq_iff)

lemma one_active_frame: "signed_prekeys d' = signed_prekeys d \<Longrightarrow> one_active d \<Longrightarrow> one_active d'"
  by (drule active_spks_cong) (simp add: one_active_iff)

lemma active_deactivated:
  "active_spks (d\<lparr>signed_prekeys := deactivated u v (signed_prekeys d)\<rparr>) a b =
     (if (a, b) = (u, v) then [] else active_spks d a b)"
proof -
  have "filter (\<lambda>k. owned_by a b k \<and> sp_is_active k) (deactivated u v ks) =
      (if (a, b) = (u, v) then [] else filter (\<lambda>k. owned_by a b k \<and> sp_is_active k) ks)" for ks
    by (induction ks) (auto simp: deactivated_def owned_by_def)
  then show ?thesis by (simp add: active_spks_def)
qed

text \<open>The triples of the upload: no active key of the device is left before the new one is added.\<close>

definition no_active :: "user_id \<Rightarrow> device_id \<Rightarrow> world \<Rightarrow> bool" where
  "no_active u v w \<longleftrightarrow> one_active (tables w) \<and> active_spks (tables w) u v = []"

lemma ensures_deactivate:
  "ensures (\<lambda>w. one_active (tables w)) (SPK_DeactivateAll u v) (\<lambda>_. no_active u v) (\<lambda>w. one_active (tables w))"
proof (rule ensuresI)
  fix w x w' assume "one_active (tables w)" and "SPK_DeactivateAll u v w = (Inr x, w')"
  then show "no_active u v w'" by (auto simp: DeactivateAll_succ no_active_def one_active_iff active_deactivated)
next
  fix w e w' assume o: "one_active (tables w)" and "SPK_DeactivateAll u v w = (Inl e, w')"
  then have "tables w' = tables w" unfolding SPK_DeactivateAll_def Exec_def using sql_fails by blast
  with o show "one_active (tables w')" by simp
qed

lemma ensures_add:
  assumes "sp_user_id k = u" and "sp_device_id k = v"
  shows "ensures (no_active u v) (SPK_Add k) (\<lambda>_ w. one_active (tables w)) (\<lambda>w. one_active (tables w))"
proof (rule ensuresI)
  fix w x w' assume n: "no_active u v w" and "SPK_Add k w = (Inr x, w')"
  from SPK_Add_succ [OF this(2)] have x: "sp_user_id x = u" "sp_device_id x = v"
    and w': "tables w' = (tables w)\<lparr>signed_prekeys := signed_prekeys (tables w) @ [x]\<rparr>"
    using assms by auto
  have "active_spks (tables w') a b = active_spks (tables w) a b @ (if (a, b) = (u, v) \<and> sp_is_active x then [x] else [])"
    for a b using x by (auto simp: active_spks_def owned_by_def w')
  with n show "one_active (tables w')" by (auto simp: one_active_iff no_active_def)
next
  fix w e w' assume n: "no_active u v w" and "SPK_Add k w = (Inl e, w')"
  then have "tables w' = tables w" unfolding SPK_Add_def using sql_fails by blast
  with n show "one_active (tables w')" by (simp add: no_active_def)
qed

lemma ensures_upload_spk:
  "ensures (\<lambda>w. one_active (tables w)) (upload_signed_prekey FromString Verify u dev i pk sg)
     (\<lambda>_ w. one_active (tables w)) (\<lambda>w. one_active (tables w))"
proof -
  have "keeps_fn tables (Identity_FindByUserAndDevice u v)" for v
    unfolding Identity_FindByUserAndDevice_def by (intro frame_intros)
  then have find: "keeps (\<lambda>w. one_active (tables w)) (Identity_FindByUserAndDevice u v)" for v
    by (rule keeps_of_fn) simp
  show ?thesis unfolding upload_signed_prekey_def
    by (intro ensures_intros ensures_attempt [OF keeps_ensures [OF find]] ensures_bind [OF ensures_deactivate]
        ensures_bind [OF ensures_add]) simp_all
qed

text \<open>The other calls leave the table alone.\<close>

lemma keeps_spks [frame_intros]:
  "keeps_fn (\<lambda>w. signed_prekeys (tables w)) (sql t n q)" if "\<And>i now d x d'. q i now d = Inr (x, d') \<Longrightarrow> signed_prekeys d' = signed_prekeys d"
  using that by (auto simp: keeps_fn_def sql_def Let_def split: sum.split)

lemma call_one_active: "keeps (\<lambda>w. one_active (tables w)) (run_device_call env c)"
proof (cases c)
  case (UploadSPK u v i pk sg)
  then show ?thesis using ensures_keeps [OF ensures_upload_spk] by (simp add: run_device_call_def)
next
  case (UploadIdentity u v pk sk)
  have "keeps_fn (\<lambda>w. signed_prekeys (tables w)) (run_device_call env c)"
    unfolding UploadIdentity run_device_call_def device_call.case upload_identity_key_def Identity_Upsert_def
    by (intro frame_intros) (auto simp: Let_def split: option.splits if_splits)
  then show ?thesis by (rule keeps_of_fn) (rule one_active_frame)
next
  case (UploadOTP u v ks)
  have "keeps_fn (\<lambda>w. signed_prekeys (tables w)) (run_device_call env c)"
    unfolding UploadOTP run_device_call_def device_call.case upload_otp_prekeys_def OTP_AddBatch_def
      OTP_CountAvailable_def ScanAll_def
    by (intro frame_intros) (auto split: if_splits)
  then show ?thesis by (rule keeps_of_fn) (rule one_active_frame)
next
  case (CountOTP u v)
  have "keeps_fn (\<lambda>w. signed_prekeys (tables w)) (run_device_call env c)"
    unfolding CountOTP run_device_call_def device_call.case count_otp_prekeys_def
      OTP_CountAvailable_def ScanAll_def
    by (intro frame_intros) auto
  then show ?thesis by (rule keeps_of_fn) (rule one_active_frame)
next
  case (GetBundle t v)
  have row: "signed_prekeys d' = signed_prekeys d" if "consume_row rej a b d = Inr (x, d')" for rej a b d x d'
    using that by (cases x) (auto simp: consume_row_Some dest: consume_row_None)
  have "keeps_fn (\<lambda>w. signed_prekeys (tables w)) (run_device_call env c)"
    unfolding GetBundle run_device_call_def device_call.case get_key_bundle_def replenish_def target_device_def Dispatch_def
      Identity_FindByUserAndDevice_def Identity_FindByUser_def SPK_FindActive_def OTP_ConsumeOne_def
      OTP_CountAvailable_def Queue_Enqueue_def not_found_as_def ScanOne_def ScanAll_def
    by (intro frame_intros) (auto simp: keeps_fn_def spawn_run Let_def dest: row split: list.split option.split)
  then show ?thesis by (rule keeps_of_fn) (rule one_active_frame)
qed

section \<open>The pool of one-time pre-keys\<close>

lemma keeps_ready_sql: "keeps ready (sql t n q)"
  by (auto simp: keeps_def ready_def sql_def Let_def pop_fault_def split: sum.split)

lemma consume_ready:
  assumes "ready w"
  shows "ready (snd (attempt (OTP_ConsumeOne rejects_id u v) (\<lambda>_. ret None) (\<lambda>k. ret (Some k)) w))"
    and "delivery_queue (tables (snd (attempt (OTP_ConsumeOne rejects_id u v) (\<lambda>_. ret None) (\<lambda>k. ret (Some k)) w))) =
      delivery_queue (tables w)"
    and "tasks (snd (attempt (OTP_ConsumeOne rejects_id u v) (\<lambda>_. ret None) (\<lambda>k. ret (Some k)) w)) = tasks w"
proof -
  have "keeps ready (OTP_ConsumeOne rejects_id u v)" unfolding OTP_ConsumeOne_def not_found_as_def check_def
    by (intro frame_intros keeps_ready_sql) (auto intro!: frame_intros split: option.split sum.split)
  then have "keeps ready (attempt (OTP_ConsumeOne rejects_id u v) (\<lambda>_. ret None) (\<lambda>k. ret (Some k)))"
    by (intro frame_intros)
  with assms show "ready (snd (attempt (OTP_ConsumeOne rejects_id u v) (\<lambda>_. ret None) (\<lambda>k. ret (Some k)) w))"
    by (simp add: keepsD)
  have row: "keeps_fn (\<lambda>w. (delivery_queue (tables w), tasks w)) (sql T_otp_prekeys 0 (\<lambda>_ _. consume_row rejects_id u v))"
    using consume_row_frame by (fastforce simp: keeps_fn_def sql_def Let_def split: sum.split)
  have "keeps_fn (\<lambda>w. (delivery_queue (tables w), tasks w)) (OTP_ConsumeOne rejects_id u v)"
    unfolding OTP_ConsumeOne_def not_found_as_def by (intro frame_intros row) 
  then have "keeps_fn (\<lambda>w. (delivery_queue (tables w), tasks w)) (attempt (OTP_ConsumeOne rejects_id u v) (\<lambda>_. ret None) (\<lambda>k. ret (Some k)))"
    by (intro frame_intros)
  from keeps_fnD [OF this, of w] show "delivery_queue (tables (snd (attempt (OTP_ConsumeOne rejects_id u v) (\<lambda>_. ret None) (\<lambda>k. ret (Some k)) w))) =
      delivery_queue (tables w)"
    and "tasks (snd (attempt (OTP_ConsumeOne rejects_id u v) (\<lambda>_. ret None) (\<lambda>k. ret (Some k)) w)) = tasks w"
    by simp_all
qed

lemma decode_items_list:
  "decode_items u v items = Inr ks \<Longrightarrow> list_all2 (\<lambda>(i, s) row. op_key_id row = i \<and>
     DecodeString s = Some (op_public_key row) \<and> otp_owned_by u v row) items ks"
  by (induction items arbitrary: ks) (auto simp: succ otp_owned_by_def split: sum.splits)

lemma otp_rows_list:
  "list_all2 (\<lambda>(i, s) row. op_key_id row = i \<and> DecodeString s = Some (op_public_key row) \<and> otp_owned_by u v row) items ks
   \<Longrightarrow> list_all2 (\<lambda>(i, s) row. op_key_id row = i \<and> DecodeString s = Some (op_public_key row) \<and> otp_owned_by u v row)
        items (otp_rows n now ks)"
  by (induction items ks arbitrary: n rule: list_all2_induct) (auto simp: otp_owned_by_def)

lemma AddBatch_succ:
  "OTP_AddBatch ks w = (Inr x, w') \<Longrightarrow> otp_prekeys (tables w') = otp_prekeys (tables w) @ otp_rows (seq w T_otp_prekeys + 1) (clock w) ks"
  by (cases "ks = []") (auto simp: OTP_AddBatch_def sql_succ split: if_splits)

lemma AddBatch_fails: "OTP_AddBatch ks w = (Inl e, w') \<Longrightarrow> tables w' = tables w"
  unfolding OTP_AddBatch_def by (cases "ks = []") (auto dest: sql_fails)

lemma Count_tables: "OTP_CountAvailable u v w = (r, w') \<Longrightarrow> tables w' = tables w \<and> (\<forall>n. r = Inr n \<longrightarrow> n = int (length (otp_pool (tables w) u v)))"
proof -
  assume r: "OTP_CountAvailable u v w = (r, w')"
  have "keeps_fn tables (OTP_CountAvailable u v)" unfolding OTP_CountAvailable_def by (intro frame_intros)
  from keeps_fnD [OF this, of w] r have "tables w' = tables w" by simp
  moreover have "n = int (length (otp_pool (tables w) u v))" if "r = Inr n" for n
    using r that by (auto simp: OTP_CountAvailable_def otp_pool_def succ)
  ultimately show ?thesis by blast
qed

end
