(* ===== verification/E2EE_Props.thy ===== *)
theory E2EE_Props
  imports E2EE_Calls
begin

text \<open>
  The properties of the device keys, each with its witness on a world with one user, one device, its
  identity key, its signed pre-key and two one-time pre-keys.
\<close>

section \<open>A small world\<close>

definition demo_bytes :: "nat \<Rightarrow> byte \<Rightarrow> bytes" where
  "demo_bytes n b = replicate n b"

definition demo_identity :: identity_key where
  "demo_identity = \<lparr>ik_id = 1, ik_user_id = 1, ik_device_id = 7, ik_public_key = demo_bytes 32 1,
     ik_sign_public_key = demo_bytes 32 2, ik_fingerprint = ''f'', ik_uploaded_at = 0\<rparr>"

definition demo_spk :: signed_prekey where
  "demo_spk = \<lparr>sp_id = 1, sp_user_id = 1, sp_device_id = 7, sp_key_id = 3, sp_public_key = demo_bytes 32 4,
     sp_signature = demo_bytes 64 5, sp_is_active = True, sp_created_at = 0, sp_expires_at = None\<rparr>"

definition demo_otp :: "int \<Rightarrow> 32 word \<Rightarrow> otp_prekey" where
  "demo_otp i k = \<lparr>op_id = i, op_user_id = 1, op_device_id = 7, op_key_id = k, op_public_key = demo_bytes 32 6,
     op_uploaded_at = 0\<rparr>"

definition keys_world :: world where
  "keys_world = empty_world\<lparr>tables := empty_db\<lparr>
     devices := [\<lparr>dv_id = 7, dv_platform = Browser, dv_name = ''d'', dv_created_at = 0, dv_updated_at = 0\<rparr>],
     users := [\<lparr>us_id = 1, us_account_id = 1, us_name = ''u'', us_avatar = None, us_created_at = 0, us_updated_at = 0\<rparr>],
     identity_keys := [demo_identity], signed_prekeys := [demo_spk],
     otp_prekeys := [demo_otp 1 11, demo_otp 2 12]\<rparr>, seq := (\<lambda>_. 9), clock := 5\<rparr>"

lemmas keys_world_defs = keys_world_def demo_identity_def demo_spk_def demo_otp_def demo_bytes_def
  empty_world_def empty_db_def

definition demo_device :: "string \<Rightarrow> device_id option" where
  "demo_device s = (if s = ''7'' then Some 7 else None)"

text \<open>An example scheme: a signature repeats, in its first byte, the sum of the two keys' first bytes.\<close>

definition demo_verify :: "bytes \<Rightarrow> bytes \<Rightarrow> bytes \<Rightarrow> bool" where
  "demo_verify sign pub sig \<longleftrightarrow> hd sig = hd sign + hd pub"

lemma keys_world_ready: "ready keys_world"
  by (simp add: ready_def keys_world_defs)

lemma keys_world_upload:
  "isl (fst (upload_signed_prekey demo_device demo_verify 1 ''7'' 4 (EncodeToString (demo_bytes 32 1))
     (EncodeToString (demo_bytes 64 3)) keys_world)) = False"
proof -
  have h: "healthy keys_world" using keys_world_ready by simp
  have find: "Identity_FindByUserAndDevice 1 7 keys_world = (Inr demo_identity, keys_world)"
    by (simp add: Identity_FindByUserAndDevice_def bind_def attempt_run not_found_as_run ScanOne_run [OF h] check_def
        toIdentityKeyDomain_def) (simp add: keys_world_defs)
  have l: "length (demo_bytes n b) = n" for n b by (simp add: demo_bytes_def)
  have v: "demo_verify (ik_sign_public_key demo_identity) (demo_bytes 32 1) (demo_bytes 64 3)"
    by (simp add: demo_verify_def demo_identity_def demo_bytes_def)
  show ?thesis
    by (simp add: upload_signed_prekey_def check_def ParseDeviceID_def decode_sized_def DecodeString_EncodeToString
        demo_device_def l find v bind_def attempt_run SPK_DeactivateAll_def Exec_run [OF h] SPK_Add_def sql_run h
        fits_int_def owned_by_def Let_def)
      (simp add: keys_world_defs owned_by_def)
qed

section \<open>Properties\<close>

text \<open>C10: the invariant of the device keys is kept by every call, with every argument, every
  cryptographic library and every schedule of failures: ids are unique, a device has one identity key
  and no two keys with the same key id, stored keys have their sizes, the queue is consistent, and a
  device never has more than one active signed pre-key.\<close>
theorem device_calls_keep_invariant:
  assumes "tx w = None" and "identity_inv (seq w) (tables w)" and "spk_inv (seq w) (tables w)"
    and "otp_inv (seq w) (tables w)" and "queue_inv (seq w) (tables w)" and "one_active (tables w)"
    and "w' = snd (run_device_call env c w)"
  shows "identity_inv (seq w') (tables w') \<and> spk_inv (seq w') (tables w') \<and> otp_inv (seq w') (tables w') \<and>
    queue_inv (seq w') (tables w') \<and> one_active (tables w')"
proof -
  have kept: "I (seq w') (tables w')" if "keeps (inv_holds I) (run_device_call env c)" and i: "I (seq w) (tables w)"
    for I :: "(table \<Rightarrow> int) \<Rightarrow> db \<Rightarrow> bool"
  proof -
    have "inv_holds I w" using i assms(1) by (simp add: inv_holds_def tx_snapshot_def)
    with that(1) have "inv_holds I (snd (run_device_call env c w))" by (rule keepsD)
    then show ?thesis by (simp add: inv_holds_def assms(7))
  qed
  show ?thesis
    using kept [where I = identity_inv, OF identity_calls.keeps_call assms(2)]
      kept [where I = spk_inv, OF spk_calls.keeps_call assms(3)]
      kept [where I = otp_inv, OF otp_calls.keeps_call assms(4)]
      kept [where I = queue_inv, OF queue_calls.keeps_call assms(5)]
      keepsD [OF call_one_active assms(6)] by (simp add: assms(7))
qed

theorem device_calls_keep_invariant_witness:
  "one_active (tables (snd (run_device_call
     \<lparr>env_FromString = demo_device, env_String = (\<lambda>_. ''7''), env_Verify = demo_verify,
      env_Fingerprint = (\<lambda>_. ''f''), env_rejects_id = False\<rparr>
     (UploadSPK 1 ''7'' 4 (EncodeToString (demo_bytes 32 1)) (EncodeToString (demo_bytes 64 3))) keys_world)))"
  by (rule device_calls_keep_invariant [where w = keys_world, THEN conjunct2, THEN conjunct2, THEN conjunct2, THEN conjunct2])
    (simp_all add: identity_inv_def spk_inv_def otp_inv_def queue_inv_def one_active_def ids_ok_def active_spks_def
      owned_by_def sized_identity_def sized_spk_def sized_otp_def otp_key_def keys_world_defs)



text \<open>Uploading a signed pre-key under a key id that the device has used before fails, but the active
  key has already been deactivated: until another upload succeeds the device has no active signed
  pre-key.\<close>
lemma reused_key_id_leaves_no_active_key:
  assumes "ready w" and "FromString dev = Some v" and "DecodeString pk = Some pub" and "length pub = 32"
    and "DecodeString sg = Some sig" and "length sig = 64"
    and "identity_of (tables w) u v = Some ik" and "sized_identity ik" and "Verify (ik_sign_public_key ik) pub sig"
    and "fits_int i" and "old \<in> set (signed_prekeys (tables w))" and "spk_key old = (u, v, i)"
    and "w' = snd (upload_signed_prekey FromString Verify u dev i pk sg w)"
  shows "fst (upload_signed_prekey FromString Verify u dev i pk sg w) = Inl (Pg Pg_UniqueViolation) \<and>
    active_spks (tables w') u v = []"
proof -
  have find: "Identity_FindByUserAndDevice u v w = (Inr ik, w)"
  proof -
    obtain ks where "filter (\<lambda>k. ik_user_id k = u \<and> ik_device_id k = v) (identity_keys (tables w)) = ik # ks"
      using find_filter_Cons [OF assms(7) [unfolded identity_of_def]] by blast
    then show ?thesis using assms(1,8)
      by (simp add: Identity_FindByUserAndDevice_def ScanOne_run not_found_as_run check_def toIdentityKeyDomain_def
          sized_identity_def bind_def attempt_run)
  qed
  let ?w1 = "w\<lparr>tables := (tables w)\<lparr>signed_prekeys := deactivated u v (signed_prekeys (tables w))\<rparr>\<rparr>"
  let ?k = "\<lparr>sp_id = 0, sp_user_id = u, sp_device_id = v, sp_key_id = i, sp_public_key = pub,
    sp_signature = sig, sp_is_active = True, sp_created_at = 0, sp_expires_at = None\<rparr>"
  have de: "SPK_DeactivateAll u v w = (Inr (), ?w1)"
    using assms(1) by (simp add: SPK_DeactivateAll_def Exec_run deactivated_def)
  have "\<exists>x \<in> set (deactivated u v (signed_prekeys (tables w))). owned_by u v x \<and> sp_key_id x = i"
  proof -
    let ?f = "\<lambda>k. if owned_by u v k \<and> sp_is_active k then k\<lparr>sp_is_active := False\<rparr> else k"
    have "?f old \<in> set (deactivated u v (signed_prekeys (tables w)))" using assms(11) by (simp add: deactivated_def)
    moreover have "owned_by u v (?f old) \<and> sp_key_id (?f old) = i" using assms(12) by (simp add: spk_key_def owned_by_def)
    ultimately show ?thesis by blast
  qed
  then have ad: "SPK_Add ?k ?w1 = (Inl (Pg Pg_UniqueViolation), ?w1\<lparr>seq := (seq w)(T_signed_prekeys := seq w T_signed_prekeys + 1)\<rparr>)"
    using assms(1,10) by (simp add: SPK_Add_def sql_run)
  have "upload_signed_prekey FromString Verify u dev i pk sg w = (Inl (Pg Pg_UniqueViolation),
      ?w1\<lparr>seq := (seq w)(T_signed_prekeys := seq w T_signed_prekeys + 1)\<rparr>)"
    using assms(2-6,9) find de ad
    by (simp add: upload_signed_prekey_def check_def ParseDeviceID_def decode_sized_def)
  with assms(13) show ?thesis by (simp add: active_deactivated)
qed

lemma reused_key_id_leaves_no_active_key_witness:
  "active_spks (tables keys_world) 1 7 = [demo_spk] \<and>
   active_spks (tables (snd (upload_signed_prekey demo_device demo_verify 1 ''7'' 3
     (EncodeToString (demo_bytes 32 1)) (EncodeToString (demo_bytes 64 3)) keys_world))) 1 7 = []"
proof
  show "active_spks (tables keys_world) 1 7 = [demo_spk]" by (simp add: active_spks_def owned_by_def keys_world_defs)
  show "active_spks (tables (snd (upload_signed_prekey demo_device demo_verify 1 ''7'' 3
     (EncodeToString (demo_bytes 32 1)) (EncodeToString (demo_bytes 64 3)) keys_world))) 1 7 = []"
    by (rule reused_key_id_leaves_no_active_key [where old = demo_spk and ik = demo_identity
          and pub = "demo_bytes 32 1" and sig = "demo_bytes 64 3", THEN conjunct2])
      (simp_all add: ready_def DecodeString_EncodeToString demo_device_def fits_int_def spk_key_def
        identity_of_def sized_identity_def demo_verify_def keys_world_defs)
qed

text \<open>C15: a key bundle carries the stored identity key and the active signed pre-key of one device of the
  target, each recoverable from its base64 text; where the device has an active key, it is the one that
  is served.\<close>
theorem bundle_matches_stored_keys:
  assumes "get_key_bundle rejects_id FromString uuid_String target DeviceID w = (Inr out, w')"
  shows "\<exists>u v ik spk spks. ParseInt target = Some u \<and> bundle_device FromString (tables w) u DeviceID = Some v \<and>
    identity_of (tables w) u v = Some ik \<and> active_spks (tables w) u v = spk # spks \<and>
    DecodeString (kb_identity_key out) = Some (ik_public_key ik) \<and>
    DecodeString (kb_identity_key_sign out) = Some (ik_sign_public_key ik) \<and>
    DecodeString (kb_signed_prekey out) = Some (sp_public_key spk) \<and>
    DecodeString (kb_spk_signature out) = Some (sp_signature spk) \<and> kb_spk_key_id out = sp_key_id spk"
  using assms
proof (rule get_key_bundle_succ)
  fix u v and ik :: identity_key and spk :: signed_prekey and otp spks w1
  assume "ParseInt target = Some u" "bundle_device FromString (tables w) u DeviceID = Some v"
    "identity_of (tables w) u v = Some ik" "active_spks (tables w) u v = spk # spks" and out: "out = bundle_of ik spk otp"
  moreover have "DecodeString (kb_identity_key out) = Some (ik_public_key ik) \<and>
    DecodeString (kb_identity_key_sign out) = Some (ik_sign_public_key ik) \<and>
    DecodeString (kb_signed_prekey out) = Some (sp_public_key spk) \<and>
    DecodeString (kb_spk_signature out) = Some (sp_signature spk) \<and> kb_spk_key_id out = sp_key_id spk"
    by (simp add: out bundle_of_def DecodeString_EncodeToString)
  ultimately show ?thesis by blast
qed

lemma demo_bundle:
  "get_key_bundle rejects_id demo_device (\<lambda>_. ''7'') ''1'' ''7'' keys_world =
     replenish (\<lambda>_. ''7'') 1 7 (bundle_of demo_identity demo_spk (if rejects_id then None else Some (demo_otp 1 11)))
       (if rejects_id then keys_world
        else keys_world\<lparr>tables := (tables keys_world)\<lparr>otp_prekeys := [demo_otp 2 12]\<rparr>\<rparr>)"
proof -
  have h: "healthy keys_world" using keys_world_ready by simp
  have l: "length (demo_bytes n b) = n" for n b by (simp add: demo_bytes_def)
  have u: "ParseUserID ''1'' = Inr 1" by code_simp
  have v: "target_device demo_device 1 ''7'' = ret 7"
    by (simp add: target_device_def check_def ParseDeviceID_def demo_device_def)
  have ik: "Identity_FindByUserAndDevice 1 7 keys_world = (Inr demo_identity, keys_world)"
    by (simp add: Identity_FindByUserAndDevice_def bind_def attempt_run not_found_as_run ScanOne_run [OF h] check_def
        toIdentityKeyDomain_def) (simp add: keys_world_defs)
  have spk: "SPK_FindActive 1 7 keys_world = (Inr demo_spk, keys_world)"
    by (simp add: SPK_FindActive_def bind_def attempt_run not_found_as_run ScanOne_run [OF h] check_def
        toSignedPreKeyDomain_def) (simp add: owned_by_def keys_world_defs)
  have otp: "attempt (OTP_ConsumeOne rejects_id 1 7) (\<lambda>_. ret None) (\<lambda>k. ret (Some k)) keys_world =
      (Inr (if rejects_id then None else Some (demo_otp 1 11)), if rejects_id then keys_world
        else keys_world\<lparr>tables := (tables keys_world)\<lparr>otp_prekeys := [demo_otp 2 12]\<rparr>\<rparr>)"
    by (cases rejects_id)
      (simp_all add: OTP_ConsumeOne_def bind_def attempt_run not_found_as_run sql_run [OF h] consume_row_def check_def
        toOTPPreKeyDomain_def, simp_all add: otp_owned_by_def abort_tx_def keys_world_defs fun_eq_iff)
  show ?thesis
    by (simp add: get_key_bundle_def u v check_def bind_Inr [OF ret_run] attempt_Inr [where m = "Identity_FindByUserAndDevice 1 7", OF ik]
        bind_Inr [where m = "SPK_FindActive 1 7", OF spk]
        bind_Inr [where m = "attempt (OTP_ConsumeOne rejects_id 1 7) (\<lambda>_. ret None) (\<lambda>k. ret (Some k))", OF otp])
qed

lemma demo_bundle_ok:
  "\<exists>out w'. get_key_bundle rejects_id demo_device (\<lambda>_. ''7'') ''1'' ''7'' keys_world = (Inr out, w') \<and>
     out = bundle_of demo_identity demo_spk (if rejects_id then None else Some (demo_otp 1 11))"
  using replenish_keeps unfolding demo_bundle by (metis prod.collapse)

theorem bundle_matches_stored_keys_witness:
  "\<exists>out w'. get_key_bundle False demo_device (\<lambda>_. ''7'') ''1'' ''7'' keys_world = (Inr out, w') \<and>
     DecodeString (kb_spk_signature out) \<noteq> None"
proof -
  from demo_bundle_ok obtain out w' where r: "get_key_bundle False demo_device (\<lambda>_. ''7'') ''1'' ''7'' keys_world = (Inr out, w')"
    by blast
  from bundle_matches_stored_keys [OF r] have "DecodeString (kb_spk_signature out) \<noteq> None"
    by (elim exE conjE) simp
  with r show ?thesis by blast
qed



text \<open>Where the database rejects the unqualified column of \<open>ConsumeOne\<close>, no bundle ever carries a
  one-time pre-key, and none is ever used up.\<close>
lemma no_otp_where_id_is_ambiguous:
  assumes "get_key_bundle True FromString uuid_String target DeviceID w = (Inr out, w')"
    and "otp_inv (seq w) (tables w)"
  shows "kb_otp_prekey out = None \<and> kb_otp_prekey_id out = None \<and> otp_prekeys (tables w') = otp_prekeys (tables w)"
proof -
  have "\<forall>k \<in> set (otp_prekeys (tables w)). length (op_public_key k) = 32"
    using assms(2) by (simp add: otp_inv_def sized_otp_def)
  from bundle_pool [OF assms(1) this] show ?thesis by blast
qed

lemma no_otp_where_id_is_ambiguous_witness:
  "\<exists>out w'. get_key_bundle True demo_device (\<lambda>_. ''7'') ''1'' ''7'' keys_world = (Inr out, w') \<and>
     kb_otp_prekey out = None \<and> otp_prekeys (tables w') = [demo_otp 1 11, demo_otp 2 12]"
proof -
  from demo_bundle_ok [of True] obtain out w' where
    r: "get_key_bundle True demo_device (\<lambda>_. ''7'') ''1'' ''7'' keys_world = (Inr out, w')" by blast
  have i: "otp_inv (seq keys_world) (tables keys_world)"
    by (simp add: otp_inv_def ids_ok_def otp_key_def sized_otp_def keys_world_defs)
  from no_otp_where_id_is_ambiguous [OF r i] r show ?thesis by (simp add: keys_world_def)
qed

text \<open>A bundle that leaves the device with fewer than five one-time pre-keys stores exactly one request
  for new ones, addressed to the owner of the device, and starts its push; any other bundle stores none.\<close>
lemma low_pool_requests_keys:
  assumes "ready w" and "get_key_bundle rejects_id FromString uuid_String target DeviceID w = (Inr out, w')"
    and "ParseInt target = Some u" and "bundle_device FromString (tables w) u DeviceID = Some v"
  shows "if length (otp_pool (tables w') u v) < 5
    then (\<exists>item. delivery_queue (tables w') = delivery_queue (tables w) @ [item] \<and> tasks w' = tasks w @ [PushAndTrack u item] \<and>
      dq_user_id item = u \<and> dq_payload_type item = ''e2ee.replenish_otp_keys'' \<and>
      dq_payload item = replenish_payload (uuid_String v) u \<and> dq_status item = DeliveryPending)
    else delivery_queue (tables w') = delivery_queue (tables w) \<and> tasks w' = tasks w"
  using assms(2)
proof (rule get_key_bundle_succ)
  fix u' v' and ik :: identity_key and spk :: signed_prekey and otp spks w1
  let ?c = "attempt (OTP_ConsumeOne rejects_id u v) (\<lambda>_. ret None) (\<lambda>k. ret (Some k))"
  assume "ParseInt target = Some u'" "bundle_device FromString (tables w) u' DeviceID = Some v'" "healthy w \<longrightarrow> w1 = w"
    and w: "w' = snd (replenish uuid_String u' v' out
      (snd (attempt (OTP_ConsumeOne rejects_id u' v') (\<lambda>_. ret None) (\<lambda>k. ret (Some k)) w1)))"
  then have w': "w' = snd (replenish uuid_String u v out (snd (?c w)))" using assms(1,3,4) by simp
  note c = consume_ready [OF assms(1), of rejects_id u v]
  have pool: "otp_pool (tables w') u v = otp_pool (tables (snd (?c w))) u v"
    using c(1) by (simp add: w' replenish_run Let_def otp_pool_def)
  show ?thesis unfolding pool using c by (simp add: w' replenish_run Let_def)
qed

lemma low_pool_requests_keys_witness:
  "\<exists>out w' item. get_key_bundle False demo_device (\<lambda>_. ''7'') ''1'' ''7'' keys_world = (Inr out, w') \<and>
     delivery_queue (tables w') = [item] \<and> dq_user_id item = 1"
proof -
  from demo_bundle_ok [of False] obtain out w' where r: "get_key_bundle False demo_device (\<lambda>_. ''7'') ''1'' ''7'' keys_world = (Inr out, w')"
    and o: "out = bundle_of demo_identity demo_spk (Some (demo_otp 1 11))" by auto
  have i: "otp_inv (seq keys_world) (tables keys_world)"
    by (simp add: otp_inv_def ids_ok_def otp_key_def sized_otp_def keys_world_defs)
  have u: "ParseInt ''1'' = Some 1" by code_simp
  have v: "bundle_device demo_device (tables keys_world) 1 ''7'' = Some 7" by (simp add: bundle_device_def demo_device_def)
  have "length (otp_pool (tables w') 1 7) < 5"
  proof -
    have "\<forall>k \<in> set (otp_prekeys (tables keys_world)). length (op_public_key k) = 32" by (simp add: keys_world_defs)
    from bundle_pool [OF r this] have "length (otp_prekeys (tables w')) \<le> length (otp_prekeys (tables keys_world))"
      by (auto simp: length_filter_le)
    also have "\<dots> < 5" by (simp add: keys_world_defs)
    finally have "length (otp_prekeys (tables w')) < 5" .
    then show ?thesis unfolding otp_pool_def by (rule le_less_trans [OF length_filter_le])
  qed
  moreover have "delivery_queue (tables keys_world) = []" by (simp add: keys_world_defs)
  ultimately show ?thesis using low_pool_requests_keys [OF keys_world_ready r u v] r by auto
qed

text \<open>C29: an upload of one-time pre-keys stores all keys of the request, in order and each decoded from its
  base64 text, or none of them, and a reported count is the size of the pool of the device.  An error can
  come after the keys were stored, when only the count failed.\<close>
theorem otp_batch_all_or_nothing:
  assumes "upload_otp_prekeys FromString u dev items w = (r, w')"
  shows "otp_prekeys (tables w') = otp_prekeys (tables w) \<and> isl r \<or>
    (\<exists>v rows. FromString dev = Some v \<and> otp_prekeys (tables w') = otp_prekeys (tables w) @ rows \<and>
       list_all2 (\<lambda>(i, s) row. op_key_id row = i \<and> DecodeString s = Some (op_public_key row) \<and> otp_owned_by u v row) items rows \<and>
       (\<forall>n. r = Inr n \<longrightarrow> n = int (length (otp_pool (tables w') u v))))"
proof (cases "ParseDeviceID FromString dev")
  case (Inl e)
  then show ?thesis using assms by (auto simp: upload_otp_prekeys_def check_def)
next
  case v: (Inr v)
  show ?thesis
  proof (cases "decode_items u v items")
    case (Inl e)
    then show ?thesis using assms v by (auto simp: upload_otp_prekeys_def check_def)
  next
    case ks: (Inr ks)
    obtain a w1 where a: "OTP_AddBatch ks w = (a, w1)" by (cases "OTP_AddBatch ks w")
    show ?thesis
    proof (cases a)
      case (Inl e)
      then show ?thesis using assms v ks a AddBatch_fails [of ks w e w1] by (auto simp: upload_otp_prekeys_def check_def)
    next
      case (Inr x)
      with assms v ks a have c: "OTP_CountAvailable u v w1 = (r, w')" by (simp add: upload_otp_prekeys_def check_def)
      from AddBatch_succ [OF a [unfolded Inr]] Count_tables [OF c] otp_rows_list [OF decode_items_list [OF ks]] v
      show ?thesis by (auto simp: succ)
    qed
  qed
qed

theorem otp_batch_all_or_nothing_witness:
  "\<exists>n w'. upload_otp_prekeys demo_device 1 ''7'' [(13, EncodeToString (demo_bytes 32 9))] keys_world = (Inr n, w') \<and>
     length (otp_prekeys (tables w')) = 3"
proof -
  let ?r = "upload_otp_prekeys demo_device 1 ''7'' [(13, EncodeToString (demo_bytes 32 9))] keys_world"
  have h: "healthy keys_world" using keys_world_ready by simp
  have l: "length (demo_bytes n b) = n" for n b by (simp add: demo_bytes_def)
  have "isl (fst ?r) = False"
    by (simp add: upload_otp_prekeys_def check_def ParseDeviceID_def decode_sized_def DecodeString_EncodeToString
        demo_device_def l OTP_AddBatch_def sql_run h bind_def attempt_run OTP_CountAvailable_def ScanAll_run)
      (simp add: fits_int_def otp_key_def keys_world_defs)
  from run_ok [OF this] obtain n w' where r: "?r = (Inr n, w')" by blast
  have "length (otp_prekeys (tables keys_world)) = 2" by (simp add: keys_world_defs)
  with otp_batch_all_or_nothing [OF r] have "length (otp_prekeys (tables w')) = 3" by (auto dest: list_all2_lengthD)
  with r show ?thesis by blast
qed

text \<open>A new identity key does not retire the signed pre-key made with the old one: a bundle after the
  upload serves the new signing key together with the signature the old key made, whether or not it
  verifies.\<close>
lemma identity_upload_keeps_signed_prekey:
  assumes "upload_identity_key FromString Fingerprint u dev pk sk w = (Inr fp, w1)" and "dev \<noteq> []"
    and "ParseInt target = Some u" and "get_key_bundle rejects_id FromString uuid_String target dev w1 = (Inr out, w')"
  shows "\<exists>v spk spks. FromString dev = Some v \<and> active_spks (tables w) u v = spk # spks \<and>
    DecodeString (kb_identity_key out) = DecodeString pk \<and> DecodeString (kb_identity_key_sign out) = DecodeString sk \<and>
    DecodeString (kb_signed_prekey out) = Some (sp_public_key spk) \<and> DecodeString (kb_spk_signature out) = Some (sp_signature spk)"
proof -
  from assms(1) obtain pub sign v x where pub: "DecodeString pk = Some pub" and sign: "DecodeString sk = Some sign"
    and v: "FromString dev = Some v"
    and up: "Identity_Upsert \<lparr>ik_id = 0, ik_user_id = u, ik_device_id = v, ik_public_key = pub,
      ik_sign_public_key = sign, ik_fingerprint = Fingerprint pub, ik_uploaded_at = 0\<rparr> w = (Inr x, w1)"
    unfolding upload_identity_key_def check_succ bind_succ ret_succ decode_sized_succ ParseDeviceID_succ by blast
  obtain r where ik: "identity_of (tables w1) u v = Some r" "ik_public_key r = pub" "ik_sign_public_key r = sign"
    using Upsert_succ(2) [OF up] by auto
  have spks: "active_spks (tables w1) = active_spks (tables w)"
    using Upsert_succ(1) [OF up] by (intro active_spks_cong) auto
  from assms(4) show ?thesis
  proof (rule get_key_bundle_succ)
    fix u' v' and ik' :: identity_key and spk :: signed_prekey and otp spks' w2
    assume b: "ParseInt target = Some u'" "bundle_device FromString (tables w1) u' dev = Some v'"
      "identity_of (tables w1) u' v' = Some ik'" "active_spks (tables w1) u' v' = spk # spks'" "out = bundle_of ik' spk otp"
    then have "u' = u" "v' = v" using assms(2,3) v by (simp_all add: bundle_device_def)
    with b ik spks v pub sign show ?thesis
      by (intro exI [of _ v] exI [of _ spk] exI [of _ spks'])
        (simp add: bundle_of_def DecodeString_EncodeToString)
  qed
qed

lemma demo_replaced:
  "\<exists>fp w1. upload_identity_key demo_device (\<lambda>_. ''g'') 1 ''7'' (EncodeToString (demo_bytes 32 8)) (EncodeToString (demo_bytes 32 9))
     keys_world = (Inr fp, w1) \<and> isl (fst (get_key_bundle False demo_device (\<lambda>_. ''7'') ''1'' ''7'' w1)) = False"
proof -
  have h: "healthy keys_world" using keys_world_ready by simp
  have l: "length (demo_bytes n b) = n" for n b by (simp add: demo_bytes_def)
  let ?k = "demo_identity\<lparr>ik_public_key := demo_bytes 32 8, ik_sign_public_key := demo_bytes 32 9, ik_fingerprint := ''g'',
    ik_uploaded_at := 5\<rparr>"
  let ?w1 = "keys_world\<lparr>seq := (seq keys_world)(T_identity_keys := 10),
    tables := (tables keys_world)\<lparr>identity_keys := [?k]\<rparr>\<rparr>"
  have up: "upload_identity_key demo_device (\<lambda>_. ''g'') 1 ''7'' (EncodeToString (demo_bytes 32 8)) (EncodeToString (demo_bytes 32 9))
     keys_world = (Inr ''g'', ?w1)"
    by (simp add: upload_identity_key_def check_def ParseDeviceID_def decode_sized_def DecodeString_EncodeToString
        demo_device_def l Identity_Upsert_def sql_run h bind_def attempt_run)
      (simp add: same_device_def keys_world_defs)
  have h1: "healthy ?w1" using h by simp
  have u: "ParseUserID ''1'' = Inr 1" by code_simp
  have v: "target_device demo_device 1 ''7'' = ret 7"
    by (simp add: target_device_def check_def ParseDeviceID_def demo_device_def)
  have ik: "Identity_FindByUserAndDevice 1 7 ?w1 = (Inr ?k, ?w1)"
    by (simp add: Identity_FindByUserAndDevice_def bind_def attempt_run not_found_as_run ScanOne_run [OF h1] check_def
        toIdentityKeyDomain_def l) (simp add: demo_identity_def l)
  have "SPK_FindActive 1 7 ?w1 = (Inr demo_spk, ?w1)"
    by (simp add: SPK_FindActive_def bind_def attempt_run not_found_as_run ScanOne_run [OF h1] check_def
        toSignedPreKeyDomain_def) (simp add: owned_by_def keys_world_defs)
  with ik u v have "isl (fst (get_key_bundle False demo_device (\<lambda>_. ''7'') ''1'' ''7'' ?w1)) = False"
    using replenish_keeps
    by (simp add: get_key_bundle_def check_def bind_def attempt_run split: prod.split sum.split)
  with up show ?thesis by blast
qed

lemma identity_upload_keeps_signed_prekey_witness:
  "\<exists>fp w1 out w'. upload_identity_key demo_device (\<lambda>_. ''g'') 1 ''7'' (EncodeToString (demo_bytes 32 8))
       (EncodeToString (demo_bytes 32 9)) keys_world = (Inr fp, w1) \<and>
     get_key_bundle False demo_device (\<lambda>_. ''7'') ''1'' ''7'' w1 = (Inr out, w') \<and>
     DecodeString (kb_identity_key_sign out) = Some (demo_bytes 32 9) \<and>
     DecodeString (kb_spk_signature out) = Some (sp_signature demo_spk)"
proof -
  from demo_replaced obtain fp w1 where up: "upload_identity_key demo_device (\<lambda>_. ''g'') 1 ''7'' (EncodeToString (demo_bytes 32 8))
       (EncodeToString (demo_bytes 32 9)) keys_world = (Inr fp, w1)"
    and ok: "isl (fst (get_key_bundle False demo_device (\<lambda>_. ''7'') ''1'' ''7'' w1)) = False" by blast
  from run_ok [OF ok] obtain out w' where b: "get_key_bundle False demo_device (\<lambda>_. ''7'') ''1'' ''7'' w1 = (Inr out, w')"
    by blast
  have u: "ParseInt ''1'' = Some 1" by code_simp
  have "''7'' \<noteq> []" by simp
  from identity_upload_keeps_signed_prekey [OF up this u b] obtain v spk spks where
    v: "demo_device ''7'' = Some v" "active_spks (tables keys_world) 1 v = spk # spks"
    and d: "DecodeString (kb_identity_key_sign out) = DecodeString (EncodeToString (demo_bytes 32 9))"
      "DecodeString (kb_spk_signature out) = Some (sp_signature spk)" by (elim exE conjE) (rule that)
  from v have "spk = demo_spk" by (simp add: demo_device_def active_spks_def owned_by_def keys_world_defs)
  with up b d show ?thesis by (auto simp: DecodeString_EncodeToString)
qed

end
