(* ===== verification/Sender_Keys.thy ===== *)
theory Sender_Keys
  imports E2EE_Keys Messages
begin

text \<open>
  The sender keys of the members of a room: the repositories of the keys, of the record who has fetched
  which key, and of the requests for a key, and the use cases that upload, fetch and ask for keys, with
  the goroutines they start.  \<open>ErrNotRoomMember\<close> of this package is \<open>ErrE2EENotRoomMember\<close>.
\<close>

section \<open>Repositories\<close>

definition toSenderKeyDomain :: "sender_key \<Rightarrow> err + sender_key" where
  "toSenderKeyDomain r = (if length (sk_public r) \<noteq> 32 then Inl Plain else Inr r)"

definition SenderKey_FindLatest :: "member_id \<Rightarrow> sender_key io" where
  "SenderKey_FindLatest m = bind (not_found_as (NotFound SenderKeyNotFound)
     (ScanOne (\<lambda>d. order_desc sk_chain_id (filter (\<lambda>k. sk_member_id k = m) (sender_keys d)))))
     (\<lambda>r. check (toSenderKeyDomain r) ret)"

definition SenderKey_FindAllByMembers :: "member_id list \<Rightarrow> sender_key list io" where
  "SenderKey_FindAllByMembers ms =
     (if ms = [] then ret []
      else bind (ScanAll (\<lambda>d. filter (\<lambda>k. sk_member_id k \<in> set ms) (sender_keys d)))
        (\<lambda>rs. collect rs (\<lambda>r. check (toSenderKeyDomain r) (\<lambda>k. ret (Some k)))))"

definition SenderKey_Add :: "sender_key \<Rightarrow> sender_key io" where
  "SenderKey_Add k = sql T_sender_keys 1 (\<lambda>i now d.
     if \<not> in_int32 (sk_chain_id k) then Inl Pg_OutOfRange
     else if \<exists>x \<in> set (sender_keys d). sk_member_id x = sk_member_id k \<and> sk_chain_id x = sk_chain_id k
     then Inl Pg_UniqueViolation
     else if sk_member_id k \<notin> cm_id ` set (chat_members d) then Inl Pg_ForeignKey
     else (let row = k\<lparr>sk_id := i, sk_created_at := now\<rparr>
           in Inr (row, d\<lparr>sender_keys := sender_keys d @ [row]\<rparr>)))"

definition pair_of_dist :: "sender_key_distribution \<Rightarrow> member_id \<times> member_id" where
  "pair_of_dist x = (sd_sender x, sd_receiver x)"

text \<open>One row of the batch: update on conflict, with the greater chain id, or insert.\<close>

definition upsert_dist ::
  "int \<Rightarrow> instant \<Rightarrow> sender_key_distribution \<Rightarrow> sender_key_distribution list \<Rightarrow> sender_key_distribution list" where
  "upsert_dist i now x rows =
     (if pair_of_dist x \<in> pair_of_dist ` set rows
      then map (\<lambda>y. if pair_of_dist y = pair_of_dist x
             then y\<lparr>sd_chain_id := max (sd_chain_id x) (sd_chain_id y), sd_distributed_at := now\<rparr> else y) rows
      else rows @ [x\<lparr>sd_id := i, sd_distributed_at := now\<rparr>])"

fun upsert_dists ::
  "int \<Rightarrow> instant \<Rightarrow> sender_key_distribution list \<Rightarrow> sender_key_distribution list \<Rightarrow> sender_key_distribution list" where
  "upsert_dists i now [] rows = rows"
| "upsert_dists i now (x # xs) rows = upsert_dists (i + 1) now xs (upsert_dist i now x rows)"

text \<open>The whole batch is one statement; a pair that occurs twice in it is an error, since \<open>DO UPDATE\<close>
  may not touch a row twice.\<close>

definition Distribution_UpsertBatch :: "sender_key_distribution list \<Rightarrow> unit io" where
  "Distribution_UpsertBatch xs =
     (if xs = [] then ret ()
      else sql T_distributions (length xs) (\<lambda>i now d.
        if \<not> list_all (\<lambda>x. in_int32 (sd_chain_id x)) xs then Inl Pg_OutOfRange
        else if \<not> distinct (map pair_of_dist xs) then Inl Pg_Cardinality
        else if \<exists>x \<in> set xs. sd_sender x \<notin> cm_id ` set (chat_members d) \<or> sd_receiver x \<notin> cm_id ` set (chat_members d)
        then Inl Pg_ForeignKey
        else Inr ((), d\<lparr>distributions := upsert_dists i now xs (distributions d)\<rparr>)))"

text \<open>Has the receiver fetched the key of the sender at this chain id or a later one?\<close>

definition has_fetched :: "db \<Rightarrow> member_id \<Rightarrow> member_id \<Rightarrow> int \<Rightarrow> bool" where
  "has_fetched d sender receiver chain \<longleftrightarrow>
     (\<exists>x \<in> set (distributions d). sd_sender x = sender \<and> sd_receiver x = receiver \<and> chain \<le> sd_chain_id x)"

text \<open>A subquery with no row is NULL, and no room equals NULL.\<close>

definition pending_receivers :: "db \<Rightarrow> member_id \<Rightarrow> int \<Rightarrow> chat_member list" where
  "pending_receivers d sender chain =
     (case List.find (\<lambda>m. cm_id m = sender) (chat_members d) of
        None \<Rightarrow> []
      | Some s \<Rightarrow> filter (\<lambda>m. cm_room_id m = cm_room_id s \<and> cm_id m \<noteq> sender \<and> \<not> cm_is_deleted m \<and>
                      \<not> has_fetched d sender (cm_id m) chain) (chat_members d))"

definition Distribution_FindPendingReceivers :: "member_id \<Rightarrow> int \<Rightarrow> member_id list io" where
  "Distribution_FindPendingReceivers sender chain = ScanAll (\<lambda>d. map cm_id (pending_receivers d sender chain))"

definition same_request :: "sender_key_request \<Rightarrow> sender_key_request \<Rightarrow> bool" where
  "same_request x y \<longleftrightarrow> sr_requester y = sr_requester x \<and> sr_provider y = sr_provider x"

definition Request_Upsert :: "sender_key_request \<Rightarrow> sender_key_request io" where
  "Request_Upsert x = sql T_key_requests 1 (\<lambda>i now d.
     case List.find (same_request x) (key_requests d) of
       Some y \<Rightarrow> Inr (x\<lparr>sr_id := sr_id y, sr_created_at := now\<rparr>,
         d\<lparr>key_requests := map (\<lambda>y. if same_request x y then y\<lparr>sr_fulfilled_at := None, sr_created_at := now\<rparr> else y)
             (key_requests d)\<rparr>)
     | None \<Rightarrow>
         if sr_requester x \<notin> cm_id ` set (chat_members d) \<or> sr_provider x \<notin> cm_id ` set (chat_members d)
         then Inl Pg_ForeignKey
         else (let row = \<lparr>sr_id = i, sr_requester = sr_requester x, sr_provider = sr_provider x,
                          sr_created_at = now, sr_fulfilled_at = None\<rparr>
               in Inr (x\<lparr>sr_id := i, sr_created_at := now\<rparr>, d\<lparr>key_requests := key_requests d @ [row]\<rparr>)))"

definition Request_FindPendingByProvider :: "member_id \<Rightarrow> sender_key_request list io" where
  "Request_FindPendingByProvider p =
     ScanAll (\<lambda>d. filter (\<lambda>x. sr_provider x = p \<and> sr_fulfilled_at x = None) (key_requests d))"

definition Request_MarkFulfilled :: "member_id \<Rightarrow> member_id \<Rightarrow> unit io" where
  "Request_MarkFulfilled requester provider = Exec (\<lambda>now d. Inr (d\<lparr>key_requests :=
     map (\<lambda>x. if sr_requester x = requester \<and> sr_provider x = provider \<and> sr_fulfilled_at x = None
              then x\<lparr>sr_fulfilled_at := Some now\<rparr> else x) (key_requests d)\<rparr>))"

section \<open>Use cases\<close>

text \<open>The two look-ups that start every use case of a member; they do not look at the deletion mark.\<close>

definition as_member :: "user_id \<Rightarrow> room_id \<Rightarrow> (participant \<Rightarrow> chat_member \<Rightarrow> 'a io) \<Rightarrow> 'a io" where
  "as_member userID roomID k =
     attempt (Participant_FindByUserID userID) (\<lambda>_. fail (E2EE ErrE2EENotRoomMember)) (\<lambda>p.
     attempt (Member_FindByRoomAndParticipant roomID (pa_id p)) (\<lambda>_. fail (E2EE ErrE2EENotRoomMember)) (k p))"

definition upload_sender_key :: "user_id \<Rightarrow> room_id \<Rightarrow> string \<Rightarrow> string \<Rightarrow> unit io" where
  "upload_sender_key userID roomID SenderKeyPublic DistributionMessage =
     as_member userID roomID (\<lambda>_ member.
     check (decode_sized 32 SenderKeyPublic) (\<lambda>pubBytes.
     check (case DecodeString DistributionMessage of None \<Rightarrow> Inl (E2EE ErrInvalidSignature) | Some bs \<Rightarrow> Inr bs) (\<lambda>distBytes.
     bind (SenderKey_Add \<lparr>sk_id = 0, sk_member_id = cm_id member, sk_chain_id = 0, sk_public = pubBytes,
             sk_distribution_message = distBytes, sk_created_at = 0\<rparr>) (\<lambda>_.
     spawn (NotifyRequesters (cm_id member) roomID)))))"

definition notify_requester :: "member_id \<Rightarrow> room_id \<Rightarrow> sender_key_request \<Rightarrow> unit io" where
  "notify_requester provider roomID req =
     attempt (Member_FindByID (sr_requester req)) (\<lambda>_. ret ()) (\<lambda>m.
     attempt (Participant_FindByID (cm_participant_id m)) (\<lambda>_. ret ()) (\<lambda>p.
     case pa_user_id p of
       None \<Rightarrow> ret ()
     | Some u \<Rightarrow>
         bind (SendToUser (FormatInt u) (PushDirectKeyReady roomID provider)) (\<lambda>_.
         ignore (Request_MarkFulfilled (sr_requester req) provider) (ret ()))))"

definition notifyRequesters :: "member_id \<Rightarrow> room_id \<Rightarrow> unit io" where
  "notifyRequesters provider roomID =
     attempt (Request_FindPendingByProvider provider) (\<lambda>_. ret ()) (\<lambda>requests.
     for_each requests (notify_requester provider roomID))"

record sender_key_item =
  ski_member_id :: member_id
  ski_public :: string
  ski_distribution_message :: string

definition get_sender_keys :: "user_id \<Rightarrow> room_id \<Rightarrow> sender_key_item list io" where
  "get_sender_keys userID roomID =
     as_member userID roomID (\<lambda>_ callerMember.
     bind (Member_FindByRoom roomID) (\<lambda>members.
     bind (SenderKey_FindAllByMembers (map cm_id members)) (\<lambda>senderKeys.
     bind (spawn (RecordDistributions (cm_id callerMember) senderKeys)) (\<lambda>_.
     ret (map (\<lambda>k. \<lparr>ski_member_id = sk_member_id k, ski_public = EncodeToString (sk_public k),
        ski_distribution_message = EncodeToString (sk_distribution_message k)\<rparr>) senderKeys)))))"

definition distributions_of :: "member_id \<Rightarrow> sender_key list \<Rightarrow> sender_key_distribution list" where
  "distributions_of receiver keys = map (\<lambda>k. \<lparr>sd_id = 0, sd_sender = sk_member_id k, sd_receiver = receiver,
     sd_chain_id = sk_chain_id k, sd_distributed_at = 0\<rparr>) (filter (\<lambda>k. sk_member_id k \<noteq> receiver) keys)"

definition recordDistributions :: "member_id \<Rightarrow> sender_key list \<Rightarrow> unit io" where
  "recordDistributions receiver keys =
     (if keys = [] then ret () else ignore (Distribution_UpsertBatch (distributions_of receiver keys)) (ret ()))"

record distribution_status =
  ds_pending_receivers :: "member_id list"
  ds_pending_from_members :: "member_id list"

definition pendingReceivers :: "member_id \<Rightarrow> member_id list io" where
  "pendingReceivers m =
     attempt (SenderKey_FindLatest m) (\<lambda>e. if e = NotFound SenderKeyNotFound then ret [] else fail e) (\<lambda>latest.
     Distribution_FindPendingReceivers m (sk_chain_id latest))"

definition pending_from :: "member_id \<Rightarrow> chat_member \<Rightarrow> member_id option io" where
  "pending_from caller m =
     (if cm_id m = caller \<or> cm_is_deleted m then ret None
      else attempt (SenderKey_FindLatest (cm_id m))
        (\<lambda>e. if e = NotFound SenderKeyNotFound then ret None else fail e) (\<lambda>latest.
        bind (Distribution_FindPendingReceivers (cm_id m) (sk_chain_id latest)) (\<lambda>receivers.
        ret (if caller \<in> set receivers then Some (cm_id m) else None))))"

definition pendingFromMembers :: "room_id \<Rightarrow> member_id \<Rightarrow> member_id list io" where
  "pendingFromMembers roomID caller =
     bind (Member_FindByRoom roomID) (\<lambda>members. collect members (pending_from caller))"

definition get_sender_key_distribution_status :: "user_id \<Rightarrow> room_id \<Rightarrow> distribution_status io" where
  "get_sender_key_distribution_status userID roomID =
     as_member userID roomID (\<lambda>_ callerMember.
     bind (pendingReceivers (cm_id callerMember)) (\<lambda>receivers.
     bind (pendingFromMembers roomID (cm_id callerMember)) (\<lambda>from_members.
     ret \<lparr>ds_pending_receivers = receivers, ds_pending_from_members = from_members\<rparr>)))"

definition create_sender_key_request :: "user_id \<Rightarrow> room_id \<Rightarrow> member_id \<Rightarrow> unit io" where
  "create_sender_key_request userID roomID ProviderMemberID =
     as_member userID roomID (\<lambda>callerParticipant callerMember.
     guard (\<not> cm_is_deleted callerMember) (E2EE ErrE2EENotRoomMember) (
     attempt (Member_FindByID ProviderMemberID) (\<lambda>_. fail (E2EE ErrE2EENotRoomMember)) (\<lambda>providerMember.
     guard (\<not> cm_is_deleted providerMember) (E2EE ErrE2EENotRoomMember) (
     bind (Request_Upsert \<lparr>sr_id = 0, sr_requester = cm_id callerMember, sr_provider = cm_id providerMember,
             sr_created_at = 0, sr_fulfilled_at = None\<rparr>) (\<lambda>_.
     spawn (NotifyProvider providerMember callerMember callerParticipant roomID))))))"

definition notifyProvider :: "chat_member \<Rightarrow> chat_member \<Rightarrow> participant \<Rightarrow> room_id \<Rightarrow> unit io" where
  "notifyProvider providerMember requesterMember requesterParticipant roomID =
     attempt (Participant_FindByID (cm_participant_id providerMember)) (\<lambda>_. ret ()) (\<lambda>p.
     case pa_user_id p of
       None \<Rightarrow> ret ()
     | Some providerUser \<Rightarrow>
         (case pa_user_id requesterParticipant of
            None \<Rightarrow> ret ()
          | Some requesterUser \<Rightarrow>
              SendToUser (FormatInt providerUser) (PushSenderKeyNeeded roomID (cm_id requesterMember) requesterUser)))"

text \<open>When a user connects: the requests that wait for the keys of their memberships.\<close>

definition notify_request :: "string \<Rightarrow> sender_key_request \<Rightarrow> unit io" where
  "notify_request providerUser req =
     attempt (Member_FindByID (sr_requester req)) (\<lambda>_. ret ()) (\<lambda>m.
     if cm_is_deleted m then ret ()
     else attempt (Participant_FindByID (cm_participant_id m)) (\<lambda>_. ret ()) (\<lambda>p.
       case pa_user_id p of
         None \<Rightarrow> ret ()
       | Some u \<Rightarrow> SendToUser providerUser (PushSenderKeyNeeded (cm_room_id m) (cm_id m) u)))"

definition notifyForMember :: "chat_member \<Rightarrow> string \<Rightarrow> unit io" where
  "notifyForMember providerMember providerUser =
     attempt (Request_FindPendingByProvider (cm_id providerMember)) (\<lambda>_. ret ()) (\<lambda>requests.
     for_each requests (notify_request providerUser))"

definition notify_pending_sender_key_requests :: "string \<Rightarrow> unit io" where
  "notify_pending_sender_key_requests user =
     (case ParseInt user of
        None \<Rightarrow> ret ()
      | Some userID \<Rightarrow>
          attempt (Participant_FindByUserID userID) (\<lambda>_. ret ()) (\<lambda>p.
          attempt (Member_FindByParticipant (pa_id p)) (\<lambda>_. ret ()) (\<lambda>members.
          for_each members (\<lambda>m. if cm_is_deleted m then ret () else notifyForMember m user))))"

end
