(* ===== verification/Sender_Key_Rules.thy ===== *)
theory Sender_Key_Rules
  imports Sender_Keys Message_Rules E2EE_Rules
begin

text \<open>
  Facts about the sender keys: the member a caller acts as, what an upload adds, what a recorded fetch
  changes, and which requests a notification resolves.
\<close>

section \<open>The caller\<close>

text \<open>The participant and the membership row that the two look-ups of \<open>as_member\<close> find.\<close>

definition caller_of :: "db \<Rightarrow> user_id \<Rightarrow> room_id \<Rightarrow> (participant \<times> chat_member) option" where
  "caller_of d u r =
     (case [toParticipantDomain p (Some v) None None.
        p \<leftarrow> participants d, (pid, v) \<leftarrow> participant_users d, pid = pr_id p \<and> v = u] of
        [] \<Rightarrow> None
      | p # _ \<Rightarrow> map_option (Pair p) (member_row d r (pa_id p)))"

lemma caller_of_row: "caller_of d u r = Some (p, m) \<Longrightarrow> m \<in> set (chat_members d) \<and> cm_room_id m = r"
  by (auto simp: caller_of_def split: list.splits dest: member_row_Some)

lemma as_member_succ:
  assumes "as_member u r k w = (Inr y, w')"
  obtains p m where "caller_of (tables w) u r = Some (p, m)" and "k p m (queried (queried w)) = (Inr y, w')"
proof -
  from assms obtain p w1 m w2 where p: "Participant_FindByUserID u w = (Inr p, w1)"
    and m: "Member_FindByRoomAndParticipant r (pa_id p) w1 = (Inr m, w2)" and k: "k p m w2 = (Inr y, w')"
    unfolding as_member_def attempt_fail_succ by blast
  note f = find_member_succ [OF m]
  from p obtain ps where "[toParticipantDomain p (Some v) None None.
      p \<leftarrow> participants (tables w), (pid, v) \<leftarrow> participant_users (tables w), pid = pr_id p \<and> v = u] = p # ps"
    and w1: "w1 = queried w"
    by (auto simp: Participant_FindByUserID_def succ)
  with f have "caller_of (tables w) u r = Some (p, m)" by (simp add: caller_of_def)
  with k f w1 that show ?thesis by simp
qed

lemma caller_of_cong:
  "participants d' = participants d \<Longrightarrow> participant_users d' = participant_users d \<Longrightarrow>
   chat_members d' = chat_members d \<Longrightarrow> caller_of d' u r = caller_of d u r"
proof -
  assume a: "participants d' = participants d" "participant_users d' = participant_users d" "chat_members d' = chat_members d"
  then have "member_row d' = member_row d" by (simp add: member_row_def fun_eq_iff)
  with a show ?thesis by (simp only: caller_of_def)
qed

section \<open>Uploading\<close>

lemma SenderKey_Add_succ:
  "SenderKey_Add k w = (Inr x, w') \<Longrightarrow>
     \<not> (\<exists>y \<in> set (sender_keys (tables w)). sk_member_id y = sk_member_id k \<and> sk_chain_id y = sk_chain_id k) \<and>
     tables w' = (tables w)\<lparr>sender_keys := sender_keys (tables w) @
       [k\<lparr>sk_id := seq w T_sender_keys + 1, sk_created_at := clock w\<rparr>]\<rparr> \<and> tasks w' = tasks w"
  by (auto simp: SenderKey_Add_def sql_succ Let_def split: if_splits)

lemma upload_sender_key_succ:
  assumes "upload_sender_key u r pk dm w = (Inr x, w')"
  obtains p m pub dist where "caller_of (tables w) u r = Some (p, m)" and "DecodeString pk = Some pub" and "length pub = 32"
    and "DecodeString dm = Some dist"
    and "\<not> (\<exists>y \<in> set (sender_keys (tables w)). sk_member_id y = cm_id m \<and> sk_chain_id y = 0)"
    and "tables w' = (tables w)\<lparr>sender_keys := sender_keys (tables w) @
       [\<lparr>sk_id = seq w T_sender_keys + 1, sk_member_id = cm_id m, sk_chain_id = 0, sk_public = pub,
         sk_distribution_message = dist, sk_created_at = clock w\<rparr>]\<rparr>"
    and "tasks w' = tasks w @ [NotifyRequesters (cm_id m) r]"
proof -
  from assms obtain p m where c: "caller_of (tables w) u r = Some (p, m)" and k:
    "check (decode_sized 32 pk) (\<lambda>pubBytes.
     check (case DecodeString dm of None \<Rightarrow> Inl (E2EE ErrInvalidSignature) | Some bs \<Rightarrow> Inr bs) (\<lambda>distBytes.
     bind (SenderKey_Add \<lparr>sk_id = 0, sk_member_id = cm_id m, sk_chain_id = 0, sk_public = pubBytes,
             sk_distribution_message = distBytes, sk_created_at = 0\<rparr>) (\<lambda>_.
     spawn (NotifyRequesters (cm_id m) r)))) (queried (queried w)) = (Inr x, w')"
    unfolding upload_sender_key_def by (rule as_member_succ)
  from k obtain pub dist z w1 where pub: "DecodeString pk = Some pub" "length pub = 32"
    and dist: "(case DecodeString dm of None \<Rightarrow> Inl (E2EE ErrInvalidSignature) | Some bs \<Rightarrow> Inr bs) = Inr dist"
    and ad: "SenderKey_Add \<lparr>sk_id = 0, sk_member_id = cm_id m, sk_chain_id = 0, sk_public = pub,
             sk_distribution_message = dist, sk_created_at = 0\<rparr> (queried (queried w)) = (Inr z, w1)"
    and sp: "spawn (NotifyRequesters (cm_id m) r) w1 = (Inr x, w')"
    unfolding check_succ bind_succ decode_sized_succ by blast
  from dist have "DecodeString dm = Some dist" by (simp split: option.splits)
  with SenderKey_Add_succ [OF ad] c pub sp show ?thesis
    by (intro that [of p m pub dist]) (auto simp: spawn_run)
qed

section \<open>Recording a fetch\<close>

lemma upsert_dist_fetched:
  "\<exists>y \<in> set (upsert_dist i now x rows). sd_sender y = sd_sender x \<and> sd_receiver y = sd_receiver x \<and> sd_chain_id x \<le> sd_chain_id y"
proof (cases "pair_of_dist x \<in> pair_of_dist ` set rows")
  case True
  then obtain y where y: "y \<in> set rows" "pair_of_dist y = pair_of_dist x" by auto
  let ?y = "y\<lparr>sd_chain_id := max (sd_chain_id x) (sd_chain_id y), sd_distributed_at := now\<rparr>"
  have "?y \<in> set (upsert_dist i now x rows)" using True y by (force simp: upsert_dist_def)
  then show ?thesis using y(2) by (intro bexI [of _ ?y]) (simp_all add: pair_of_dist_def)
next
  case False
  then show ?thesis by (simp add: upsert_dist_def)
qed

lemma upsert_dist_grows:
  assumes "y \<in> set rows"
  shows "\<exists>z \<in> set (upsert_dist i now x rows). sd_sender z = sd_sender y \<and> sd_receiver z = sd_receiver y \<and> sd_chain_id y \<le> sd_chain_id z"
proof (cases "pair_of_dist y = pair_of_dist x")
  case True
  let ?y = "y\<lparr>sd_chain_id := max (sd_chain_id x) (sd_chain_id y), sd_distributed_at := now\<rparr>"
  from True assms have "pair_of_dist x \<in> pair_of_dist ` set rows" by (metis image_eqI)
  then have "?y \<in> set (upsert_dist i now x rows)" using True assms by (force simp: upsert_dist_def)
  then show ?thesis by (intro bexI [of _ ?y]) simp_all
next
  case False
  then have "y \<in> set (upsert_dist i now x rows)" using assms by (force simp: upsert_dist_def)
  then show ?thesis by blast
qed

lemma upsert_dists_grows:
  "y \<in> set rows \<Longrightarrow>
   \<exists>z \<in> set (upsert_dists i now xs rows). sd_sender z = sd_sender y \<and> sd_receiver z = sd_receiver y \<and> sd_chain_id y \<le> sd_chain_id z"
proof (induction xs arbitrary: i rows y)
  case (Cons x xs)
  from upsert_dist_grows [OF Cons.prems] obtain z where z: "z \<in> set (upsert_dist i now x rows)"
    "sd_sender z = sd_sender y" "sd_receiver z = sd_receiver y" "sd_chain_id y \<le> sd_chain_id z" by blast
  from Cons.IH [OF z(1), of "i + 1"] z show ?case by fastforce
qed auto

lemma upsert_dists_fetched:
  "x \<in> set xs \<Longrightarrow>
   \<exists>z \<in> set (upsert_dists i now xs rows). sd_sender z = sd_sender x \<and> sd_receiver z = sd_receiver x \<and> sd_chain_id x \<le> sd_chain_id z"
proof (induction xs arbitrary: i rows)
  case (Cons y xs)
  show ?case
  proof (cases "x = y")
    case True
    from upsert_dist_fetched obtain z where z: "z \<in> set (upsert_dist i now y rows)"
      "sd_sender z = sd_sender y" "sd_receiver z = sd_receiver y" "sd_chain_id y \<le> sd_chain_id z" by blast
    from upsert_dists_grows [OF z(1), of "i + 1" now xs] z True show ?thesis by fastforce
  next
    case False
    with Cons show ?thesis by simp
  qed
qed simp

lemma UpsertBatch_tables:
  assumes "Distribution_UpsertBatch xs w = (r, w')"
  shows "tables w' = tables w \<or> (\<exists>i now. tables w' = (tables w)\<lparr>distributions := upsert_dists i now xs (distributions (tables w))\<rparr>)"
proof (cases r)
  case (Inl e)
  then show ?thesis using assms unfolding Distribution_UpsertBatch_def by (cases "xs = []") (auto dest: sql_fails)
next
  case (Inr x)
  then show ?thesis using assms unfolding Distribution_UpsertBatch_def
    by (cases "xs = []") (auto simp: sql_succ split: if_splits)
qed

text \<open>A recorded fetch is never taken back, whatever fails.\<close>

lemma record_grows:
  "has_fetched (tables w) s r c \<Longrightarrow> has_fetched (tables (snd (recordDistributions v keys w))) s r c"
proof (cases "keys = []")
  case False
  assume f: "has_fetched (tables w) s r c"
  obtain x w' where b: "Distribution_UpsertBatch (distributions_of v keys) w = (x, w')"
    by (cases "Distribution_UpsertBatch (distributions_of v keys) w")
  then have "snd (recordDistributions v keys w) = w'" using False by (simp add: recordDistributions_def ignore_run)
  moreover from UpsertBatch_tables [OF b] f have "has_fetched (tables w') s r c"
  proof (elim disjE exE)
    fix i now assume t: "tables w' = (tables w)\<lparr>distributions := upsert_dists i now (distributions_of v keys) (distributions (tables w))\<rparr>"
    from f obtain y where y: "y \<in> set (distributions (tables w))" "sd_sender y = s" "sd_receiver y = r" "c \<le> sd_chain_id y"
      by (auto simp: has_fetched_def)
    from upsert_dists_grows [OF y(1), of i now "distributions_of v keys"] y show ?thesis
      by (fastforce simp: has_fetched_def t)
  qed simp
  ultimately show ?thesis by simp
qed (simp add: recordDistributions_def)

text \<open>Without failures, and where no sender has two keys in the batch, every key of another member is recorded.\<close>

lemma record_run:
  assumes h: "healthy w" and ks: "distinct (map sk_member_id keys)" "\<forall>k \<in> set keys. in_int32 (sk_chain_id k)"
    and fk: "\<forall>k \<in> set keys. sk_member_id k \<in> cm_id ` set (chat_members (tables w))" "v \<in> cm_id ` set (chat_members (tables w))"
    and k: "k \<in> set keys" "sk_member_id k \<noteq> v"
  shows "has_fetched (tables (snd (recordDistributions v keys w))) (sk_member_id k) v (sk_chain_id k)"
proof -
  let ?xs = "distributions_of v keys"
  have x: "\<lparr>sd_id = 0, sd_sender = sk_member_id k, sd_receiver = v, sd_chain_id = sk_chain_id k, sd_distributed_at = 0\<rparr> \<in> set ?xs"
    using k by (auto simp: distributions_of_def)
  then have ne: "?xs \<noteq> []" by auto
  have "map pair_of_dist ?xs = map (\<lambda>k. (sk_member_id k, v)) (filter (\<lambda>k. sk_member_id k \<noteq> v) keys)"
    by (simp add: distributions_of_def pair_of_dist_def)
  also have "distinct \<dots>" using ks(1) by (auto simp: distinct_map inj_on_def)
  finally have d: "distinct (map pair_of_dist ?xs)" .
  have "list_all (\<lambda>x. in_int32 (sd_chain_id x)) ?xs" using ks(2) by (auto simp: distributions_of_def list_all_iff)
  moreover have "\<not> (\<exists>x \<in> set ?xs. sd_sender x \<notin> cm_id ` set (chat_members (tables w)) \<or> sd_receiver x \<notin> cm_id ` set (chat_members (tables w)))"
    using fk by (auto simp: distributions_of_def)
  ultimately have "tables (snd (Distribution_UpsertBatch ?xs w)) =
      (tables w)\<lparr>distributions := upsert_dists (seq w T_distributions + 1) (clock w) ?xs (distributions (tables w))\<rparr>"
    using ne d h by (simp add: Distribution_UpsertBatch_def sql_run)
  moreover have "snd (recordDistributions v keys w) = snd (Distribution_UpsertBatch ?xs w)"
    using k(1) by (auto simp: recordDistributions_def ignore_run)
  ultimately show ?thesis using upsert_dists_fetched [OF x, of "seq w T_distributions + 1" "clock w" "distributions (tables w)"]
    by (auto simp: has_fetched_def)
qed

section \<open>The state of the distribution\<close>

definition latest_chain :: "db \<Rightarrow> member_id \<Rightarrow> int option" where
  "latest_chain d m = (case order_desc sk_chain_id (filter (\<lambda>k. sk_member_id k = m) (sender_keys d)) of
     [] \<Rightarrow> None | k # _ \<Rightarrow> Some (sk_chain_id k))"

text \<open>It is the greatest chain id among the keys of the member.\<close>

lemma latest_chain_greatest:
  "latest_chain d m = Some c \<longleftrightarrow>
     (\<exists>k \<in> set (sender_keys d). sk_member_id k = m \<and> sk_chain_id k = c) \<and>
     (\<forall>k \<in> set (sender_keys d). sk_member_id k = m \<longrightarrow> sk_chain_id k \<le> c)"
proof -
  let ?ks = "filter (\<lambda>k. sk_member_id k = m) (sender_keys d)"
  note set = order_desc_set [of sk_chain_id ?ks] and sorted = order_desc_sorted [of sk_chain_id ?ks]
  show ?thesis
  proof (cases "order_desc sk_chain_id ?ks")
    case Nil
    then have "set ?ks = {}" using set by simp
    then show ?thesis using Nil by (auto simp: latest_chain_def)
  next
    case (Cons k ks)
    have "k \<in> set ?ks" and "\<forall>x \<in> set ?ks. sk_chain_id x \<le> sk_chain_id k"
      using set sorted Cons by auto
    moreover have "latest_chain d m = Some (sk_chain_id k)" using Cons by (simp add: latest_chain_def)
    ultimately show ?thesis by auto (metis order_antisym)
  qed
qed

lemma FindLatest_succ:
  "SenderKey_FindLatest m w = (Inr k, w') \<Longrightarrow> latest_chain (tables w) m = Some (sk_chain_id k) \<and> w' = queried w"
  by (auto simp: SenderKey_FindLatest_def succ latest_chain_def toSenderKeyDomain_def split: if_splits)

lemma FindLatest_none:
  "SenderKey_FindLatest m w = (Inl (NotFound SenderKeyNotFound), w') \<Longrightarrow> latest_chain (tables w) m = None \<and> w' = queried w"
  unfolding SenderKey_FindLatest_def bind_fails not_found_as_fails not_found_as_succ check_def toSenderKeyDomain_def
  by (auto simp: latest_chain_def ScanOne_empty dest: ScanOne_fails split: if_splits)

definition awaits :: "db \<Rightarrow> member_id \<Rightarrow> chat_member \<Rightarrow> bool" where
  "awaits d sender m \<longleftrightarrow> (\<exists>c. latest_chain d sender = Some c \<and> m \<in> set (pending_receivers d sender c))"

lemma pendingReceivers_succ:
  "pendingReceivers m w = (Inr ids, w') \<Longrightarrow>
     set ids = cm_id ` {x. awaits (tables w) m x} \<and> tables w' = tables w"
  unfolding pendingReceivers_def attempt_succ Distribution_FindPendingReceivers_def
  by (elim disjE exE conjE)
    (auto simp: succ awaits_def dest!: FindLatest_succ FindLatest_none split: if_splits)

lemma pending_from_succ:
  assumes "pending_from c m w = (Inr r, w')"
  shows "r = (if cm_id m \<noteq> c \<and> \<not> cm_is_deleted m \<and> (\<exists>x. awaits (tables w) (cm_id m) x \<and> cm_id x = c) then Some (cm_id m) else None)
    \<and> tables w' = tables w"
proof (cases "cm_id m = c \<or> cm_is_deleted m")
  case False
  then have "attempt (SenderKey_FindLatest (cm_id m)) (\<lambda>e. if e = NotFound SenderKeyNotFound then ret None else fail e)
     (\<lambda>latest. bind (Distribution_FindPendingReceivers (cm_id m) (sk_chain_id latest)) (\<lambda>receivers.
        ret (if c \<in> set receivers then Some (cm_id m) else None))) w = (Inr r, w')"
    using assms by (simp add: pending_from_def)
  then have "(\<exists>k w1 ids. SenderKey_FindLatest (cm_id m) w = (Inr k, w1) \<and>
       Distribution_FindPendingReceivers (cm_id m) (sk_chain_id k) w1 = (Inr ids, w') \<and>
       r = (if c \<in> set ids then Some (cm_id m) else None)) \<or>
     (SenderKey_FindLatest (cm_id m) w = (Inl (NotFound SenderKeyNotFound), w') \<and> r = None)"
    unfolding attempt_succ bind_succ ret_succ if_succ fail_succ by blast
  then show ?thesis
  proof (elim disjE exE conjE)
    fix k w1 ids assume f: "SenderKey_FindLatest (cm_id m) w = (Inr k, w1)"
      and q: "Distribution_FindPendingReceivers (cm_id m) (sk_chain_id k) w1 = (Inr ids, w')"
      and r: "r = (if c \<in> set ids then Some (cm_id m) else None)"
    from FindLatest_succ [OF f] q have "ids = map cm_id (pending_receivers (tables w) (cm_id m) (sk_chain_id k))"
      and "tables w' = tables w" by (auto simp: Distribution_FindPendingReceivers_def succ)
    moreover from this FindLatest_succ [OF f] have "(c \<in> set ids) = (\<exists>x. awaits (tables w) (cm_id m) x \<and> cm_id x = c)"
      by (auto simp: awaits_def)
    ultimately show ?thesis using r False by simp
  next
    assume "SenderKey_FindLatest (cm_id m) w = (Inl (NotFound SenderKeyNotFound), w')" and r: "r = None"
    from FindLatest_none [OF this(1)] r show ?thesis by (simp add: awaits_def)
  qed
qed (use assms in \<open>auto simp: pending_from_def\<close>)

lemma collect_pending_succ:
  "collect ms (pending_from c) w = (Inr ids, w') \<Longrightarrow>
     set ids = cm_id ` {m \<in> set ms. cm_id m \<noteq> c \<and> \<not> cm_is_deleted m \<and> (\<exists>x. awaits (tables w) (cm_id m) x \<and> cm_id x = c)}
     \<and> tables w' = tables w"
proof (induction ms arbitrary: w ids)
  case (Cons m ms)
  from Cons.prems obtain r w1 rs where r: "pending_from c m w = (Inr r, w1)" and rs: "collect ms (pending_from c) w1 = (Inr rs, w')"
    and ids: "ids = (case r of None \<Rightarrow> rs | Some y \<Rightarrow> y # rs)"
    by (auto simp: succ)
  note p = pending_from_succ [OF r]
  with Cons.IH [OF rs] ids show ?case by (auto split: if_splits)
qed (auto simp: succ)

section \<open>Requests\<close>

text \<open>The push for a request: to the user of the participant of the requesting member.\<close>

definition request_user :: "db \<Rightarrow> sender_key_request \<Rightarrow> user_id \<Rightarrow> bool" where
  "request_user d x u \<longleftrightarrow> (\<exists>m q. m \<in> set (chat_members d) \<and> cm_id m = sr_requester x \<and>
     q \<in> set (participant_rows d (cm_participant_id m)) \<and> pa_user_id q = Some u)"

definition resolved_ok :: "member_id \<Rightarrow> room_id \<Rightarrow> db \<Rightarrow> (string \<times> ws_push) list \<Rightarrow> world \<Rightarrow> bool" where
  "resolved_ok p r d ob w \<longleftrightarrow> chat_members (tables w) = chat_members d \<and> participant_rows (tables w) = participant_rows d \<and>
     (\<exists>more. outbox w = ob @ more) \<and>
     (\<forall>x \<in> set (key_requests d). x \<in> set (key_requests (tables w)) \<or>
        sr_provider x = p \<and> sr_fulfilled_at x = None \<and>
        (\<exists>u. request_user d x u \<and> (FormatInt u, PushDirectKeyReady r p) \<in> set (outbox w)))"

lemma resolved_ok_start: "resolved_ok p r (tables w) (outbox w) w"
  by (simp add: resolved_ok_def)

lemma resolved_ok_cong:
  "resolved_ok p r d ob w \<Longrightarrow> tables w' = tables w \<Longrightarrow> outbox w' = outbox w \<Longrightarrow> resolved_ok p r d ob w'"
  by (simp add: resolved_ok_def)

lemma participant_rows_requests: "participant_rows (d\<lparr>key_requests := ks\<rparr>) = participant_rows d"
  by (simp add: participant_rows_def fun_eq_iff cong: if_cong)

lemma Member_FindByID_succ:
  "Member_FindByID i w = (Inr m, w') \<Longrightarrow> m \<in> set (chat_members (tables w)) \<and> cm_id m = i"
proof -
  assume "Member_FindByID i w = (Inr m, w')"
  then obtain xs where "filter (\<lambda>m. cm_id m = i) (chat_members (tables w)) = m # xs"
    by (auto simp: Member_FindByID_def succ)
  then show ?thesis using find_Some_iff_mem [OF filter_Cons_find] by fastforce
qed

lemma MarkFulfilled_rows:
  assumes "Request_MarkFulfilled rq p w = (z, w')"
  shows "chat_members (tables w') = chat_members (tables w)" and "participant_rows (tables w') = participant_rows (tables w)"
    and "outbox w' = outbox w"
    and "x \<in> set (key_requests (tables w)) \<Longrightarrow>
      x \<in> set (key_requests (tables w')) \<or> sr_requester x = rq \<and> sr_provider x = p \<and> sr_fulfilled_at x = None"
proof -
  let ?f = "\<lambda>x. if sr_requester x = rq \<and> sr_provider x = p \<and> sr_fulfilled_at x = None
              then x\<lparr>sr_fulfilled_at := Some (clock w)\<rparr> else x"
  have t: "tables w' = tables w \<or> tables w' = (tables w)\<lparr>key_requests := map ?f (key_requests (tables w))\<rparr>"
    and "outbox w' = outbox w"
    using assms unfolding Request_MarkFulfilled_def Exec_def sql_def by (auto simp: Let_def split: if_splits)
  then show "chat_members (tables w') = chat_members (tables w)" and "participant_rows (tables w') = participant_rows (tables w)"
    and "outbox w' = outbox w" by (auto simp: participant_rows_requests)
  show "x \<in> set (key_requests (tables w')) \<or> sr_requester x = rq \<and> sr_provider x = p \<and> sr_fulfilled_at x = None"
    if x: "x \<in> set (key_requests (tables w))"
  proof (cases "sr_requester x = rq \<and> sr_provider x = p \<and> sr_fulfilled_at x = None")
    case False
    then have "?f x = x" by (rule if_not_P)
    then have "x \<in> ?f ` set (key_requests (tables w))" using imageI [OF x, of ?f] by (simp only:)
    then have "x \<in> set (map ?f (key_requests (tables w)))" by (simp only: set_map)
    with t x show ?thesis by auto
  qed simp
qed

text \<open>Pushing for a request and marking it keeps the account.\<close>

lemma resolved_ok_push:
  assumes ok: "resolved_ok p r d ob w" and m: "m \<in> set (chat_members d)" "cm_id m = rq"
    and q: "q \<in> set (participant_rows d (cm_participant_id m))" "pa_user_id q = Some u"
    and mark: "Request_MarkFulfilled rq p (w\<lparr>outbox := outbox w @ [(FormatInt u, PushDirectKeyReady r p)]\<rparr>) = (z, w')"
  shows "resolved_ok p r d ob w'"
proof -
  note f = MarkFulfilled_rows [OF mark]
  have u: "request_user d x u" if "sr_requester x = rq" for x
    using m q that by (auto simp: request_user_def)
  have pushed: "(FormatInt u, PushDirectKeyReady r p) \<in> set (outbox w')" and more: "set (outbox w) \<subseteq> set (outbox w')"
    by (auto simp: f(3))
  have "x \<in> set (key_requests (tables w')) \<or> sr_provider x = p \<and> sr_fulfilled_at x = None \<and>
      (\<exists>u. request_user d x u \<and> (FormatInt u, PushDirectKeyReady r p) \<in> set (outbox w'))"
    if x: "x \<in> set (key_requests d)" for x
  proof (cases "x \<in> set (key_requests (tables w))")
    case True
    then show ?thesis using f(4) [of x] u pushed by auto
  next
    case False
    with ok x have "sr_provider x = p \<and> sr_fulfilled_at x = None \<and>
        (\<exists>u. request_user d x u \<and> (FormatInt u, PushDirectKeyReady r p) \<in> set (outbox w))"
      unfolding resolved_ok_def by blast
    with more show ?thesis by blast
  qed
  then show ?thesis using ok f(1-3) by (auto simp: resolved_ok_def)
qed

lemma notify_requester_ok: "keeps (resolved_ok p r d ob) (notify_requester p r req)"
  unfolding keeps_def
proof (intro allI impI)
  fix w assume ok: "resolved_ok p r d ob w"
  have q: "tables w2 = tables w1 \<and> outbox w2 = outbox w1" if "keeps_fn (\<lambda>w. (tables w, outbox w)) m" "m w1 = (x, w2)"
    for m :: "'c io" and w1 x w2 using keeps_fnD [OF that(1), of w1] that(2) by simp
  have same: "keeps_fn (\<lambda>w. (tables w, outbox w)) (ScanOne f)" for f :: "db \<Rightarrow> 'b list"
    by (auto simp: keeps_fn_def ScanOne_def ScanAll_def sql_def Let_def bind_def attempt_def split: list.split)
  obtain rm w1 where m: "Member_FindByID (sr_requester req) w = (rm, w1)" by (cases "Member_FindByID (sr_requester req) w")
  have "keeps_fn (\<lambda>w. (tables w, outbox w)) (Member_FindByID (sr_requester req))"
    unfolding Member_FindByID_def not_found_as_def by (intro frame_intros same)
  from q [OF this m] have t1: "tables w1 = tables w" "outbox w1 = outbox w" by simp_all
  show "resolved_ok p r d ob (snd (notify_requester p r req w))"
  proof (cases rm)
    case (Inl e)
    with m t1 ok show ?thesis by (auto simp: notify_requester_def intro: resolved_ok_cong)
  next
    case rm: (Inr mem)
    obtain rp w2 where pa: "Participant_FindByID (cm_participant_id mem) w1 = (rp, w2)"
      by (cases "Participant_FindByID (cm_participant_id mem) w1")
    have "keeps_fn (\<lambda>w. (tables w, outbox w)) (Participant_FindByID (cm_participant_id mem))"
      unfolding Participant_FindByID_def not_found_as_def by (intro frame_intros same)
    from q [OF this pa] t1 have t2: "tables w2 = tables w" "outbox w2 = outbox w" by simp_all
    show ?thesis
    proof (cases rp)
      case (Inl e)
      with m rm pa t2 ok show ?thesis by (auto simp: notify_requester_def intro: resolved_ok_cong)
    next
      case rp: (Inr part)
      show ?thesis
      proof (cases "pa_user_id part")
        case None
        with m rm pa rp t2 ok show ?thesis by (auto simp: notify_requester_def intro: resolved_ok_cong)
      next
        case (Some u)
        let ?w3 = "w2\<lparr>outbox := outbox w2 @ [(FormatInt u, PushDirectKeyReady r p)]\<rparr>"
        have run: "snd (notify_requester p r req w) = snd (Request_MarkFulfilled (sr_requester req) p ?w3)"
          using m rm pa rp Some by (simp add: notify_requester_def SendToUser_run bind_def attempt_run ignore_run)
        have mem: "mem \<in> set (chat_members d)" "cm_id mem = sr_requester req"
          using Member_FindByID_succ [OF m [unfolded rm]] ok by (simp_all add: resolved_ok_def)
        have part: "part \<in> set (participant_rows d (cm_participant_id mem))"
          using pa rp ok t1 by (auto simp: Participant_FindByID_def succ resolved_ok_def)
        obtain z w4 where mark: "Request_MarkFulfilled (sr_requester req) p ?w3 = (z, w4)"
          by (cases "Request_MarkFulfilled (sr_requester req) p ?w3")
        have "resolved_ok p r d ob w2" using ok t2 by (rule resolved_ok_cong)
        from resolved_ok_push [OF this mem part Some mark] have "resolved_ok p r d ob w4" .
        with run mark show ?thesis by simp
      qed
    qed
  qed
qed

lemma keeps_outbox [frame_intros]: "keeps_fn (\<lambda>w. (tables w, outbox w)) (ScanAll f)"
  by (auto simp: keeps_fn_def ScanAll_def sql_def Let_def)

lemma notifyRequesters_ok: "keeps (resolved_ok p r d ob) (notifyRequesters p r)"
proof -
  have "keeps (resolved_ok p r d ob) (Request_FindPendingByProvider p)"
    unfolding Request_FindPendingByProvider_def
    by (rule keeps_of_fn [OF keeps_outbox]) (auto intro: resolved_ok_cong)
  then show ?thesis unfolding notifyRequesters_def by (intro frame_intros notify_requester_ok)
qed

end
