(* ===== verification/Sender_Key_Props.thy ===== *)
theory Sender_Key_Props
  imports Sender_Key_Rules Message_Props
begin

text \<open>
  The properties of the sender keys, each with its witness on the chat world of \<open>Message_Props\<close>: a room
  with an owner, a guest and a former member.
\<close>

definition demo_sender_key :: "int \<Rightarrow> member_id \<Rightarrow> sender_key" where
  "demo_sender_key i m = \<lparr>sk_id = i, sk_member_id = m, sk_chain_id = 0, sk_public = replicate 32 1,
     sk_distribution_message = [], sk_created_at = 0\<rparr>"

definition sender_world :: world where
  "sender_world = chat_world\<lparr>tables := (tables chat_world)\<lparr>sender_keys := [demo_sender_key 1 2],
     key_requests := [\<lparr>sr_id = 1, sr_requester = 1, sr_provider = 2, sr_created_at = 0, sr_fulfilled_at = None\<rparr>]\<rparr>\<rparr>"

lemma sender_world_ready: "ready sender_world"
  by (simp add: ready_def sender_world_def chat_world_def rooms_world_defs)

text \<open>The text of a key whose 32 bytes are all zero.\<close>

definition zero_key :: string where
  "zero_key = EncodeToString (replicate 32 0)"

lemma decode_zero_key: "DecodeString zero_key = Some (replicate 32 0)"
  unfolding zero_key_def by (rule DecodeString_EncodeToString)

lemma demo_upload: "isl (fst (upload_sender_key 1 5 zero_key [] sender_world)) = False"
proof -
  have h: "healthy sender_world" using sender_world_ready by simp
  let ?p = "\<lparr>pa_id = 11, pa_type = UserType, pa_user_id = Some 1, pa_agent_id = None, pa_system_type = None, pa_created_at = 0\<rparr>"
  have p: "Participant_FindByUserID 1 sender_world = (Inr ?p, sender_world)"
    by (simp add: Participant_FindByUserID_def not_found_as_run ScanOne_run [OF h])
      (simp add: sender_world_def chat_world_def rooms_world_defs toParticipantDomain_def)
  have m: "Member_FindByRoomAndParticipant 5 11 sender_world = (Inr (demo_member 1 5 11 Owner False), sender_world)"
    by (simp add: Member_FindByRoomAndParticipant_def not_found_as_run ScanOne_run [OF h])
      (simp add: sender_world_def chat_world_def demo_member_def)
  have e: "DecodeString [] = Some []" by code_simp
  have n: "\<not> (\<exists>x \<in> set (sender_keys (tables sender_world)). sk_member_id x = 1 \<and> sk_chain_id x = 0)"
    "1 \<in> cm_id ` set (chat_members (tables sender_world))"
    by (simp_all add: sender_world_def chat_world_def demo_sender_key_def demo_member_def)
  have a: "isl (fst (SenderKey_Add \<lparr>sk_id = 0, sk_member_id = 1, sk_chain_id = 0, sk_public = replicate 32 0,
      sk_distribution_message = [], sk_created_at = 0\<rparr> sender_world)) = False"
    using n by (simp add: SenderKey_Add_def sql_run [OF h] in_int32_def Let_def)
  from run_ok [OF a] obtain k w1 where k: "SenderKey_Add \<lparr>sk_id = 0, sk_member_id = 1, sk_chain_id = 0,
      sk_public = replicate 32 0, sk_distribution_message = [], sk_created_at = 0\<rparr> sender_world = (Inr k, w1)" by blast
  have "as_member 1 5 f sender_world = f ?p (demo_member 1 5 11 Owner False) sender_world" for f :: "_ \<Rightarrow> _ \<Rightarrow> unit io"
    using p m by (simp add: as_member_def attempt_Inr)
  then show ?thesis
    by (simp add: upload_sender_key_def check_def decode_sized_def decode_zero_key e demo_member_def k spawn_run)
qed

text \<open>A member can upload a sender key only once: after a successful upload to a room, every further
  upload of that user to that room fails, with whatever key and under every schedule of failures, since
  each is stored under the same chain id.\<close>
lemma sender_key_uploaded_once:
  assumes "upload_sender_key u r pk dm w = (Inr x, w')"
  shows "\<exists>e. fst (upload_sender_key u r pk' dm' w') = Inl e"
proof -
  from assms obtain p m pub dist where c: "caller_of (tables w) u r = Some (p, m)" and t:
    "tables w' = (tables w)\<lparr>sender_keys := sender_keys (tables w) @
       [\<lparr>sk_id = seq w T_sender_keys + 1, sk_member_id = cm_id m, sk_chain_id = 0, sk_public = pub,
         sk_distribution_message = dist, sk_created_at = clock w\<rparr>]\<rparr>"
    by (rule upload_sender_key_succ)
  have c': "caller_of (tables w') u r = Some (p, m)" using c caller_of_cong [of "tables w'" "tables w"] by (simp add: t)
  obtain a w'' where a: "upload_sender_key u r pk' dm' w' = (a, w'')" by (cases "upload_sender_key u r pk' dm' w'")
  show ?thesis
  proof (cases a)
    case (Inr y)
    with a show ?thesis using c' t by (auto elim!: upload_sender_key_succ)
  qed (use a in simp)
qed

lemma sender_key_uploaded_once_witness:
  "\<exists>x w' e. upload_sender_key 1 5 zero_key [] sender_world = (Inr x, w') \<and>
     fst (upload_sender_key 1 5 zero_key [] w') = Inl e"
proof -
  from run_ok [OF demo_upload] obtain x w' where r: "upload_sender_key 1 5 zero_key [] sender_world = (Inr x, w')" by blast
  from sender_key_uploaded_once [OF r] r show ?thesis by blast
qed

lemma distribution_status_succ:
  assumes "get_sender_key_distribution_status u r w = (Inr out, w')"
  obtains p c w1 where "caller_of (tables w) u r = Some (p, c)"
    and "pendingReceivers (cm_id c) (queried (queried w)) = (Inr (ds_pending_receivers out), w1)"
    and "set (ds_pending_from_members out) = cm_id ` {m \<in> set (chat_members (tables w)). cm_room_id m = r \<and> cm_id m \<noteq> cm_id c \<and>
      \<not> cm_is_deleted m \<and> (\<exists>x. awaits (tables w) (cm_id m) x \<and> cm_id x = cm_id c)}"
proof -
  from assms obtain p c where c: "caller_of (tables w) u r = Some (p, c)" and k:
    "bind (pendingReceivers (cm_id c)) (\<lambda>receivers. bind (pendingFromMembers r (cm_id c)) (\<lambda>from_members.
     ret \<lparr>ds_pending_receivers = receivers, ds_pending_from_members = from_members\<rparr>)) (queried (queried w)) = (Inr out, w')"
    unfolding get_sender_key_distribution_status_def by (rule as_member_succ)
  from k obtain w1 ms w2 where pr: "pendingReceivers (cm_id c) (queried (queried w)) = (Inr (ds_pending_receivers out), w1)"
    and ms: "Member_FindByRoom r w1 = (Inr ms, w2)" and pf: "collect ms (pending_from (cm_id c)) w2 = (Inr (ds_pending_from_members out), w')"
    unfolding pendingFromMembers_def bind_succ ret_succ by (elim exE conjE) (rule that; simp)
  have "ms = filter (\<lambda>m. cm_room_id m = r) (chat_members (tables w)) \<and> tables w2 = tables w"
    using ms pendingReceivers_succ [OF pr] by (auto simp: Member_FindByRoom_def succ)
  with collect_pending_succ [OF pf] show thesis by (intro that [OF c pr]) auto
qed

lemma get_sender_keys_succ:
  assumes "ready w" and "get_sender_keys u r w = (Inr items, w1)"
  obtains p c ks where "caller_of (tables w) u r = Some (p, c)"
    and "ks = filter (\<lambda>k. sk_member_id k \<in> cm_id ` {m \<in> set (chat_members (tables w)). cm_room_id m = r}) (sender_keys (tables w))"
    and "w1 = w\<lparr>tasks := tasks w @ [RecordDistributions (cm_id c) ks]\<rparr>"
proof -
  have h: "queried w = w" using assms(1) queried_healthy by simp
  from assms(2) obtain p c where c: "caller_of (tables w) u r = Some (p, c)" and k:
    "bind (Member_FindByRoom r) (\<lambda>members. bind (SenderKey_FindAllByMembers (map cm_id members)) (\<lambda>senderKeys.
     bind (spawn (RecordDistributions (cm_id c) senderKeys)) (\<lambda>_.
     ret (map (\<lambda>k. \<lparr>ski_member_id = sk_member_id k, ski_public = EncodeToString (sk_public k),
        ski_distribution_message = EncodeToString (sk_distribution_message k)\<rparr>) senderKeys)))) (queried (queried w)) = (Inr items, w1)"
    unfolding get_sender_keys_def by (rule as_member_succ)
  from k obtain ms wa ks wb where ms: "Member_FindByRoom r w = (Inr ms, wa)"
    and ks: "SenderKey_FindAllByMembers (map cm_id ms) wa = (Inr ks, wb)"
    and sp: "w1 = wb\<lparr>tasks := tasks wb @ [RecordDistributions (cm_id c) ks]\<rparr>"
    unfolding h bind_succ spawn_run by auto
  have m: "ms = filter (\<lambda>m. cm_room_id m = r) (chat_members (tables w))" and wa: "wa = w"
    using ms h by (auto simp: Member_FindByRoom_def succ)
  have "ks = filter (\<lambda>k. sk_member_id k \<in> cm_id ` set ms) (sender_keys (tables w)) \<and> wb = w"
  proof (cases "ms = []")
    case False
    have "ks = rs \<and> w' = w''" if "collect rs (\<lambda>r. check (toSenderKeyDomain r) (\<lambda>k. ret (Some k))) w'' = (Inr ks, w')" for rs ks w' w''
      using that by (induction rs arbitrary: ks) (auto simp: succ toSenderKeyDomain_def split: if_splits)
    with ks False show ?thesis by (auto simp: SenderKey_FindAllByMembers_def succ h wa)
  qed (use ks in \<open>auto simp: SenderKey_FindAllByMembers_def wa\<close>)
  with c sp m show thesis by (intro that [of p c ks]) auto
qed

text \<open>C16: the distribution status reports, for the room of the caller, exactly the active members who have
  not fetched the caller's newest key, and exactly the active members whose newest key the caller, who
  is active as well, has not fetched.\<close>
theorem status_reports_exactly:
  assumes "get_sender_key_distribution_status u r w = (Inr out, w')" and "distinct (map cm_id (chat_members (tables w)))"
  shows "\<exists>p c. caller_of (tables w) u r = Some (p, c) \<and>
    set (ds_pending_receivers out) = cm_id ` {x \<in> set (chat_members (tables w)). cm_room_id x = r \<and> \<not> cm_is_deleted x \<and>
       cm_id x \<noteq> cm_id c \<and> (\<exists>n. latest_chain (tables w) (cm_id c) = Some n \<and> \<not> has_fetched (tables w) (cm_id c) (cm_id x) n)} \<and>
    set (ds_pending_from_members out) = cm_id ` {x \<in> set (chat_members (tables w)). cm_room_id x = r \<and> \<not> cm_is_deleted x \<and>
       cm_id x \<noteq> cm_id c \<and> \<not> cm_is_deleted c \<and>
       (\<exists>n. latest_chain (tables w) (cm_id x) = Some n \<and> \<not> has_fetched (tables w) (cm_id x) (cm_id c) n)}"
proof -
  let ?d = "tables w"
  from assms(1) obtain p c w1 where c: "caller_of ?d u r = Some (p, c)"
    and pr: "pendingReceivers (cm_id c) (queried (queried w)) = (Inr (ds_pending_receivers out), w1)"
    and F: "set (ds_pending_from_members out) = cm_id ` {m \<in> set (chat_members ?d). cm_room_id m = r \<and> cm_id m \<noteq> cm_id c \<and>
      \<not> cm_is_deleted m \<and> (\<exists>x. awaits ?d (cm_id m) x \<and> cm_id x = cm_id c)}"
    by (rule distribution_status_succ)
  note R = pendingReceivers_succ [OF pr]
  have c': "c \<in> set (chat_members ?d)" "cm_room_id c = r" using caller_of_row [OF c] by simp_all
  have same: "x = y" if "x \<in> set (chat_members ?d)" "y \<in> set (chat_members ?d)" "cm_id x = cm_id y" for x y
    using assms(2) that by (auto simp: distinct_map inj_on_def)
  have aw: "awaits ?d (cm_id s) x \<longleftrightarrow> x \<in> set (chat_members ?d) \<and> cm_room_id x = cm_room_id s \<and> \<not> cm_is_deleted x \<and>
      cm_id x \<noteq> cm_id s \<and> (\<exists>n. latest_chain ?d (cm_id s) = Some n \<and> \<not> has_fetched ?d (cm_id s) (cm_id x) n)"
    if s: "s \<in> set (chat_members ?d)" for s x
  proof -
    have "List.find (\<lambda>m. cm_id m = cm_id s) (chat_members ?d) = Some s"
      using s by (intro find_unique) (auto intro: same)
    then show ?thesis by (auto simp: awaits_def pending_receivers_def)
  qed
  have "set (ds_pending_receivers out) = cm_id ` {x \<in> set (chat_members ?d). cm_room_id x = r \<and> \<not> cm_is_deleted x \<and>
       cm_id x \<noteq> cm_id c \<and> (\<exists>n. latest_chain ?d (cm_id c) = Some n \<and> \<not> has_fetched ?d (cm_id c) (cm_id x) n)}"
    using R aw [OF c'(1)] c'(2) by simp
  moreover have E: "(\<exists>y. awaits ?d (cm_id x) y \<and> cm_id y = cm_id c) \<longleftrightarrow> \<not> cm_is_deleted c \<and> cm_id x \<noteq> cm_id c \<and>
      (\<exists>n. latest_chain ?d (cm_id x) = Some n \<and> \<not> has_fetched ?d (cm_id x) (cm_id c) n)"
    if x: "x \<in> set (chat_members ?d)" "cm_room_id x = r" for x
    using aw [OF x(1)] c' x(2) same [OF _ c'(1)] by metis
  have "set (ds_pending_from_members out) = cm_id ` {x \<in> set (chat_members ?d). cm_room_id x = r \<and> \<not> cm_is_deleted x \<and>
       cm_id x \<noteq> cm_id c \<and> \<not> cm_is_deleted c \<and>
       (\<exists>n. latest_chain ?d (cm_id x) = Some n \<and> \<not> has_fetched ?d (cm_id x) (cm_id c) n)}"
    unfolding F by (intro arg_cong [where f = "image cm_id"] Collect_cong) (use E in blast)
  ultimately show ?thesis using c by blast
qed

theorem status_reports_exactly_witness:
  "\<exists>out w'. get_sender_key_distribution_status 1 5 sender_world = (Inr out, w') \<and> ds_pending_from_members out \<noteq> []"
proof -
  have "isl (fst (get_sender_key_distribution_status 1 5 sender_world)) = False" by code_simp
  then obtain out w' where r: "get_sender_key_distribution_status 1 5 sender_world = (Inr out, w')" using run_ok by blast
  have d: "distinct (map cm_id (chat_members (tables sender_world)))" by code_simp
  have c: "map_option snd (caller_of (tables sender_world) 1 5) = Some (demo_member 1 5 11 Owner False)" by code_simp
  from status_reports_exactly [OF r d] obtain p c :: "_" where pc: "caller_of (tables sender_world) 1 5 = Some (p, c)"
    and f: "set (ds_pending_from_members out) = cm_id ` {x \<in> set (chat_members (tables sender_world)). cm_room_id x = 5 \<and>
       \<not> cm_is_deleted x \<and> cm_id x \<noteq> cm_id c \<and> \<not> cm_is_deleted c \<and>
       (\<exists>n. latest_chain (tables sender_world) (cm_id x) = Some n \<and> \<not> has_fetched (tables sender_world) (cm_id x) (cm_id c) n)}"
    by (elim exE conjE) (rule that)
  have "c = demo_member 1 5 11 Owner False" using pc c by simp
  moreover have "latest_chain (tables sender_world) 2 = Some 0" by code_simp
  moreover have "\<not> has_fetched (tables sender_world) 2 1 0" by code_simp
  moreover have "demo_member 2 5 12 Guest False \<in> set (chat_members (tables sender_world))"
    by (simp add: sender_world_def chat_world_def)
  ultimately have "2 \<in> set (ds_pending_from_members out)" unfolding f
    by (intro image_eqI [of _ _ "demo_member 2 5 12 Guest False"]) (simp_all add: demo_member_def)
  with r show ?thesis by force
qed



text \<open>C28: a request for a key stops waiting only when its requester has been told: under every schedule of
  failures the goroutine of an upload changes no request but pending ones for the uploading member, and
  each of those only after a push to the user of the requesting member.\<close>
theorem request_resolved_only_when_pushed:
  assumes "x \<in> set (key_requests (tables w))" and "x \<notin> set (key_requests (tables (snd (notifyRequesters p r w))))"
  shows "sr_provider x = p \<and> sr_fulfilled_at x = None \<and>
    (\<exists>u. request_user (tables w) x u \<and> (FormatInt u, PushDirectKeyReady r p) \<in> set (outbox (snd (notifyRequesters p r w))))"
  using keepsD [OF notifyRequesters_ok resolved_ok_start, of p r w] assms unfolding resolved_ok_def by blast

theorem request_resolved_only_when_pushed_witness:
  "(''1'', PushDirectKeyReady 5 2) \<in> set (outbox (snd (notifyRequesters 2 5 sender_world)))"
proof -
  let ?x = "\<lparr>sr_id = 1, sr_requester = 1, sr_provider = 2, sr_created_at = 0, sr_fulfilled_at = None\<rparr>"
  have x: "?x \<in> set (key_requests (tables sender_world))" by (simp add: sender_world_def)
  have "list_all (\<lambda>y. sr_fulfilled_at y \<noteq> None) (key_requests (tables (snd (notifyRequesters 2 5 sender_world))))" by code_simp
  then have n: "?x \<notin> set (key_requests (tables (snd (notifyRequesters 2 5 sender_world))))" by (auto simp: list_all_iff)
  from request_resolved_only_when_pushed [OF x n] obtain u where u: "request_user (tables sender_world) ?x u"
    and o: "(FormatInt u, PushDirectKeyReady 5 2) \<in> set (outbox (snd (notifyRequesters 2 5 sender_world)))" by blast
  have "participant_rows (tables sender_world) 11 = [\<lparr>pa_id = 11, pa_type = UserType, pa_user_id = Some 1, pa_agent_id = None,
      pa_system_type = None, pa_created_at = 0\<rparr>]" by code_simp
  with u have "u = 1" by (auto simp: request_user_def sender_world_def chat_world_def demo_member_def)
  moreover have "FormatInt 1 = ''1''" by code_simp
  ultimately show ?thesis using o by simp
qed

text \<open>A member whose membership has been deleted is still served the sender keys of the room: the check
  of the caller does not look at the deletion mark.\<close>
lemma removed_member_gets_sender_keys:
  "\<exists>w items w'. ready w \<and> (\<nexists>p. user_participant (tables w) 3 p \<and> membership (tables w) (5, p) \<noteq> None) \<and>
     get_sender_keys 3 5 w = (Inr items, w') \<and> map ski_member_id items = [2]"
proof -
  let ?g = "get_sender_keys 3 5 sender_world"
  have "isl (fst ?g) = False" by code_simp
  then obtain items w' where g: "?g = (Inr items, w')" using run_ok by blast
  have "map_sum id (map ski_member_id) (fst ?g) = Inr [2]" by code_simp
  with g have "map ski_member_id items = [2]" by simp
  moreover have "\<nexists>p. user_participant (tables sender_world) 3 p \<and> membership (tables sender_world) (5, p) \<noteq> None"
    by (auto simp: user_participant_def membership_def member_row_def sender_world_def chat_world_def rooms_world_defs)
  ultimately show ?thesis using sender_world_ready g
    by (intro exI [of _ sender_world] exI [of _ items] exI [of _ w'] conjI)
qed

end
