(* ===== verification/Hub.thy ===== *)
theory Hub
  imports Prelude
begin

text \<open>
  The WebSocket hub (\<open>interface/ws/hub.go\<close>, \<open>client.go\<close>): the registry of the connections of a user and the
  deliveries that wait for an acknowledgement.  Client objects are identified by a number.  The slices
  of \<open>userClients\<close> are modelled with their backing arrays, because \<open>SendToUser\<close> iterates over a slice
  after it has released the lock and \<open>removeUserClient\<close> compacts the array in place.  \<open>grow\<close> is the capacity
  that \<open>append\<close> chooses for a full slice, which the language leaves open.
\<close>

section \<open>State\<close>

type_synonym client_id = nat

text \<open>The bytes of a message: a payload built by a use case, or the envelope \<open>Message\<close> with its delivery id.\<close>

datatype frame = Raw string | Envelope string string int

record client =
  cl_user :: string
  cl_send :: "frame list"
  cl_closed :: bool

record slice =
  sl_array :: nat
  sl_len :: nat
  sl_cap :: nat

record hub =
  hb_heap :: "client_id \<Rightarrow> client"
  hb_next_client :: client_id
  hb_clients :: "client_id set"
  hb_arrays :: "nat \<Rightarrow> client_id list"
  hb_next_array :: nat
  hb_user_clients :: "string \<Rightarrow> slice option"
  hb_pending_acks :: "int \<Rightarrow> nat option"
  hb_acked :: "nat \<Rightarrow> bool"
  hb_next_chan :: nat
  hb_on_connect :: "string list"
  hb_panic :: bool

definition NewHub :: hub where
  "NewHub = \<lparr>hb_heap = (\<lambda>_. \<lparr>cl_user = [], cl_send = [], cl_closed = False\<rparr>), hb_next_client = 0, hb_clients = {},
     hb_arrays = (\<lambda>_. []), hb_next_array = 0, hb_user_clients = (\<lambda>_. None), hb_pending_acks = (\<lambda>_. None),
     hb_acked = (\<lambda>_. False), hb_next_chan = 0, hb_on_connect = [], hb_panic = False\<rparr>"

definition NewClient :: "string \<Rightarrow> client" where
  "NewClient userID = \<lparr>cl_user = userID, cl_send = [], cl_closed = False\<rparr>"

section \<open>Sending to one client\<close>

definition send_capacity :: nat where
  "send_capacity = 256"

definition offer :: "frame \<Rightarrow> client \<Rightarrow> client" where
  "offer msg c = (if length (cl_send c) < send_capacity then c\<lparr>cl_send := cl_send c @ [msg]\<rparr> else c)"

text \<open>A send on a closed channel panics, also in a \<open>select\<close> with a default.\<close>

definition Send :: "frame \<Rightarrow> client_id \<Rightarrow> hub \<Rightarrow> hub" where
  "Send msg c h = (if cl_closed (hb_heap h c) then h\<lparr>hb_panic := True\<rparr>
     else h\<lparr>hb_heap := (hb_heap h)(c := offer msg (hb_heap h c))\<rparr>)"

text \<open>\<open>WritePump\<close> takes the next message of the channel.\<close>

definition WritePump :: "client_id \<Rightarrow> hub \<Rightarrow> hub" where
  "WritePump c h = h\<lparr>hb_heap := (hb_heap h)(c := (hb_heap h c)\<lparr>cl_send := tl (cl_send (hb_heap h c))\<rparr>)\<rparr>"

section \<open>The slices of a user\<close>

text \<open>A key that is not in the map reads as the nil slice.\<close>

definition user_slice :: "hub \<Rightarrow> string \<Rightarrow> slice" where
  "user_slice h u = (case hb_user_clients h u of None \<Rightarrow> \<lparr>sl_array = 0, sl_len = 0, sl_cap = 0\<rparr> | Some s \<Rightarrow> s)"

definition elems :: "hub \<Rightarrow> slice \<Rightarrow> client_id list" where
  "elems h s = take (sl_len s) (hb_arrays h (sl_array s))"

text \<open>\<open>h.userClients[u] = append(h.userClients[u], c)\<close>: in place while the capacity lasts, else in a new array.\<close>

definition append_client :: "(nat \<Rightarrow> nat) \<Rightarrow> string \<Rightarrow> client_id \<Rightarrow> hub \<Rightarrow> hub" where
  "append_client grow u c h = (let s = user_slice h u; n = sl_len s; xs = hb_arrays h (sl_array s) in
     if n < sl_cap s
     then h\<lparr>hb_arrays := (hb_arrays h)(sl_array s := take n xs @ [c] @ drop (Suc n) xs),
            hb_user_clients := (hb_user_clients h)(u := Some (s\<lparr>sl_len := Suc n\<rparr>))\<rparr>
     else h\<lparr>hb_arrays := (hb_arrays h)(hb_next_array h := take n xs @ [c]), hb_next_array := Suc (hb_next_array h),
            hb_user_clients := (hb_user_clients h)
              (u := Some \<lparr>sl_array = hb_next_array h, sl_len = Suc n, sl_cap = grow n\<rparr>)\<rparr>)"

fun index_from :: "nat \<Rightarrow> client_id \<Rightarrow> client_id list \<Rightarrow> nat option" where
  "index_from i c [] = None"
| "index_from i c (x # xs) = (if x = c then Some i else index_from (Suc i) c xs)"

text \<open>\<open>append(clients[:i], clients[i+1:]...)\<close> shifts the tail inside the array; its last slot keeps its value.\<close>

definition cut_at :: "nat \<Rightarrow> nat \<Rightarrow> client_id list \<Rightarrow> client_id list" where
  "cut_at i n xs = take i xs @ drop (Suc i) (take n xs) @ drop (n - 1) xs"

definition removeUserClient :: "string \<Rightarrow> client_id \<Rightarrow> hub \<Rightarrow> hub" where
  "removeUserClient u target h = (let s = user_slice h u;
     h' = (case index_from 0 target (elems h s) of None \<Rightarrow> h
           | Some i \<Rightarrow> h\<lparr>hb_arrays := (hb_arrays h)(sl_array s := cut_at i (sl_len s) (hb_arrays h (sl_array s))),
                         hb_user_clients := (hb_user_clients h)(u := Some (s\<lparr>sl_len := sl_len s - 1\<rparr>))\<rparr>) in
     if sl_len (user_slice h' u) = 0 then h'\<lparr>hb_user_clients := (hb_user_clients h')(u := None)\<rparr> else h')"

section \<open>The event loop\<close>

definition run_register :: "(nat \<Rightarrow> nat) \<Rightarrow> client_id \<Rightarrow> hub \<Rightarrow> hub" where
  "run_register grow c h = (let h' = h\<lparr>hb_clients := insert c (hb_clients h)\<rparr>; u = cl_user (hb_heap h c) in
     if u \<noteq> [] then (append_client grow u c h')\<lparr>hb_on_connect := hb_on_connect h @ [u]\<rparr> else h')"

definition run_unregister :: "client_id \<Rightarrow> hub \<Rightarrow> hub" where
  "run_unregister c h = (if c \<in> hb_clients h
     then (let h' = h\<lparr>hb_clients := hb_clients h - {c}, hb_heap := (hb_heap h)(c := (hb_heap h c)\<lparr>cl_closed := True\<rparr>)\<rparr>;
               u = cl_user (hb_heap h c) in
           if u \<noteq> [] then removeUserClient u c h' else h')
     else h)"

definition run_broadcast :: "frame \<Rightarrow> hub \<Rightarrow> hub" where
  "run_broadcast msg h = (if \<exists>c \<in> hb_clients h. cl_closed (hb_heap h c) then h\<lparr>hb_panic := True\<rparr>
     else h\<lparr>hb_heap := (\<lambda>c. if c \<in> hb_clients h then offer msg (hb_heap h c) else hb_heap h c)\<rparr>)"

text \<open>The WebSocket route: a new client, handed to the loop.\<close>

definition connect :: "(nat \<Rightarrow> nat) \<Rightarrow> string \<Rightarrow> hub \<Rightarrow> hub" where
  "connect grow u h = (let c = hb_next_client h in
     run_register grow c (h\<lparr>hb_heap := (hb_heap h)(c := NewClient u), hb_next_client := Suc c\<rparr>))"

section \<open>Sending to a user\<close>

text \<open>One call of \<open>SendToUser\<close>: the slice it has read under the lock, and how far its loop is.\<close>

record sending =
  sn_slice :: slice
  sn_index :: nat
  sn_msg :: frame

definition send_start :: "string \<Rightarrow> frame \<Rightarrow> hub \<Rightarrow> sending" where
  "send_start u msg h = \<lparr>sn_slice = user_slice h u, sn_index = 0, sn_msg = msg\<rparr>"

definition send_more :: "sending \<Rightarrow> bool" where
  "send_more t \<longleftrightarrow> sn_index t < sl_len (sn_slice t)"

definition send_next :: "sending \<Rightarrow> hub \<Rightarrow> sending \<times> hub" where
  "send_next t h = (t\<lparr>sn_index := Suc (sn_index t)\<rparr>,
     Send (sn_msg t) (hb_arrays h (sl_array (sn_slice t)) ! sn_index t) h)"

text \<open>The whole call when nothing runs in between.\<close>

definition SendToUser_now :: "string \<Rightarrow> frame \<Rightarrow> hub \<Rightarrow> hub" where
  "SendToUser_now u msg h = fold (Send msg) (elems h (user_slice h u)) h"

section \<open>Acknowledged pushes\<close>

text \<open>A push that waits: the channel it made, of capacity one.\<close>

definition push_start :: "string \<Rightarrow> int \<Rightarrow> string \<Rightarrow> string \<Rightarrow> hub \<Rightarrow> nat \<times> sending \<times> hub" where
  "push_start userID deliveryID msgType payload h = (let ch = hb_next_chan h;
     h' = h\<lparr>hb_next_chan := Suc ch, hb_acked := (hb_acked h)(ch := False),
            hb_pending_acks := (hb_pending_acks h)(deliveryID := Some ch)\<rparr> in
     (ch, send_start userID (Envelope msgType payload deliveryID) h', h'))"

text \<open>Both branches of the \<open>select\<close> delete the entry of the delivery, whosever channel it holds.\<close>

definition push_end :: "int \<Rightarrow> hub \<Rightarrow> hub" where
  "push_end deliveryID h = h\<lparr>hb_pending_acks := (hb_pending_acks h)(deliveryID := None)\<rparr>"

definition ResolveAck :: "int \<Rightarrow> hub \<Rightarrow> hub" where
  "ResolveAck deliveryID h = (case hb_pending_acks h deliveryID of None \<Rightarrow> h
     | Some ch \<Rightarrow> h\<lparr>hb_acked := (hb_acked h)(ch := True)\<rparr>)"

end
