(* ===== verification/Hub_Props.thy ===== *)
theory Hub_Props
  imports Hub
begin

text \<open>
  The hub as a system of goroutines: the event loop, the calls of \<open>SendToUser\<close> that are under way, and the
  pushes that wait.  The registry of connections is specified as a list per user; the slices in
  their arrays implement it.
\<close>

section \<open>Lemmas on the slices\<close>

lemma index_from_None: "index_from k c xs = None \<longleftrightarrow> c \<notin> set xs"
  by (induction xs arbitrary: k) auto

lemma index_from_Some:
  "index_from k c xs = Some i \<Longrightarrow> k \<le> i \<and> i - k < length xs \<and> remove1 c xs = take (i - k) xs @ drop (Suc (i - k)) xs"
proof (induction xs arbitrary: k)
  case (Cons x xs)
  show ?case
  proof (cases "x = c")
    case False
    with Cons.prems have "index_from (Suc k) c xs = Some i" by simp
    from Cons.IH [OF this] have "Suc k \<le> i" "i - Suc k < length xs"
      "remove1 c xs = take (i - Suc k) xs @ drop (Suc (i - Suc k)) xs" by auto
    moreover then have "i - k = Suc (i - Suc k)" by simp
    ultimately show ?thesis using False by simp
  qed (use Cons.prems in auto)
qed simp

lemma take_cut_at:
  "i < n \<Longrightarrow> n \<le> length xs \<Longrightarrow> take (n - 1) (cut_at i n xs) = take i (take n xs) @ drop (Suc i) (take n xs)"
  by (cases "i = n - 1") (auto simp: cut_at_def min_def)

lemma length_cut_at: "i < n \<Longrightarrow> n \<le> length xs \<Longrightarrow> n - 1 \<le> length (cut_at i n xs)"
  by (simp add: cut_at_def)

section \<open>The registry\<close>

definition registry :: "hub \<Rightarrow> string \<Rightarrow> client_id list" where
  "registry h u = elems h (user_slice h u)"

definition slices_ok :: "hub \<Rightarrow> bool" where
  "slices_ok h \<longleftrightarrow>
     (\<forall>u s. hb_user_clients h u = Some s \<longrightarrow> sl_array s < hb_next_array h \<and> 0 < sl_len s \<and>
        sl_len s \<le> length (hb_arrays h (sl_array s))) \<and>
     (\<forall>u v s t. hb_user_clients h u = Some s \<longrightarrow> hb_user_clients h v = Some t \<longrightarrow> sl_array s = sl_array t \<longrightarrow> u = v)"

definition clients_ok :: "hub \<Rightarrow> bool" where
  "clients_ok h \<longleftrightarrow>
     (\<forall>c. c \<in> hb_clients h \<longleftrightarrow> c < hb_next_client h \<and> \<not> cl_closed (hb_heap h c)) \<and>
     (\<forall>c. length (cl_send (hb_heap h c)) \<le> send_capacity) \<and>
     (\<forall>u. distinct (registry h u) \<and>
        set (registry h u) = {c \<in> hb_clients h. u \<noteq> [] \<and> cl_user (hb_heap h c) = u})"

definition hub_inv :: "hub \<Rightarrow> bool" where
  "hub_inv h \<longleftrightarrow> slices_ok h \<and> clients_ok h"

lemma registry_cong:
  "hb_user_clients h' = hb_user_clients h \<Longrightarrow> hb_arrays h' = hb_arrays h \<Longrightarrow> registry h' = registry h"
  by (simp add: registry_def fun_eq_iff user_slice_def elems_def)

lemma slices_ok_cong:
  "hb_user_clients h' = hb_user_clients h \<Longrightarrow> hb_arrays h' = hb_arrays h \<Longrightarrow> hb_next_array h' = hb_next_array h \<Longrightarrow>
   slices_ok h \<Longrightarrow> slices_ok h'"
  by (simp add: slices_ok_def)

text \<open>A slice written to the map, in an array that no other user's slice lies in.\<close>

lemma slices_write:
  assumes ok: "slices_ok h" and m: "hb_user_clients h' = (hb_user_clients h)(u := Some s')"
    and a: "hb_arrays h' = (hb_arrays h)(sl_array s' := xs)"
    and n: "hb_next_array h \<le> hb_next_array h'" "sl_array s' < hb_next_array h'" and l: "0 < sl_len s'" "sl_len s' \<le> length xs"
    and sep: "\<And>v s. v \<noteq> u \<Longrightarrow> hb_user_clients h v = Some s \<Longrightarrow> sl_array s \<noteq> sl_array s'"
  shows "registry h' = (registry h)(u := take (sl_len s') xs)" and "slices_ok h'"
proof -
  have other: "registry h' v = registry h v" if "v \<noteq> u" for v
    using that sep [OF that] m a
    by (cases "hb_user_clients h v") (simp_all add: registry_def user_slice_def elems_def)
  have own: "registry h' u = take (sl_len s') xs" using m a by (simp add: registry_def user_slice_def elems_def)
  show "registry h' = (registry h)(u := take (sl_len s') xs)"
    by (rule ext) (auto simp: other own)
  have old: "sl_array s < hb_next_array h' \<and> 0 < sl_len s \<and> sl_len s \<le> length (hb_arrays h (sl_array s))"
    if "hb_user_clients h v = Some s" for v s using ok that n(1) unfolding slices_ok_def by fastforce
  have new: "sl_array s < hb_next_array h' \<and> 0 < sl_len s \<and> sl_len s \<le> length (hb_arrays h' (sl_array s))"
    if "hb_user_clients h' v = Some s" for v s
    using that old [of v s] sep [of v s] m a n l by (cases "v = u") simp_all
  have sep': "v = w" if "hb_user_clients h' v = Some s" "hb_user_clients h' w = Some t" "sl_array s = sl_array t" for v w s t
  proof (cases "v = u \<or> w = u")
    case True
    show ?thesis
    proof (rule ccontr)
      assume ne: "v \<noteq> w"
      have "s = s' \<or> t = s'" using True that m by auto
      moreover have "hb_user_clients h w = Some t" if "v = u" using ne that m \<open>hb_user_clients h' w = Some t\<close> by auto
      moreover have "hb_user_clients h v = Some s" if "w = u" using ne that m \<open>hb_user_clients h' v = Some s\<close> by auto
      ultimately show False using True ne that m sep [of w t] sep [of v s] by auto
    qed
  next
    case False
    then have "hb_user_clients h v = Some s" "hb_user_clients h w = Some t" using that m by simp_all
    with ok that(3) show ?thesis unfolding slices_ok_def by blast
  qed
  show "slices_ok h'" unfolding slices_ok_def using new sep' by blast
qed

lemma slices_drop:
  assumes ok: "slices_ok h" and m: "hb_user_clients h' = (hb_user_clients h)(u := None)"
    and a: "hb_arrays h' = hb_arrays h" "hb_next_array h' = hb_next_array h"
  shows "registry h' = (registry h)(u := [])" and "slices_ok h'"
proof -
  show "registry h' = (registry h)(u := [])"
    using m a by (auto simp: registry_def user_slice_def elems_def fun_eq_iff)
  show "slices_ok h'" using ok m a unfolding slices_ok_def by (auto split: if_splits)
qed

lemma slice_cases:
  assumes "slices_ok h"
  obtains (None) "hb_user_clients h u = None" "sl_len (user_slice h u) = 0" "sl_cap (user_slice h u) = 0"
  | (Some) "hb_user_clients h u = Some (user_slice h u)" "0 < sl_len (user_slice h u)"
      "sl_len (user_slice h u) \<le> length (hb_arrays h (sl_array (user_slice h u)))"
      "sl_array (user_slice h u) < hb_next_array h"
      "\<And>v s. v \<noteq> u \<Longrightarrow> hb_user_clients h v = Some s \<Longrightarrow> sl_array s \<noteq> sl_array (user_slice h u)"
proof (cases "hb_user_clients h u")
  case (Some s)
  then have "user_slice h u = s" by (simp add: user_slice_def)
  with Some show ?thesis using assms that(2) unfolding slices_ok_def by metis
qed (use that(1) in \<open>simp add: user_slice_def\<close>)

text \<open>Appending and removing implement the operations on the list of the user, and touch no other user.\<close>

lemma append_client_registry:
  assumes ok: "slices_ok h"
  shows "registry (append_client grow u c h) = (registry h)(u := registry h u @ [c]) \<and> slices_ok (append_client grow u c h)"
proof -
  let ?s = "user_slice h u" and ?h' = "append_client grow u c h"
  let ?xs = "hb_arrays h (sl_array ?s)"
  show ?thesis
  proof (cases "sl_len ?s < sl_cap ?s")
    case True
    from ok show ?thesis
    proof (cases rule: slice_cases [where u = u])
      case Some
      have m: "hb_user_clients ?h' = (hb_user_clients h)(u := Some (?s\<lparr>sl_len := Suc (sl_len ?s)\<rparr>))"
        and a: "hb_arrays ?h' = (hb_arrays h)(sl_array (?s\<lparr>sl_len := Suc (sl_len ?s)\<rparr>) := take (sl_len ?s) ?xs @ [c] @ drop (Suc (sl_len ?s)) ?xs)"
        and n: "hb_next_array ?h' = hb_next_array h"
        using True by (simp_all add: append_client_def Let_def)
      from slices_write [OF ok m a] n Some show ?thesis by (simp add: registry_def elems_def)
    qed (use True in simp)
  next
    case False
    let ?t = "\<lparr>sl_array = hb_next_array h, sl_len = Suc (sl_len ?s), sl_cap = grow (sl_len ?s)\<rparr>"
    have m: "hb_user_clients ?h' = (hb_user_clients h)(u := Some ?t)"
      and a: "hb_arrays ?h' = (hb_arrays h)(sl_array ?t := take (sl_len ?s) ?xs @ [c])"
      and n: "hb_next_array ?h' = Suc (hb_next_array h)"
      using False by (simp_all add: append_client_def Let_def)
    have len: "sl_len ?s \<le> length ?xs" using ok by (cases rule: slice_cases [where u = u]) auto
    have "sl_array s \<noteq> sl_array ?t" if "hb_user_clients h v = Some s" for v s
      using ok that unfolding slices_ok_def by fastforce
    from slices_write [OF ok m a] this n len show ?thesis by (simp add: registry_def elems_def)
  qed
qed

lemma removeUserClient_registry:
  assumes ok: "slices_ok h"
  shows "registry (removeUserClient u c h) = (registry h)(u := remove1 c (registry h u)) \<and> slices_ok (removeUserClient u c h)"
proof -
  let ?s = "user_slice h u"
  let ?n = "sl_len ?s" and ?xs = "hb_arrays h (sl_array ?s)"
  show ?thesis
  proof (cases "index_from 0 c (elems h ?s)")
    case None
    then have r: "remove1 c (registry h u) = registry h u"
      by (simp add: registry_def index_from_None remove1_idem)
    from ok show ?thesis
    proof (cases rule: slice_cases [where u = u])
      case 1: None
      then have "registry h u = []" by (simp add: registry_def elems_def)
      moreover have "hb_user_clients (removeUserClient u c h) = (hb_user_clients h)(u := None)"
        "hb_arrays (removeUserClient u c h) = hb_arrays h" "hb_next_array (removeUserClient u c h) = hb_next_array h"
        using 1 None by (simp_all add: removeUserClient_def Let_def)
      ultimately show ?thesis using slices_drop [OF ok] by (metis r)
    next
      case Some
      then have "removeUserClient u c h = h" using None by (simp add: removeUserClient_def Let_def)
      with ok r show ?thesis by simp
    qed
  next
    case (Some i)
    let ?h1 = "h\<lparr>hb_arrays := (hb_arrays h)(sl_array ?s := cut_at i ?n ?xs),
        hb_user_clients := (hb_user_clients h)(u := Some (?s\<lparr>sl_len := ?n - 1\<rparr>))\<rparr>"
    have i: "i < ?n" "i < length ?xs" "remove1 c (registry h u) = take i (take ?n ?xs) @ drop (Suc i) (take ?n ?xs)"
      using index_from_Some [OF Some] by (simp_all add: registry_def elems_def)
    from ok i(1) have S: "hb_user_clients h u = Some ?s" "?n \<le> length ?xs" "sl_array ?s < hb_next_array h"
      "\<And>v s. v \<noteq> u \<Longrightarrow> hb_user_clients h v = Some s \<Longrightarrow> sl_array s \<noteq> sl_array ?s"
      by (cases rule: slice_cases [where u = u]; simp)+
    have reg: "remove1 c (registry h u) = take (?n - 1) (cut_at i ?n ?xs)"
      using i take_cut_at [OF i(1) S(2)] by simp
    have sl: "user_slice ?h1 u = ?s\<lparr>sl_len := ?n - 1\<rparr>" by (simp add: user_slice_def)
    show ?thesis
    proof (cases "?n - 1 = 0")
      case True
      let ?h' = "removeUserClient u c h"
      have h': "?h' = ?h1\<lparr>hb_user_clients := (hb_user_clients ?h1)(u := None)\<rparr>"
        using Some True by (simp add: removeUserClient_def Let_def user_slice_def)
      have m: "hb_user_clients ?h' = (hb_user_clients h)(u := None)" by (simp add: h')
      have same: "hb_arrays ?h' (sl_array s) = hb_arrays h (sl_array s)" if "hb_user_clients h v = Some s" "v \<noteq> u" for v s
        using S(4) that by (simp add: h')
      have "registry ?h' v = ((registry h)(u := [])) v" for v
        using m same [of v] by (cases "hb_user_clients h v") (auto simp: registry_def user_slice_def elems_def)
      moreover have "slices_ok ?h'"
        using ok m same unfolding slices_ok_def by (auto simp: h' split: if_splits)
      ultimately show ?thesis using reg True by auto
    next
      case False
      then have h': "removeUserClient u c h = ?h1"
        using Some sl by (simp add: removeUserClient_def Let_def)
      from slices_write [OF ok, of ?h1 u "?s\<lparr>sl_len := ?n - 1\<rparr>" "cut_at i ?n ?xs"] S False
        length_cut_at [OF i(1) S(2)] show ?thesis unfolding h' reg by simp
    qed
  qed
qed

section \<open>The invariant\<close>

lemma append_client_frame:
  "hb_clients (append_client grow u c h) = hb_clients h" "hb_heap (append_client grow u c h) = hb_heap h"
  "hb_next_client (append_client grow u c h) = hb_next_client h" "hb_panic (append_client grow u c h) = hb_panic h"
  by (simp_all add: append_client_def Let_def)

lemma removeUserClient_frame:
  "hb_clients (removeUserClient u c h) = hb_clients h" "hb_heap (removeUserClient u c h) = hb_heap h"
  "hb_next_client (removeUserClient u c h) = hb_next_client h" "hb_panic (removeUserClient u c h) = hb_panic h"
  by (simp_all add: removeUserClient_def Let_def split: option.split)

text \<open>What a connection and a disconnection do to the registry.\<close>

lemma connect_registry:
  assumes "hub_inv h"
  shows "registry (connect grow u h) = (if u = [] then registry h else (registry h)(u := registry h u @ [hb_next_client h]))"
    and "slices_ok (connect grow u h)"
proof -
  let ?h1 = "h\<lparr>hb_heap := (hb_heap h)(hb_next_client h := NewClient u), hb_next_client := Suc (hb_next_client h),
    hb_clients := insert (hb_next_client h) (hb_clients h)\<rparr>"
  have r: "registry ?h1 = registry h" by (rule registry_cong) simp_all
  have ok: "slices_ok ?h1" using assms by (simp add: hub_inv_def slices_ok_def)
  note a = append_client_registry [OF ok, of grow u "hb_next_client h"]
  have c: "connect grow u h = (if u = [] then ?h1 else (append_client grow u (hb_next_client h) ?h1)
      \<lparr>hb_on_connect := hb_on_connect h @ [u]\<rparr>)"
    by (simp add: connect_def run_register_def Let_def NewClient_def)
  have r': "registry (h'\<lparr>hb_on_connect := x\<rparr>) = registry h'" for h' :: hub and x by (rule registry_cong) simp_all
  have s': "slices_ok (h'\<lparr>hb_on_connect := x\<rparr>) = slices_ok h'" for h' :: hub and x by (simp add: slices_ok_def)
  show "registry (connect grow u h) = (if u = [] then registry h else (registry h)(u := registry h u @ [hb_next_client h]))"
    unfolding c using a r by (cases "u = []") (simp_all add: r')
  show "slices_ok (connect grow u h)" unfolding c using a ok by (cases "u = []") (simp_all add: s')
qed

lemma unregister_registry:
  assumes "hub_inv h"
  shows "registry (run_unregister c h) = (\<lambda>u. remove1 c (registry h u))" and "slices_ok (run_unregister c h)"
proof -
  have reg: "c \<notin> set (registry h v)" if "c \<notin> hb_clients h \<or> v = [] \<or> cl_user (hb_heap h c) \<noteq> v" for v
    using assms that unfolding hub_inv_def clients_ok_def by auto
  let ?h1 = "h\<lparr>hb_clients := hb_clients h - {c}, hb_heap := (hb_heap h)(c := (hb_heap h c)\<lparr>cl_closed := True\<rparr>)\<rparr>"
  have r: "registry ?h1 = registry h" by (rule registry_cong) simp_all
  have ok: "slices_ok ?h1" "slices_ok h" using assms by (simp_all add: hub_inv_def slices_ok_def)
  note a = removeUserClient_registry [OF ok(1), of "cl_user (hb_heap h c)" c]
  have "registry (run_unregister c h) v = remove1 c (registry h v)" for v
    using a r reg [of v] by (auto simp: run_unregister_def Let_def remove1_idem)
  then show "registry (run_unregister c h) = (\<lambda>u. remove1 c (registry h u))" by (rule ext)
  show "slices_ok (run_unregister c h)" using a ok by (simp add: run_unregister_def Let_def)
qed

lemma offer_user: "cl_user (offer m c) = cl_user c" "cl_closed (offer m c) = cl_closed c"
  by (simp_all add: offer_def)

lemma offer_bound: "length (cl_send c) \<le> send_capacity \<Longrightarrow> length (cl_send (offer m c)) \<le> send_capacity"
  by (simp add: offer_def)

lemma hub_inv_connect: "hub_inv h \<Longrightarrow> hub_inv (connect grow u h)"
proof -
  assume I: "hub_inv h"
  note R = connect_registry [OF I, of grow u]
  have f: "hb_clients (connect grow u h) = insert (hb_next_client h) (hb_clients h)"
    "hb_heap (connect grow u h) = (hb_heap h)(hb_next_client h := NewClient u)"
    "hb_next_client (connect grow u h) = Suc (hb_next_client h)"
    by (simp_all add: connect_def run_register_def Let_def append_client_frame)
  have C: "clients_ok h" using I by (simp add: hub_inv_def)
  have new: "hb_next_client h \<notin> hb_clients h" using C by (auto simp: clients_ok_def)
  have old: "distinct (registry h v)" "set (registry h v) = {c \<in> hb_clients h. v \<noteq> [] \<and> cl_user (hb_heap h c) = v}" for v
    using C unfolding clients_ok_def by blast+
  have "distinct (registry (connect grow u h) v) \<and> set (registry (connect grow u h) v) =
      {c \<in> hb_clients (connect grow u h). v \<noteq> [] \<and> cl_user (hb_heap (connect grow u h) c) = v}" for v
    using old [of v] new by (auto simp: R(1) f NewClient_def)
  moreover have "c \<in> hb_clients (connect grow u h) \<longleftrightarrow> c < hb_next_client (connect grow u h) \<and>
      \<not> cl_closed (hb_heap (connect grow u h) c)" for c
    using C by (auto simp: clients_ok_def f NewClient_def)
  moreover have "length (cl_send (hb_heap (connect grow u h) c)) \<le> send_capacity" for c
    using C by (auto simp: clients_ok_def f NewClient_def)
  ultimately show ?thesis using R(2) by (simp add: hub_inv_def clients_ok_def)
qed

lemma hub_inv_unregister:
  assumes I: "hub_inv h" and c: "c < hb_next_client h"
  shows "hub_inv (run_unregister c h)"
proof -
  note R = unregister_registry [OF I, of c]
  have C: "clients_ok h" using I by (simp add: hub_inv_def)
  have old: "distinct (registry h v)" "set (registry h v) = {c \<in> hb_clients h. v \<noteq> [] \<and> cl_user (hb_heap h c) = v}" for v
    using C unfolding clients_ok_def by blast+
  have f: "hb_clients (run_unregister c h) = hb_clients h - {c}"
    "hb_heap (run_unregister c h) = (if c \<in> hb_clients h then (hb_heap h)(c := (hb_heap h c)\<lparr>cl_closed := True\<rparr>) else hb_heap h)"
    "hb_next_client (run_unregister c h) = hb_next_client h"
    by (auto simp: run_unregister_def Let_def removeUserClient_frame)
  have "distinct (registry (run_unregister c h) v) \<and> set (registry (run_unregister c h) v) =
      {x \<in> hb_clients (run_unregister c h). v \<noteq> [] \<and> cl_user (hb_heap (run_unregister c h) x) = v}" for v
    using old [of v] by (auto simp: R(1) f set_remove1_eq)
  moreover have "x \<in> hb_clients (run_unregister c h) \<longleftrightarrow> x < hb_next_client (run_unregister c h) \<and>
      \<not> cl_closed (hb_heap (run_unregister c h) x)" for x
    using C c by (auto simp: clients_ok_def f)
  moreover have "length (cl_send (hb_heap (run_unregister c h) x)) \<le> send_capacity" for x
    using C by (auto simp: clients_ok_def f)
  ultimately show ?thesis using R(2) by (simp add: hub_inv_def clients_ok_def)
qed

text \<open>An operation that changes only what is queued for clients.\<close>

lemma hub_inv_queues:
  assumes I: "hub_inv h" and s: "hb_clients h' = hb_clients h" "hb_next_client h' = hb_next_client h"
      "hb_arrays h' = hb_arrays h" "hb_next_array h' = hb_next_array h" "hb_user_clients h' = hb_user_clients h"
    and q: "\<And>c. cl_user (hb_heap h' c) = cl_user (hb_heap h c) \<and> cl_closed (hb_heap h' c) = cl_closed (hb_heap h c) \<and>
      length (cl_send (hb_heap h' c)) \<le> send_capacity"
  shows "hub_inv h'"
  using I s q registry_cong [OF s(5,3)] slices_ok_cong [OF s(5,3,4)] by (simp add: hub_inv_def clients_ok_def)

lemma hub_inv_Send: "hub_inv h \<Longrightarrow> hub_inv (Send m c h)"
  by (rule hub_inv_queues [of h]) (auto simp: Send_def offer_user hub_inv_def clients_ok_def intro!: offer_bound)

lemma hub_inv_WritePump: "hub_inv h \<Longrightarrow> hub_inv (WritePump c h)"
  by (rule hub_inv_queues [of h]) (auto simp: WritePump_def hub_inv_def clients_ok_def intro: order_trans [OF diff_le_self])

lemma hub_inv_broadcast: "hub_inv h \<Longrightarrow> hub_inv (run_broadcast m h)"
  by (rule hub_inv_queues [of h]) (auto simp: run_broadcast_def offer_user hub_inv_def clients_ok_def intro!: offer_bound)

lemma hub_inv_push: "hub_inv h \<Longrightarrow> hub_inv (snd (snd (push_start u d ty p h)))"
  by (rule hub_inv_queues [of h]) (auto simp: push_start_def Let_def hub_inv_def clients_ok_def)

lemma hub_inv_push_end: "hub_inv h \<Longrightarrow> hub_inv (push_end d h)"
  by (rule hub_inv_queues [of h]) (auto simp: push_end_def hub_inv_def clients_ok_def)

lemma hub_inv_ack: "hub_inv h \<Longrightarrow> hub_inv (ResolveAck d h)"
  by (rule hub_inv_queues [of h]) (auto simp: ResolveAck_def hub_inv_def clients_ok_def split: option.split)

lemma hub_inv_start: "hub_inv NewHub"
  by (simp add: hub_inv_def slices_ok_def clients_ok_def NewHub_def registry_def elems_def user_slice_def)

section \<open>The goroutines\<close>

text \<open>
  The state: the hub, the calls of \<open>SendToUser\<close> in progress, the pushes that wait (delivery and channel), and two
  histories: the acknowledgements that clients sent and the pushes that ended, with their results.
\<close>

record hub_sys =
  sy_hub :: hub
  sy_sends :: "sending list"
  sy_waits :: "(int \<times> nat) list"
  sy_acks :: "int list"
  sy_results :: "(int \<times> bool) list"

definition hub_start :: hub_sys where
  "hub_start = \<lparr>sy_hub = NewHub, sy_sends = [], sy_waits = [], sy_acks = [], sy_results = []\<rparr>"

definition drop_wait :: "(int \<times> nat) \<Rightarrow> bool \<Rightarrow> hub_sys \<Rightarrow> hub_sys" where
  "drop_wait p r s = s\<lparr>sy_hub := push_end (fst p) (sy_hub s), sy_waits := remove1 p (sy_waits s),
     sy_results := sy_results s @ [(fst p, r)]\<rparr>"

inductive hub_step :: "(nat \<Rightarrow> nat) \<Rightarrow> hub_sys \<Rightarrow> hub_sys \<Rightarrow> bool" for grow where
  H_connect: "\<not> hb_panic (sy_hub s) \<Longrightarrow> hub_step grow s (s\<lparr>sy_hub := connect grow u (sy_hub s)\<rparr>)"
| H_disconnect: "\<not> hb_panic (sy_hub s) \<Longrightarrow> c < hb_next_client (sy_hub s) \<Longrightarrow>
    hub_step grow s (s\<lparr>sy_hub := run_unregister c (sy_hub s)\<rparr>)"
| H_broadcast: "\<not> hb_panic (sy_hub s) \<Longrightarrow> hub_step grow s (s\<lparr>sy_hub := run_broadcast m (sy_hub s)\<rparr>)"
| H_send: "\<not> hb_panic (sy_hub s) \<Longrightarrow> hub_step grow s (s\<lparr>sy_sends := sy_sends s @ [send_start u m (sy_hub s)]\<rparr>)"
| H_next: "\<not> hb_panic (sy_hub s) \<Longrightarrow> i < length (sy_sends s) \<Longrightarrow> send_more (sy_sends s ! i) \<Longrightarrow>
    send_next (sy_sends s ! i) (sy_hub s) = (t, h) \<Longrightarrow>
    hub_step grow s (s\<lparr>sy_hub := h, sy_sends := (sy_sends s)[i := t]\<rparr>)"
| H_write: "\<not> hb_panic (sy_hub s) \<Longrightarrow> hub_step grow s (s\<lparr>sy_hub := WritePump c (sy_hub s)\<rparr>)"
| H_push: "\<not> hb_panic (sy_hub s) \<Longrightarrow> push_start u d ty p (sy_hub s) = (ch, t, h) \<Longrightarrow>
    hub_step grow s (s\<lparr>sy_hub := h, sy_sends := sy_sends s @ [t], sy_waits := sy_waits s @ [(d, ch)]\<rparr>)"
| H_ack: "\<not> hb_panic (sy_hub s) \<Longrightarrow>
    hub_step grow s (s\<lparr>sy_hub := ResolveAck d (sy_hub s), sy_acks := sy_acks s @ [d]\<rparr>)"
| H_acked: "\<not> hb_panic (sy_hub s) \<Longrightarrow> (d, ch) \<in> set (sy_waits s) \<Longrightarrow> hb_acked (sy_hub s) ch \<Longrightarrow>
    hub_step grow s (drop_wait (d, ch) True s)"
| H_timeout: "\<not> hb_panic (sy_hub s) \<Longrightarrow> (d, ch) \<in> set (sy_waits s) \<Longrightarrow> hub_step grow s (drop_wait (d, ch) False s)"

inductive_cases hub_stepE: "hub_step grow s s'"

inductive hub_reach :: "(nat \<Rightarrow> nat) \<Rightarrow> hub_sys \<Rightarrow> bool" for grow where
  HR_start: "hub_reach grow hub_start"
| HR_step: "hub_reach grow s \<Longrightarrow> hub_step grow s s' \<Longrightarrow> hub_reach grow s'"

lemma hub_step_inv: "hub_step grow s s' \<Longrightarrow> hub_inv (sy_hub s) \<Longrightarrow> hub_inv (sy_hub s')"
proof (induction rule: hub_step.induct)
  case (H_push s u d ty p ch t h)
  then show ?case using hub_inv_push [of "sy_hub s" u d ty p] by simp
qed (auto simp: send_next_def drop_wait_def hub_inv_connect hub_inv_unregister hub_inv_broadcast hub_inv_Send
  hub_inv_WritePump hub_inv_ack hub_inv_push_end)

lemma hub_reach_inv: "hub_reach grow s \<Longrightarrow> hub_inv (sy_hub s)"
  by (induction rule: hub_reach.induct) (auto simp: hub_start_def hub_inv_start intro: hub_step_inv)

text \<open>The acknowledgements: a full channel belongs to a delivery that some client acknowledged.\<close>

definition acks_inv :: "hub_sys \<Rightarrow> bool" where
  "acks_inv s \<longleftrightarrow>
     (\<forall>d ch. hb_pending_acks (sy_hub s) d = Some ch \<longrightarrow> ch < hb_next_chan (sy_hub s) \<and> (\<forall>e. (e, ch) \<in> set (sy_waits s) \<longrightarrow> e = d)) \<and>
     (\<forall>d ch. (d, ch) \<in> set (sy_waits s) \<longrightarrow> ch < hb_next_chan (sy_hub s) \<and> (hb_acked (sy_hub s) ch \<longrightarrow> d \<in> set (sy_acks s))) \<and>
     (\<forall>d. (d, True) \<in> set (sy_results s) \<longrightarrow> d \<in> set (sy_acks s))"

definition ack_view :: "hub \<Rightarrow> (int \<Rightarrow> nat option) \<times> (nat \<Rightarrow> bool) \<times> nat" where
  "ack_view h = (hb_pending_acks h, hb_acked h, hb_next_chan h)"

lemma ack_view_frame:
  "ack_view (connect grow u h) = ack_view h" "ack_view (run_unregister c h) = ack_view h"
  "ack_view (run_broadcast m h) = ack_view h" "ack_view (Send m c h) = ack_view h" "ack_view (WritePump c h) = ack_view h"
  by (simp_all add: ack_view_def connect_def run_register_def append_client_def run_unregister_def removeUserClient_def
      run_broadcast_def Send_def WritePump_def Let_def split: option.split)

lemma acks_inv_view:
  "acks_inv s \<Longrightarrow> ack_view (sy_hub s') = ack_view (sy_hub s) \<Longrightarrow> sy_waits s' = sy_waits s \<Longrightarrow> sy_acks s' = sy_acks s \<Longrightarrow>
   sy_results s' = sy_results s \<Longrightarrow> acks_inv s'"
  by (simp add: acks_inv_def ack_view_def)

lemma acks_inv_step: "hub_step grow s s' \<Longrightarrow> acks_inv s \<Longrightarrow> acks_inv s'"
proof (induction rule: hub_step.induct)
  case (H_push s u d ty p ch t h)
  then show ?case unfolding acks_inv_def push_start_def Let_def
    by (auto simp: less_Suc_eq split: if_splits) (metis less_irrefl)+
next
  case (H_ack s d)
  then show ?case unfolding acks_inv_def ResolveAck_def by (auto split: option.split)
next
  case (H_acked s d ch)
  then show ?case unfolding acks_inv_def drop_wait_def push_end_def using set_remove1_subset [of "(d, ch)" "sy_waits s"]
    by (auto split: if_splits)
next
  case (H_timeout s d ch)
  then show ?case unfolding acks_inv_def drop_wait_def push_end_def using set_remove1_subset [of "(d, ch)" "sy_waits s"]
    by (auto split: if_splits)
qed (auto simp: send_next_def ack_view_frame intro: acks_inv_view)

lemma acks_inv_reach: "hub_reach grow s \<Longrightarrow> acks_inv s"
proof (induction rule: hub_reach.induct)
  case HR_start
  then show ?case by (simp add: hub_start_def acks_inv_def NewHub_def)
qed (rule acks_inv_step)

section \<open>Properties\<close>


definition go_grow :: "nat \<Rightarrow> nat" where
  "go_grow n = (if n = 0 then 1 else 2 * n)"

definition three_clients :: hub_sys where
  "three_clients = hub_start\<lparr>sy_hub := connect go_grow ''7'' (connect go_grow ''7'' (connect go_grow ''7'' NewHub))\<rparr>"

lemma three_clients_reach: "hub_reach go_grow three_clients"
proof -
  have p: "\<not> hb_panic (connect go_grow u h)" if "\<not> hb_panic h" for u h
    using that by (simp add: connect_def run_register_def Let_def append_client_frame)
  have n: "\<not> hb_panic NewHub" by (simp add: NewHub_def)
  let ?s1 = "hub_start\<lparr>sy_hub := connect go_grow ''7'' NewHub\<rparr>"
  let ?s2 = "?s1\<lparr>sy_hub := connect go_grow ''7'' (sy_hub ?s1)\<rparr>"
  have 0: "hub_step go_grow hub_start ?s1" using H_connect [of hub_start go_grow "''7''"] n by (simp add: hub_start_def)
  have 1: "hub_step go_grow ?s1 ?s2" by (rule H_connect) (simp add: p n)
  have 2: "hub_step go_grow ?s2 (?s2\<lparr>sy_hub := connect go_grow ''7'' (sy_hub ?s2)\<rparr>)" by (rule H_connect) (simp add: p n)
  from HR_step [OF HR_step [OF HR_step [OF HR_start 0] 1] 2] show ?thesis by (simp add: three_clients_def)
qed




text \<open>C32: a push that ends as acknowledged was acknowledged: in every reachable state a delivery reported as
  acknowledged is one for which some client has sent an acknowledgement.\<close>
theorem acked_only_after_ack:
  assumes "hub_reach grow s" and "(d, True) \<in> set (sy_results s)"
  shows "d \<in> set (sy_acks s)"
  using acks_inv_reach [OF assms(1)] assms(2) by (simp add: acks_inv_def)

theorem acked_only_after_ack_witness:
  "\<exists>s. hub_reach go_grow s \<and> sy_results s = [(5, True)] \<and> 5 \<in> set (sy_acks s)"
proof -
  define s1 where "s1 = hub_start\<lparr>sy_hub := snd (snd (push_start ''7'' 5 ''e'' ''p'' NewHub)),
    sy_sends := [fst (snd (push_start ''7'' 5 ''e'' ''p'' NewHub))], sy_waits := [(5, 0)]\<rparr>"
  define s2 where "s2 = s1\<lparr>sy_hub := ResolveAck 5 (sy_hub s1), sy_acks := [5]\<rparr>"
  have "hub_step go_grow hub_start s1"
    using H_push [of hub_start "''7''" 5 "''e''" "''p''" 0 _ _ go_grow]
    by (simp add: s1_def hub_start_def NewHub_def push_start_def Let_def)
  moreover have "hub_step go_grow s1 s2"
    using H_ack [of s1 go_grow 5] by (simp add: s2_def s1_def hub_start_def NewHub_def push_start_def Let_def)
  moreover have "hub_step go_grow s2 (drop_wait (5, 0) True s2)"
    by (rule H_acked) (simp_all add: s2_def s1_def hub_start_def NewHub_def push_start_def ResolveAck_def Let_def)
  ultimately have r: "hub_reach go_grow (drop_wait (5, 0) True s2)" by (meson HR_start HR_step)
  have d: "sy_results (drop_wait (5, 0) True s2) = [(5, True)]"
    by (simp add: drop_wait_def s2_def s1_def hub_start_def)
  have "5 \<in> set (sy_acks (drop_wait (5, 0) True s2))" by (rule acked_only_after_ack [OF r]) (simp add: d)
  with r d show ?thesis by blast
qed

section \<open>A disconnection during a push\<close>

text \<open>The pushes of one goroutine that has read the slice of user 7 before the disconnection of a client.\<close>

definition push_one :: "sending \<times> hub \<Rightarrow> sending \<times> hub" where
  "push_one p = send_next (fst p) (snd p)"

definition disconnect_in :: "client_id \<Rightarrow> sending \<times> hub \<Rightarrow> sending \<times> hub" where
  "disconnect_in c p = (fst p, run_unregister c (snd p))"

definition begin_push :: "frame \<Rightarrow> sending \<times> hub" where
  "begin_push m = (send_start ''7'' m (sy_hub three_clients), sy_hub three_clients)"

lemma push_one_reach:
  assumes "hub_reach grow s" "sy_hub s = snd p" "sy_sends s = [fst p]" "\<not> hb_panic (snd p)" "send_more (fst p)"
  shows "\<exists>s'. hub_reach grow s' \<and> sy_hub s' = snd (push_one p) \<and> sy_sends s' = [fst (push_one p)]"
proof -
  have "hub_step grow s (s\<lparr>sy_hub := snd (push_one p), sy_sends := (sy_sends s)[0 := fst (push_one p)]\<rparr>)"
    by (rule H_next) (use assms in \<open>simp_all add: push_one_def\<close>)
  from HR_step [OF assms(1) this] assms(3) show ?thesis by force
qed

lemma disconnect_in_reach:
  assumes "hub_reach grow s" "sy_hub s = snd p" "sy_sends s = [fst p]" "\<not> hb_panic (snd p)" "c < hb_next_client (snd p)"
  shows "\<exists>s'. hub_reach grow s' \<and> sy_hub s' = snd (disconnect_in c p) \<and> sy_sends s' = [fst (disconnect_in c p)]"
proof -
  have "hub_step grow s (s\<lparr>sy_hub := run_unregister c (sy_hub s)\<rparr>)" by (rule H_disconnect) (use assms in simp_all)
  from HR_step [OF assms(1) this] assms(2,3) show ?thesis by (force simp: disconnect_in_def)
qed

lemma begin_push_reach:
  "\<exists>s. hub_reach go_grow s \<and> sy_hub s = snd (begin_push m) \<and> sy_sends s = [fst (begin_push m)]"
proof -
  have "hub_step go_grow three_clients (three_clients\<lparr>sy_sends := sy_sends three_clients @ [send_start ''7'' m (sy_hub three_clients)]\<rparr>)"
    by (rule H_send) (simp add: three_clients_def connect_def run_register_def append_client_frame NewHub_def Let_def)
  from HR_step [OF three_clients_reach this] show ?thesis
    by (force simp: begin_push_def three_clients_def hub_start_def)
qed

text \<open>C39: \<open>SendToUser\<close> iterates over a slice whose array the event loop compacts and whose clients it closes.  A
  disconnection between two of its sends can make it skip a client that stays connected and send twice to
  another, and a state is reachable in which it has sent on a closed channel, which panics.\<close>
theorem push_races_with_disconnect:
  "(case push_one (push_one (disconnect_in 0 (push_one (begin_push (Raw ''hi''))))) of (t, h) \<Rightarrow>
      \<not> send_more t \<and> \<not> hb_panic h \<and> {1, 2} \<subseteq> hb_clients h \<and>
      cl_send (hb_heap h 1) = [] \<and> cl_send (hb_heap h 2) = [Raw ''hi'', Raw ''hi'']) \<and>
   (\<exists>s. hub_reach go_grow s \<and> hb_panic (sy_hub s))"
proof
  let ?m = "Raw ''hi''"
  show "case push_one (push_one (disconnect_in 0 (push_one (begin_push ?m)))) of (t, h) \<Rightarrow>
      \<not> send_more t \<and> \<not> hb_panic h \<and> {1, 2} \<subseteq> hb_clients h \<and>
      cl_send (hb_heap h 1) = [] \<and> cl_send (hb_heap h 2) = [?m, ?m]" by code_simp
  let ?p = "disconnect_in 2 (begin_push ?m)"
  obtain s where s: "hub_reach go_grow s" "sy_hub s = snd (begin_push ?m)" "sy_sends s = [fst (begin_push ?m)]"
    using begin_push_reach by blast
  have "\<not> hb_panic (snd (begin_push ?m)) \<and> 2 < hb_next_client (snd (begin_push ?m))" by code_simp
  with disconnect_in_reach [OF s] obtain s1 where s1: "hub_reach go_grow s1" "sy_hub s1 = snd ?p" "sy_sends s1 = [fst ?p]" by blast
  have "\<not> hb_panic (snd ?p) \<and> send_more (fst ?p)" by code_simp
  with push_one_reach [OF s1] obtain s2 where s2: "hub_reach go_grow s2" "sy_hub s2 = snd (push_one ?p)"
    "sy_sends s2 = [fst (push_one ?p)]" by blast
  have "\<not> hb_panic (snd (push_one ?p)) \<and> send_more (fst (push_one ?p))" by code_simp
  with push_one_reach [OF s2] obtain s3 where s3: "hub_reach go_grow s3" "sy_hub s3 = snd (push_one (push_one ?p))"
    "sy_sends s3 = [fst (push_one (push_one ?p))]" by blast
  have "\<not> hb_panic (snd (push_one (push_one ?p))) \<and> send_more (fst (push_one (push_one ?p)))" by code_simp
  with push_one_reach [OF s3] obtain s4 where s4: "hub_reach go_grow s4" "sy_hub s4 = snd (push_one (push_one (push_one ?p)))" by blast
  have "hb_panic (snd (push_one (push_one (push_one ?p))))" by code_simp
  with s4 show "\<exists>s. hub_reach go_grow s \<and> hb_panic (sy_hub s)" by auto
qed

end
