(* ===== verification/Sessions.thy ===== *)
theory Sessions
  imports Store_Rules GoStd
begin

text \<open>
  Sessions: their repository (\<open>postgres/session/session_repo.go\<close>) and the session manager
  (\<open>auth/session/session_manager.go\<close>), which keeps the access token in the cache and the refresh token in the
  database, both only as hashes.  What lies outside of the repository, and the functions of the
  standard library that are not modelled, are the fields of an environment; the theorems hold for
  every one.
\<close>

record env =
  ev_Sum256 :: "string \<Rightarrow> bytes"
  ev_expiration :: int
  ev_FromString :: "string \<Rightarrow> device_id option"
  ev_uuid_String :: "device_id \<Rightarrow> string"
  ev_uuid_V4 :: "bytes \<Rightarrow> 128 word"
  ev_ParseAddress :: "string \<Rightarrow> string option"
  ev_IDKey :: "string \<Rightarrow> bytes \<Rightarrow> bytes"
  ev_verify_ttl :: int
  ev_base_url :: string
  ev_is_dev :: bool
  ev_sender :: email_sender
  ev_mail_id :: "nat \<Rightarrow> string"
  ev_RFC3339 :: "instant \<Rightarrow> string"

section \<open>Repository\<close>

definition Session_Create :: "account_id \<Rightarrow> user_id \<Rightarrow> device_id \<Rightarrow> string \<Rightarrow> instant \<Rightarrow> int io" where
  "Session_Create accountID userID deviceID refreshHash expiresAt = sql T_sessions 1 (\<lambda>i now d.
     if refreshHash \<in> se_refresh_hash ` set (account_sessions d) then Inl Pg_UniqueViolation
     else if accountID \<notin> ac_id ` set (accounts d) \<or> userID \<notin> us_id ` set (users d) \<or> deviceID \<notin> dv_id ` set (devices d)
     then Inl Pg_ForeignKey
     else Inr (i, d\<lparr>account_sessions := account_sessions d @
       [\<lparr>se_id = i, se_account_id = accountID, se_user_id = userID, se_device_id = deviceID,
         se_refresh_hash = refreshHash, se_expires_at = expiresAt, se_revoked = False,
         se_created_at = now, se_last_used_at = None\<rparr>]\<rparr>))"

definition Session_FindByID :: "int \<Rightarrow> session_row io" where
  "Session_FindByID i = ScanOne (\<lambda>d. filter (\<lambda>s. se_id s = i) (account_sessions d))"

definition Session_FindByRefreshTokenHash :: "string \<Rightarrow> session_row io" where
  "Session_FindByRefreshTokenHash h = ScanOne (\<lambda>d. filter (\<lambda>s. se_refresh_hash s = h) (account_sessions d))"

definition active_session :: "instant \<Rightarrow> session_row \<Rightarrow> bool" where
  "active_session now s \<longleftrightarrow> \<not> se_revoked s \<and> now < se_expires_at s"

definition Session_FindActiveIDsByAccountID :: "account_id \<Rightarrow> int list io" where
  "Session_FindActiveIDsByAccountID a = sql T_sessions 0 (\<lambda>_ now d.
     Inr (map se_id (filter (\<lambda>s. se_account_id s = a \<and> active_session now s) (account_sessions d)), d))"

definition Session_FindAllActiveIDs :: "int list io" where
  "Session_FindAllActiveIDs = sql T_sessions 0 (\<lambda>_ now d.
     Inr (map se_id (filter (active_session now) (account_sessions d)), d))"

text \<open>The updates: of the row with an id, or of all rows that meet a condition.\<close>

definition update_sessions :: "(session_row \<Rightarrow> bool) \<Rightarrow> (instant \<Rightarrow> session_row \<Rightarrow> session_row) \<Rightarrow> instant \<Rightarrow> db \<Rightarrow> db" where
  "update_sessions P f now d = d\<lparr>account_sessions := map (\<lambda>s. if P s then f now s else s) (account_sessions d)\<rparr>"

definition Session_UpdateRefreshToken :: "int \<Rightarrow> string \<Rightarrow> instant \<Rightarrow> unit io" where
  "Session_UpdateRefreshToken i newHash expiresAt = Exec (\<lambda>now d.
     if (\<exists>s \<in> set (account_sessions d). se_id s = i) \<and>
        (\<exists>s \<in> set (account_sessions d). se_id s \<noteq> i \<and> se_refresh_hash s = newHash)
     then Inl Pg_UniqueViolation
     else Inr (update_sessions (\<lambda>s. se_id s = i)
       (\<lambda>now s. s\<lparr>se_refresh_hash := newHash, se_expires_at := expiresAt, se_last_used_at := Some now\<rparr>) now d))"

definition Session_UpdateExpiresAt :: "int \<Rightarrow> instant \<Rightarrow> unit io" where
  "Session_UpdateExpiresAt i expiresAt = Exec (\<lambda>now d. Inr (update_sessions (\<lambda>s. se_id s = i)
     (\<lambda>now s. s\<lparr>se_expires_at := expiresAt, se_last_used_at := Some now\<rparr>) now d))"

definition Session_UpdateLastUsedAt :: "int \<Rightarrow> unit io" where
  "Session_UpdateLastUsedAt i = Exec (\<lambda>now d. Inr (update_sessions (\<lambda>s. se_id s = i)
     (\<lambda>now s. s\<lparr>se_last_used_at := Some now\<rparr>) now d))"

definition revoked_session :: "instant \<Rightarrow> session_row \<Rightarrow> session_row" where
  "revoked_session now s = s\<lparr>se_revoked := True\<rparr>"

definition Session_Revoke :: "int \<Rightarrow> unit io" where
  "Session_Revoke i = Exec (\<lambda>now d. Inr (update_sessions (\<lambda>s. se_id s = i) revoked_session now d))"

definition Session_RevokeAllForAccount :: "account_id \<Rightarrow> unit io" where
  "Session_RevokeAllForAccount a = Exec (\<lambda>now d. Inr (update_sessions (\<lambda>s. se_account_id s = a) revoked_session now d))"

definition Session_RevokeAll :: "unit io" where
  "Session_RevokeAll = Exec (\<lambda>now d. Inr (update_sessions (\<lambda>s. \<not> se_revoked s) revoked_session now d))"

definition Session_UpdateUserID :: "int \<Rightarrow> user_id \<Rightarrow> unit io" where
  "Session_UpdateUserID i u = Exec (\<lambda>now d.
     if (\<exists>s \<in> set (account_sessions d). se_id s = i) \<and> u \<notin> us_id ` set (users d) then Inl Pg_ForeignKey
     else Inr (update_sessions (\<lambda>s. se_id s = i) (\<lambda>now s. s\<lparr>se_user_id := u\<rparr>) now d))"

section \<open>Tokens and keys\<close>

definition accessKey :: "string \<Rightarrow> string" where
  "accessKey hash = ''session:access:'' @ hash"

definition idKey :: "int \<Rightarrow> string" where
  "idKey sessionID = ''session:id:'' @ FormatInt sessionID"

definition generateSecureToken :: "string io" where
  "generateSecureToken = bind rand_Read (\<lambda>bs. ret (RawURL_EncodeToString bs))"

definition hashToken :: "env \<Rightarrow> string \<Rightarrow> string" where
  "hashToken E raw = hex_EncodeToString (ev_Sum256 E raw)"

definition ParseDeviceIDE :: "env \<Rightarrow> string \<Rightarrow> err + device_id" where
  "ParseDeviceIDE E s = (case ev_FromString E s of None \<Rightarrow> Inl ErrInvalidID | Some d \<Rightarrow> Inr d)"

section \<open>The manager\<close>

definition setCacheEntries :: "env \<Rightarrow> int \<Rightarrow> string \<Rightarrow> auth_session \<Rightarrow> unit io" where
  "setCacheEntries E sessionID accessHash session =
     bind (Cache_Set (accessKey accessHash) (CachedSession session) (ev_expiration E)) (\<lambda>_.
     Cache_Set (idKey sessionID) (CachedText accessHash) (ev_expiration E))"

text \<open>The two tokens of a new pair, drawn from the random source.\<close>

definition with_tokens :: "err \<Rightarrow> (string \<Rightarrow> string \<Rightarrow> 'a io) \<Rightarrow> 'a io" where
  "with_tokens e k = attempt generateSecureToken (\<lambda>_. fail e) (\<lambda>rawAccess.
     attempt generateSecureToken (\<lambda>_. fail e) (k rawAccess))"

definition SM_Create :: "env \<Rightarrow> account_id \<Rightarrow> user_id \<Rightarrow> device_id \<Rightarrow> token_pair io" where
  "SM_Create E accountID userID deviceID = with_tokens (Auth ErrGenerateToken) (\<lambda>rawAccess rawRefresh.
     bind get_clock (\<lambda>now.
     attempt (Session_Create accountID userID deviceID (hashToken E rawRefresh) (now + ev_expiration E))
       (\<lambda>_. fail (Auth ErrGenerateToken)) (\<lambda>sessionID.
     (let tokenPair = \<lparr>tp_access = rawAccess, tp_refresh = rawRefresh, tp_expires_at = now + ev_expiration E\<rparr>;
          session = \<lparr>as_id = FormatInt sessionID, as_account_id = accountID, as_user_id = userID,
            as_device_id = deviceID, as_token = tokenPair, as_created_at = now\<rparr> in
      attempt (setCacheEntries E sessionID (hashToken E rawAccess) session)
        (\<lambda>_. fail (Auth ErrGenerateToken)) (\<lambda>_. ret tokenPair)))))"

text \<open>The start of \<open>FindByToken\<close> and of \<open>SwitchUser\<close>: the cached session and its id.\<close>

definition cached_session :: "env \<Rightarrow> string \<Rightarrow> (int \<times> auth_session) io" where
  "cached_session E token = attempt (Cache_Get (accessKey (hashToken E token))) (\<lambda>_. fail (Auth ErrSessionNotFound))
     (\<lambda>data. case data of
        Some (CachedSession session) \<Rightarrow>
          (case ParseInt (as_id session) of None \<Rightarrow> fail (Auth ErrSessionNotFound) | Some i \<Rightarrow> ret (i, session))
      | _ \<Rightarrow> fail (Auth ErrSessionNotFound))"

text \<open>The rest of \<open>FindByToken\<close>: it writes the entries it has read back, with a new time to live.\<close>

definition slide_session :: "env \<Rightarrow> string \<Rightarrow> int \<times> auth_session \<Rightarrow> auth_session io" where
  "slide_session E token = (\<lambda>(sessionID, session). bind get_clock (\<lambda>now.
     (let newExpiry = now + ev_expiration E;
          session' = session\<lparr>as_token := (as_token session)\<lparr>tp_expires_at := newExpiry\<rparr>\<rparr> in
      attempt (setCacheEntries E sessionID (hashToken E token) session') (\<lambda>_. fail (Auth ErrSessionNotFound)) (\<lambda>_.
      bind (spawn (TouchSession sessionID newExpiry)) (\<lambda>_. ret session')))))"

definition SM_FindByToken :: "env \<Rightarrow> string \<Rightarrow> auth_session io" where
  "SM_FindByToken E token = bind (cached_session E token) (slide_session E token)"

definition touch_session :: "int \<Rightarrow> instant \<Rightarrow> unit io" where
  "touch_session sessionID newExpiry = ignore (Session_UpdateExpiresAt sessionID newExpiry) (ret ())"

text \<open>\<open>Refresh\<close> removes the entries of the old access token, if the cache still knows them.\<close>

definition drop_old_entries :: "int \<Rightarrow> unit io" where
  "drop_old_entries sessionID = attempt (Cache_Get (idKey sessionID)) (\<lambda>_. ret ()) (\<lambda>data. case data of
     Some (CachedText oldHash) \<Rightarrow> ignore (Cache_Delete (accessKey oldHash)) (ignore (Cache_Delete (idKey sessionID)) (ret ()))
   | Some _ \<Rightarrow> ignore (Cache_Delete (idKey sessionID)) (ret ())
   | None \<Rightarrow> ret ())"

definition SM_Refresh :: "env \<Rightarrow> string \<Rightarrow> token_pair io" where
  "SM_Refresh E token =
     attempt (Session_FindByRefreshTokenHash (hashToken E token)) (\<lambda>_. fail (Auth ErrRefreshToken)) (\<lambda>rec.
     bind get_clock (\<lambda>now.
     guard (\<not> (se_revoked rec \<or> se_expires_at rec < now)) (Auth ErrRefreshToken) (
     bind (drop_old_entries (se_id rec)) (\<lambda>_.
     with_tokens (Auth ErrRefreshToken) (\<lambda>rawAccess rawRefresh.
     bind get_clock (\<lambda>now.
     attempt (Session_UpdateRefreshToken (se_id rec) (hashToken E rawRefresh) (now + ev_expiration E))
       (\<lambda>_. fail (Auth ErrRefreshToken)) (\<lambda>_.
     case ParseDeviceIDE E (ev_uuid_String E (se_device_id rec)) of
       Inl _ \<Rightarrow> fail (Auth ErrRefreshToken)
     | Inr deviceID \<Rightarrow>
         (let tokenPair = \<lparr>tp_access = rawAccess, tp_refresh = rawRefresh, tp_expires_at = now + ev_expiration E\<rparr>;
              session = \<lparr>as_id = FormatInt (se_id rec), as_account_id = se_account_id rec, as_user_id = se_user_id rec,
                as_device_id = deviceID, as_token = tokenPair, as_created_at = se_created_at rec\<rparr> in
          ignore (setCacheEntries E (se_id rec) (hashToken E rawAccess) session) (ret tokenPair)))))))))"

text \<open>\<open>data, ok, _ := cache.Get\<close>: a failed read counts as no entry.\<close>

definition SM_Revoke :: "env \<Rightarrow> string \<Rightarrow> unit io" where
  "SM_Revoke E token =
     attempt (Cache_Get (accessKey (hashToken E token))) (\<lambda>_. ret ()) (\<lambda>data. case data of
       None \<Rightarrow> ret ()
     | Some v \<Rightarrow>
         bind (case v of
             CachedSession session \<Rightarrow> (case ParseInt (as_id session) of
                 None \<Rightarrow> ret ()
               | Some sessionID \<Rightarrow> ignore (Cache_Delete (idKey sessionID)) (ignore (Session_Revoke sessionID) (ret ())))
           | _ \<Rightarrow> ret ())
         (\<lambda>_. Cache_Delete (accessKey (hashToken E token))))"

definition deleteBySessionID :: "int \<Rightarrow> unit io" where
  "deleteBySessionID sessionID =
     bind (attempt (Cache_Get (idKey sessionID)) (\<lambda>_. ret ()) (\<lambda>data. case data of
         Some (CachedText hash) \<Rightarrow> ignore (Cache_Delete (accessKey hash)) (ret ())
       | _ \<Rightarrow> ret ()))
     (\<lambda>_. ignore (Cache_Delete (idKey sessionID)) (ret ()))"

definition SM_RevokeAllForUser :: "account_id \<Rightarrow> unit io" where
  "SM_RevokeAllForUser accountID = bind (Session_FindActiveIDsByAccountID accountID) (\<lambda>ids.
     bind (for_each ids deleteBySessionID) (\<lambda>_. Session_RevokeAllForAccount accountID))"

definition SM_RevokeAll :: "unit io" where
  "SM_RevokeAll = bind Session_FindAllActiveIDs (\<lambda>ids.
     bind (for_each ids deleteBySessionID) (\<lambda>_. Session_RevokeAll))"

definition SM_SwitchUser :: "env \<Rightarrow> string \<Rightarrow> user_id \<Rightarrow> unit io" where
  "SM_SwitchUser E token userID = bind (cached_session E token) (\<lambda>(sessionID, session).
     attempt (Session_UpdateUserID sessionID userID) (\<lambda>_. fail (Auth ErrSessionNotFound)) (\<lambda>_.
     setCacheEntries E sessionID (hashToken E token) (session\<lparr>as_user_id := userID\<rparr>)))"

definition logout :: "env \<Rightarrow> string \<Rightarrow> unit io" where
  "logout E token = attempt (SM_Revoke E token) (\<lambda>_. fail (Login ErrLogoutFailed)) ret"

end
