(* ===== verification/Session_Props.thy ===== *)
theory Session_Props
  imports Sessions
begin

text \<open>
  What the session manager guarantees: a token lives for the expiration time after its last use, a refresh
  replaces both tokens, a logout ends the session; and the two ways in which a logout that
  reports success can leave the session alive.
\<close>

section \<open>Rules\<close>

lemma keys_differ [simp]: "accessKey h \<noteq> idKey i" "idKey i \<noteq> accessKey h"
  by (simp_all add: accessKey_def idKey_def)

lemma accessKey_inj [simp]: "accessKey h = accessKey h' \<longleftrightarrow> h = h'"
  by (simp add: accessKey_def)

definition expiry :: "env \<Rightarrow> instant \<Rightarrow> instant option" where
  "expiry E now = (if 0 < ev_expiration E then Some (now + ev_expiration E) else None)"

lemma setCacheEntries_run [run_simps]:
  "healthy w \<Longrightarrow> setCacheEntries E i h s w =
     (Inr (), w\<lparr>cache := (cache w)(accessKey h := Some (CachedSession s, expiry E (clock w)),
        idKey i := Some (CachedText h, expiry E (clock w)))\<rparr>)"
  by (simp add: setCacheEntries_def bind_def attempt_def Cache_Set_run expiry_def)

text \<open>The session a token stands for in a world: a live entry with a readable id.\<close>

definition holds :: "env \<Rightarrow> world \<Rightarrow> string \<Rightarrow> int \<Rightarrow> auth_session \<Rightarrow> bool" where
  "holds E w token i s \<longleftrightarrow> live (clock w) (cache w (accessKey (hashToken E token))) = Some (CachedSession s) \<and>
     ParseInt (as_id s) = Some i"

lemma cached_session_holds: "healthy w \<Longrightarrow> holds E w token i s \<Longrightarrow> cached_session E token w = (Inr (i, s), w)"
  by (simp add: cached_session_def attempt_def Cache_Get_run holds_def)

lemma cached_session_none:
  "healthy w \<Longrightarrow> \<nexists>i s. holds E w token i s \<Longrightarrow> cached_session E token w = (Inl (Auth ErrSessionNotFound), w)"
  by (fastforce simp: cached_session_def attempt_def Cache_Get_run holds_def split: option.split cached.split)

lemma cached_session_succ: "healthy w \<Longrightarrow> cached_session E token w = (Inr (i, s), w') \<Longrightarrow> holds E w token i s \<and> w' = w"
  by (cases "\<exists>i s. holds E w token i s") (auto simp: cached_session_holds cached_session_none)

text \<open>The session with a new expiry, and the world after a token check that found it.\<close>

definition slid :: "env \<Rightarrow> instant \<Rightarrow> auth_session \<Rightarrow> auth_session" where
  "slid E now s = s\<lparr>as_token := (as_token s)\<lparr>tp_expires_at := now + ev_expiration E\<rparr>\<rparr>"

lemma slid_id [simp]: "as_id (slid E now s) = as_id s"
  by (simp add: slid_def)

lemma slide_session_run:
  "healthy w \<Longrightarrow> slide_session E token (i, s) w = (Inr (slid E (clock w) s),
     w\<lparr>cache := (cache w)(accessKey (hashToken E token) := Some (CachedSession (slid E (clock w) s), expiry E (clock w)),
          idKey i := Some (CachedText (hashToken E token), expiry E (clock w))),
       tasks := tasks w @ [TouchSession i (clock w + ev_expiration E)]\<rparr>)"
  by (simp add: slide_session_def bind_def attempt_def get_clock_run setCacheEntries_run spawn_run Let_def slid_def)

lemma FindByToken_run:
  "healthy w \<Longrightarrow> holds E w token i s \<Longrightarrow> SM_FindByToken E token w = slide_session E token (i, s) w"
  by (simp add: SM_FindByToken_def bind_def attempt_def cached_session_holds)

lemma FindByToken_none:
  "healthy w \<Longrightarrow> \<nexists>i s. holds E w token i s \<Longrightarrow> SM_FindByToken E token w = (Inl (Auth ErrSessionNotFound), w)"
  by (simp add: SM_FindByToken_def bind_def attempt_def cached_session_none)

lemma FindByToken_succ:
  "healthy w \<Longrightarrow> SM_FindByToken E token w = (Inr s', w') \<Longrightarrow>
     \<exists>i s. holds E w token i s \<and> slide_session E token (i, s) w = (Inr s', w')"
proof (cases "\<exists>i s. holds E w token i s")
  case True
  assume h: "healthy w" and r: "SM_FindByToken E token w = (Inr s', w')"
  from True obtain i s where "holds E w token i s" by blast
  with FindByToken_run [OF h this] r show ?thesis by auto
qed (simp add: FindByToken_none)

text \<open>After the check, at any later time.\<close>

lemma holds_after_slide:
  "holds E (w\<lparr>cache := (cache w)(accessKey (hashToken E token) := Some (CachedSession s, expiry E t0), idKey i := x),
       tasks := ts, clock := t\<rparr>) token i s \<longleftrightarrow> ParseInt (as_id s) = Some i \<and> (0 < ev_expiration E \<longrightarrow> t < t0 + ev_expiration E)"
  by (auto simp: holds_def expiry_def)

text \<open>C22: a token lives exactly as long as its sliding window: once a check has found it, a later check finds it, with
  the same session, if it comes before the expiration time has passed, and no longer afterwards.\<close>
theorem token_lives_for_the_window:
  assumes "healthy w" and "0 < ev_expiration E" and "SM_FindByToken E token w = (Inr s, w')"
  shows "fst (SM_FindByToken E token (w'\<lparr>clock := t\<rparr>)) =
    (if t < clock w + ev_expiration E then Inr (slid E t s) else Inl (Auth ErrSessionNotFound))"
proof -
  obtain i s0 where h: "holds E w token i s0" and r: "slide_session E token (i, s0) w = (Inr s, w')"
    using FindByToken_succ [OF assms(1,3)] by blast
  let ?x = "Some (CachedText (hashToken E token), expiry E (clock w))" and ?ts = "tasks w @ [TouchSession i (clock w + ev_expiration E)]"
  have s: "s = slid E (clock w) s0" and w': "w' = w\<lparr>cache := (cache w)(accessKey (hashToken E token) :=
      Some (CachedSession s, expiry E (clock w)), idKey i := ?x), tasks := ?ts\<rparr>"
    using r unfolding slide_session_run [OF assms(1)] by auto
  have p: "ParseInt (as_id s) = Some i" using h s by (simp add: holds_def)
  have he: "healthy (w'\<lparr>clock := t\<rparr>)" using assms(1) w' by simp
  show ?thesis
  proof (cases "t < clock w + ev_expiration E")
    case True
    then have "holds E (w'\<lparr>clock := t\<rparr>) token i s"
      using holds_after_slide [where E = E and ?t0.0 = "clock w" and w = w and x = ?x and ts = ?ts] p unfolding w' by simp
    from FindByToken_run [OF he this] slide_session_run [OF he] True show ?thesis by simp
  next
    case False
    then have "\<nexists>i s. holds E (w'\<lparr>clock := t\<rparr>) token i s"
      using assms(2) unfolding w' by (auto simp: holds_def expiry_def)
    from FindByToken_none [OF he this] False show ?thesis by simp
  qed
qed

section \<open>A world with one session\<close>

definition demo_env :: env where
  "demo_env = \<lparr>ev_Sum256 = map (\<lambda>c. word_of_nat (of_char c)), ev_expiration = 60,
     ev_FromString = (\<lambda>s. map_option word_of_int (ParseInt s)), ev_uuid_String = (\<lambda>d. FormatInt (uint d)),
     ev_uuid_V4 = (\<lambda>bs. word_of_nat (length bs)), ev_ParseAddress = (\<lambda>s. if CHR ''@'' \<in> set s then Some s else None),
     ev_IDKey = (\<lambda>pw salt. salt @ map (\<lambda>c. word_of_nat (of_char c)) pw), ev_verify_ttl = 600,
     ev_base_url = ''u'', ev_is_dev = True,
     ev_sender = \<lparr>es_address = ''no@u'', es_name = ''Chat''\<rparr>, ev_mail_id = (\<lambda>n. FormatInt (int n)), ev_RFC3339 = FormatInt\<rparr>"

definition demo_user :: "user_id \<Rightarrow> account_id \<Rightarrow> user_row" where
  "demo_user u a = \<lparr>us_id = u, us_account_id = a, us_name = ''ann'', us_avatar = None, us_created_at = 0, us_updated_at = 0\<rparr>"

definition demo_account :: "account_id \<Rightarrow> account_status \<Rightarrow> account_row" where
  "demo_account a st = \<lparr>ac_id = a, ac_public_id = 0, ac_email = ''a@b'', ac_account_name = ''ann'', ac_password = ''AQ:AXB3'',
     ac_status = st, ac_user_limit = 1, ac_created_at = 0, ac_updated_at = 0\<rparr>"

definition accounts_world :: world where
  "accounts_world = empty_world\<lparr>tables := empty_db\<lparr>accounts := [demo_account 1 Active], users := [demo_user 1 1],
     devices := [\<lparr>dv_id = 9, dv_platform = Linux, dv_name = ''d'', dv_created_at = 0, dv_updated_at = 0\<rparr>],
     roles := [(1, ''admin''), (2, ''user'')], users_roles := [(1, 2)]\<rparr>,
     seq := (\<lambda>_. 1), entropy := (\<lambda>n. Some [word_of_nat n])\<rparr>"

definition session_world :: world where
  "session_world = snd (SM_Create demo_env 1 1 9 accounts_world)"

lemma session_world_healthy: "healthy session_world"
proof -
  have "tx session_world = None \<and> faults session_world = []" by code_simp
  then show ?thesis by (simp add: healthy_def tx_aborted_def)
qed

theorem token_lives_for_the_window_witness:
  "\<exists>s w'. SM_FindByToken demo_env ''AA'' session_world = (Inr s, w') \<and>
     isl (fst (SM_FindByToken demo_env ''AA'' (w'\<lparr>clock := 59\<rparr>))) = False \<and>
     fst (SM_FindByToken demo_env ''AA'' (w'\<lparr>clock := 60\<rparr>)) = Inl (Auth ErrSessionNotFound)"
proof -
  have "isl (fst (SM_FindByToken demo_env ''AA'' session_world)) = False" by code_simp
  then obtain s w' where r: "SM_FindByToken demo_env ''AA'' session_world = (Inr s, w')" using run_ok by blast
  have e: "ev_expiration demo_env = 60" by (simp add: demo_env_def)
  have c: "clock session_world = 0" by code_simp
  have p: "0 < ev_expiration demo_env" by (simp add: e)
  note t = token_lives_for_the_window [OF session_world_healthy p r]
  from t [of 59] t [of 60] r show ?thesis by (simp add: e c)
qed

section \<open>Logout\<close>

lemma Session_Revoke_run [run_simps]:
  "healthy w \<Longrightarrow> Session_Revoke i w =
     (Inr (), w\<lparr>tables := update_sessions (\<lambda>s. se_id s = i) revoked_session (clock w) (tables w)\<rparr>)"
  by (simp add: Session_Revoke_def Exec_run)

lemma SM_Revoke_run:
  assumes "healthy w" and "holds E w token i s"
  shows "SM_Revoke E token w = (Inr (),
    w\<lparr>cache := (cache w)(idKey i := None, accessKey (hashToken E token) := None),
      tables := update_sessions (\<lambda>s. se_id s = i) revoked_session (clock w) (tables w)\<rparr>)"
  using assms by (simp add: SM_Revoke_def holds_def attempt_def bind_def ignore_def Cache_Get_run Cache_Delete_run Session_Revoke_run)

lemma update_sessions_filter:
  assumes "\<And>s. se_refresh_hash (f now s) = se_refresh_hash s"
  shows "filter (\<lambda>s. se_refresh_hash s = h) (account_sessions (update_sessions P f now d)) =
    map (\<lambda>s. if P s then f now s else s) (filter (\<lambda>s. se_refresh_hash s = h) (account_sessions d))"
proof -
  have "(se_refresh_hash (if P s then f now s else s) = h) = (se_refresh_hash s = h)" for s using assms by simp
  then show ?thesis by (simp add: update_sessions_def filter_map comp_def)
qed

text \<open>C20: a logout ends the session: after the revocation of a token that the cache knows, without failures, the token is
  unknown at every later time, and no refresh token of that session can be exchanged.\<close>
theorem revoked_session_is_dead:
  assumes "healthy w" and "cached_session E token w = (Inr (i, s), w0)" and "SM_Revoke E token w = (r, w1)"
  shows "r = Inr () \<and> fst (SM_FindByToken E token (w1\<lparr>clock := t\<rparr>)) = Inl (Auth ErrSessionNotFound) \<and>
    (\<forall>row rows rt. filter (\<lambda>s. se_refresh_hash s = hashToken E rt) (account_sessions (tables w)) = row # rows \<longrightarrow> se_id row = i \<longrightarrow>
       fst (SM_Refresh E rt (w1\<lparr>clock := t\<rparr>)) = Inl (Auth ErrRefreshToken))"
proof -
  have h: "holds E w token i s" using cached_session_succ [OF assms(1,2)] by simp
  let ?d = "update_sessions (\<lambda>s. se_id s = i) revoked_session (clock w) (tables w)"
  have r: "r = Inr ()" and w1: "w1 = w\<lparr>cache := (cache w)(idKey i := None, accessKey (hashToken E token) := None), tables := ?d\<rparr>"
    using SM_Revoke_run [OF assms(1) h] assms(3) by auto
  let ?w = "w1\<lparr>clock := t\<rparr>"
  have he: "healthy ?w" using assms(1) w1 by simp
  have "\<nexists>i s. holds E ?w token i s" by (simp add: holds_def w1)
  note find = FindByToken_none [OF he this]
  have "fst (SM_Refresh E rt ?w) = Inl (Auth ErrRefreshToken)"
    if f: "filter (\<lambda>s. se_refresh_hash s = hashToken E rt) (account_sessions (tables w)) = row # rows" "se_id row = i" for rt row rows
  proof -
    have "filter (\<lambda>s. se_refresh_hash s = hashToken E rt) (account_sessions (tables ?w)) =
        revoked_session (clock w) row # map (\<lambda>s. if se_id s = i then revoked_session (clock w) s else s) rows"
      using f by (simp add: w1 update_sessions_filter revoked_session_def)
    then have "Session_FindByRefreshTokenHash (hashToken E rt) ?w = (Inr (revoked_session (clock w) row), ?w)"
      using he by (simp add: Session_FindByRefreshTokenHash_def ScanOne_run)
    then show ?thesis by (simp add: SM_Refresh_def attempt_def bind_def get_clock_run revoked_session_def guard_def)
  qed
  with r find show ?thesis by simp
qed

theorem revoked_session_is_dead_witness:
  "fst (SM_FindByToken demo_env ''AA'' (snd (SM_Revoke demo_env ''AA'' session_world))) = Inl (Auth ErrSessionNotFound) \<and>
   fst (SM_Refresh demo_env ''AQ'' (snd (SM_Revoke demo_env ''AA'' session_world))) = Inl (Auth ErrRefreshToken)"
proof -
  let ?c = "cached_session demo_env ''AA'' session_world" and ?rev = "SM_Revoke demo_env ''AA'' session_world"
  have "map_sum id fst (fst ?c) = Inr 2" by code_simp
  then obtain s w0 where c: "?c = (Inr (2, s), w0)" by (cases ?c; cases "fst ?c") auto
  obtain r w1 where v: "?rev = (r, w1)" by (cases ?rev)
  let ?rows = "filter (\<lambda>s. se_refresh_hash s = hashToken demo_env ''AQ'') (account_sessions (tables session_world))"
  have "map se_id ?rows = [2]" by code_simp
  then obtain row rows where f: "?rows = row # rows" "se_id row = 2" by (cases ?rows) auto
  have t: "w1\<lparr>clock := clock w1\<rparr> = w1" by simp
  from revoked_session_is_dead [OF session_world_healthy c v, of "clock w1"] f v show ?thesis unfolding t by auto
qed

section \<open>Refresh\<close>

definition without_old :: "int \<Rightarrow> world \<Rightarrow> world" where
  "without_old i w = w\<lparr>cache := (case live (clock w) (cache w (idKey i)) of
       None \<Rightarrow> cache w
     | Some (CachedText old) \<Rightarrow> (cache w)(accessKey old := None, idKey i := None)
     | Some _ \<Rightarrow> (cache w)(idKey i := None))\<rparr>"

lemma drop_old_entries_run: "healthy w \<Longrightarrow> drop_old_entries i w = (Inr (), without_old i w)"
  by (auto simp: drop_old_entries_def attempt_def ignore_def Cache_Get_run Cache_Delete_run without_old_def split: option.split cached.split)

lemma without_old_fields [simp]:
  "tables (without_old i w) = tables w" "clock (without_old i w) = clock w" "healthy (without_old i w) = healthy w"
  by (simp_all add: without_old_def)

lemma with_tokens_succ:
  assumes "with_tokens e k w = (Inr x, w')"
  shows "\<exists>a b. k a b (w\<lparr>drawn := Suc (Suc (drawn w))\<rparr>) = (Inr x, w')"
  using assms
  by (auto simp: with_tokens_def generateSecureToken_def attempt_def bind_def rand_Read_run split: option.splits prod.splits sum.splits)

text \<open>What a successful refresh did.\<close>

definition refreshed :: "env \<Rightarrow> session_row \<Rightarrow> token_pair \<Rightarrow> instant \<Rightarrow> db \<Rightarrow> db" where
  "refreshed E rec p now d = update_sessions (\<lambda>s. se_id s = se_id rec)
     (\<lambda>t s. s\<lparr>se_refresh_hash := hashToken E (tp_refresh p), se_expires_at := now + ev_expiration E, se_last_used_at := Some t\<rparr>) now d"

lemma Refresh_succ:
  assumes h: "healthy w" and r: "SM_Refresh E rt w = (Inr p, w1)"
  obtains rec rows s where "filter (\<lambda>s. se_refresh_hash s = hashToken E rt) (account_sessions (tables w)) = rec # rows"
    and "\<not> se_revoked rec" and "clock w \<le> se_expires_at rec"
    and "as_id s = FormatInt (se_id rec)" and "as_account_id s = se_account_id rec" and "as_user_id s = se_user_id rec"
    and "tables w1 = refreshed E rec p (clock w) (tables w)" and "clock w1 = clock w" and "healthy w1"
    and "cache w1 = (cache (without_old (se_id rec) w))(accessKey (hashToken E (tp_access p)) := Some (CachedSession s, expiry E (clock w)),
        idKey (se_id rec) := Some (CachedText (hashToken E (tp_access p)), expiry E (clock w)))"
proof -
  from r obtain rec rows where f: "filter (\<lambda>s. se_refresh_hash s = hashToken E rt) (account_sessions (tables w)) = rec # rows"
    by (cases "filter (\<lambda>s. se_refresh_hash s = hashToken E rt) (account_sessions (tables w))")
      (simp_all add: SM_Refresh_def Session_FindByRefreshTokenHash_def attempt_def ScanOne_run [OF h])
  have found: "Session_FindByRefreshTokenHash (hashToken E rt) w = (Inr rec, w)"
    using f by (simp add: Session_FindByRefreshTokenHash_def ScanOne_run [OF h])
  let ?k = "\<lambda>rawAccess rawRefresh. bind get_clock (\<lambda>now.
     attempt (Session_UpdateRefreshToken (se_id rec) (hashToken E rawRefresh) (now + ev_expiration E))
       (\<lambda>_. fail (Auth ErrRefreshToken)) (\<lambda>_.
     case ParseDeviceIDE E (ev_uuid_String E (se_device_id rec)) of
       Inl _ \<Rightarrow> fail (Auth ErrRefreshToken)
     | Inr deviceID \<Rightarrow>
         (let tokenPair = \<lparr>tp_access = rawAccess, tp_refresh = rawRefresh, tp_expires_at = now + ev_expiration E\<rparr>;
              session = \<lparr>as_id = FormatInt (se_id rec), as_account_id = se_account_id rec, as_user_id = se_user_id rec,
                as_device_id = deviceID, as_token = tokenPair, as_created_at = se_created_at rec\<rparr> in
          ignore (setCacheEntries E (se_id rec) (hashToken E rawAccess) session) (ret tokenPair))))"
  from r have g: "\<not> se_revoked rec" "clock w \<le> se_expires_at rec"
    and k: "with_tokens (Auth ErrRefreshToken) ?k (without_old (se_id rec) w) = (Inr p, w1)"
    by (auto simp: SM_Refresh_def found attempt_def bind_def get_clock_run drop_old_entries_run [OF h] guard_def split: if_splits)
  obtain a b where ab: "?k a b ((without_old (se_id rec) w)\<lparr>drawn := Suc (Suc (drawn (without_old (se_id rec) w)))\<rparr>) = (Inr p, w1)"
    using with_tokens_succ [OF k] by blast
  let ?w = "(without_old (se_id rec) w)\<lparr>drawn := Suc (Suc (drawn (without_old (se_id rec) w)))\<rparr>"
  have hw: "healthy ?w" "clock ?w = clock w" "tables ?w = tables w" using h by simp_all
  from ab obtain dev where dev: "ParseDeviceIDE E (ev_uuid_String E (se_device_id rec)) = Inr dev"
    and p: "tp_access p = a" "tp_refresh p = b"
    and u: "Session_UpdateRefreshToken (se_id rec) (hashToken E b) (clock w + ev_expiration E) ?w =
      (Inr (), ?w\<lparr>tables := refreshed E rec p (clock w) (tables w)\<rparr>)"
    and w1: "w1 = snd (setCacheEntries E (se_id rec) (hashToken E a) \<lparr>as_id = FormatInt (se_id rec), as_account_id = se_account_id rec,
        as_user_id = se_user_id rec, as_device_id = dev, as_token = p, as_created_at = se_created_at rec\<rparr>
        (?w\<lparr>tables := refreshed E rec p (clock w) (tables w)\<rparr>))"
    by (auto simp: bind_def attempt_def get_clock_run Session_UpdateRefreshToken_def Exec_run [OF hw(1)] hw Let_def ignore_run refreshed_def
        split: if_splits sum.splits)
  have hx: "healthy (?w\<lparr>tables := refreshed E rec p (clock w) (tables w)\<rparr>)" using hw by simp
  show thesis
    by (rule that [OF f g, of "\<lparr>as_id = FormatInt (se_id rec), as_account_id = se_account_id rec,
        as_user_id = se_user_id rec, as_device_id = dev, as_token = p, as_created_at = se_created_at rec\<rparr>"])
      (use w1 p h in \<open>simp_all add: setCacheEntries_run [OF hx]\<close>)
qed



section \<open>Logouts that leave the session alive\<close>

text \<open>C40: two logouts that report success and leave the token valid.  If the read of the cache fails, the revocation
  does nothing and reports no error.  And if a check of the token has read its entry before the
  logout, its write afterwards puts the entry back, and the token is found again.\<close>
theorem logout_can_leave_session:
  assumes "healthy w" and "holds E w token i s" and "0 < ev_expiration E"
  shows "logout E token (w\<lparr>faults := [True]\<rparr>) = (Inr (), w) \<and>
    (\<exists>s' w2. cached_session E token w = (Inr (i, s), w) \<and> fst (logout E token w) = Inr () \<and>
       slide_session E token (i, s) (snd (logout E token w)) = (Inr s', w2) \<and>
       cached_session E token w2 = (Inr (i, s'), w2))"
proof
  have f: "faults w = []" using assms(1) by (simp add: healthy_def)
  then have "Cache_Get (accessKey (hashToken E token)) (w\<lparr>faults := [True]\<rparr>) = (Inl Plain, w)"
    by (simp add: Cache_Get_def outside_def faulty_def pop_fault_def)
  then show "logout E token (w\<lparr>faults := [True]\<rparr>) = (Inr (), w)"
    by (simp add: logout_def SM_Revoke_def attempt_def)
  let ?w1 = "snd (logout E token w)"
  have l: "fst (logout E token w) = Inr ()" and w1: "?w1 = snd (SM_Revoke E token w)"
    using SM_Revoke_run [OF assms(1,2)] by (simp_all add: logout_def attempt_def)
  have h1: "healthy ?w1" "clock ?w1 = clock w" using assms(1) SM_Revoke_run [OF assms(1,2)] w1 by simp_all
  obtain s' w2 where sl: "slide_session E token (i, s) ?w1 = (Inr s', w2)" by (simp add: slide_session_run [OF h1(1)])
  then have w2: "holds E w2 token i s'" "healthy w2"
    using assms(2,3) h1 by (auto simp: slide_session_run [OF h1(1)] holds_def expiry_def)
  from l sl cached_session_holds [OF assms(1,2)] cached_session_holds [OF w2(2,1)]
  show "\<exists>s' w2. cached_session E token w = (Inr (i, s), w) \<and> fst (logout E token w) = Inr () \<and>
       slide_session E token (i, s) ?w1 = (Inr s', w2) \<and> cached_session E token w2 = (Inr (i, s'), w2)"
    by blast
qed

theorem logout_can_leave_session_witness:
  "fst (logout demo_env ''AA'' (session_world\<lparr>faults := [True]\<rparr>)) = Inr () \<and> (\<exists>s. holds demo_env session_world ''AA'' 2 s)"
proof -
  let ?c = "cached_session demo_env ''AA'' session_world"
  have "map_sum id fst (fst ?c) = Inr 2" by code_simp
  then obtain s w0 where c: "?c = (Inr (2, s), w0)" by (cases ?c; cases "fst ?c") auto
  have h: "holds demo_env session_world ''AA'' 2 s" using cached_session_succ [OF session_world_healthy c] by simp
  have e: "0 < ev_expiration demo_env" by (simp add: demo_env_def)
  from logout_can_leave_session [OF session_world_healthy h e] h show ?thesis by auto
qed

end
