(* ===== verification/Delivery_Props.thy ===== *)
theory Delivery_Props
  imports Delivery
begin

text \<open>
  What the retry scheduler achieves: after a tick and the pushes it starts, exactly the old pending items whose push was
  acknowledged are delivered.
\<close>

text \<open>A client that is connected acknowledges: which pushes are, is the parameter \<open>acks\<close>.\<close>

definition acking :: "(string \<Rightarrow> int \<Rightarrow> string \<Rightarrow> string \<Rightarrow> bool) \<Rightarrow> pusher" where
  "acking acks = (\<lambda>u i ty p. ret (acks u i ty p))"

text \<open>The goroutines started since, one after the other.\<close>

fun run_pushes :: "pusher \<Rightarrow> task list \<Rightarrow> unit io" where
  "run_pushes P [] = ret ()"
| "run_pushes P (PushAndTrack u item # ts) = ignore (pushAndTrack P u item) (run_pushes P ts)"
| "run_pushes P (t # ts) = run_pushes P ts"

definition is_old_pending :: "instant \<Rightarrow> delivery_item \<Rightarrow> bool" where
  "is_old_pending now q \<longleftrightarrow> dq_status q = DeliveryPending \<and> dq_created_at q < now - pendingAge"

definition item_acked :: "(string \<Rightarrow> int \<Rightarrow> string \<Rightarrow> string \<Rightarrow> bool) \<Rightarrow> delivery_item \<Rightarrow> bool" where
  "item_acked acks q = acks (FormatInt (dq_user_id q)) (dq_id q) (dq_payload_type q) (dq_payload q)"

lemma spawn_all:
  "for_each items (\<lambda>q. spawn (f q)) w = (Inr (), w\<lparr>tasks := tasks w @ map f items\<rparr>)"
  by (induction items arbitrary: w) (simp_all add: spawn_def bind_def attempt_def)

lemma retry_pending_run:
  "healthy w \<Longrightarrow> retry_pending w = (Inr (), w\<lparr>tasks := tasks w @
     map (\<lambda>q. PushAndTrack (dq_user_id q) q) (filter (is_old_pending (clock w)) (delivery_queue (tables w)))\<rparr>)"
  by (simp add: retry_pending_def Queue_FindPendingOlderThan_def bind_def attempt_def get_clock_run ScanAll_run spawn_all
      is_old_pending_def [abs_def])

definition mark :: "instant \<Rightarrow> int set \<Rightarrow> delivery_item list \<Rightarrow> delivery_item list" where
  "mark now ids = map (\<lambda>q. if dq_id q \<in> ids then delivered now q else q)"

lemma mark_ids: "map dq_id (mark now ids qs) = map dq_id qs"
  by (simp add: mark_def delivered_def)

lemma pushAndTrack_run:
  assumes "healthy w" and "dq_id item \<in> dq_id ` set (delivery_queue (tables w))"
  shows "pushAndTrack (acking acks) (dq_user_id item) item w = (Inr (), w\<lparr>tables := (tables w)\<lparr>delivery_queue :=
     mark (clock w) (if item_acked acks item then {dq_id item} else {}) (delivery_queue (tables w))\<rparr>\<rparr>)"
proof -
  have "filter (\<lambda>q. dq_id q = dq_id item) (delivery_queue (tables w)) \<noteq> []"
    using assms(2) by (force simp: filter_empty_conv)
  then show ?thesis using assms(1)
    by (simp add: pushAndTrack_def acking_def item_acked_def attempt_def ignore_def Queue_MarkDelivered_def bind_def sql_run mark_def)
qed

lemma run_pushes_run:
  "healthy w \<Longrightarrow> dq_id ` set items \<subseteq> dq_id ` set (delivery_queue (tables w)) \<Longrightarrow>
   run_pushes (acking acks) (map (\<lambda>q. PushAndTrack (dq_user_id q) q) items) w = (Inr (), w\<lparr>tables := (tables w)\<lparr>delivery_queue :=
     mark (clock w) (dq_id ` {q \<in> set items. item_acked acks q}) (delivery_queue (tables w))\<rparr>\<rparr>)"
proof (induction items arbitrary: w)
  case Nil
  then show ?case by (simp add: mark_def)
next
  case (Cons i items)
  let ?w = "w\<lparr>tables := (tables w)\<lparr>delivery_queue := mark (clock w) (if item_acked acks i then {dq_id i} else {}) (delivery_queue (tables w))\<rparr>\<rparr>"
  have ids: "dq_id ` set (delivery_queue (tables ?w)) = dq_id ` set (delivery_queue (tables w))"
    using arg_cong [OF mark_ids, of set] by simp
  have "run_pushes (acking acks) (map (\<lambda>q. PushAndTrack (dq_user_id q) q) items) ?w = (Inr (), ?w\<lparr>tables := (tables ?w)\<lparr>delivery_queue :=
      mark (clock w) (dq_id ` {q \<in> set items. item_acked acks q}) (delivery_queue (tables ?w))\<rparr>\<rparr>)"
    using Cons.IH [of ?w] Cons.prems ids by simp
  moreover have "mark (clock w) (dq_id ` {q \<in> set items. item_acked acks q}) (delivery_queue (tables ?w)) =
      mark (clock w) (dq_id ` {q \<in> set (i # items). item_acked acks q}) (delivery_queue (tables w))"
    by (auto simp: mark_def delivered_def)
  ultimately show ?case
    using pushAndTrack_run [OF Cons.prems(1), of i acks] Cons.prems(2) by (simp add: ignore_run)
qed

text \<open>C24: what is pending gets delivered: a tick of the scheduler starts one push for every item that has been pending for
  longer than the bound, and when these pushes have run, exactly those of them whose client has acknowledged are marked as
  delivered, at the current time; no other item changes, and the next tick starts none of them again.\<close>
theorem retry_delivers_what_is_acked:
  assumes "healthy w" and "distinct (map dq_id (delivery_queue (tables w)))" and "retry_pending w = (r, w1)"
    and "run_pushes (acking acks) (drop (length (tasks w)) (tasks w1)) w1 = (r2, w2)"
  shows "delivery_queue (tables w2) = map (\<lambda>q. if is_old_pending (clock w) q \<and> item_acked acks q then delivered (clock w) q else q)
      (delivery_queue (tables w)) \<and>
    tasks (snd (retry_pending (w2\<lparr>tasks := []\<rparr>))) = map (\<lambda>q. PushAndTrack (dq_user_id q) q)
      (filter (\<lambda>q. is_old_pending (clock w) q \<and> \<not> item_acked acks q) (delivery_queue (tables w)))"
proof
  let ?old = "filter (is_old_pending (clock w)) (delivery_queue (tables w))"
  have w1: "w1 = w\<lparr>tasks := tasks w @ map (\<lambda>q. PushAndTrack (dq_user_id q) q) ?old\<rparr>"
    using retry_pending_run [OF assms(1)] assms(3) by simp
  have h: "healthy w1" using assms(1) w1 by simp
  have "dq_id ` set ?old \<subseteq> dq_id ` set (delivery_queue (tables w1))" by (auto simp: w1)
  note run = run_pushes_run [OF h this, of acks]
  have w2: "w2 = w1\<lparr>tables := (tables w1)\<lparr>delivery_queue :=
      mark (clock w1) (dq_id ` {q \<in> set ?old. item_acked acks q}) (delivery_queue (tables w1))\<rparr>\<rparr>"
    using assms(4) run by (simp add: w1)
  have "dq_id q \<in> dq_id ` {q \<in> set ?old. item_acked acks q} \<longleftrightarrow> is_old_pending (clock w) q \<and> item_acked acks q"
    if "q \<in> set (delivery_queue (tables w))" for q
    using assms(2) that by (auto simp: distinct_map inj_on_def)
  then show q: "delivery_queue (tables w2) = map (\<lambda>q. if is_old_pending (clock w) q \<and> item_acked acks q then delivered (clock w) q else q)
      (delivery_queue (tables w))"
    by (simp add: w2 w1 mark_def cong: if_cong)
  have he: "healthy (w2\<lparr>tasks := []\<rparr>)" and c: "clock w2 = clock w" using h by (simp_all add: w2 w1)
  have "filter (is_old_pending (clock w)) (map (\<lambda>q. if is_old_pending (clock w) q \<and> item_acked acks q then delivered (clock w) q else q) qs) =
      filter (\<lambda>q. is_old_pending (clock w) q \<and> \<not> item_acked acks q) qs" for qs
    by (induction qs) (auto simp: is_old_pending_def delivered_def)
  then show "tasks (snd (retry_pending (w2\<lparr>tasks := []\<rparr>))) = map (\<lambda>q. PushAndTrack (dq_user_id q) q)
      (filter (\<lambda>q. is_old_pending (clock w) q \<and> \<not> item_acked acks q) (delivery_queue (tables w)))"
    by (simp add: retry_pending_run [OF he] c q)
qed

definition demo_item :: "int \<Rightarrow> user_id \<Rightarrow> instant \<Rightarrow> delivery_item" where
  "demo_item i u t = \<lparr>dq_id = i, dq_user_id = u, dq_payload_type = ''x'', dq_payload = ''y'', dq_status = DeliveryPending,
     dq_created_at = t, dq_delivered_at = None\<rparr>"

definition queue_world :: world where
  "queue_world = empty_world\<lparr>tables := empty_db\<lparr>delivery_queue := [demo_item 1 7 0, demo_item 2 8 0, demo_item 3 7 90]\<rparr>, clock := 100\<rparr>"

theorem retry_delivers_what_is_acked_witness:
  "let w1 = snd (retry_pending queue_world);
       w2 = snd (run_pushes (acking (\<lambda>u _ _ _. u = ''7'')) (drop 0 (tasks w1)) w1) in
   map dq_status (delivery_queue (tables w2)) = [DeliveryDelivered, DeliveryPending, DeliveryPending]"
proof -
  have h: "healthy queue_world" by (simp add: queue_world_def empty_world_def healthy_def tx_aborted_def)
  have q: "delivery_queue (tables queue_world) = [demo_item 1 7 0, demo_item 2 8 0, demo_item 3 7 90]" "clock queue_world = 100"
    "tasks queue_world = []" by (simp_all add: queue_world_def empty_world_def)
  have d: "distinct (map dq_id (delivery_queue (tables queue_world)))" by (simp add: q demo_item_def)
  let ?w1 = "snd (retry_pending queue_world)"
  have f: "FormatInt 7 = ''7''" "FormatInt 8 = ''8''" by code_simp+
  note t = retry_delivers_what_is_acked [OF h d, of "fst (retry_pending queue_world)" ?w1 "\<lambda>u _ _ _. u = ''7''"
      "fst (run_pushes (acking (\<lambda>u _ _ _. u = ''7'')) (drop (length (tasks queue_world)) (tasks ?w1)) ?w1)"
      "snd (run_pushes (acking (\<lambda>u _ _ _. u = ''7'')) (drop (length (tasks queue_world)) (tasks ?w1)) ?w1)"]
  have "delivery_queue (tables (snd (run_pushes (acking (\<lambda>u _ _ _. u = ''7'')) (drop (length (tasks queue_world)) (tasks ?w1)) ?w1))) =
      map (\<lambda>q. if is_old_pending (clock queue_world) q \<and> item_acked (\<lambda>u _ _ _. u = ''7'') q then delivered (clock queue_world) q else q)
      (delivery_queue (tables queue_world))"
    using t by simp
  then show ?thesis unfolding q
    by (simp add: Let_def is_old_pending_def pendingAge_def item_acked_def f delivered_def demo_item_def)
qed

end
