(* ===== verification/Http_Errors.thy ===== *)
theory Http_Errors
  imports Participants
begin

text \<open>
  How the HTTP handlers answer: the status and the code of the body for each error of the use cases, one translator per
  package of handlers, and the handler of the errors that a translator leaves over (\<open>middleware/error.go\<close>).
  The texts of the messages are not kept.
\<close>

section \<open>Translators\<close>

text \<open>A translator either writes a status and a code, or hands the error on to the error handler with \<open>c.Error\<close>.\<close>

datatype answer = Written int string | HandedOn

fun friendship_answer :: "err \<Rightarrow> answer" where
  "friendship_answer (Fr ErrFriendshipNotFound) = Written 404 ''NOT_FOUND''"
| "friendship_answer (Fr ErrForbidden) = Written 403 ''FORBIDDEN''"
| "friendship_answer (Fr ErrFriendshipAlreadyExists) = Written 409 ''FRIENDSHIP_EXISTS''"
| "friendship_answer (Fr ErrAlreadyFriends) = Written 409 ''FRIENDSHIP_EXISTS''"
| "friendship_answer (Fr ErrFriendshipNotPending) = Written 400 ''FRIENDSHIP_NOT_PENDING''"
| "friendship_answer (Fr ErrAlreadyBlocked) = Written 409 ''ALREADY_BLOCKED''"
| "friendship_answer (Fr ErrNotBlocked) = Written 400 ''NOT_BLOCKED''"
| "friendship_answer _ = HandedOn"

text \<open>The translator of the accounts is a table with a default.\<close>

fun login_answer :: "login_err \<Rightarrow> answer" where
  "login_answer ErrRegisterFailed = Written 500 ''REGISTER_FAILED''"
| "login_answer ErrLoginFailed = Written 500 ''LOGIN_FAILED''"
| "login_answer ErrLogoutFailed = Written 500 ''LOGOUT_FAILED''"
| "login_answer ErrInvalidDeviceID = Written 400 ''INVALID_DEVICE_ID''"
| "login_answer ErrInvalidPassword = Written 400 ''INVALID_PASSWORD''"
| "login_answer ErrInvalidEmail = Written 400 ''INVALID_EMAIL''"
| "login_answer ErrEmailExist = Written 409 ''EMAIL_EXIST''"
| "login_answer ErrAccountExist = Written 409 ''ACCOUNT_EXIST''"
| "login_answer ErrAccountNotFound = Written 404 ''ACCOUNT_NOT_FOUND''"
| "login_answer ErrAccountBanned = Written 403 ''ACCOUNT_BANNED''"
| "login_answer ErrAccountApplying = Written 403 ''ACCOUNT_APPLYING''"
| "login_answer ErrAccountInactive = Written 403 ''ACCOUNT_INACTIVE''"
| "login_answer ErrLoginUserNotFound = Written 404 ''USER_NOT_FOUND''"
| "login_answer ErrPasswordError = Written 401 ''PASSWORD_ERROR''"
| "login_answer ErrTokenInvalid = Written 400 ''TOKEN_INVALID''"

definition account_answer :: "err \<Rightarrow> answer" where
  "account_answer e = (case e of Login l \<Rightarrow> login_answer l | _ \<Rightarrow> Written 500 ''INTERNAL_SERVER_ERROR'')"

text \<open>The bodies of the device handlers have no code, but for the missing authentication.\<close>

fun device_answer :: "err \<Rightarrow> answer" where
  "device_answer (Device DomainDeviceNotFound) = Written 404 []"
| "device_answer (Device DomainDeviceExists) = Written 409 []"
| "device_answer (Device DomainInvalidPlatform) = Written 400 []"
| "device_answer (DeviceUc ErrDeviceNotFound) = Written 404 []"
| "device_answer (DeviceUc ErrDeviceExist) = Written 409 []"
| "device_answer (DeviceUc ErrInvalidDevice) = Written 400 []"
| "device_answer (DeviceUc ErrInvalidPlatform) = Written 400 []"
| "device_answer (DeviceUc ErrUnauthorized) = Written 401 ''UNAUTHORIZED''"
| "device_answer (DeviceUc ErrUpdateFailed) = Written 500 []"
| "device_answer (DeviceUc ErrDeleteFailed) = Written 500 []"
| "device_answer (DeviceUc ErrBindFailed) = Written 500 []"
| "device_answer (DeviceUc ErrDeviceRegisterFailed) = Written 500 []"
| "device_answer _ = HandedOn"

fun chat_answer :: "err \<Rightarrow> answer" where
  "chat_answer (Chat ErrChatRoomNotFound) = Written 404 ''NOT_FOUND''"
| "chat_answer (Chat ErrAlreadyMember) = Written 409 ''ALREADY_MEMBER''"
| "chat_answer (Chat ErrInvitationQuery) = Written 500 ''INTERNAL_ERROR''"
| "chat_answer (Chat ErrInvitationAlreadyExists) = Written 409 ''INVITATION_EXISTS''"
| "chat_answer (Chat ErrInvitationNotFound) = Written 404 ''NOT_FOUND''"
| "chat_answer (Chat ErrInvitationAlreadyResolved) = Written 409 ''INVITATION_RESOLVED''"
| "chat_answer (Chat ErrNotRoomAdmin) = Written 403 ''NOT_ROOM_ADMIN''"
| "chat_answer (Chat ErrNotRoomMember) = Written 403 ''NOT_ROOM_MEMBER''"
| "chat_answer (Chat ErrUserBlocked) = Written 403 ''USER_BLOCKED''"
| "chat_answer (Chat ErrParticipantNotFound) = Written 404 ''NOT_FOUND''"
| "chat_answer (Chat ErrChatRoomCreate) = Written 500 ''INTERNAL_ERROR''"
| "chat_answer (Chat ErrInvitationCreate) = Written 500 ''INTERNAL_ERROR''"
| "chat_answer (Chat ErrNotInvitee) = Written 403 ''NOT_INVITEE''"
| "chat_answer (Chat ErrInvalidInvitationAction) = Written 400 ''INVALID_INVITATION_ACTION''"
| "chat_answer (Chat ErrInvalidMessageType) = Written 400 ''INVALID_INPUT''"
| "chat_answer (Chat ErrInvalidFileType) = Written 400 ''INVALID_INPUT''"
| "chat_answer (Chat ErrFileTooLarge) = Written 413 ''FILE_TOO_LARGE''"
| "chat_answer (Chat ErrUploadRoomMedia) = Written 500 ''INTERNAL_ERROR''"
| "chat_answer (Chat ErrSendMessage) = Written 500 ''INTERNAL_ERROR''"
| "chat_answer _ = HandedOn"

fun participant_answer :: "err \<Rightarrow> answer" where
  "participant_answer (Chat ErrParticipantAlreadyExists) = Written 409 ''PARTICIPANT_EXIST''"
| "participant_answer (Chat ErrParticipantNotFound) = Written 404 ''NOT_FOUND''"
| "participant_answer (Chat ErrCreateParticipant) = Written 500 ''CREATE_PARTICIPANT_FAILED''"
| "participant_answer (Chat ErrGetParticipant) = Written 500 ''GET_PARTICIPANT_FAILED''"
| "participant_answer _ = Written 500 ''INTERNAL_ERROR''"

fun e2ee_answer :: "err \<Rightarrow> answer" where
  "e2ee_answer (E2EE ErrInvalidSignature) = Written 400 ''INVALID_SIGNATURE''"
| "e2ee_answer (E2EE ErrIdentityNotFound) = Written 404 ''IDENTITY_NOT_FOUND''"
| "e2ee_answer (E2EE ErrE2EENotRoomMember) = Written 403 ''NOT_ROOM_MEMBER''"
| "e2ee_answer _ = HandedOn"

text \<open>
  The translator of the users tests the sentinels of the domain package; \<open>ErrUserNotFound\<close>, \<open>ErrUpdateProfile\<close>,
  \<open>ErrUploadFile\<close> and \<open>ErrInvalidRoleCode\<close> of the use cases are other values.
\<close>

fun user_answer :: "err \<Rightarrow> answer" where
  "user_answer (NotFound UserNotFound) = Written 404 ''NOT_FOUND''"
| "user_answer (User ErrUserAlreadyExists) = Written 409 ''USER_EXIST''"
| "user_answer (UserDomain DomainInvalidUser) = Written 403 ''INVALID''"
| "user_answer (UserDomain DomainUserApplying) = Written 403 ''USER_APPLYING''"
| "user_answer (UserDomain DomainUserBanned) = Written 403 ''USER_BANNED''"
| "user_answer (UserDomain DomainInvalidPassword) = Written 401 ''INVALID''"
| "user_answer (UserDomain DomainInvalidEmail) = Written 400 ''INVALID''"
| "user_answer (UserDomain DomainGenerateToken) = Written 500 ''AUTH_FAILED''"
| "user_answer (UserDomain DomainDefaultRoleNotFound) = Written 500 ''ROLE_NOT_CONFIGURED''"
| "user_answer (UserDomain DomainInvalidImageType) = Written 400 ''INVALID_IMAGE_TYPE''"
| "user_answer (UserDomain DomainImageTooLarge) = Written 413 ''IMAGE_TOO_LARGE''"
| "user_answer (User ErrInvalidSearchInput) = Written 400 ''INVALID_SEARCH_PARAMS''"
| "user_answer _ = HandedOn"

section \<open>The error handler\<close>

text \<open>A structured error keeps its code; anything else is an internal error.\<close>

definition statusFromCode :: "string \<Rightarrow> int" where
  "statusFromCode code =
     (if code = ''NOT_FOUND'' then 404
      else if code = ''INVALID'' then 400
      else if code = ''AUTH_FAILED'' then 401
      else if code = ''RATE_LIMIT_EXCEEDED'' then 429
      else 500)"

definition ErrorHandler :: "string option \<Rightarrow> int \<times> string" where
  "ErrorHandler r = (case r of Some code \<Rightarrow> (statusFromCode code, code) | None \<Rightarrow> (500, ''INTERNAL_ERROR''))"

text \<open>The status and the code the client sees.\<close>

definition answered :: "answer \<Rightarrow> int \<times> string" where
  "answered a = (case a of Written st code \<Rightarrow> (st, code) | HandedOn \<Rightarrow> ErrorHandler None)"

end
