(* ===== verification/Ollama.thy ===== *)
theory Ollama
  imports Store_Rules GoStd
begin

text \<open>
  The proxy of the language model: the use case \<open>stream_chat.go\<close>, which keeps the last messages of a conversation in
  the cache, and the handler \<open>ollama_handler.go\<close>, which passes the lines of the answer on and collects its text.  The
  environment variables, the answer of the other server to a request (nothing where it cannot be reached) and the decoding
  of the JSON of a line are parameters.  Texts are taken to be valid UTF-8, so that JSON keeps them.
\<close>

section \<open>The use case\<close>

record ollama_env =
  oe_api_key :: string
  oe_system_prompt :: string
  oe_Do :: "string \<Rightarrow> ollama_message list \<Rightarrow> string option"
  oe_chunk :: "string \<Rightarrow> string list option"

record stream_query =
  sq_message :: string
  sq_session_id :: string
  sq_model :: string
  sq_api_key :: string

definition historyTTL :: int where
  "historyTTL = 24 * 3600"

definition trimHistory :: "'a list \<Rightarrow> nat \<Rightarrow> 'a list" where
  "trimHistory messages n = (if length messages \<le> n then messages else drop (length messages - n) messages)"

definition historyKey :: "string \<Rightarrow> string" where
  "historyKey sessionID = ''ollama:session:'' @ sessionID"

definition loadHistory :: "string \<Rightarrow> ollama_message list io" where
  "loadHistory sessionID = bind (Cache_Get (historyKey sessionID)) (\<lambda>data. case data of
     None \<Rightarrow> ret []
   | Some (CachedHistory messages) \<Rightarrow> ret messages
   | Some _ \<Rightarrow> fail Plain)"

definition saveHistory :: "string \<Rightarrow> ollama_message list \<Rightarrow> unit io" where
  "saveHistory sessionID messages = Cache_Set (historyKey sessionID) (CachedHistory messages) historyTTL"

definition system_message :: "string \<Rightarrow> ollama_message" where
  "system_message s = \<lparr>om_role = ''system'', om_content = s\<rparr>"

definition user_message :: "string \<Rightarrow> ollama_message" where
  "user_message s = \<lparr>om_role = ''user'', om_content = s\<rparr>"

definition assistant_message :: "string \<Rightarrow> ollama_message" where
  "assistant_message s = \<lparr>om_role = ''assistant'', om_content = s\<rparr>"

definition buildMessages :: "ollama_env \<Rightarrow> ollama_message list \<Rightarrow> string \<Rightarrow> ollama_message list" where
  "buildMessages oe history userMessage =
     (if oe_system_prompt oe = [] then [] else [system_message (oe_system_prompt oe)]) @ history @ [user_message userMessage]"

text \<open>The output of the use case: the body of the answer and the history that \<open>CommitFunc\<close> has captured.\<close>

definition stream_chat :: "ollama_env \<Rightarrow> stream_query \<Rightarrow> (string \<times> ollama_message list) io" where
  "stream_chat oe q = guard (oe_api_key oe \<noteq> [] \<and> sq_api_key q = oe_api_key oe) (Ollama ErrOllamaUnauthorized) (
     bind (attempt (loadHistory (sq_session_id q)) (\<lambda>_. ret []) ret) (\<lambda>history.
     (let history = trimHistory history 3 in
      case oe_Do oe (sq_model q) (buildMessages oe history (sq_message q)) of
        None \<Rightarrow> fail (Ollama ErrUpstreamUnavailable)
      | Some body \<Rightarrow> ret (body, history))))"

definition commit_history :: "stream_query \<Rightarrow> ollama_message list \<Rightarrow> string \<Rightarrow> unit io" where
  "commit_history q history assistantContent = (if assistantContent = [] then ret ()
     else ignore (saveHistory (sq_session_id q)
       (trimHistory (history @ [user_message (sq_message q), assistant_message assistantContent]) 3)) (ret ()))"

section \<open>The handler\<close>

text \<open>\<open>bufio.Scanner\<close> with its default buffer: the lines without their ends, up to the first one of 64 KB or more.\<close>

definition dropCR :: "string \<Rightarrow> string" where
  "dropCR l = (if l \<noteq> [] \<and> last l = CHR 0x0D then butlast l else l)"

definition max_token :: nat where
  "max_token = 64 * 1024"

function scan_lines :: "string \<Rightarrow> string list" where
  "scan_lines s = (let l = takeWhile (\<lambda>c. c \<noteq> CHR 0x0A) s in
     if s = [] \<or> max_token \<le> length l then [] else dropCR l # scan_lines (drop (Suc (length l)) s))"
  by auto
termination by (relation "measure length") (auto simp: neq_Nil_conv)

declare scan_lines.simps [simp del]

definition line_content :: "ollama_env \<Rightarrow> string \<Rightarrow> string" where
  "line_content oe line = (if HasPrefix line ''data: '' \<and> drop 6 line \<noteq> ''[DONE]''
     then (case oe_chunk oe (drop 6 line) of None \<Rightarrow> [] | Some contents \<Rightarrow> concat contents) else [])"

text \<open>The loop: what is written to the client and the text collected.\<close>

fun relay :: "ollama_env \<Rightarrow> string list \<Rightarrow> string \<Rightarrow> string \<Rightarrow> string \<times> string" where
  "relay oe [] out content = (out, content)"
| "relay oe (line # ls) out content = (if line = [] then relay oe ls (out @ [CHR 0x0A]) content
     else relay oe ls (out @ line @ [CHR 0x0A]) (content @ line_content oe line))"

datatype stream_reply = Refused int | Streamed string

text \<open>\<open>taken\<close>: the number of lines after which the client is gone and a write fails, if it goes.\<close>

definition stream_handler :: "ollama_env \<Rightarrow> stream_query \<Rightarrow> nat option \<Rightarrow> stream_reply io" where
  "stream_handler oe q taken =
     (if sq_message q = [] \<or> sq_session_id q = [] \<or> sq_model q = [] then ret (Refused 400)
      else attempt (stream_chat oe q) (\<lambda>e. ret (Refused (if e = Ollama ErrOllamaUnauthorized then 401 else 502))) (\<lambda>(body, history).
        (let ls = scan_lines body;
             (out, content) = relay oe (case taken of None \<Rightarrow> ls | Some n \<Rightarrow> take n ls) [] [] in
         ignore (commit_history q history content) (ret (Streamed out)))))"

section \<open>What the proxy guarantees\<close>

lemma trimHistory_length [simp]: "length (trimHistory ms n) = min n (length ms)"
  by (simp add: trimHistory_def)

lemma trimHistory_small [simp]: "length ms \<le> n \<Longrightarrow> trimHistory ms n = ms"
  by (simp add: trimHistory_def)

lemma relay_eq: "relay oe ls out content =
    (out @ concat (map (\<lambda>l. l @ [CHR 0x0A]) ls), content @ concat (map (line_content oe) ls))"
  by (induction ls arbitrary: out content) (auto simp: line_content_def)

text \<open>The lines are all of the text, if none is too long and none ends with a carriage return.\<close>

lemma takeWhile_no_newline: "CHR 0x0A \<notin> set l \<Longrightarrow> takeWhile (\<lambda>c. c \<noteq> CHR 0x0A) (l @ CHR 0x0A # r) = l"
  by (induction l) auto

lemma scan_lines_join:
  assumes "\<forall>l \<in> set ls. CHR 0x0A \<notin> set l \<and> length l < max_token \<and> dropCR l = l"
  shows "scan_lines (concat (map (\<lambda>l. l @ [CHR 0x0A]) ls)) = ls"
  using assms
proof (induction ls)
  case (Cons l ls)
  then show ?case
    by (subst scan_lines.simps) (simp add: takeWhile_no_newline Let_def)
qed (simp add: scan_lines.simps)

text \<open>Without the key nothing is read or sent.\<close>

lemma stream_needs_key:
  assumes "oe_api_key oe = [] \<or> sq_api_key q \<noteq> oe_api_key oe"
  shows "stream_handler oe q taken w = (Inr (Refused (if sq_message q = [] \<or> sq_session_id q = [] \<or> sq_model q = [] then 400 else 401)), w)"
  using assms by (auto simp: stream_handler_def stream_chat_def guard_def attempt_def)

text \<open>What the cache holds of a conversation.\<close>

definition conversation :: "string \<Rightarrow> world \<Rightarrow> ollama_message list" where
  "conversation sid w = (case live (clock w) (cache w (historyKey sid)) of Some (CachedHistory ms) \<Rightarrow> ms | _ \<Rightarrow> [])"

lemma loadHistory_run:
  "healthy w \<Longrightarrow> attempt (loadHistory sid) (\<lambda>_. ret []) ret w = (Inr (conversation sid w), w)"
  by (auto simp: loadHistory_def attempt_def bind_def Cache_Get_run conversation_def split: option.split cached.split)


definition demo_ollama :: ollama_env where
  "demo_ollama = \<lparr>oe_api_key = ''k'', oe_system_prompt = ''p'',
     oe_Do = (\<lambda>model ms. if map om_content ms = [''p'', ''b'', ''c'', ''d'', ''m''] then Some (''data: x'' @ [CHR 0x0A] @ [CHR 0x0A] @ ''data: [DONE]'' @ [CHR 0x0A]) else None),
     oe_chunk = (\<lambda>s. Some [s, ''y''])\<rparr>"

definition demo_query :: stream_query where
  "demo_query = \<lparr>sq_message = ''m'', sq_session_id = ''s'', sq_model = ''x'', sq_api_key = ''k''\<rparr>"

definition talk_world :: world where
  "talk_world = empty_world\<lparr>cache := [historyKey ''s'' \<mapsto>
     (CachedHistory (map user_message [''a'', ''b'', ''c'', ''d'']), None)]\<rparr>"


text \<open>Three messages are one exchange and a half: after two exchanges the conversation starts with an answer.\<close>

lemma third_message_is_an_answer:
  assumes "length h = 2"
  shows "trimHistory (h @ [user_message m, assistant_message t]) 3 = [h ! 1, user_message m, assistant_message t]"
  using assms by (auto simp: trimHistory_def numeral_2_eq_2 length_Suc_conv)

end
