(* ===== verification/Rate_Limit.thy ===== *)
theory Rate_Limit
  imports Prelude
begin

text \<open>
  The rate limiter (\<open>rate_limiter.go\<close>) and its counters in Redis (\<open>rate_limit_cache_repo.go\<close>): a sliding window for all
  requests together, and a counter with a time to live per address.  Times are in microseconds; every function
  receives the time at which Redis runs its commands.
\<close>

section \<open>The counters\<close>

text \<open>Each key with the time it expires at.  The members of a sorted set are its scores.\<close>

record redis =
  rd_counts :: "string \<Rightarrow> (int \<times> int) option"
  rd_sets :: "string \<Rightarrow> (int list \<times> int) option"
  rd_down :: bool

type_synonym 'a rate = "(redis, 'a) eff"

definition unexpired :: "int \<Rightarrow> ('a \<times> int) option \<Rightarrow> 'a option" where
  "unexpired now e = (case e of None \<Rightarrow> None | Some (x, t) \<Rightarrow> if now < t then Some x else None)"

definition prefixed :: "string \<Rightarrow> string" where
  "prefixed key = ''rate_limit:'' @ key"

text \<open>\<open>EXPIRE\<close> with a time that is not positive deletes the key.\<close>

definition with_expiry :: "int \<Rightarrow> int \<Rightarrow> 'a \<Rightarrow> ('a \<times> int) option" where
  "with_expiry now window x = (if 0 < window then Some (x, now + window) else None)"

definition Rate_Increment :: "string \<Rightarrow> int \<Rightarrow> int \<Rightarrow> int rate" where
  "Rate_Increment key window now = (\<lambda>s.
     if rd_down s then (Inl Plain, s)
     else (let n = (case unexpired now (rd_counts s (prefixed key)) of None \<Rightarrow> 0 | Some c \<Rightarrow> c) + 1 in
       (Inr n, s\<lparr>rd_counts := (rd_counts s)(prefixed key := with_expiry now window n)\<rparr>)))"

definition Rate_Get :: "string \<Rightarrow> int \<Rightarrow> int rate" where
  "Rate_Get key now = (\<lambda>s.
     if rd_down s then (Inl Plain, s)
     else (Inr (case unexpired now (rd_counts s (prefixed key)) of None \<Rightarrow> 0 | Some c \<Rightarrow> c), s))"

definition Rate_Reset :: "string \<Rightarrow> unit rate" where
  "Rate_Reset key = (\<lambda>s.
     if rd_down s then (Inl Plain, s)
     else (Inr (), s\<lparr>rd_counts := (rd_counts s)(prefixed key := None), rd_sets := (rd_sets s)(prefixed key := None)\<rparr>))"

text \<open>The members up to the start of the window go, the time of the request is added, the rest is counted.\<close>

definition slide_window :: "int \<Rightarrow> int \<Rightarrow> int list \<Rightarrow> int list" where
  "slide_window window now ts =
     (let kept = filter (\<lambda>t. \<not> (0 \<le> t \<and> t \<le> now - window)) ts in if now \<in> set kept then kept else kept @ [now])"

definition Rate_IncrementSliding :: "string \<Rightarrow> int \<Rightarrow> int \<Rightarrow> int rate" where
  "Rate_IncrementSliding key window now = (\<lambda>s.
     if rd_down s then (Inl Plain, s)
     else (let ts = slide_window window now (case unexpired now (rd_sets s (prefixed key)) of None \<Rightarrow> [] | Some xs \<Rightarrow> xs) in
       (Inr (int (length ts)), s\<lparr>rd_sets := (rd_sets s)(prefixed key := with_expiry now window ts)\<rparr>)))"

section \<open>The limiter\<close>

record policy =
  rp_limit :: int
  rp_window :: int

definition CheckGlobal :: "policy \<Rightarrow> int \<Rightarrow> unit rate" where
  "CheckGlobal p now = bind (Rate_IncrementSliding ''global'' (rp_window p) now) (\<lambda>c.
     if rp_limit p < c then fail ErrRateLimitExceeded else ret ())"

definition ip_key :: "string \<Rightarrow> string" where
  "ip_key ip = ''ip:'' @ ip"

text \<open>Two commands, one after the other: the read with its test, then the increment, whose result is not looked at.\<close>

definition ip_read :: "policy \<Rightarrow> string \<Rightarrow> int \<Rightarrow> unit rate" where
  "ip_read p ip now = bind (Rate_Get (ip_key ip) now) (\<lambda>c. if rp_limit p < c then fail ErrRateLimitExceeded else ret ())"

definition CheckIP :: "policy \<Rightarrow> string \<Rightarrow> int \<Rightarrow> unit rate" where
  "CheckIP p ip now = bind (ip_read p ip now) (\<lambda>_.
     bind (Rate_Increment (ip_key ip) (rp_window p) now) (\<lambda>_. ret ()))"

text \<open>A sequence of requests at given times: which of them pass.\<close>

fun run_checks :: "(int \<Rightarrow> unit rate) \<Rightarrow> int list \<Rightarrow> redis \<Rightarrow> bool list" where
  "run_checks check [] s = []"
| "run_checks check (t # ts) s = (case check t s of (r, s') \<Rightarrow> (\<not> isl r) # run_checks check ts s')"

section \<open>The sliding window\<close>

text \<open>The reference: the different times among the requests so far that lie in the window before \<open>t\<close>.\<close>

definition recent :: "int \<Rightarrow> int list \<Rightarrow> int \<Rightarrow> int set" where
  "recent window past t = {x \<in> insert t (set past). t - window < x}"

fun allowed :: "policy \<Rightarrow> int list \<Rightarrow> int list \<Rightarrow> bool list" where
  "allowed p past [] = []"
| "allowed p past (t # ts) = (int (card (recent (rp_window p) past t)) \<le> rp_limit p) # allowed p (t # past) ts"

text \<open>The stored set is that of the reference, and expires no sooner than its last member leaves the window.\<close>

definition window_inv :: "policy \<Rightarrow> int list \<Rightarrow> redis \<Rightarrow> bool" where
  "window_inv p past s \<longleftrightarrow> \<not> rd_down s \<and> (\<forall>t. (\<forall>x \<in> set past. x \<le> t) \<longrightarrow>
     (let ts = (case unexpired t (rd_sets s (prefixed ''global'')) of None \<Rightarrow> [] | Some xs \<Rightarrow> xs) in
      distinct ts \<and> (\<forall>x \<in> set ts. 0 \<le> x) \<and> set ts \<subseteq> set past \<and> {x \<in> set past. t - rp_window p < x} \<subseteq> set ts))"

lemma check_global_step:
  assumes i: "window_inv p past s" and t: "\<forall>x \<in> set past. x \<le> t" "0 \<le> t" and w: "0 < rp_window p"
  shows "\<exists>s'. CheckGlobal p t s = ((if int (card (recent (rp_window p) past t)) \<le> rp_limit p then Inr () else Inl ErrRateLimitExceeded), s') \<and>
    window_inv p (t # past) s'"
proof -
  let ?old = "case unexpired t (rd_sets s (prefixed ''global'')) of None \<Rightarrow> [] | Some xs \<Rightarrow> xs"
  let ?ts = "slide_window (rp_window p) t ?old"
  let ?s = "s\<lparr>rd_sets := (rd_sets s)(prefixed ''global'' := Some (?ts, t + rp_window p))\<rparr>"
  from i t(1) have o: "distinct ?old" "\<forall>x \<in> set ?old. 0 \<le> x" "set ?old \<subseteq> set past" "{x \<in> set past. t - rp_window p < x} \<subseteq> set ?old"
    and up: "\<not> rd_down s" by (auto simp: window_inv_def Let_def)
  have d: "distinct ?ts" using o(1) by (auto simp: slide_window_def Let_def)
  have set_ts: "set ?ts = recent (rp_window p) past t"
    using o w by (auto simp: slide_window_def recent_def Let_def)
  have "CheckGlobal p t s = ((if int (length ?ts) \<le> rp_limit p then Inr () else Inl ErrRateLimitExceeded), ?s)"
    using up w by (simp add: CheckGlobal_def Rate_IncrementSliding_def bind_def attempt_def Let_def with_expiry_def)
  moreover have "length ?ts = card (recent (rp_window p) past t)"
    using d set_ts by (metis distinct_card)
  moreover have "window_inv p (t # past) ?s"
    unfolding window_inv_def
  proof (intro conjI allI impI)
    show "\<not> rd_down ?s" using up by simp
    fix u assume u: "\<forall>x \<in> set (t # past). x \<le> u"
    have n: "\<forall>x \<in> set ?ts. 0 \<le> x" using o(2) t(2) by (auto simp: slide_window_def Let_def)
    show "let ts = (case unexpired u (rd_sets ?s (prefixed ''global'')) of None \<Rightarrow> [] | Some xs \<Rightarrow> xs) in
      distinct ts \<and> (\<forall>x \<in> set ts. 0 \<le> x) \<and> set ts \<subseteq> set (t # past) \<and> {x \<in> set (t # past). u - rp_window p < x} \<subseteq> set ts"
    proof (cases "u < t + rp_window p")
      case True
      then have "{x \<in> set (t # past). u - rp_window p < x} \<subseteq> set ?ts" "set ?ts \<subseteq> set (t # past)"
        using u unfolding set_ts by (auto simp: recent_def)
      with True d n show ?thesis by (simp add: unexpired_def Let_def)
    next
      case False
      then have "{x \<in> set (t # past). u - rp_window p < x} = {}" using t(1) by force
      with False show ?thesis by (simp add: unexpired_def Let_def)
    qed
  qed
  ultimately show ?thesis by auto
qed


definition idle :: redis where
  "idle = \<lparr>rd_counts = (\<lambda>_. None), rd_sets = (\<lambda>_. None), rd_down = False\<rparr>"


section \<open>The limit per address\<close>

text \<open>The counter of an address after \<open>n\<close> requests that passed, the last one at \<open>u\<close>.\<close>

definition counted_ip :: "policy \<Rightarrow> string \<Rightarrow> nat \<Rightarrow> int \<Rightarrow> redis \<Rightarrow> bool" where
  "counted_ip p ip n u s \<longleftrightarrow> \<not> rd_down s \<and> rd_counts s (prefixed (ip_key ip)) = Some (int n, u + rp_window p)"

lemma check_ip_step:
  assumes "counted_ip p ip n u s" and "t < u + rp_window p" and "0 < rp_window p"
  shows "int n \<le> rp_limit p \<Longrightarrow> \<exists>s'. CheckIP p ip t s = (Inr (), s') \<and> counted_ip p ip (Suc n) t s'"
    and "rp_limit p < int n \<Longrightarrow> CheckIP p ip t s = (Inl ErrRateLimitExceeded, s)"
  using assms
  by (auto simp: counted_ip_def CheckIP_def ip_read_def Rate_Get_def Rate_Increment_def bind_def attempt_def unexpired_def with_expiry_def Let_def)

lemma check_ip_run:
  assumes "counted_ip p ip n u s" and "sorted (u # ts)" and "\<forall>t \<in> set ts. t < u + rp_window p" and "0 < rp_window p"
  shows "run_checks (CheckIP p ip) ts s = map (\<lambda>i. int (n + i) \<le> rp_limit p) [0..<length ts]"
  using assms
proof (induction ts arbitrary: n u s)
  case (Cons t ts)
  have shift: "map (\<lambda>i. int (n + i) \<le> rp_limit p) [0..<length (t # ts)] =
      (int n \<le> rp_limit p) # map (\<lambda>i. int (Suc n + i) \<le> rp_limit p) [0..<length ts]"
    by (simp add: map_upt_Suc add.left_commute del: upt_Suc)
  show ?case
  proof (cases "int n \<le> rp_limit p")
    case True
    then obtain s' where s': "CheckIP p ip t s = (Inr (), s')" "counted_ip p ip (Suc n) t s'"
      using check_ip_step(1) [OF Cons.prems(1) _ Cons.prems(4)] Cons.prems(3) by auto
    have "run_checks (CheckIP p ip) ts s' = map (\<lambda>i. int (Suc n + i) \<le> rp_limit p) [0..<length ts]"
      by (rule Cons.IH [OF s'(2)]) (use Cons.prems in auto)
    with s'(1) True show ?thesis unfolding shift by simp
  next
    case False
    then have c: "CheckIP p ip t s = (Inl ErrRateLimitExceeded, s)"
      using check_ip_step(2) [OF Cons.prems(1) _ Cons.prems(4)] Cons.prems(3) by auto
    have "run_checks (CheckIP p ip) ts s = map (\<lambda>i. int (n + i) \<le> rp_limit p) [0..<length ts]"
      by (rule Cons.IH [OF Cons.prems(1)]) (use Cons.prems in auto)
    moreover have "map (\<lambda>i. int (n + i) \<le> rp_limit p) [0..<length ts] = map (\<lambda>i. int (Suc n + i) \<le> rp_limit p) [0..<length ts]"
      using False by (intro map_cong refl) auto
    ultimately show ?thesis using c False unfolding shift by simp
  qed
qed simp



end
