(* ===== verification/Email.thy ===== *)
theory Email
  imports Sessions
begin

text \<open>
  Mails: the value objects (\<open>domain/shared/email.go\<close>), the two builders (\<open>email/builder\<close>), the service that hands a mail to
  the provider (\<open>resend_email_service.go\<close>), and the log of the mails (\<open>email_recorder.go\<close>).  The provider, the form of
  its ids and the formatting of a time are parameters.
\<close>

section \<open>Mails\<close>

definition EmailSender_String :: "email_sender \<Rightarrow> string" where
  "EmailSender_String s = (if es_name s = [] then es_address s else es_name s @ '' <'' @ es_address s @ ''>'')"

definition lines_of :: "string list \<Rightarrow> string" where
  "lines_of ls = join_with (CHR 0x0A) ls"

definition register_mail :: "env \<Rightarrow> string \<Rightarrow> string \<Rightarrow> string \<Rightarrow> email" where
  "register_mail E recipientEmail recipientName verifyURL =
     \<lparr>em_sender = ev_sender E, em_recipients = [recipientEmail], em_subject = ''Verify your email'',
      em_html = ''<p>Hi '' @ recipientName @ '',</p><p>Please verify your email address by clicking the link below:</p><p><a href='' @
        [CHR 0x22] @ verifyURL @ [CHR 0x22] @ ''>Verify Email</a></p><p>This link will expire in 24 hours.</p>'',
      em_text = lines_of [''Hi '' @ recipientName @ '','', [], ''Please verify your email address by visiting:'', verifyURL, [],
        ''This link will expire in 24 hours.'']\<rparr>"

definition login_mail :: "env \<Rightarrow> string \<Rightarrow> string \<Rightarrow> string \<Rightarrow> string \<Rightarrow> instant \<Rightarrow> email" where
  "login_mail E recipientEmail recipientName deviceID ip loginTime =
     \<lparr>em_sender = ev_sender E, em_recipients = [recipientEmail], em_subject = ''New login to your account'',
      em_html = ''<p>Hi '' @ recipientName @ '',</p><p>A new login was detected on your account.</p><ul><li><b>Device:</b> '' @
        deviceID @ ''</li><li><b>IP:</b> '' @ ip @ ''</li><li><b>Time:</b> '' @ ev_RFC3339 E loginTime @
        ''</li></ul><p>If this wasn'' @ [CHR 0x27] @ ''t you, please contact support.</p>'',
      em_text = lines_of [''Hi '' @ recipientName @ '','', [], ''A new login was detected on your account.'', [],
        ''Device: '' @ deviceID, ''IP: '' @ ip, ''Time: '' @ ev_RFC3339 E loginTime, [],
        ''If this wasn'' @ [CHR 0x27] @ ''t you, please contact support.'']\<rparr>"

section \<open>The log\<close>

text \<open>The length of a \<open>VARCHAR\<close> counts characters, that is bytes which do not continue a UTF-8 sequence.\<close>

definition char_length :: "string \<Rightarrow> nat" where
  "char_length s = length (filter (\<lambda>c. (of_char c :: nat) < 128 \<or> 192 \<le> (of_char c :: nat)) s)"

definition joinRecipients :: "string list \<Rightarrow> string" where
  "joinRecipients rs = join_with (CHR '','') rs"

text \<open>The three inserts differ in the status and the id; the column of the sender holds 255 characters.\<close>

definition log_row :: "email \<Rightarrow> string \<Rightarrow> string option \<Rightarrow> instant \<Rightarrow> email_log option" where
  "log_row mail status i now = (if 255 < char_length (EmailSender_String (em_sender mail)) then None
     else Some \<lparr>el_sender = EmailSender_String (em_sender mail), el_recipients = joinRecipients (em_recipients mail),
       el_subject = em_subject mail, el_status = status, el_external_id = i, el_created_at = now\<rparr>)"

definition RecordSending :: "email \<Rightarrow> unit io" where
  "RecordSending mail = ignore (EmailLog_Insert (log_row mail ''sending'' None)) (ret ())"

definition RecordFailed :: "email \<Rightarrow> unit io" where
  "RecordFailed mail = ignore (EmailLog_Insert (log_row mail ''failed'' None)) (ret ())"

definition RecordSuccess :: "email \<Rightarrow> string \<Rightarrow> unit io" where
  "RecordSuccess mail i = ignore (EmailLog_Insert (log_row mail ''sent'' (Some i))) (ret ())"

section \<open>Sending\<close>

definition Email_Send :: "env \<Rightarrow> email \<Rightarrow> unit io" where
  "Email_Send E mail =
     bind (RecordSending mail) (\<lambda>_.
     attempt (SendMail mail) (\<lambda>_. bind (RecordFailed mail) (\<lambda>_. fail ErrSendingEmail))
       (\<lambda>n. RecordSuccess mail (ev_mail_id E n)))"

lemma log_never_fails [simp]: "isl (fst (RecordSending m w)) = False" "isl (fst (RecordFailed m w)) = False"
    "isl (fst (RecordSuccess m i w)) = False"
  by (simp_all add: RecordSending_def RecordFailed_def RecordSuccess_def ignore_def attempt_def ret_def split: prod.split sum.split)

text \<open>What a mail leaves untouched: everything but the mails, their log and the schedule of failures.\<close>

definition mailed :: "world \<Rightarrow> world \<Rightarrow> bool" where
  "mailed w w' \<longleftrightarrow> tables w' = tables w \<and> seq w' = seq w \<and> tx w' = tx w \<and> clock w' = clock w \<and> cache w' = cache w \<and>
     tasks w' = tasks w"

lemma mailed_refl [simp]: "mailed w w"
  by (simp add: mailed_def)

lemma mailed_trans: "mailed w w1 \<Longrightarrow> mailed w1 w2 \<Longrightarrow> mailed w w2"
  by (simp add: mailed_def)

lemma Record_run:
  "RecordSending m w = (r, w') \<Longrightarrow> mailed w w' \<and> mails w' = mails w \<and> r = Inr ()"
  "RecordFailed m w = (r, w') \<Longrightarrow> mailed w w' \<and> mails w' = mails w \<and> r = Inr ()"
  "RecordSuccess m i w = (r, w') \<Longrightarrow> mailed w w' \<and> mails w' = mails w \<and> r = Inr ()"
  by (auto simp: RecordSending_def RecordFailed_def RecordSuccess_def ignore_def attempt_def ret_def EmailLog_Insert_def outside_def
      mailed_def pop_fault_def split: prod.splits sum.splits option.splits if_splits)

text \<open>Under every schedule of failures: a mail is reported as sent exactly if the provider has taken it.\<close>

lemma Email_Send_run:
  assumes "Email_Send E m w = (r, w')"
  shows "mailed w w'" and "r = Inr () \<and> mails w' = mails w @ [m] \<or> r = Inl ErrSendingEmail \<and> mails w' = mails w"
proof -
  obtain r1 w1 where s: "RecordSending m w = (r1, w1)" by fastforce
  note f = Record_run(1) [OF s]
  have "mailed w w' \<and> (r = Inr () \<and> mails w' = mails w @ [m] \<or> r = Inl ErrSendingEmail \<and> mails w' = mails w)"
  proof (cases "faulty w1")
    case True
    obtain r2 w2 where s2: "RecordFailed m (pop_fault w1) = (r2, w2)" by fastforce
    from assms True s f s2 Record_run(2) [OF s2] show ?thesis
      by (auto simp: Email_Send_def bind_def attempt_def SendMail_def outside_def fail_def mailed_def pop_fault_def)
  next
    case False
    let ?w = "(pop_fault w1)\<lparr>mails := mails w1 @ [m]\<rparr>"
    obtain r2 w2 where s2: "RecordSuccess m (ev_mail_id E (length (mails w1))) ?w = (r2, w2)" by fastforce
    from assms False s f s2 Record_run(3) [OF s2] show ?thesis
      by (auto simp: Email_Send_def bind_def attempt_def SendMail_def outside_def mailed_def pop_fault_def)
  qed
  then show "mailed w w'" "r = Inr () \<and> mails w' = mails w @ [m] \<or> r = Inl ErrSendingEmail \<and> mails w' = mails w" by blast+
qed

text \<open>Without failures the log holds the mail twice, as being sent and as sent.\<close>

lemma Email_Send_logged:
  assumes "healthy w" and "char_length (EmailSender_String (em_sender m)) \<le> 255"
  shows "\<exists>w'. Email_Send E m w = (Inr (), w') \<and> map el_status (email_logs w') = map el_status (email_logs w) @ [''sending'', ''sent''] \<and>
    el_external_id (last (email_logs w')) = Some (ev_mail_id E (length (mails w)))"
  using assms
  by (simp add: Email_Send_def RecordSending_def RecordSuccess_def bind_def attempt_def ignore_def ret_def EmailLog_Insert_def log_row_def
      SendMail_run outside_def healthy_def faulty_def pop_fault_def tx_aborted_def SendMail_def)

lemma keeps_Email [frame_intros]:
  "keeps_fn tables (Email_Send E m)" "keeps_fn tx_snapshot (Email_Send E m)"
  unfolding Email_Send_def RecordSending_def RecordFailed_def RecordSuccess_def
  by (intro frame_intros)+

text \<open>The names of the recipient and of the device are put into the HTML as they came.\<close>

lemma name_in_html: "\<exists>a b. em_html (register_mail E to name url) = a @ name @ b" "\<exists>a b. em_html (login_mail E to n dev ip t) = a @ dev @ b"
proof -
  show "\<exists>a b. em_html (register_mail E to name url) = a @ name @ b"
    unfolding register_mail_def email.simps by (rule exI [of _ "''<p>Hi ''"]) blast
  show "\<exists>a b. em_html (login_mail E to n dev ip t) = a @ dev @ b"
    unfolding login_mail_def email.simps
    by (rule exI [of _ "''<p>Hi '' @ n @ '',</p><p>A new login was detected on your account.</p><ul><li><b>Device:</b> ''"])
      (simp only: append_assoc, blast)
qed

end
