(* ===== verification/Accounts.thy ===== *)
theory Accounts
  imports Email Participants
begin

text \<open>
  Accounts: their repository (\<open>account_repo.go\<close>), the writes to users and roles (\<open>user_repo.go\<close>,
  \<open>userrole_repo.go\<close>), the password hasher (\<open>argon2_hasher.go\<close>), the store of the verification tokens, and the use cases
  that register, verify, log in and read an account.
\<close>

section \<open>Account repository\<close>

text \<open>\<open>ToAccount\<close> drops the error of \<open>ParseEmail\<close>.\<close>

definition ToAccount :: "env \<Rightarrow> account_row \<Rightarrow> account_row" where
  "ToAccount E r = r\<lparr>ac_email := (case ev_ParseAddress E (ac_email r) of None \<Rightarrow> [] | Some a \<Rightarrow> a)\<rparr>"

definition getUserIDs :: "account_id \<Rightarrow> user_id list io" where
  "getUserIDs a = ScanAll (\<lambda>d. map us_id (filter (\<lambda>u. us_account_id u = a) (users d)))"

text \<open>The columns of the record cannot hold NULL: a row with a NULL in it cannot be scanned.\<close>

definition getAccountDevices :: "account_id \<Rightarrow> account_device list io" where
  "getAccountDevices a = bind (ScanAll (\<lambda>d. filter (\<lambda>x. ad_account_id x = a) (accounts_devices d))) (\<lambda>list.
     if list_ex (\<lambda>x. ad_last_ip x = None \<or> ad_last_seen_at x = None) list then fail Plain else ret list)"

definition findAccount :: "env \<Rightarrow> (account_row \<Rightarrow> bool) \<Rightarrow> account io" where
  "findAccount E cond =
     bind (ScanOne (\<lambda>d. filter cond (accounts d))) (\<lambda>record.
     bind (getUserIDs (ac_id record)) (\<lambda>userIDs.
     bind (getAccountDevices (ac_id record)) (\<lambda>devices.
     ret \<lparr>a_row = ToAccount E record, a_user_ids = userIDs, a_devices = devices\<rparr>)))"

definition Account_FindByID :: "env \<Rightarrow> account_id \<Rightarrow> account io" where
  "Account_FindByID E i = findAccount E (\<lambda>a. ac_id a = i)"

definition Account_FindByAccountName :: "env \<Rightarrow> string \<Rightarrow> account io" where
  "Account_FindByAccountName E n = findAccount E (\<lambda>a. ac_account_name a = n)"

definition Account_FindByEmail :: "env \<Rightarrow> string \<Rightarrow> account io" where
  "Account_FindByEmail E m = findAccount E (\<lambda>a. ac_email a = m)"

text \<open>What the constraints of the table say to a row; the unique ones are checked in the order of their creation.\<close>

definition account_conflict :: "db \<Rightarrow> account_row \<Rightarrow> pg_error option" where
  "account_conflict d a = (let others = filter (\<lambda>x. ac_id x \<noteq> ac_id a) (accounts d) in
     if 255 < char_length (ac_email a) \<or> 225 < char_length (ac_account_name a) \<or> \<not> - (2 ^ 31) \<le> ac_user_limit a \<or> 2 ^ 31 \<le> ac_user_limit a
     then Some Pg_OutOfRange
     else if ac_public_id a \<in> ac_public_id ` set others then Some Pg_UniqueViolation
     else if ac_email a \<in> ac_email ` set others then Some Pg_UniqueEmail
     else if ac_account_name a \<in> ac_account_name ` set others then Some Pg_UniqueAccount
     else None)"

definition Account_Create :: "account_row \<Rightarrow> account_id io" where
  "Account_Create a = attempt (sql T_accounts 1 (\<lambda>i now d.
       (let row = a\<lparr>ac_id := i, ac_created_at := now, ac_updated_at := now\<rparr> in
        case account_conflict d row of Some e \<Rightarrow> Inl e | None \<Rightarrow> Inr (i, d\<lparr>accounts := accounts d @ [row]\<rparr>))))
     (\<lambda>e. fail (if e = Pg Pg_UniqueEmail then Account DomainEmailExist
                else if e = Pg Pg_UniqueAccount then Account DomainAccountExist else e)) ret"

definition Account_Update :: "account_row \<Rightarrow> unit io" where
  "Account_Update a = Exec (\<lambda>now d.
     if ac_id a \<notin> ac_id ` set (accounts d) then Inr d
     else (case account_conflict d a of Some e \<Rightarrow> Inl e
       | None \<Rightarrow> Inr (d\<lparr>accounts := map (\<lambda>x. if ac_id x = ac_id a
           then x\<lparr>ac_email := ac_email a, ac_account_name := ac_account_name a, ac_password := ac_password a,
                  ac_status := ac_status a, ac_user_limit := ac_user_limit a, ac_updated_at := now\<rparr> else x) (accounts d)\<rparr>)))"

text \<open>The text of a missing IP is no value of type INET.\<close>

definition Account_RegisterDevice :: "account_id \<Rightarrow> device_id \<Rightarrow> string option \<Rightarrow> unit io" where
  "Account_RegisterDevice accountID deviceID ip = Exec (\<lambda>now d.
     case ip of
       None \<Rightarrow> Inl Pg_InvalidEnum
     | Some addr \<Rightarrow>
         if accountID \<notin> ac_id ` set (accounts d) \<or> deviceID \<notin> dv_id ` set (devices d) then Inl Pg_ForeignKey
         else if \<exists>x \<in> set (accounts_devices d). ad_account_id x = accountID \<and> ad_device_id x = deviceID
         then Inr (d\<lparr>accounts_devices := map (\<lambda>x. if ad_account_id x = accountID \<and> ad_device_id x = deviceID
              then x\<lparr>ad_last_ip := Some addr, ad_last_seen_at := Some now\<rparr> else x) (accounts_devices d)\<rparr>)
         else Inr (d\<lparr>accounts_devices := accounts_devices d @
              [\<lparr>ad_account_id = accountID, ad_device_id = deviceID, ad_last_ip = Some addr, ad_last_seen_at = Some now\<rparr>]\<rparr>))"

text \<open>Two statements, and no transaction of its own.\<close>

definition Account_ReplaceDevices :: "account_id \<Rightarrow> (device_id \<times> string option \<times> instant) list \<Rightarrow> unit io" where
  "Account_ReplaceDevices accountID devs =
     bind (Exec (\<lambda>_ d. Inr (d\<lparr>accounts_devices := filter (\<lambda>x. ad_account_id x \<noteq> accountID) (accounts_devices d)\<rparr>))) (\<lambda>_.
     if devs = [] then ret ()
     else Exec (\<lambda>_ d.
       if list_ex (\<lambda>(_, ip, _). ip = None) devs then Inl Pg_InvalidEnum
       else if \<not> distinct (map fst devs) \<or> (\<exists>x \<in> set (accounts_devices d). ad_account_id x = accountID \<and> ad_device_id x \<in> fst ` set devs)
       then Inl Pg_UniqueViolation
       else if accountID \<notin> ac_id ` set (accounts d) \<or> \<not> fst ` set devs \<subseteq> dv_id ` set (devices d) then Inl Pg_ForeignKey
       else Inr (d\<lparr>accounts_devices := accounts_devices d @ map (\<lambda>(v, ip, t).
         \<lparr>ad_account_id = accountID, ad_device_id = v, ad_last_ip = ip, ad_last_seen_at = Some t\<rparr>) devs\<rparr>)))"

section \<open>Users and roles\<close>

text \<open>The trigger counts the users of the account; the limit of an account that does not exist is NULL.\<close>

definition user_limit_exceeded :: "db \<Rightarrow> account_id \<Rightarrow> bool" where
  "user_limit_exceeded d a = (case List.find (\<lambda>x. ac_id x = a) (accounts d) of
     None \<Rightarrow> False
   | Some x \<Rightarrow> ac_user_limit x \<le> int (length (filter (\<lambda>u. us_account_id u = a) (users d))))"

definition User_Create :: "account_id \<Rightarrow> string \<Rightarrow> user_id io" where
  "User_Create accountID name = attempt (sql T_users 1 (\<lambda>i now d.
       if user_limit_exceeded d accountID then Inl Pg_LimitExceeded
       else if accountID \<notin> ac_id ` set (accounts d) then Inl Pg_ForeignKey
       else Inr (i, d\<lparr>users := users d @ [\<lparr>us_id = i, us_account_id = accountID, us_name = name, us_avatar = None,
              us_created_at = now, us_updated_at = now\<rparr>]\<rparr>)))
     (\<lambda>e. fail (if is_duplicate_key e then User ErrUserAlreadyExists else e)) ret"

definition User_FindByAccountID :: "account_id \<Rightarrow> user list io" where
  "User_FindByAccountID a = bind (ScanAll (\<lambda>d. filter (\<lambda>u. us_account_id u = a) (users d))) (\<lambda>rs. ret (map toUserDomain rs))"

definition User_Update :: "user \<Rightarrow> unit io" where
  "User_Update u = Exec (\<lambda>_ d. Inr (d\<lparr>users := map (\<lambda>x. if us_id x = u_id u
     then x\<lparr>us_name := u_name u, us_avatar := Some (u_avatar u)\<rparr> else x) (users d)\<rparr>))"

text \<open>\<open>INSERT ... SELECT\<close>: a code that is not in the table of roles inserts nothing.\<close>

definition UserRole_Assign :: "user_id \<Rightarrow> string \<Rightarrow> unit io" where
  "UserRole_Assign u code = Exec (\<lambda>_ d.
     (let new = filter (\<lambda>p. p \<notin> set (users_roles d)) (map (\<lambda>r. (u, fst r)) (filter (\<lambda>r. snd r = code) (roles d))) in
      if new \<noteq> [] \<and> u \<notin> us_id ` set (users d) then Inl Pg_ForeignKey
      else Inr (d\<lparr>users_roles := users_roles d @ new\<rparr>)))"

definition UserRole_Revoke :: "user_id \<Rightarrow> string \<Rightarrow> unit io" where
  "UserRole_Revoke u code = Exec (\<lambda>_ d. Inr (d\<lparr>users_roles :=
     filter (\<lambda>p. \<not> (fst p = u \<and> (\<exists>r \<in> set (roles d). snd r = code \<and> fst r = snd p))) (users_roles d)\<rparr>))"

definition UserRole_FindRolesByUser :: "user_id \<Rightarrow> string list io" where
  "UserRole_FindRolesByUser u = ScanAll (\<lambda>d. [c. (x, rid) \<leftarrow> users_roles d, (r, c) \<leftarrow> roles d, r = rid \<and> x = u])"

definition CodeFrom :: "string \<Rightarrow> err + string" where
  "CodeFrom s = (if s \<in> {''admin'', ''vendor'', ''user'', ''client''} then Inr s else Inl (User ErrInvalidType))"

section \<open>The password hasher\<close>

definition Argon2_Hash :: "env \<Rightarrow> string \<Rightarrow> string io" where
  "Argon2_Hash E password = bind rand_Read (\<lambda>salt.
     ret (RawStd_EncodeToString salt @ '':'' @ RawStd_EncodeToString (ev_IDKey E password salt)))"

definition Argon2_Verify :: "env \<Rightarrow> string \<Rightarrow> string \<Rightarrow> bool" where
  "Argon2_Verify E password storedHash = (case split_on (CHR '':'') storedHash of
     [a, b] \<Rightarrow> (case RawStd_DecodeString a of
         None \<Rightarrow> False
       | Some salt \<Rightarrow> (case RawStd_DecodeString b of
           None \<Rightarrow> False
         | Some hash \<Rightarrow> hash = ev_IDKey E password salt))
   | _ \<Rightarrow> False)"

section \<open>Verification tokens\<close>

definition verifyKey :: "string \<Rightarrow> string" where
  "verifyKey token = ''email_verify:'' @ token"

definition Verification_Store :: "env \<Rightarrow> string \<Rightarrow> account_id \<Rightarrow> unit io" where
  "Verification_Store E token accountID = Cache_Set (verifyKey token) (CachedText (FormatInt accountID)) (ev_verify_ttl E)"

definition Verification_Get :: "string \<Rightarrow> account_id option io" where
  "Verification_Get token = bind (Cache_Get (verifyKey token)) (\<lambda>data. case data of
     None \<Rightarrow> ret None
   | Some (CachedText s) \<Rightarrow> (case ParseInt s of None \<Rightarrow> fail Plain | Some i \<Rightarrow> ret (Some i))
   | Some _ \<Rightarrow> fail Plain)"

definition Verification_Delete :: "string \<Rightarrow> unit io" where
  "Verification_Delete token = Cache_Delete (verifyKey token)"

section \<open>Use cases\<close>

definition NewAccount :: "128 word \<Rightarrow> string \<Rightarrow> string \<Rightarrow> string \<Rightarrow> int \<Rightarrow> account_row" where
  "NewAccount publicID email account password userLimit =
     \<lparr>ac_id = 0, ac_public_id = publicID, ac_email = email, ac_account_name = account, ac_password = password,
      ac_status = Applying, ac_user_limit = userLimit, ac_created_at = 0, ac_updated_at = 0\<rparr>"

definition default_roles :: "string list" where
  "default_roles = [''user'']"

record register_input =
  rg_name :: string
  rg_account :: string
  rg_email :: string
  rg_password :: string

text \<open>The account that is updated at the end is the one built before the insert; its id is still zero.\<close>

definition register_steps :: "env \<Rightarrow> register_input \<Rightarrow> account_id io" where
  "register_steps E i = (case ev_ParseAddress E (rg_email i) of
     None \<Rightarrow> fail (Login ErrInvalidEmail)
   | Some emailAddr \<Rightarrow>
     attempt (Argon2_Hash E (rg_password i)) (\<lambda>_. fail (Login ErrInvalidPassword)) (\<lambda>hash.
     attempt rand_Read (\<lambda>_. fail (Login ErrRegisterFailed)) (\<lambda>bs.
     (let newAccount = NewAccount (ev_uuid_V4 E bs) emailAddr (rg_account i) hash 1 in
      attempt (Account_Create newAccount)
        (\<lambda>e. fail (Login (if e = Account DomainAccountExist then ErrAccountExist
                          else if e = Account DomainEmailExist then ErrEmailExist else ErrRegisterFailed))) (\<lambda>accountId.
      attempt (User_Create accountId (rg_name i)) (\<lambda>_. fail (Login ErrRegisterFailed)) (\<lambda>userID.
      attempt (for_each default_roles (UserRole_Assign userID)) (\<lambda>_. fail (Login ErrRegisterFailed)) (\<lambda>_.
      attempt (Account_Update newAccount) (\<lambda>_. fail (Login ErrRegisterFailed)) (\<lambda>_.
      attempt generateSecureToken (\<lambda>_. fail (Login ErrRegisterFailed)) (\<lambda>token.
      attempt (Verification_Store E token accountId) (\<lambda>_. fail (Login ErrRegisterFailed)) (\<lambda>_.
      attempt (Email_Send E (register_mail E (rg_email i) (rg_account i) (ev_base_url E @ ''/api/auth/verify-email?token='' @ token)))
        (\<lambda>_. fail (Login ErrRegisterFailed)) (\<lambda>_.
      ret accountId)))))))))))"

definition register_account :: "env \<Rightarrow> register_input \<Rightarrow> account_id io" where
  "register_account E i = with_tx (\<lambda>_. Login ErrRegisterFailed)
     (bind (register_steps E i) (\<lambda>accountId. bind commit_tx (\<lambda>_. ret accountId)))"

definition verify_email :: "env \<Rightarrow> string \<Rightarrow> unit io" where
  "verify_email E token = attempt (Verification_Get token) (\<lambda>_. fail (Login ErrTokenInvalid)) (\<lambda>r. case r of
     None \<Rightarrow> fail (Login ErrTokenInvalid)
   | Some accountID \<Rightarrow>
     attempt (Verification_Delete token) (\<lambda>_. fail (Login ErrRegisterFailed)) (\<lambda>_.
     attempt (Account_FindByID E accountID) (\<lambda>_. fail (Login ErrTokenInvalid)) (\<lambda>acc.
     guard (ac_status (a_row acc) = Applying) (Login ErrTokenInvalid) (
     attempt (Account_Update ((a_row acc)\<lparr>ac_status := Active\<rparr>)) (\<lambda>_. fail (Login ErrRegisterFailed)) ret))))"

text \<open>\<open>findAccount\<close> of the login: by email if the identifier is one, else by name.\<close>

definition login_account :: "env \<Rightarrow> string \<Rightarrow> account io" where
  "login_account E identifier = (case ev_ParseAddress E identifier of
     None \<Rightarrow> Account_FindByAccountName E identifier
   | Some emailAddr \<Rightarrow> attempt (Account_FindByEmail E emailAddr)
       (\<lambda>e. if e \<noteq> Account DomainAccountNotFound then fail e else Account_FindByAccountName E identifier) ret)"

fun castStatusError :: "account_status \<Rightarrow> login_err option" where
  "castStatusError Active = None"
| "castStatusError Banned = Some ErrAccountBanned"
| "castStatusError Applying = Some ErrAccountApplying"
| "castStatusError Inactive = Some ErrAccountInactive"
| "castStatusError Deleted = Some ErrAccountNotFound"

text \<open>
  The deferred function of the login rolls back when the variable \<open>err\<close> of the function is set.  An \<open>err\<close> declared in
  an inner block, and an error that is returned without being assigned, leave it nil: \<open>fail_and_rollback\<close> and \<open>fail\<close>
  are the two ways out.
\<close>

definition fail_and_rollback :: "err \<Rightarrow> 'a io" where
  "fail_and_rollback e = (\<lambda>w. (Inl e, rollback_tx w))"

text \<open>The user to log in as: the first one, or a new one with the default roles.\<close>

definition primary_user :: "account \<Rightarrow> user_id io" where
  "primary_user acc = (case a_user_ids acc of
     u # _ \<Rightarrow> ret u
   | [] \<Rightarrow> bind (User_Create (ac_id (a_row acc)) (ac_account_name (a_row acc))) (\<lambda>userID.
           bind (for_each default_roles (UserRole_Assign userID)) (\<lambda>_. ret userID)))"

definition login_steps :: "env \<Rightarrow> string \<Rightarrow> string \<Rightarrow> string \<Rightarrow> string option \<Rightarrow> token_pair io" where
  "login_steps E identifier password deviceID ip =
     attempt (login_account E identifier)
       (\<lambda>e. fail_and_rollback (Login (if e = Account DomainAccountNotFound then ErrAccountNotFound else ErrLoginFailed))) (\<lambda>acc.
     case castStatusError (ac_status (a_row acc)) of
       Some e \<Rightarrow> fail (Login e)
     | None \<Rightarrow>
       guard (Argon2_Verify E password (ac_password (a_row acc))) (Login ErrPasswordError) (
       attempt (primary_user acc) (\<lambda>_. fail (Login ErrLoginFailed)) (\<lambda>userID.
       case ParseDeviceIDE E deviceID of
         Inl _ \<Rightarrow> fail_and_rollback (Login ErrInvalidDeviceID)
       | Inr dev \<Rightarrow>
         attempt (Account_RegisterDevice (ac_id (a_row acc)) dev ip) (\<lambda>_. fail_and_rollback (Login ErrLoginFailed)) (\<lambda>_.
         attempt (SM_Create E (ac_id (a_row acc)) userID dev) (\<lambda>_. fail_and_rollback (Login ErrLoginFailed)) (\<lambda>tokenPair.
         attempt (Account_Update (a_row acc)) (\<lambda>_. fail_and_rollback (Login ErrLoginFailed)) (\<lambda>_.
         bind (if ev_is_dev E then ret () else spawn (LoginMail (ac_email (a_row acc)) (ac_account_name (a_row acc)) deviceID ip)) (\<lambda>_.
         bind commit_tx (\<lambda>_. ret tokenPair))))))))"

definition login :: "env \<Rightarrow> string \<Rightarrow> string \<Rightarrow> string \<Rightarrow> string option \<Rightarrow> token_pair io" where
  "login E identifier password deviceID ip =
     attempt begin_tx (\<lambda>_. fail (Login ErrLoginFailed)) (\<lambda>_. login_steps E identifier password deviceID ip)"

text \<open>The goroutine: the text of an address that is absent is what \<open>net.IP.String\<close> gives.\<close>

definition send_login_mail :: "env \<Rightarrow> string \<Rightarrow> string \<Rightarrow> string \<Rightarrow> string option \<Rightarrow> unit io" where
  "send_login_mail E email name deviceID ip = bind get_clock (\<lambda>now.
     ignore (Email_Send E (login_mail E email name deviceID (case ip of None \<Rightarrow> ''<nil>'' | Some s \<Rightarrow> s) now)) (ret ()))"

record profile_output =
  po_account :: account
  po_user :: user

definition get_profile :: "env \<Rightarrow> account_id \<Rightarrow> user_id \<Rightarrow> profile_output io" where
  "get_profile E accountID userID =
     attempt (Account_FindByID E accountID) (\<lambda>_. fail (Login ErrAccountNotFound)) (\<lambda>acc.
     attempt (User_FindByID userID) (\<lambda>_. fail (Login ErrLoginUserNotFound)) (\<lambda>u.
     ret \<lparr>po_account = acc, po_user = u\<rparr>))"

text \<open>
  \<open>AuthMiddleware\<close> from the token on: the session of the token, on the device the request names, and the user of the
  session with its roles; \<open>None\<close> leaves the request without an authentication.
\<close>

record auth_context =
  ax_account_id :: account_id
  ax_user_id :: user_id
  ax_roles :: "string list"
  ax_token :: string

definition authenticate :: "env \<Rightarrow> string \<Rightarrow> string \<Rightarrow> auth_context option io" where
  "authenticate E token deviceID =
     attempt (SM_FindByToken E token) (\<lambda>_. ret None) (\<lambda>session.
     if ev_uuid_String E (as_device_id session) \<noteq> deviceID then ret None
     else attempt (User_FindByID (as_user_id session)) (\<lambda>_. ret None) (\<lambda>u.
       ret (Some \<lparr>ax_account_id = as_account_id session, ax_user_id = as_user_id session,
         ax_roles = u_role_codes u, ax_token = token\<rparr>)))"

definition require_role :: "string list \<Rightarrow> auth_context option \<Rightarrow> bool" where
  "require_role required ctx = (case ctx of None \<Rightarrow> False | Some a \<Rightarrow> list_ex (\<lambda>r. r \<in> set required) (ax_roles a))"

end
