(* ===== verification/Devices.thy ===== *)
theory Devices
  imports Accounts E2EE_Keys
begin

text \<open>
  Devices: their repository (\<open>device_repo.go\<close>) and the six use cases on them.  Deleting a device deletes what
  references it: its links to accounts, its sessions and its keys.
\<close>

section \<open>Repository\<close>

fun platform_string :: "platform \<Rightarrow> string" where
  "platform_string Android = ''android''"
| "platform_string IOS = ''ios''"
| "platform_string Windows = ''windows''"
| "platform_string MacOS = ''macos''"
| "platform_string Linux = ''linux''"
| "platform_string Browser = ''browser''"
| "platform_string UnknownPlatform = ''unknown''"

definition ParsePlatform :: "string \<Rightarrow> err + platform" where
  "ParsePlatform s =
     (case List.find (\<lambda>p. platform_string p = s) [Android, IOS, Windows, MacOS, Linux, Browser, UnknownPlatform] of
        None \<Rightarrow> Inl (Device DomainInvalidPlatform) | Some p \<Rightarrow> Inr p)"

text \<open>The mapper reads the text of the id and of the platform back.\<close>

definition toDeviceDomain :: "env \<Rightarrow> device \<Rightarrow> err + device" where
  "toDeviceDomain E r = (case ParsePlatform (platform_string (dv_platform r)) of
     Inl e \<Rightarrow> Inl e
   | Inr p \<Rightarrow> (case ParseDeviceIDE E (ev_uuid_String E (dv_id r)) of
       Inl e \<Rightarrow> Inl e
     | Inr i \<Rightarrow> Inr (r\<lparr>dv_id := i, dv_platform := p\<rparr>)))"

definition Device_FindByID :: "env \<Rightarrow> device_id \<Rightarrow> device io" where
  "Device_FindByID E v =
     bind (not_found_as (Device DomainDeviceNotFound) (ScanOne (\<lambda>d. filter (\<lambda>x. dv_id x = v) (devices d)))) (\<lambda>r.
     check (toDeviceDomain E r) ret)"

fun toDeviceDomains :: "env \<Rightarrow> device list \<Rightarrow> err + device list" where
  "toDeviceDomains E [] = Inr []"
| "toDeviceDomains E (r # rs) = (case toDeviceDomain E r of
     Inl e \<Rightarrow> Inl e
   | Inr x \<Rightarrow> (case toDeviceDomains E rs of Inl e \<Rightarrow> Inl e | Inr xs \<Rightarrow> Inr (x # xs)))"

definition Device_FindAllByAccountID :: "env \<Rightarrow> account_id \<Rightarrow> device list io" where
  "Device_FindAllByAccountID E a =
     bind (ScanAll (\<lambda>d. [x. x \<leftarrow> devices d, l \<leftarrow> accounts_devices d, dv_id x = ad_device_id l \<and> ad_account_id l = a])) (\<lambda>rs.
     check (toDeviceDomains E rs) ret)"

text \<open>\<open>ON CONFLICT (id) DO NOTHING\<close>, and then the number of rows.\<close>

definition Device_Create :: "device \<Rightarrow> unit io" where
  "Device_Create x = bind (sql T_participants 0 (\<lambda>_ now d.
       if 255 < char_length (dv_name x) then Inl Pg_OutOfRange
       else if dv_id x \<in> dv_id ` set (devices d) then Inr (0 :: nat, d)
       else Inr (1, d\<lparr>devices := devices d @ [x\<lparr>dv_created_at := now, dv_updated_at := now\<rparr>]\<rparr>)))
     (\<lambda>rows. if rows = 0 then fail (Device DomainDeviceExists) else ret ())"

definition Device_Update :: "device \<Rightarrow> unit io" where
  "Device_Update x = Exec (\<lambda>now d.
     if 255 < char_length (dv_name x) then Inl Pg_OutOfRange
     else Inr (d\<lparr>devices := map (\<lambda>y. if dv_id y = dv_id x
       then y\<lparr>dv_name := dv_name x, dv_platform := dv_platform x, dv_updated_at := now\<rparr> else y) (devices d)\<rparr>))"

text \<open>The address and the time of the last login stay NULL.\<close>

definition Device_BindAccount :: "device_id \<Rightarrow> account_id \<Rightarrow> unit io" where
  "Device_BindAccount v a = Exec (\<lambda>_ d.
     if \<exists>l \<in> set (accounts_devices d). ad_account_id l = a \<and> ad_device_id l = v then Inr d
     else if a \<notin> ac_id ` set (accounts d) \<or> v \<notin> dv_id ` set (devices d) then Inl Pg_ForeignKey
     else Inr (d\<lparr>accounts_devices := accounts_devices d @
       [\<lparr>ad_account_id = a, ad_device_id = v, ad_last_ip = None, ad_last_seen_at = None\<rparr>]\<rparr>))"

text \<open>The row, and by \<open>ON DELETE CASCADE\<close> the rows that reference it.\<close>

definition delete_device_rows :: "device_id \<Rightarrow> db \<Rightarrow> db" where
  "delete_device_rows v d = d\<lparr>devices := filter (\<lambda>x. dv_id x \<noteq> v) (devices d),
     accounts_devices := filter (\<lambda>l. ad_device_id l \<noteq> v) (accounts_devices d),
     account_sessions := filter (\<lambda>s. se_device_id s \<noteq> v) (account_sessions d),
     identity_keys := filter (\<lambda>k. ik_device_id k \<noteq> v) (identity_keys d),
     signed_prekeys := filter (\<lambda>k. sp_device_id k \<noteq> v) (signed_prekeys d),
     otp_prekeys := filter (\<lambda>k. op_device_id k \<noteq> v) (otp_prekeys d)\<rparr>"

definition Device_DeleteByAccount :: "device_id \<Rightarrow> account_id \<Rightarrow> unit io" where
  "Device_DeleteByAccount v a = bind (sql T_participants 0 (\<lambda>_ _ d.
       if v \<in> dv_id ` set (devices d) \<and> (\<exists>l \<in> set (accounts_devices d). ad_device_id l = v \<and> ad_account_id l = a)
       then Inr (1 :: nat, delete_device_rows v d) else Inr (0, d)))
     (\<lambda>rows. if rows = 0 then fail (Device DomainDeviceNotFound) else ret ())"

section \<open>Use cases\<close>

text \<open>The formatted time stays an instant.\<close>

record device_output =
  do_device_id :: string
  do_name :: string
  do_platform :: string
  do_created_at :: instant

definition toDeviceOutput :: "env \<Rightarrow> device \<Rightarrow> device_output" where
  "toDeviceOutput E x = \<lparr>do_device_id = ev_uuid_String E (dv_id x), do_name = dv_name x,
     do_platform = platform_string (dv_platform x), do_created_at = dv_created_at x\<rparr>"

definition NewDevice :: "device_id \<Rightarrow> platform \<Rightarrow> string \<Rightarrow> device" where
  "NewDevice v p n = \<lparr>dv_id = v, dv_platform = p, dv_name = n, dv_created_at = 0, dv_updated_at = 0\<rparr>"

text \<open>A device that exists already is no error: the transaction is rolled back and the device returned.\<close>

definition register_device :: "env \<Rightarrow> string \<Rightarrow> string \<Rightarrow> string \<Rightarrow> device_output io" where
  "register_device E DeviceID Platform Name = with_tx (\<lambda>_. DeviceUc ErrDeviceRegisterFailed)
     (case ParseDeviceIDE E DeviceID of
        Inl _ \<Rightarrow> fail (DeviceUc ErrInvalidDevice)
      | Inr deviceID \<Rightarrow> (case ParsePlatform Platform of
          Inl _ \<Rightarrow> fail (DeviceUc ErrInvalidPlatform)
        | Inr platform \<Rightarrow>
          attempt (Device_Create (NewDevice deviceID platform Name))
            (\<lambda>e. if e \<noteq> Device DomainDeviceExists then fail (DeviceUc ErrDeviceRegisterFailed)
              else attempt (Device_FindByID E deviceID) (\<lambda>_. fail (DeviceUc ErrDeviceRegisterFailed))
                (\<lambda>existing w. (Inr (toDeviceOutput E existing), rollback_tx w)))
            (\<lambda>_. attempt (Device_FindByID E deviceID) (\<lambda>_. fail (DeviceUc ErrDeviceRegisterFailed))
              (\<lambda>newDevice. bind commit_tx (\<lambda>_. ret (toDeviceOutput E newDevice))))))"

definition bind_account :: "env \<Rightarrow> auth_context option \<Rightarrow> string \<Rightarrow> (string \<times> account_id) io" where
  "bind_account E auth DeviceID = (case auth of
     None \<Rightarrow> fail (DeviceUc ErrUnauthorized)
   | Some au \<Rightarrow> (case ParseDeviceIDE E DeviceID of
       Inl _ \<Rightarrow> fail (DeviceUc ErrInvalidDevice)
     | Inr deviceID \<Rightarrow>
       attempt (Device_FindByID E deviceID) (\<lambda>_. fail (DeviceUc ErrDeviceNotFound)) (\<lambda>_.
       attempt (Device_BindAccount deviceID (ax_account_id au)) (\<lambda>_. fail (DeviceUc ErrBindFailed)) (\<lambda>_.
       ret (ev_uuid_String E deviceID, ax_account_id au)))))"

definition delete_device :: "env \<Rightarrow> auth_context option \<Rightarrow> string \<Rightarrow> unit io" where
  "delete_device E auth DeviceID = (case auth of
     None \<Rightarrow> fail (DeviceUc ErrUnauthorized)
   | Some au \<Rightarrow> (case ParseDeviceIDE E DeviceID of
       Inl _ \<Rightarrow> fail (DeviceUc ErrInvalidDevice)
     | Inr deviceID \<Rightarrow>
       attempt (Device_DeleteByAccount deviceID (ax_account_id au)) (\<lambda>_. fail (DeviceUc ErrDeviceNotFound)) ret))"

definition get_device :: "env \<Rightarrow> string \<Rightarrow> device_output io" where
  "get_device E DeviceID = (case ParseDeviceIDE E DeviceID of
     Inl _ \<Rightarrow> fail (DeviceUc ErrInvalidDevice)
   | Inr deviceID \<Rightarrow>
     attempt (Device_FindByID E deviceID)
       (\<lambda>e. fail (if e = Device DomainDeviceNotFound then DeviceUc ErrDeviceNotFound else e))
       (\<lambda>x. ret (toDeviceOutput E x)))"

definition list_devices :: "env \<Rightarrow> auth_context option \<Rightarrow> device_output list io" where
  "list_devices E auth = (case auth of
     None \<Rightarrow> fail (DeviceUc ErrUnauthorized)
   | Some au \<Rightarrow> bind (Device_FindAllByAccountID E (ax_account_id au)) (\<lambda>ds. ret (map (toDeviceOutput E) ds)))"

text \<open>No authentication is looked at.\<close>

definition update_device :: "env \<Rightarrow> string \<Rightarrow> string \<Rightarrow> string \<Rightarrow> device_output io" where
  "update_device E DeviceID Name Platform = (case ParseDeviceIDE E DeviceID of
     Inl _ \<Rightarrow> fail (DeviceUc ErrInvalidDevice)
   | Inr deviceID \<Rightarrow>
     attempt (Device_FindByID E deviceID) (\<lambda>_. fail (DeviceUc ErrDeviceNotFound)) (\<lambda>x.
     case ParsePlatform Platform of
       Inl _ \<Rightarrow> fail (DeviceUc ErrInvalidPlatform)
     | Inr p \<Rightarrow>
       (let x' = x\<lparr>dv_name := Name, dv_platform := p\<rparr> in
        attempt (Device_Update x') (\<lambda>_. fail (DeviceUc ErrUpdateFailed)) (\<lambda>_. ret (toDeviceOutput E x')))))"

end
