(* ===== verification/Users.thy ===== *)
theory Users
  imports Accounts Friendship Messages
begin

text \<open>
  Users: the searches of \<open>user_repo.go\<close>, the use cases that read, search and update a profile, and the upload of an
  avatar with the local file storage.
\<close>

section \<open>Searching\<close>

text \<open>\<open>ILIKE\<close>: \<open>%\<close> stands for any text, \<open>_\<close> for any character, a backslash takes the next character as it is; letters
  are compared without their case.  The keyword is put into the pattern as it came.\<close>

fun ilike :: "string \<Rightarrow> string \<Rightarrow> bool" where
  "ilike [] s = (s = [])"
| "ilike (p # ps) [] = (p = CHR ''%'' \<and> ilike ps [])"
| "ilike (p # ps) (c # s) =
     (if p = CHR ''%'' then ilike ps (c # s) \<or> ilike (p # ps) s
      else if p = CHR ''_'' then ilike ps s
      else if p = CHR 0x5C then (case ps of [] \<Rightarrow> False | q # qs \<Rightarrow> to_lower q = to_lower c \<and> ilike qs s)
      else to_lower p = to_lower c \<and> ilike ps s)"

record user_search_result =
  ur_id :: user_id
  ur_name :: string
  ur_avatar :: string
  ur_public_id :: string
  ur_account_name :: string

definition toSearchDomain :: "env \<Rightarrow> user_row \<times> account_row \<Rightarrow> user_search_result" where
  "toSearchDomain E = (\<lambda>(u, a). \<lparr>ur_id = us_id u, ur_name = us_name u,
     ur_avatar = (case us_avatar u of None \<Rightarrow> [] | Some x \<Rightarrow> x),
     ur_public_id = ev_uuid_String E (ac_public_id a), ur_account_name = ac_account_name a\<rparr>)"

definition search_rows :: "(user_row \<Rightarrow> account_row \<Rightarrow> bool) \<Rightarrow> int \<Rightarrow> int \<Rightarrow> db \<Rightarrow> (user_row \<times> account_row) list" where
  "search_rows cond lim off d =
     (let rows = [(u, a). u \<leftarrow> users d, a \<leftarrow> accounts d, us_account_id u = ac_id a \<and> cond u a];
          rest = (if 0 < off then drop (nat off) rows else rows) in
      if 0 < lim then take (nat lim) rest else rest)"

definition searchJoinQuery :: "env \<Rightarrow> (user_row \<Rightarrow> account_row \<Rightarrow> bool) \<Rightarrow> int \<Rightarrow> int \<Rightarrow> user_search_result list io" where
  "searchJoinQuery E cond lim off =
     bind (ScanAll (search_rows cond lim off)) (\<lambda>rs. ret (map (toSearchDomain E) rs))"

definition User_SearchByName :: "env \<Rightarrow> string \<Rightarrow> int \<Rightarrow> int \<Rightarrow> user_search_result list io" where
  "User_SearchByName E keyword = searchJoinQuery E (\<lambda>u _. ilike (''%'' @ keyword @ ''%'') (us_name u))"

definition User_FindByAccountName :: "env \<Rightarrow> string \<Rightarrow> int \<Rightarrow> int \<Rightarrow> user_search_result list io" where
  "User_FindByAccountName E name = searchJoinQuery E (\<lambda>_ a. ac_account_name a = name)"

text \<open>A text that is no UUID makes the statement fail; the forms of a UUID are those of the library.\<close>

definition User_FindByPublicID :: "env \<Rightarrow> string \<Rightarrow> int \<Rightarrow> int \<Rightarrow> user_search_result list io" where
  "User_FindByPublicID E publicID lim off = (case ev_FromString E publicID of
     None \<Rightarrow> sql T_participants 0 (\<lambda>_ _ _. Inl Pg_InvalidEnum)
   | Some i \<Rightarrow> searchJoinQuery E (\<lambda>_ a. ac_public_id a = i) lim off)"

definition defaultSearchLimit :: int where
  "defaultSearchLimit = 50"

record search_input =
  sr_name :: string
  sr_account :: string
  sr_public_id :: string
  sr_limit :: int
  sr_offset :: int

text \<open>The status of the link with each other user: a later row overwrites an earlier one, and a failed query
  leaves the map empty.\<close>

definition friendship_map :: "user_id \<Rightarrow> friendship list \<Rightarrow> user_id \<Rightarrow> friendship_status option" where
  "friendship_map userID fs = foldl (\<lambda>m f. m((if fr_user_id f \<noteq> userID then fr_user_id f else fr_friend_id f) \<mapsto> fr_status f))
     (\<lambda>_. None) fs"

definition buildFriendshipMap :: "user_id \<Rightarrow> (user_id \<Rightarrow> friendship_status option) io" where
  "buildFriendshipMap userID = attempt (Friendship_FindAllByUserID userID) (\<lambda>_. ret (\<lambda>_. None))
     (\<lambda>fs. ret (friendship_map userID fs))"

definition search_users :: "env \<Rightarrow> user_id \<Rightarrow> search_input \<Rightarrow> (user_search_result \<times> friendship_status option) list io" where
  "search_users E userID i =
     guard (length (filter (\<lambda>s. s \<noteq> []) [sr_name i, sr_account i, sr_public_id i]) = 1) (User ErrInvalidSearchInput) (
     (let lim = (if sr_limit i \<le> 0 then defaultSearchLimit else sr_limit i);
          off = (if sr_offset i < 0 then 0 else sr_offset i) in
      bind (if sr_name i \<noteq> [] then User_SearchByName E (sr_name i) lim off
            else if sr_account i \<noteq> [] then User_FindByAccountName E (sr_account i) lim off
            else User_FindByPublicID E (sr_public_id i) lim off) (\<lambda>results.
      bind (buildFriendshipMap userID) (\<lambda>m.
      ret (map (\<lambda>r. (r, m (ur_id r))) results)))))"

section \<open>Profiles\<close>

record profile =
  pf_id :: user_id
  pf_name :: string
  pf_avatar :: string
  pf_role_codes :: "string list"

definition profile_of :: "user \<Rightarrow> profile" where
  "profile_of u = \<lparr>pf_id = u_id u, pf_name = u_name u, pf_avatar = u_avatar u, pf_role_codes = u_role_codes u\<rparr>"

definition get_user_profile :: "user_id \<Rightarrow> profile io" where
  "get_user_profile i = attempt (User_FindByID i) (\<lambda>_. fail (User ErrUserNotFound)) (\<lambda>u. ret (profile_of u))"

fun codes_from :: "string list \<Rightarrow> err + string list" where
  "codes_from [] = Inr []"
| "codes_from (s # ss) = (case CodeFrom s of
     Inl _ \<Rightarrow> Inl (User ErrInvalidRoleCode)
   | Inr c \<Rightarrow> (case codes_from ss of Inl e \<Rightarrow> Inl e | Inr cs \<Rightarrow> Inr (c # cs)))"

text \<open>The roles of the user are revoked one by one and then the new ones assigned, in statements of their own.\<close>

definition replace_roles :: "user_id \<Rightarrow> string list \<Rightarrow> unit io" where
  "replace_roles u newCodes =
     attempt (UserRole_FindRolesByUser u) (\<lambda>_. fail (User ErrUpdateProfile)) (\<lambda>existing.
     attempt (for_each existing (UserRole_Revoke u)) (\<lambda>_. fail (User ErrUpdateProfile)) (\<lambda>_.
     attempt (for_each newCodes (UserRole_Assign u)) (\<lambda>_. fail (User ErrUpdateProfile)) ret))"

definition update_profile :: "user_id \<Rightarrow> string \<Rightarrow> string list \<Rightarrow> profile io" where
  "update_profile userID Name RoleCodes =
     attempt (User_FindByID userID) (\<lambda>_. fail (User ErrUserNotFound)) (\<lambda>u.
     (let u1 = u\<lparr>u_name := Name\<rparr> in
      case codes_from RoleCodes of
        Inl e \<Rightarrow> fail e
      | Inr newCodes \<Rightarrow>
        attempt (if u_name u \<noteq> Name then User_Update u1 else ret ()) (\<lambda>_. fail (User ErrUpdateProfile)) (\<lambda>_.
        if RoleCodes \<noteq> [] then bind (replace_roles (u_id u1) newCodes) (\<lambda>_. ret (profile_of (u1\<lparr>u_role_codes := newCodes\<rparr>)))
        else ret (profile_of u1))))"

section \<open>The file storage\<close>

text \<open>
  The files under the base path, by their full path.  A write that fails may leave a part of the data behind:
  \<open>st_partial\<close> says which.
\<close>

type_synonym disk = "string \<Rightarrow> bytes option"
type_synonym 'a dio = "(world \<times> disk, 'a) eff"

definition on_db :: "'a io \<Rightarrow> 'a dio" where
  "on_db m = (\<lambda>(w, f). case m w of (r, w') \<Rightarrow> (r, (w', f)))"

record storage =
  st_base_path :: string
  st_base_url :: string
  st_partial :: "bytes \<Rightarrow> bytes option"

definition Storage_URL :: "storage \<Rightarrow> string \<Rightarrow> string" where
  "Storage_URL S path = st_base_url S @ ''/'' @ path"

definition write_file :: "storage \<Rightarrow> bytes \<Rightarrow> string \<Rightarrow> save_result dio" where
  "write_file S data dest = (\<lambda>(w, f).
     if faulty w then (Inl Plain, (pop_fault w, f(path_Join [st_base_path S, dest] := st_partial S data)))
     else (Inr \<lparr>sv_url = Storage_URL S dest, sv_path = dest, sv_size = int (length data)\<rparr>,
       (pop_fault w, f(path_Join [st_base_path S, dest] := Some data))))"

definition Storage_Save :: "storage \<Rightarrow> bytes \<Rightarrow> string \<Rightarrow> save_result dio" where
  "Storage_Save S data dest = (\<lambda>(w, f).
     if f (path_Join [st_base_path S, dest]) \<noteq> None then (Inl ErrFileAlreadyExists, (w, f))
     else write_file S data dest (w, f))"

text \<open>\<open>SaveStream\<close> overwrites.\<close>

definition Storage_SaveStream :: "storage \<Rightarrow> bytes \<Rightarrow> string \<Rightarrow> save_result dio" where
  "Storage_SaveStream S data dest = write_file S data dest"

definition Storage_Delete :: "storage \<Rightarrow> string \<Rightarrow> unit dio" where
  "Storage_Delete S path = (\<lambda>(w, f).
     if faulty w then (Inl Plain, (pop_fault w, f))
     else (Inr (), (pop_fault w, f(path_Join [st_base_path S, path] := None))))"

section \<open>Avatars\<close>

text \<open>\<open>Sum256\<close> is SHA-256, and \<open>render\<close> the image library: decoding, cropping to a square, resizing and encoding.  The name
  of the file is never blank, so \<open>NewFile\<close> accepts it.\<close>

definition ContentHash :: "(bytes \<Rightarrow> bytes) \<Rightarrow> bytes \<Rightarrow> string" where
  "ContentHash Sum256 data = hex_EncodeToString (Sum256 data)"

definition avatar_path :: "user_id \<Rightarrow> string \<Rightarrow> string" where
  "avatar_path u ver = path_Join [path_Join [''avatars'', FormatInt u], FormatInt u @ ''_'' @ ver @ ''.jpg'']"

definition upload_avatar :: "storage \<Rightarrow> (bytes \<Rightarrow> bytes) \<Rightarrow> (bytes \<Rightarrow> bytes option) \<Rightarrow> user_id \<Rightarrow> bytes \<Rightarrow> string dio" where
  "upload_avatar S Sum256 render userID img =
     attempt (on_db (User_FindByID userID)) (\<lambda>_. fail (User ErrUserNotFound)) (\<lambda>u.
     case render img of
       None \<Rightarrow> fail (User ErrUploadFile)
     | Some data \<Rightarrow>
       (let path = avatar_path (u_id u) (take 12 (ContentHash Sum256 data));
            oldAvatarPath = path_Join [[], u_avatar u] in
        attempt (Storage_Save S data path)
          (\<lambda>e. if e = ErrFileAlreadyExists then
             (if u_avatar u \<noteq> path
              then attempt (on_db (User_Update (u\<lparr>u_avatar := path\<rparr>))) (\<lambda>_. fail (User ErrUploadFile)) (\<lambda>_. ret path)
              else ret path)
           else fail (User ErrUploadFile))
          (\<lambda>result.
           attempt (on_db (User_Update (u\<lparr>u_avatar := sv_path result\<rparr>))) (\<lambda>_. fail (User ErrUploadFile)) (\<lambda>_.
           bind (if oldAvatarPath \<noteq> [] \<and> oldAvatarPath \<noteq> sv_path result then on_db (spawn (DeleteFile oldAvatarPath)) else ret ())
             (\<lambda>_. ret (sv_path result))))))"

text \<open>The goroutine that deletes the old file; its failure is only logged.\<close>

definition delete_old_avatar :: "storage \<Rightarrow> string \<Rightarrow> unit dio" where
  "delete_old_avatar S path = ignore (Storage_Delete S path) (ret ())"

end
