(* ===== verification/Http.thy ===== *)
theory Http
  imports Http_Errors Ollama Rate_Limit Devices Users E2EE_Calls Sender_Keys Hub
begin

text \<open>
  The HTTP interface: the chain of middlewares and the handler of every REST route (\<open>bootstrap/rest.go\<close>,
  \<open>middleware/*.go\<close>, \<open>handler/*\<close>), and the messages of a WebSocket client (\<open>ws/router.go\<close>).  The binding of a
  body or a query by the web framework is outside of the model: a request carries the bound value, or \<open>None\<close> where
  the binding fails.
\<close>

section \<open>The server\<close>

record server =
  sv_redis :: redis
  sv_world :: world
  sv_disk :: disk

type_synonym 'a srv = "(server, 'a) eff"

definition on_world :: "'a io \<Rightarrow> 'a srv" where
  "on_world m = (\<lambda>s. case m (sv_world s) of (r, w) \<Rightarrow> (r, s\<lparr>sv_world := w\<rparr>))"

definition on_redis :: "'a rate \<Rightarrow> 'a srv" where
  "on_redis m = (\<lambda>s. case m (sv_redis s) of (r, x) \<Rightarrow> (r, s\<lparr>sv_redis := x\<rparr>))"

definition on_disk :: "'a dio \<Rightarrow> 'a srv" where
  "on_disk m = (\<lambda>s. case m (sv_world s, sv_disk s) of (r, (w, f)) \<Rightarrow> (r, s\<lparr>sv_world := w, sv_disk := f\<rparr>))"

text \<open>What the handlers use of the environment.\<close>

record config =
  cf_env :: env
  cf_keys :: key_env
  cf_storage :: storage
  cf_Sum256 :: "bytes \<Rightarrow> bytes"
  cf_render :: "bytes \<Rightarrow> bytes option"
  cf_newV4 :: "err + string"
  cf_SaveStream :: "string \<Rightarrow> save_result io"
  cf_global :: policy
  cf_ip :: policy
  cf_ollama :: ollama_env

text \<open>The body of a success, as the value it encodes; the access token of a login travels in a header.\<close>

record invitation_view =
  iv_found :: bool
  iv_invitation_id :: "invitation_id option"
  iv_role :: "invitation_role option"
  iv_inviter_name :: "string option"
  iv_inviter_avatar :: "string option"
  iv_inviter_user_id :: "user_id option"

datatype payload =
    NoBody
  | PToken string
  | PAccount profile_output
  | PProfile profile
  | PPath string
  | PFound "(user_search_result \<times> friendship_status option) list"
  | PFriends "friend_item list"
  | PRequests "request_item list"
  | PDevice device_output
  | PDevices "device_output list"
  | PBound "string \<times> account_id"
  | PRoom create_room_output
  | PRooms user_rooms
  | PJoined join_output
  | PResolved resolve_output
  | PDetail room_detail
  | PMine invitation_view
  | PMessages messages_output
  | PStatuses "member_status list"
  | PSent send_message_output
  | PMedia media_output
  | PParticipant participant_output
  | PFingerprint string
  | PCount int
  | PBundle key_bundle
  | PSenderKeys "sender_key_item list"
  | PDistribution distribution_status
  | PStream string

datatype reply = Success int payload | Failure int string

definition failure :: "answer \<Rightarrow> reply" where
  "failure a = (case answered a of (st, code) \<Rightarrow> Failure st code)"

text \<open>\<open>out, err := uc.Execute(...); if err != nil { HandleError(c, err); return }; c.JSON(status, ...)\<close>.\<close>

definition respond :: "(err \<Rightarrow> answer) \<Rightarrow> int \<Rightarrow> ('a \<Rightarrow> payload) \<Rightarrow> 'a srv \<Rightarrow> reply srv" where
  "respond onError status body m = attempt m (\<lambda>e. ret (failure (onError e))) (\<lambda>x. ret (Success status (body x)))"

definition with_id :: "string \<Rightarrow> reply \<Rightarrow> (int \<Rightarrow> reply srv) \<Rightarrow> reply srv" where
  "with_id s r k = (case ParseInt s of None \<Rightarrow> ret r | Some i \<Rightarrow> k i)"

definition with_body :: "'a option \<Rightarrow> reply \<Rightarrow> ('a \<Rightarrow> reply srv) \<Rightarrow> reply srv" where
  "with_body b r k = (case b of None \<Rightarrow> ret r | Some x \<Rightarrow> k x)"

section \<open>Accounts\<close>

record login_body =
  lb_device_id :: string
  lb_identifier :: string
  lb_password :: string

definition h_register :: "config \<Rightarrow> register_input option \<Rightarrow> reply srv" where
  "h_register cf b = with_body b (failure (account_answer Plain)) (\<lambda>req.
     respond account_answer 201 (\<lambda>_. NoBody) (on_world (register_account (cf_env cf) req)))"

definition h_login :: "config \<Rightarrow> string option \<Rightarrow> login_body option \<Rightarrow> reply srv" where
  "h_login cf ip b = with_body b (failure (account_answer Plain)) (\<lambda>req.
     respond account_answer 200 (\<lambda>p. PToken (tp_access p))
       (on_world (login (cf_env cf) (lb_identifier req) (lb_password req) (lb_device_id req) ip)))"

definition h_logout :: "config \<Rightarrow> auth_context \<Rightarrow> reply srv" where
  "h_logout cf au = respond account_answer 200 (\<lambda>_. NoBody) (on_world (logout (cf_env cf) (ax_token au)))"

definition h_account_profile :: "config \<Rightarrow> auth_context \<Rightarrow> reply srv" where
  "h_account_profile cf au =
     respond account_answer 200 PAccount (on_world (get_profile (cf_env cf) (ax_account_id au) (ax_user_id au)))"

definition h_verify_email :: "config \<Rightarrow> string \<Rightarrow> reply srv" where
  "h_verify_email cf token =
     (if token = [] then ret (failure (account_answer (Login ErrTokenInvalid)))
      else respond account_answer 200 (\<lambda>_. NoBody) (on_world (verify_email (cf_env cf) token)))"

section \<open>Users\<close>

definition h_user_profile :: "string \<Rightarrow> reply srv" where
  "h_user_profile i = with_id i (failure (user_answer Plain)) (\<lambda>u.
     respond user_answer 200 PProfile (on_world (get_user_profile u)))"

definition h_update_profile :: "auth_context \<Rightarrow> (string \<times> string list) option \<Rightarrow> reply srv" where
  "h_update_profile au b = with_body b (failure (user_answer Plain)) (\<lambda>(name, codes).
     respond user_answer 200 PProfile (on_world (update_profile (ax_user_id au) name codes)))"

definition isAllowedImageType :: "string \<Rightarrow> bool" where
  "isAllowedImageType mime \<longleftrightarrow> mime \<in> {''image/jpeg'', ''image/png'', ''image/webp''}"

text \<open>The form file of an upload: whether the body exceeds its limit, and the content with its detected type.\<close>

datatype upload = TooLarge | NoFile | Uploaded string string bytes

definition h_upload_avatar :: "config \<Rightarrow> auth_context \<Rightarrow> upload \<Rightarrow> reply srv" where
  "h_upload_avatar cf au up = (case up of
     TooLarge \<Rightarrow> ret (failure (user_answer (UserDomain DomainImageTooLarge)))
   | NoFile \<Rightarrow> ret (failure (user_answer Plain))
   | Uploaded filename mime data \<Rightarrow>
       (if \<not> isAllowedImageType mime then ret (failure (user_answer (UserDomain DomainInvalidImageType)))
        else respond user_answer 200 PPath
          (on_disk (upload_avatar (cf_storage cf) (cf_Sum256 cf) (cf_render cf) (ax_user_id au) data))))"

text \<open>\<open>strconv.Atoi\<close> with its error dropped: no number is zero, one out of range is the nearest bound.\<close>

definition Atoi_value :: "string \<Rightarrow> int" where
  "Atoi_value s = (case ParseInt s of Some i \<Rightarrow> i
     | None \<Rightarrow> (let (neg, ds) = (case s of [] \<Rightarrow> (False, s)
            | c # cs \<Rightarrow> if c = CHR ''-'' then (True, cs) else if c = CHR ''+'' then (False, cs) else (False, s))
        in case parse_nat ds of None \<Rightarrow> 0 | Some _ \<Rightarrow> if neg then - (2 ^ 63) else 2 ^ 63 - 1))"

record search_query =
  sq_name :: string
  sq_account :: string
  sq_public_id :: string
  sq_limit :: "string option"
  sq_offset :: "string option"

definition or_default :: "string \<Rightarrow> string option \<Rightarrow> string" where
  "or_default d s = (case s of None \<Rightarrow> d | Some x \<Rightarrow> x)"

definition h_search_users :: "config \<Rightarrow> auth_context \<Rightarrow> search_query \<Rightarrow> reply srv" where
  "h_search_users cf au q = respond user_answer 200 PFound (on_world (search_users (cf_env cf) (ax_user_id au)
     \<lparr>sr_name = sq_name q, sr_account = sq_account q, sr_public_id = sq_public_id q,
      sr_limit = Atoi_value (or_default ''50'' (sq_limit q)), sr_offset = Atoi_value (or_default ''0'' (sq_offset q))\<rparr>))"

section \<open>Friendships\<close>

definition invalid_id :: reply where
  "invalid_id = Failure 400 ''INVALID_ID''"

definition h_friends :: "auth_context \<Rightarrow> reply srv" where
  "h_friends au = respond friendship_answer 200 PFriends (on_world (get_friends (ax_user_id au)))"

text \<open>A body that does not bind goes to the translator of the users.\<close>

definition h_apply_friend :: "auth_context \<Rightarrow> user_id option \<Rightarrow> reply srv" where
  "h_apply_friend au b = with_body b (failure (user_answer Plain)) (\<lambda>friend.
     respond friendship_answer 200 (\<lambda>_. NoBody) (on_world (apply_friendship (ax_user_id au) friend)))"

definition h_accept_friend :: "auth_context \<Rightarrow> string \<Rightarrow> reply srv" where
  "h_accept_friend au i = with_id i invalid_id (\<lambda>f.
     respond friendship_answer 200 (\<lambda>_. NoBody) (on_world (accept_friendship (ax_user_id au) f)))"

definition h_friend_requests :: "auth_context \<Rightarrow> reply srv" where
  "h_friend_requests au = respond friendship_answer 200 PRequests (on_world (get_friend_requests (ax_user_id au)))"

definition h_remove_friend :: "auth_context \<Rightarrow> string \<Rightarrow> reply srv" where
  "h_remove_friend au i = with_id i invalid_id (\<lambda>f.
     respond friendship_answer 200 (\<lambda>_. NoBody) (on_world (remove_friendship (ax_user_id au) f)))"

definition h_sent_requests :: "auth_context \<Rightarrow> reply srv" where
  "h_sent_requests au = respond friendship_answer 200 PRequests (on_world (get_sent_requests (ax_user_id au)))"

definition h_cancel_request :: "auth_context \<Rightarrow> string \<Rightarrow> reply srv" where
  "h_cancel_request au i = with_id i invalid_id (\<lambda>f.
     respond friendship_answer 200 (\<lambda>_. NoBody) (on_world (cancel_sent_request (ax_user_id au) f)))"

definition h_block_user :: "auth_context \<Rightarrow> string \<Rightarrow> reply srv" where
  "h_block_user au i = with_id i invalid_id (\<lambda>u.
     respond friendship_answer 200 (\<lambda>_. NoBody) (on_world (block_user (ax_user_id au) u)))"

definition h_unblock_user :: "auth_context \<Rightarrow> string \<Rightarrow> reply srv" where
  "h_unblock_user au i = with_id i invalid_id (\<lambda>u.
     respond friendship_answer 200 (\<lambda>_. NoBody) (on_world (unblock_user (ax_user_id au) u)))"

section \<open>Devices\<close>

definition bad_device_body :: reply where
  "bad_device_body = Failure 400 []"

definition h_register_device :: "config \<Rightarrow> (string \<times> string \<times> string) option \<Rightarrow> reply srv" where
  "h_register_device cf b = with_body b bad_device_body (\<lambda>(dev, name, platform).
     respond device_answer 201 PDevice (on_world (register_device (cf_env cf) dev platform name)))"

definition h_device_info :: "config \<Rightarrow> string \<Rightarrow> reply srv" where
  "h_device_info cf dev = respond device_answer 200 PDevice (on_world (get_device (cf_env cf) dev))"

definition h_update_device :: "config \<Rightarrow> string \<Rightarrow> (string \<times> string) option \<Rightarrow> reply srv" where
  "h_update_device cf dev b = with_body b bad_device_body (\<lambda>(name, platform).
     respond device_answer 200 PDevice (on_world (update_device (cf_env cf) dev name platform)))"

definition h_list_devices :: "config \<Rightarrow> auth_context \<Rightarrow> reply srv" where
  "h_list_devices cf au = respond device_answer 200 PDevices (on_world (list_devices (cf_env cf) (Some au)))"

definition h_bind_device :: "config \<Rightarrow> auth_context \<Rightarrow> string \<Rightarrow> reply srv" where
  "h_bind_device cf au dev = respond device_answer 200 PBound (on_world (bind_account (cf_env cf) (Some au) dev))"

definition h_delete_device :: "config \<Rightarrow> auth_context \<Rightarrow> string \<Rightarrow> reply srv" where
  "h_delete_device cf au dev = respond device_answer 204 (\<lambda>_. NoBody) (on_world (delete_device (cf_env cf) (Some au) dev))"

section \<open>Rooms and messages\<close>

definition invalid_request :: reply where
  "invalid_request = Failure 400 ''INVALID_REQUEST''"

text \<open>The stored path of an image or a file becomes its URL.\<close>

definition resolveContentURL :: "config \<Rightarrow> string \<Rightarrow> message_type \<Rightarrow> string" where
  "resolveContentURL cf content ty = (if ty \<in> {Image, File} then Storage_URL (cf_storage cf) content else content)"

definition with_urls :: "config \<Rightarrow> chat_message_info list \<Rightarrow> chat_message_info list" where
  "with_urls cf = map (\<lambda>m. m\<lparr>mf_content := resolveContentURL cf (mf_content m) (mf_type m)\<rparr>)"

definition h_create_room :: "auth_context \<Rightarrow> create_room_input option \<Rightarrow> reply srv" where
  "h_create_room au b = with_body b invalid_request (\<lambda>i.
     attempt (on_world (create_chat_room (ax_user_id au) i)) (\<lambda>e. ret (failure (chat_answer e)))
       (\<lambda>out. ret (Success (if co_already_existed out then 200 else 201) (PRoom out))))"

definition h_join_room :: "auth_context \<Rightarrow> string \<Rightarrow> reply srv" where
  "h_join_room au r = with_id r invalid_request (\<lambda>room.
     respond chat_answer 200 PJoined (on_world (join_chat_room (ax_user_id au) room)))"

definition h_user_rooms :: "auth_context \<Rightarrow> reply srv" where
  "h_user_rooms au = respond chat_answer 200 PRooms (on_world (get_user_chat_rooms (ax_user_id au)))"

definition h_room_detail :: "config \<Rightarrow> auth_context \<Rightarrow> string \<Rightarrow> reply srv" where
  "h_room_detail cf au r = with_id r invalid_request (\<lambda>room.
     respond chat_answer 200 (\<lambda>out. PDetail (out\<lparr>rd_messages := with_urls cf (rd_messages out)\<rparr>))
       (on_world (get_chat_room_detail (ax_user_id au) room)))"

definition h_room_messages :: "config \<Rightarrow> auth_context \<Rightarrow> string \<Rightarrow> (message_id \<times> 64 word) option \<Rightarrow> reply srv" where
  "h_room_messages cf au r q = with_id r invalid_request (\<lambda>room. with_body q invalid_request (\<lambda>(before, lim).
     respond chat_answer 200 (\<lambda>out. PMessages (out\<lparr>mo_messages := with_urls cf (mo_messages out)\<rparr>))
       (on_world (get_chat_room_messages (ax_user_id au) room before lim))))"

definition h_member_status :: "auth_context \<Rightarrow> string \<Rightarrow> reply srv" where
  "h_member_status au r = with_id r invalid_request (\<lambda>room.
     respond chat_answer 200 PStatuses (on_world (update_member_status (ax_user_id au) room)))"

definition h_send_message :: "config \<Rightarrow> auth_context \<Rightarrow> string \<Rightarrow> (string \<times> string \<times> message_id option) option \<Rightarrow> reply srv" where
  "h_send_message cf au r b = with_id r invalid_request (\<lambda>room. with_body b invalid_request (\<lambda>(content, ty, replyTo).
     respond chat_answer 201 (\<lambda>out. PSent (out\<lparr>so_content := resolveContentURL cf (so_content out) (so_type out)\<rparr>))
       (on_world (send_message (ax_user_id au) \<lparr>si_room_id = room, si_content = content, si_type = ty, si_reply_to = replyTo\<rparr>))))"

text \<open>A body beyond 20 MB fails as a missing file does.\<close>

definition h_upload_media :: "config \<Rightarrow> auth_context \<Rightarrow> string \<Rightarrow> upload \<Rightarrow> reply srv" where
  "h_upload_media cf au r up = with_id r invalid_request (\<lambda>room. case up of
     Uploaded filename mime data \<Rightarrow>
       respond chat_answer 200 PMedia (on_world (upload_room_media (cf_newV4 cf) (cf_SaveStream cf) (ax_user_id au)
         \<lparr>md_room_id = room, md_filename = filename, md_mime_type = mime\<rparr>))
   | _ \<Rightarrow> ret invalid_request)"

definition h_resolve_invitation :: "auth_context \<Rightarrow> string \<Rightarrow> bool option \<Rightarrow> reply srv" where
  "h_resolve_invitation au i b = with_id i invalid_request (\<lambda>inv. with_body b invalid_request (\<lambda>approve.
     respond chat_answer 200 PResolved (on_world (approve_join_request (ax_user_id au) inv approve))))"

definition invitation_view_of :: "my_invitation \<Rightarrow> invitation_view" where
  "invitation_view_of out =
     (if \<not> mi_found out
      then \<lparr>iv_found = False, iv_invitation_id = None, iv_role = None, iv_inviter_name = None, iv_inviter_avatar = None,
        iv_inviter_user_id = None\<rparr>
      else (let shown = (mi_role out = Some AsInvitee \<and> mi_inviter_name out \<noteq> []) in
        \<lparr>iv_found = True, iv_invitation_id = Some (mi_invitation_id out), iv_role = mi_role out,
         iv_inviter_name = (if shown then Some (mi_inviter_name out) else None),
         iv_inviter_avatar = (if shown then mi_inviter_avatar out else None),
         iv_inviter_user_id = (if shown then mi_inviter_user_id out else None)\<rparr>))"

definition h_my_invitation :: "auth_context \<Rightarrow> string \<Rightarrow> reply srv" where
  "h_my_invitation au r = with_id r invalid_request (\<lambda>room.
     respond chat_answer 200 (\<lambda>out. PMine (invitation_view_of out)) (on_world (get_my_room_invitation (ax_user_id au) room)))"

definition h_respond :: "auth_context \<Rightarrow> string \<Rightarrow> string option \<Rightarrow> reply srv" where
  "h_respond au i b = with_id i invalid_request (\<lambda>inv. with_body b invalid_request (\<lambda>action.
     respond chat_answer 200 PResolved (on_world (respond_to_invitation (ax_user_id au) inv action))))"

definition h_create_participant :: "auth_context \<Rightarrow> reply srv" where
  "h_create_participant au = respond participant_answer 201 PParticipant (on_world (create_user_participant (ax_user_id au)))"

definition h_participant :: "auth_context \<Rightarrow> reply srv" where
  "h_participant au = respond participant_answer 200 PParticipant (on_world (get_user_participant (ax_user_id au)))"

section \<open>Keys\<close>

text \<open>A body that does not bind is handed on by the translator.\<close>

definition bad_key_body :: reply where
  "bad_key_body = failure (e2ee_answer Plain)"

definition h_identity_key :: "config \<Rightarrow> auth_context \<Rightarrow> (string \<times> string \<times> string) option \<Rightarrow> reply srv" where
  "h_identity_key cf au b = with_body b bad_key_body (\<lambda>(dev, pub, sign).
     respond e2ee_answer 200 PFingerprint
       (on_world (upload_identity_key (env_FromString (cf_keys cf)) (env_Fingerprint (cf_keys cf)) (ax_user_id au) dev pub sign)))"

definition h_signed_prekey :: "config \<Rightarrow> auth_context \<Rightarrow> (string \<times> 32 word \<times> string \<times> string) option \<Rightarrow> reply srv" where
  "h_signed_prekey cf au b = with_body b bad_key_body (\<lambda>(dev, i, pub, sig).
     respond e2ee_answer 204 (\<lambda>_. NoBody)
       (on_world (upload_signed_prekey (env_FromString (cf_keys cf)) (env_Verify (cf_keys cf)) (ax_user_id au) dev i pub sig)))"

definition h_otp_prekeys :: "config \<Rightarrow> auth_context \<Rightarrow> (string \<times> (32 word \<times> string) list) option \<Rightarrow> reply srv" where
  "h_otp_prekeys cf au b = with_body b bad_key_body (\<lambda>(dev, keys).
     respond e2ee_answer 200 PCount (on_world (upload_otp_prekeys (env_FromString (cf_keys cf)) (ax_user_id au) dev keys)))"

definition h_otp_count :: "config \<Rightarrow> auth_context \<Rightarrow> string \<Rightarrow> reply srv" where
  "h_otp_count cf au dev =
     respond e2ee_answer 200 PCount (on_world (count_otp_prekeys (env_FromString (cf_keys cf)) (ax_user_id au) dev))"

definition h_key_bundle :: "config \<Rightarrow> string \<Rightarrow> string \<Rightarrow> reply srv" where
  "h_key_bundle cf target dev = respond e2ee_answer 200 PBundle (on_world
     (get_key_bundle (env_rejects_id (cf_keys cf)) (env_FromString (cf_keys cf)) (env_String (cf_keys cf)) target dev))"

definition h_sender_key :: "auth_context \<Rightarrow> (room_id \<times> string \<times> string) option \<Rightarrow> reply srv" where
  "h_sender_key au b = with_body b bad_key_body (\<lambda>(room, pub, msg).
     respond e2ee_answer 204 (\<lambda>_. NoBody) (on_world (upload_sender_key (ax_user_id au) room pub msg)))"

definition h_sender_keys :: "auth_context \<Rightarrow> string \<Rightarrow> reply srv" where
  "h_sender_keys au r = with_id r (Failure 400 []) (\<lambda>room.
     respond e2ee_answer 200 PSenderKeys (on_world (get_sender_keys (ax_user_id au) room)))"

definition h_distribution_status :: "auth_context \<Rightarrow> string \<Rightarrow> reply srv" where
  "h_distribution_status au r = with_id r (Failure 400 []) (\<lambda>room.
     respond e2ee_answer 200 PDistribution (on_world (get_sender_key_distribution_status (ax_user_id au) room)))"

definition h_sender_key_request :: "auth_context \<Rightarrow> (room_id \<times> member_id) option \<Rightarrow> reply srv" where
  "h_sender_key_request au b = with_body b bad_key_body (\<lambda>(room, provider).
     respond e2ee_answer 204 (\<lambda>_. NoBody) (on_world (create_sender_key_request (ax_user_id au) room provider)))"

section \<open>The language model\<close>

definition h_stream :: "config \<Rightarrow> stream_query \<Rightarrow> nat option \<Rightarrow> reply srv" where
  "h_stream cf q taken = bind (on_world (stream_handler (cf_ollama cf) q taken)) (\<lambda>r. ret (case r of
     Refused st \<Rightarrow> Failure st [] | Streamed out \<Rightarrow> Success 200 (PStream out)))"

end
