(* ===== verification/Gateway.thy ===== *)
theory Gateway
  imports Http
begin

text \<open>
  The server as its clients see it: the routes, those that need a session and those that do not, the chain of middlewares
  in front of them, and the messages that a WebSocket client sends.
\<close>

section \<open>Requests\<close>

text \<open>The routes without \<open>RequireAuthMiddleware\<close>, and those behind it.\<close>

datatype open_request =
    HealthCheck
  | PostRegister "register_input option"
  | PostLogin "login_body option"
  | GetVerifyEmail string
  | GetUser string
  | GetDevice string
  | PostDevice "(string \<times> string \<times> string) option"
  | PatchDevice string "(string \<times> string) option"
  | GetStream stream_query "nat option"

datatype protected_request =
    PostLogout
  | GetAccount
  | PatchProfile "(string \<times> string list) option"
  | PostAvatar upload
  | GetSearch search_query
  | GetFriends
  | PostApply "user_id option"
  | PostAccept string
  | GetRequests
  | DeleteFriend string
  | GetSent
  | DeleteSent string
  | PostBlock string
  | DeleteBlock string
  | GetDevices
  | PostBind string
  | DeleteDevice string
  | GetRooms
  | PostRoom "create_room_input option"
  | PostJoin string
  | PatchInvitation string "bool option"
  | PatchRespond string "string option"
  | GetRoom string
  | GetMyInvitation string
  | GetMessages string "(message_id \<times> 64 word) option"
  | PatchStatus string
  | PostMessage string "(string \<times> string \<times> message_id option) option"
  | PostMedia string upload
  | PostParticipant
  | GetParticipant
  | PostIdentityKey "(string \<times> string \<times> string) option"
  | PostSignedPreKey "(string \<times> 32 word \<times> string \<times> string) option"
  | PostOTPs "(string \<times> (32 word \<times> string) list) option"
  | GetOTPCount string
  | GetKeyBundle string string
  | PostSenderKey "(room_id \<times> string \<times> string) option"
  | GetSenderKeys string
  | GetDistribution string
  | PostSenderKeyRequest "(room_id \<times> member_id) option"

datatype request = Open open_request | Protected protected_request

text \<open>What the middlewares read of a request: the time it is served at, the address, the headers and the two
  parameters of the query that stand in for them.\<close>

record meta =
  rq_now :: int
  rq_ip :: string
  rq_parsed_ip :: "string option"
  rq_authorization :: string
  rq_token_query :: string
  rq_device_header :: string
  rq_device_query :: string

definition handle_open :: "config \<Rightarrow> meta \<Rightarrow> open_request \<Rightarrow> reply srv" where
  "handle_open cf m r = (case r of
     HealthCheck \<Rightarrow> ret (Success 200 NoBody)
   | PostRegister b \<Rightarrow> h_register cf b
   | PostLogin b \<Rightarrow> h_login cf (rq_parsed_ip m) b
   | GetVerifyEmail t \<Rightarrow> h_verify_email cf t
   | GetUser i \<Rightarrow> h_user_profile i
   | GetDevice v \<Rightarrow> h_device_info cf v
   | PostDevice b \<Rightarrow> h_register_device cf b
   | PatchDevice v b \<Rightarrow> h_update_device cf v b
   | GetStream q taken \<Rightarrow> h_stream cf q taken)"

definition handle_protected :: "config \<Rightarrow> auth_context \<Rightarrow> protected_request \<Rightarrow> reply srv" where
  "handle_protected cf au r = (case r of
     PostLogout \<Rightarrow> h_logout cf au
   | GetAccount \<Rightarrow> h_account_profile cf au
   | PatchProfile b \<Rightarrow> h_update_profile au b
   | PostAvatar up \<Rightarrow> h_upload_avatar cf au up
   | GetSearch q \<Rightarrow> h_search_users cf au q
   | GetFriends \<Rightarrow> h_friends au
   | PostApply b \<Rightarrow> h_apply_friend au b
   | PostAccept i \<Rightarrow> h_accept_friend au i
   | GetRequests \<Rightarrow> h_friend_requests au
   | DeleteFriend i \<Rightarrow> h_remove_friend au i
   | GetSent \<Rightarrow> h_sent_requests au
   | DeleteSent i \<Rightarrow> h_cancel_request au i
   | PostBlock i \<Rightarrow> h_block_user au i
   | DeleteBlock i \<Rightarrow> h_unblock_user au i
   | GetDevices \<Rightarrow> h_list_devices cf au
   | PostBind v \<Rightarrow> h_bind_device cf au v
   | DeleteDevice v \<Rightarrow> h_delete_device cf au v
   | GetRooms \<Rightarrow> h_user_rooms au
   | PostRoom b \<Rightarrow> h_create_room au b
   | PostJoin i \<Rightarrow> h_join_room au i
   | PatchInvitation i b \<Rightarrow> h_resolve_invitation au i b
   | PatchRespond i b \<Rightarrow> h_respond au i b
   | GetRoom i \<Rightarrow> h_room_detail cf au i
   | GetMyInvitation i \<Rightarrow> h_my_invitation au i
   | GetMessages i q \<Rightarrow> h_room_messages cf au i q
   | PatchStatus i \<Rightarrow> h_member_status au i
   | PostMessage i b \<Rightarrow> h_send_message cf au i b
   | PostMedia i up \<Rightarrow> h_upload_media cf au i up
   | PostParticipant \<Rightarrow> h_create_participant au
   | GetParticipant \<Rightarrow> h_participant au
   | PostIdentityKey b \<Rightarrow> h_identity_key cf au b
   | PostSignedPreKey b \<Rightarrow> h_signed_prekey cf au b
   | PostOTPs b \<Rightarrow> h_otp_prekeys cf au b
   | GetOTPCount v \<Rightarrow> h_otp_count cf au v
   | GetKeyBundle t v \<Rightarrow> h_key_bundle cf t v
   | PostSenderKey b \<Rightarrow> h_sender_key au b
   | GetSenderKeys i \<Rightarrow> h_sender_keys au i
   | GetDistribution i \<Rightarrow> h_distribution_status au i
   | PostSenderKeyRequest b \<Rightarrow> h_sender_key_request au b)"

section \<open>Middlewares\<close>

definition is_space :: "char \<Rightarrow> bool" where
  "is_space c \<longleftrightarrow> c \<in> {CHR '' '', CHR 0x09, CHR 0x0A, CHR 0x0B, CHR 0x0C, CHR 0x0D}"

text \<open>\<open>strings.TrimSpace\<close> on ASCII text.\<close>

definition TrimSpace :: "string \<Rightarrow> string" where
  "TrimSpace s = rev (dropWhile is_space (rev (dropWhile is_space s)))"

definition auth_header :: "meta \<Rightarrow> string" where
  "auth_header m = (if rq_authorization m = [] \<and> rq_token_query m \<noteq> [] then ''Bearer '' @ rq_token_query m else rq_authorization m)"

definition request_device :: "meta \<Rightarrow> string" where
  "request_device m = (if rq_device_header m = [] then rq_device_query m else rq_device_header m)"

definition bearer :: "meta \<Rightarrow> string option" where
  "bearer m = (if HasPrefix (auth_header m) ''Bearer '' then Some (TrimSpace (drop 7 (auth_header m))) else None)"

definition AuthMiddleware :: "config \<Rightarrow> meta \<Rightarrow> auth_context option io" where
  "AuthMiddleware cf m = (case bearer m of None \<Rightarrow> ret None
     | Some token \<Rightarrow> authenticate (cf_env cf) token (request_device m))"

definition too_many :: reply where
  "too_many = (case ErrorHandler (Some ''RATE_LIMIT_EXCEEDED'') of (st, code) \<Rightarrow> Failure st code)"

text \<open>\<open>RequireAuthMiddleware\<close> and what is behind it.\<close>

definition dispatch_request :: "config \<Rightarrow> meta \<Rightarrow> request \<Rightarrow> auth_context option \<Rightarrow> reply srv" where
  "dispatch_request cf m req auth = (case req of
     Open r \<Rightarrow> handle_open cf m r
   | Protected r \<Rightarrow> (case auth of None \<Rightarrow> ret (Failure 401 ''AUTH_FAILED'') | Some au \<Rightarrow> handle_protected cf au r))"

text \<open>Any error of the limiter, a failure of Redis too, stops the request.\<close>

definition serve :: "config \<Rightarrow> meta \<Rightarrow> request \<Rightarrow> reply srv" where
  "serve cf m req =
     attempt (on_redis (CheckGlobal (cf_global cf) (rq_now m))) (\<lambda>_. ret too_many) (\<lambda>_.
     attempt (on_redis (CheckIP (cf_ip cf) (rq_ip m) (rq_now m))) (\<lambda>_. ret too_many) (\<lambda>_.
     bind (on_world (AuthMiddleware cf m)) (dispatch_request cf m req)))"

section \<open>WebSocket messages\<close>

record send_payload =
  sp_room_id :: string
  sp_content :: string
  sp_type :: string
  sp_reply_to :: "message_id option"

record move_payload =
  gm_game_id :: string
  gm_x :: int
  gm_y :: int

text \<open>The payload is \<open>None\<close> where it is no JSON of its type.\<close>

datatype ws_message =
    ChatSend "send_payload option"
  | GameMove "move_payload option"
  | SystemAck "int option"
  | OtherType

definition handle_chat_send :: "string \<Rightarrow> send_payload option \<Rightarrow> unit io" where
  "handle_chat_send user payload = (case payload of
     None \<Rightarrow> fail Plain
   | Some p \<Rightarrow> (case ParseInt (sp_room_id p) of
       None \<Rightarrow> fail Plain
     | Some room \<Rightarrow> check (ParseUserID user) (\<lambda>u.
         bind (send_message u \<lparr>si_room_id = room, si_content = sp_content p,
           si_type = (if sp_type p = [] then ''text'' else sp_type p), si_reply_to = sp_reply_to p\<rparr>) (\<lambda>_. ret ()))))"

text \<open>The state the handlers of messages work on; the game handler only logs.\<close>

type_synonym 'a wsio = "(world \<times> hub, 'a) eff"

text \<open>The upgrade route: the session is checked, the limits are not.  A connection that is taken over gives no reply,
  and its failure neither.\<close>

definition open_socket :: "(nat \<Rightarrow> nat) \<Rightarrow> config \<Rightarrow> meta \<Rightarrow> bool \<Rightarrow> reply option wsio" where
  "open_socket grow cf m upgraded = (\<lambda>(w, h). case AuthMiddleware cf m w of
     (Inl e, w') \<Rightarrow> (Inl e, (w', h))
   | (Inr None, w') \<Rightarrow> (Inr (Some (Failure 401 ''AUTH_FAILED'')), (w', h))
   | (Inr (Some au), w') \<Rightarrow> (Inr None, (w', if upgraded then connect grow (FormatInt (ax_user_id au)) h else h)))"

definition route_message :: "string \<Rightarrow> ws_message \<Rightarrow> unit wsio" where
  "route_message user msg = (\<lambda>(w, h). case msg of
     ChatSend p \<Rightarrow> (case handle_chat_send user p w of (r, w') \<Rightarrow> (r, (w', h)))
   | GameMove None \<Rightarrow> (Inl Plain, (w, h))
   | GameMove (Some _) \<Rightarrow> (Inr (), (w, h))
   | SystemAck None \<Rightarrow> (Inl Plain, (w, h))
   | SystemAck (Some i) \<Rightarrow> (Inr (), (w, ResolveAck i h))
   | OtherType \<Rightarrow> (Inl Plain, (w, h)))"

text \<open>The loop of \<open>ReadPump\<close>: what is no envelope is skipped, and the errors of the handlers are dropped.\<close>

fun read_pump :: "string \<Rightarrow> ws_message option list \<Rightarrow> unit wsio" where
  "read_pump user [] = ret ()"
| "read_pump user (None # ms) = read_pump user ms"
| "read_pump user (Some m # ms) = ignore (route_message user m) (read_pump user ms)"

end
