(* ===== verification/Account_Rules.thy ===== *)
theory Account_Rules
  imports Accounts Inversion Session_Props
begin

text \<open>What a run of the account use cases that succeeded has read and written.\<close>

section \<open>Exits\<close>

lemma attempt_exit_succ:
  assumes "\<And>e w y w'. h e w \<noteq> (Inr y, w')"
  shows "attempt m h k w = (Inr y, w') \<longleftrightarrow> (\<exists>x w1. m w = (Inr x, w1) \<and> k x w1 = (Inr y, w'))"
  using assms by (auto simp: attempt_succ)

lemma attempt_fails_succ [succ]:
  "attempt m (\<lambda>e. fail (f e)) k w = (Inr y, w') \<longleftrightarrow> (\<exists>x w1. m w = (Inr x, w1) \<and> k x w1 = (Inr y, w'))"
  "attempt m fail k w = (Inr y, w') \<longleftrightarrow> (\<exists>x w1. m w = (Inr x, w1) \<and> k x w1 = (Inr y, w'))"
  by (auto simp: attempt_succ)

lemma attempt_rollback_succ [succ]:
  "attempt m (\<lambda>e. fail_and_rollback (f e)) k w = (Inr y, w') \<longleftrightarrow> (\<exists>x w1. m w = (Inr x, w1) \<and> k x w1 = (Inr y, w'))"
  by (rule attempt_exit_succ) (simp add: fail_and_rollback_def)

lemma begin_tx_succ: "begin_tx w = (Inr u, w') \<longleftrightarrow> \<not> faulty w \<and> w' = in_tx w"
  by (auto simp: begin_tx_def in_tx_def)

text \<open>Cache, randomness and mail leave the tables and the transaction alone.\<close>

definition same_tables :: "world \<Rightarrow> world \<Rightarrow> bool" where
  "same_tables w w' \<longleftrightarrow> tables w' = tables w \<and> tx w' = tx w \<and> clock w' = clock w"

lemma same_tables_refl [simp]: "same_tables w w"
  by (simp add: same_tables_def)

lemma same_tables_trans: "same_tables w w1 \<Longrightarrow> same_tables w1 w2 \<Longrightarrow> same_tables w w2"
  by (simp add: same_tables_def)

lemma outside_succ: "outside f w = (Inr x, w') \<longleftrightarrow> \<not> faulty w \<and> f (pop_fault w) = (Inr x, w')"
  by (simp add: outside_def)

lemma same_tables_outside:
  "Cache_Get k w = (z1, w') \<Longrightarrow> same_tables w w'" "Cache_Set k v ttl w = (z2, w') \<Longrightarrow> same_tables w w'"
  "Cache_Delete k w = (z2, w') \<Longrightarrow> same_tables w w'" "rand_Read w = (z3, w') \<Longrightarrow> same_tables w w'"
  "Email_Send E m w = (z2, w') \<Longrightarrow> same_tables w w'" "spawn t w = (z2, w') \<Longrightarrow> same_tables w w'"
  "queried w = w' \<Longrightarrow> same_tables w w'"
  by (auto simp: Cache_Get_def Cache_Set_def Cache_Delete_def rand_Read_def spawn_def outside_def same_tables_def
      split: if_splits dest: Email_Send_run(1) [unfolded mailed_def])

lemma setCacheEntries_same: "setCacheEntries E i h s w = (Inr u, w') \<Longrightarrow> same_tables w w'"
  unfolding setCacheEntries_def bind_succ by (elim exE conjE) (blast intro: same_tables_trans same_tables_outside)

lemma token_same: "generateSecureToken w = (Inr u, w') \<Longrightarrow> same_tables w w'"
  unfolding generateSecureToken_def bind_succ ret_succ by (elim exE conjE) (auto intro: same_tables_outside)

section \<open>Reading an account\<close>

lemma findAccount_succ:
  assumes "findAccount E P w = (Inr acc, w')"
  shows "\<exists>a. a \<in> set (accounts (tables w)) \<and> P a \<and> a_row acc = ToAccount E a \<and>
    a_user_ids acc = map us_id (filter (\<lambda>u. us_account_id u = ac_id a) (users (tables w))) \<and> same_tables w w'"
proof -
  from assms obtain a rest where f: "filter P (accounts (tables w)) = a # rest" and r: "a_row acc = ToAccount E a"
    "a_user_ids acc = map us_id (filter (\<lambda>u. us_account_id u = ac_id a) (users (tables w)))"
    and s: "same_tables w w'"
    by (auto simp: findAccount_def succ getUserIDs_def getAccountDevices_def same_tables_def)
  have "a \<in> set (filter P (accounts (tables w)))" by (simp add: f)
  with r s show ?thesis by auto
qed

text \<open>The error of a look-up is the database's or a failed conversion, and never the one the login tests for.\<close>

lemma sql_fails_pg: "sql t n q w = (Inl e, w') \<Longrightarrow> \<exists>p. e = Pg p"
  by (auto simp: sql_def Let_def split: if_splits sum.splits)

lemma ScanAll_fails: "ScanAll f w = (Inl e, w') \<Longrightarrow> \<exists>p. e = Pg p"
  unfolding ScanAll_def by (rule sql_fails_pg)

lemma findAccount_fails:
  assumes "findAccount E P w = (Inl e, w')"
  shows "e = Plain \<or> (\<exists>p. e = Pg p)"
  using assms
  by (auto simp: findAccount_def ScanOne_def getUserIDs_def getAccountDevices_def bind_def attempt_def
      split: prod.splits sum.splits list.splits if_splits dest!: ScanAll_fails)

lemma ToAccount_fields [simp]:
  "ac_id (ToAccount E a) = ac_id a" "ac_status (ToAccount E a) = ac_status a" "ac_password (ToAccount E a) = ac_password a"
  "ac_account_name (ToAccount E a) = ac_account_name a"
  by (simp_all add: ToAccount_def)

lemma login_account_succ:
  assumes "login_account E ident w = (Inr acc, w')"
  shows "\<exists>a. a \<in> set (accounts (tables w)) \<and> (ac_account_name a = ident \<or> ev_ParseAddress E ident = Some (ac_email a)) \<and>
    a_row acc = ToAccount E a \<and> a_user_ids acc = map us_id (filter (\<lambda>u. us_account_id u = ac_id a) (users (tables w))) \<and>
    same_tables w w'"
proof (cases "ev_ParseAddress E ident")
  case None
  with assms findAccount_succ [of E "\<lambda>a. ac_account_name a = ident" w acc w'] show ?thesis
    by (auto simp: login_account_def Account_FindByAccountName_def)
next
  case (Some m)
  from assms Some consider (email) "Account_FindByEmail E m w = (Inr acc, w')"
    | (name) w1 where "Account_FindByEmail E m w = (Inl (Account DomainAccountNotFound), w1)"
    by (auto simp: login_account_def attempt_succ split: if_splits)
  then show ?thesis
  proof cases
    case email
    with Some findAccount_succ [of E "\<lambda>a. ac_email a = m" w acc w'] show ?thesis
      by (auto simp: Account_FindByEmail_def)
  next
    case name
    with findAccount_fails [of E "\<lambda>a. ac_email a = m" w "Account DomainAccountNotFound" w1] show ?thesis
      by (auto simp: Account_FindByEmail_def)
  qed
qed

end
