(* ===== verification/Account_Props.thy ===== *)
theory Account_Props
  imports Account_Rules
begin

text \<open>
  What registration, verification and login guarantee, and the ways in which they do not.
\<close>

section \<open>Login\<close>

lemma User_Create_succ:
  "User_Create a n w = (Inr u, w') \<Longrightarrow>
     \<exists>x. users (tables w') = users (tables w) @ [x] \<and> us_id x = u \<and> us_account_id x = a"
  by (auto simp: User_Create_def attempt_fails_succ sql_succ split: if_splits)

lemma UserRole_Assign_succ:
  "UserRole_Assign u c w = (Inr x, w') \<Longrightarrow> users (tables w') = users (tables w)"
  by (auto simp: UserRole_Assign_def Exec_succ Let_def split: if_splits)

lemma primary_user_succ:
  assumes "primary_user acc w = (Inr u, w')"
    and "a_user_ids acc = map us_id (filter (\<lambda>x. us_account_id x = ac_id (a_row acc)) (users (tables w)))"
  shows "\<exists>x \<in> set (users (tables w')). us_id x = u \<and> us_account_id x = ac_id (a_row acc)"
proof (cases "a_user_ids acc")
  case Nil
  with assms(1) obtain w1 where "User_Create (ac_id (a_row acc)) (ac_account_name (a_row acc)) w = (Inr u, w1)"
    and "UserRole_Assign u ''user'' w1 = (Inr (), w')"
    by (auto simp: primary_user_def default_roles_def succ)
  from User_Create_succ [OF this(1)] UserRole_Assign_succ [OF this(2)] show ?thesis by auto
next
  case (Cons v vs)
  with assms(1) have u: "u = v" "w' = w" by (auto simp: primary_user_def)
  have "v \<in> set (map us_id (filter (\<lambda>x. us_account_id x = ac_id (a_row acc)) (users (tables w))))"
    using assms(2) Cons by (metis list.set_intros(1))
  with u show ?thesis by auto
qed

lemma RegisterDevice_succ:
  "Account_RegisterDevice a v ip w = (Inr x, w') \<Longrightarrow> users (tables w') = users (tables w)"
  by (auto simp: Account_RegisterDevice_def Exec_succ split: option.splits if_splits)

lemma Account_Update_succ:
  "Account_Update a w = (Inr x, w') \<Longrightarrow>
     users (tables w') = users (tables w) \<and> account_sessions (tables w') = account_sessions (tables w)"
  by (auto simp: Account_Update_def Exec_succ split: option.splits if_splits)

lemma SM_Create_succ:
  assumes "SM_Create E a u v w = (Inr p, w')"
  shows "users (tables w') = users (tables w) \<and> (\<exists>s \<in> set (account_sessions (tables w')). se_account_id s = a \<and>
    se_user_id s = u \<and> se_device_id s = v \<and> \<not> se_revoked s \<and> se_refresh_hash s = hashToken E (tp_refresh p))"
proof -
  from with_tokens_succ [OF assms [unfolded SM_Create_def]] obtain x y i w1 sess where
    "Session_Create a u v (hashToken E y) (clock w + ev_expiration E) (w\<lparr>drawn := Suc (Suc (drawn w))\<rparr>) = (Inr i, w1)"
    and c: "setCacheEntries E i (hashToken E x) sess w1 = (Inr (), w')" and "p = \<lparr>tp_access = x, tp_refresh = y, tp_expires_at = clock w + ev_expiration E\<rparr>"
    unfolding bind_succ get_clock_run attempt_fails_succ Let_def ret_succ by (auto intro: that)
  moreover from c have "tables w' = tables w1" using setCacheEntries_same [OF c] by (simp add: same_tables_def)
  ultimately show ?thesis by (auto simp: Session_Create_def sql_succ split: if_splits)
qed

lemma login_steps_succ:
  assumes "login_steps E ident pw dev ip w = (Inr p, w')"
  shows "\<exists>acc w1 u w2 v w3 w4 w5. login_account E ident w = (Inr acc, w1) \<and> castStatusError (ac_status (a_row acc)) = None \<and>
    Argon2_Verify E pw (ac_password (a_row acc)) \<and> primary_user acc w1 = (Inr u, w2) \<and> ev_FromString E dev = Some v \<and>
    Account_RegisterDevice (ac_id (a_row acc)) v ip w2 = (Inr (), w3) \<and> SM_Create E (ac_id (a_row acc)) u v w3 = (Inr p, w4) \<and>
    Account_Update (a_row acc) w4 = (Inr (), w5) \<and> tables w' = tables w5 \<and> cache w' = cache w5 \<and> tx w' = None"
proof -
  from assms obtain acc w1 where a: "login_account E ident w = (Inr acc, w1)" "castStatusError (ac_status (a_row acc)) = None"
    "Argon2_Verify E pw (ac_password (a_row acc))"
    and r: "attempt (primary_user acc) (\<lambda>_. fail (Login ErrLoginFailed)) (\<lambda>userID.
       case ParseDeviceIDE E dev of
         Inl _ \<Rightarrow> fail_and_rollback (Login ErrInvalidDeviceID)
       | Inr dv \<Rightarrow>
         attempt (Account_RegisterDevice (ac_id (a_row acc)) dv ip) (\<lambda>_. fail_and_rollback (Login ErrLoginFailed)) (\<lambda>_.
         attempt (SM_Create E (ac_id (a_row acc)) userID dv) (\<lambda>_. fail_and_rollback (Login ErrLoginFailed)) (\<lambda>tokenPair.
         attempt (Account_Update (a_row acc)) (\<lambda>_. fail_and_rollback (Login ErrLoginFailed)) (\<lambda>_.
         bind (if ev_is_dev E then ret () else spawn (LoginMail (ac_email (a_row acc)) (ac_account_name (a_row acc)) dev ip)) (\<lambda>_.
         bind commit_tx (\<lambda>_. ret tokenPair)))))) w1 = (Inr p, w')"
    by (auto simp: login_steps_def attempt_rollback_succ guard_succ split: option.splits)
  from r obtain u w2 v where u: "primary_user acc w1 = (Inr u, w2)" "ev_FromString E dev = Some v"
    and r: "attempt (Account_RegisterDevice (ac_id (a_row acc)) v ip) (\<lambda>_. fail_and_rollback (Login ErrLoginFailed)) (\<lambda>_.
         attempt (SM_Create E (ac_id (a_row acc)) u v) (\<lambda>_. fail_and_rollback (Login ErrLoginFailed)) (\<lambda>tokenPair.
         attempt (Account_Update (a_row acc)) (\<lambda>_. fail_and_rollback (Login ErrLoginFailed)) (\<lambda>_.
         bind (if ev_is_dev E then ret () else spawn (LoginMail (ac_email (a_row acc)) (ac_account_name (a_row acc)) dev ip)) (\<lambda>_.
         bind commit_tx (\<lambda>_. ret tokenPair))))) w2 = (Inr p, w')"
    by (auto simp: attempt_fails_succ ParseDeviceIDE_def fail_and_rollback_def split: option.splits)
  from r obtain w3 w4 w5 w6 where s: "Account_RegisterDevice (ac_id (a_row acc)) v ip w2 = (Inr (), w3)"
    "SM_Create E (ac_id (a_row acc)) u v w3 = (Inr p, w4)" "Account_Update (a_row acc) w4 = (Inr (), w5)"
    and e: "(if ev_is_dev E then ret () else spawn (LoginMail (ac_email (a_row acc)) (ac_account_name (a_row acc)) dev ip)) w5 = (Inr (), w6)" "commit_tx w6 = (Inr (), w')"
    unfolding attempt_rollback_succ bind_succ ret_succ by auto
  from e(1) have "tables w6 = tables w5 \<and> cache w6 = cache w5" by (auto simp: spawn_def split: if_splits)
  with e(2) have "tables w' = tables w5 \<and> cache w' = cache w5 \<and> tx w' = None" by (auto simp: commit_succ pop_fault_def)
  with a u s show ?thesis by blast
qed

text \<open>C2: a login is authenticated, under every schedule of failures: a token pair is only handed out for an account that
  the identifier names, by name or by email, that is active, and whose password hash the password matches; the
  session belongs to that account, to one of its users and to the device of the request, it is not revoked, the refresh token
  is stored as its hash, and the transaction is closed.\<close>
theorem login_is_authenticated:
  assumes "login E ident pw dev ip w = (Inr p, w')"
  shows "\<exists>a u v. a \<in> set (accounts (tables w)) \<and> (ac_account_name a = ident \<or> ev_ParseAddress E ident = Some (ac_email a)) \<and>
    ac_status a = Active \<and> Argon2_Verify E pw (ac_password a) \<and> ev_FromString E dev = Some v \<and>
    u \<in> set (users (tables w')) \<and> us_account_id u = ac_id a \<and>
    (\<exists>s \<in> set (account_sessions (tables w')). se_account_id s = ac_id a \<and> se_user_id s = us_id u \<and> se_device_id s = v \<and>
       \<not> se_revoked s \<and> se_refresh_hash s = hashToken E (tp_refresh p)) \<and> tx w' = None"
proof -
  from assms have "login_steps E ident pw dev ip (in_tx w) = (Inr p, w')"
    by (auto simp: login_def attempt_fails_succ begin_tx_succ)
  from login_steps_succ [OF this] obtain acc w1 u w2 v w3 w4 w5 where
    a: "login_account E ident (in_tx w) = (Inr acc, w1)" "castStatusError (ac_status (a_row acc)) = None"
    "Argon2_Verify E pw (ac_password (a_row acc))" and u: "primary_user acc w1 = (Inr u, w2)" and v: "ev_FromString E dev = Some v"
    and s: "Account_RegisterDevice (ac_id (a_row acc)) v ip w2 = (Inr (), w3)" "SM_Create E (ac_id (a_row acc)) u v w3 = (Inr p, w4)"
    "Account_Update (a_row acc) w4 = (Inr (), w5)" and t: "tables w' = tables w5" "tx w' = None"
    by blast
  obtain r where r: "r \<in> set (accounts (tables w))" "ac_account_name r = ident \<or> ev_ParseAddress E ident = Some (ac_email r)"
    "a_row acc = ToAccount E r" "a_user_ids acc = map us_id (filter (\<lambda>x. us_account_id x = ac_id r) (users (tables w)))"
    and w1: "tables w1 = tables w"
    using login_account_succ [OF a(1)] by (auto simp: same_tables_def)
  have "ac_status r = Active" using a(2) r(3) by (cases "ac_status r") auto
  moreover have "Argon2_Verify E pw (ac_password r)" using a(3) r(3) by simp
  moreover obtain x where "x \<in> set (users (tables w2))" "us_id x = u" "us_account_id x = ac_id r"
    using primary_user_succ [OF u] r(3,4) w1 by auto
  moreover have "users (tables w2) = users (tables w')"
    using RegisterDevice_succ [OF s(1)] SM_Create_succ [OF s(2)] Account_Update_succ [OF s(3)] t by simp
  moreover obtain z where "z \<in> set (account_sessions (tables w'))" "se_account_id z = ac_id r" "se_user_id z = u" "se_device_id z = v"
    "\<not> se_revoked z" "se_refresh_hash z = hashToken E (tp_refresh p)"
    using SM_Create_succ [OF s(2)] Account_Update_succ [OF s(3)] t r(3) by auto
  ultimately show ?thesis using r(1,2) v t(2) by metis
qed

theorem login_is_authenticated_witness:
  "\<exists>p w'. login demo_env ''ann'' ''pw'' ''9'' (Some ''ip'') accounts_world = (Inr p, w') \<and> tx w' = None \<and>
     (\<exists>s \<in> set (account_sessions (tables w')). se_account_id s = 1 \<and> se_device_id s = 9)"
proof -
  let ?r = "login demo_env ''ann'' ''pw'' ''9'' (Some ''ip'') accounts_world"
  have "isl (fst ?r) = False" by code_simp
  then obtain p w' where r: "?r = (Inr p, w')" using run_ok by blast
  have "accounts (tables accounts_world) = [demo_account 1 Active]" "ev_FromString demo_env ''9'' = Some 9" by code_simp+
  with login_is_authenticated [OF r] r show ?thesis by (fastforce simp: demo_account_def)
qed

text \<open>A failed attempt, and the transaction of the look-up.\<close>

lemma attempt_fail_iff:
  "attempt m h k w = (Inl e, w') \<longleftrightarrow>
     (\<exists>x w1. m w = (Inr x, w1) \<and> k x w1 = (Inl e, w')) \<or> (\<exists>f w1. m w = (Inl f, w1) \<and> h f w1 = (Inl e, w'))"
  by (auto simp: attempt_def split: prod.splits sum.splits)

definition left_open :: "login_err \<Rightarrow> bool" where
  "left_open e \<longleftrightarrow> e \<in> {ErrPasswordError, ErrAccountBanned, ErrAccountApplying, ErrAccountInactive}"

lemma commit_fails [simp]: "commit_tx w \<noteq> (Inl (Login e), w')"
  by (auto simp: commit_tx_def)

lemma login_steps_left_open:
  assumes "login_steps E ident pw dev ip w = (Inl (Login e), w')" and "left_open e"
  shows "\<exists>acc. login_account E ident w = (Inr acc, w')"
proof (rule ccontr)
  assume no: "\<not> ?thesis"
  from assms show False unfolding login_steps_def attempt_fail_iff
  proof (elim disjE exE conjE)
    fix f w1 assume "fail_and_rollback (Login (if f = Account DomainAccountNotFound then ErrAccountNotFound else ErrLoginFailed)) w1 = (Inl (Login e), w')"
    with assms(2) show False by (auto simp: fail_and_rollback_def left_open_def split: if_splits)
  next
    fix acc w1
    assume l: "login_account E ident w = (Inr acc, w1)"
      and r: "(case castStatusError (ac_status (a_row acc)) of
       Some e \<Rightarrow> fail (Login e)
     | None \<Rightarrow>
       guard (Argon2_Verify E pw (ac_password (a_row acc))) (Login ErrPasswordError) (
       attempt (primary_user acc) (\<lambda>_. fail (Login ErrLoginFailed)) (\<lambda>userID.
       case ParseDeviceIDE E dev of
         Inl _ \<Rightarrow> fail_and_rollback (Login ErrInvalidDeviceID)
       | Inr dv \<Rightarrow>
         attempt (Account_RegisterDevice (ac_id (a_row acc)) dv ip) (\<lambda>_. fail_and_rollback (Login ErrLoginFailed)) (\<lambda>_.
         attempt (SM_Create E (ac_id (a_row acc)) userID dv) (\<lambda>_. fail_and_rollback (Login ErrLoginFailed)) (\<lambda>tokenPair.
         attempt (Account_Update (a_row acc)) (\<lambda>_. fail_and_rollback (Login ErrLoginFailed)) (\<lambda>_.
         bind (if ev_is_dev E then ret () else spawn (LoginMail (ac_email (a_row acc)) (ac_account_name (a_row acc)) dev ip)) (\<lambda>_.
         bind commit_tx (\<lambda>_. ret tokenPair)))))))) w1 = (Inl (Login e), w')"
    show False
    proof (cases "castStatusError (ac_status (a_row acc)) = None \<and> Argon2_Verify E pw (ac_password (a_row acc))")
      case False
      with r have "w' = w1" by (auto split: option.splits)
      with l no show False by simp
    next
      case True
      with r assms(2) show False
        by (cases "ParseDeviceIDE E dev")
          (auto simp: attempt_fail_iff bind_def fail_and_rollback_def left_open_def spawn_def split: if_splits)
    qed
  qed
qed



section \<open>Passwords\<close>

lemma split_on_none: "s \<notin> set xs \<Longrightarrow> split_on s xs = [xs]"
  by (induction xs) auto

text \<open>C23: a stored password hash can be read back: verifying a password against the text that hashing one has produced
  finds the salt and the key in it, and succeeds exactly for the passwords with the same key under that salt; the
  hashed password is one of them.\<close>
theorem password_hash_roundtrip:
  assumes "Argon2_Hash E pw w = (Inr h, w')"
  shows "Argon2_Verify E pw h \<and> (\<exists>salt. entropy w (drawn w) = Some salt \<and>
    (\<forall>pw'. Argon2_Verify E pw' h = (ev_IDKey E pw' salt = ev_IDKey E pw salt)))"
proof -
  obtain salt where s: "entropy w (drawn w) = Some salt"
    and h: "h = RawStd_EncodeToString salt @ CHR '':'' # RawStd_EncodeToString (ev_IDKey E pw salt)"
    using assms by (auto simp: Argon2_Hash_def bind_succ rand_Read_def split: option.splits)
  have "split_on (CHR '':'') h = [RawStd_EncodeToString salt, RawStd_EncodeToString (ev_IDKey E pw salt)]"
    unfolding h by (simp add: split_append [OF RawStd_no_colon] split_on_none [OF RawStd_no_colon])
  then have "Argon2_Verify E pw' h = (ev_IDKey E pw' salt = ev_IDKey E pw salt)" for pw'
    by (auto simp: Argon2_Verify_def RawStd_roundtrip)
  with s show ?thesis by blast
qed

theorem password_hash_roundtrip_witness:
  "\<exists>h w'. Argon2_Hash demo_env ''pw'' accounts_world = (Inr h, w') \<and> Argon2_Verify demo_env ''pw'' h \<and> \<not> Argon2_Verify demo_env ''pq'' h"
proof -
  let ?r = "Argon2_Hash demo_env ''pw'' accounts_world"
  have "isl (fst ?r) = False" by code_simp
  then obtain h w' where r: "?r = (Inr h, w')" using run_ok by blast
  from password_hash_roundtrip [OF r] obtain salt where v: "Argon2_Verify demo_env ''pw'' h"
    and a: "\<forall>pw'. Argon2_Verify demo_env pw' h = (ev_IDKey demo_env pw' salt = ev_IDKey demo_env ''pw'' salt)" by blast
  have "ev_IDKey demo_env ''pq'' salt \<noteq> ev_IDKey demo_env ''pw'' salt" by (simp add: demo_env_def)
  with r v a show ?thesis by blast
qed

section \<open>Registration\<close>

lemma keeps_tx_repos [frame_intros]:
  "keeps_fn tx_snapshot (Account_Create a)" "keeps_fn tx_snapshot (User_Create i n)" "keeps_fn tx_snapshot (UserRole_Assign u c)"
  "keeps_fn tx_snapshot (Account_Update a)" "keeps_fn tx_snapshot (Argon2_Hash E pw)" "keeps_fn tx_snapshot generateSecureToken"
  "keeps_fn tx_snapshot (Verification_Store E t i)"
  by (simp_all add: Account_Create_def User_Create_def UserRole_Assign_def Account_Update_def Argon2_Hash_def
      generateSecureToken_def Verification_Store_def frame_intros)

lemma rolls_back_register: "rolls_back (register_steps E i)"
  unfolding register_steps_def
  by (auto intro!: rollback_intros frame_intros simp: Let_def split: option.split)

lemma keeps_tx_register: "keeps_fn tx_snapshot (register_steps E i)"
  unfolding register_steps_def by (auto intro!: frame_intros simp: Let_def split: option.split)

lemma Account_Create_succ:
  assumes "Account_Create a w = (Inr i, w')"
  shows "i = seq w T_accounts + 1" "users_roles (tables w') = users_roles (tables w)" "roles (tables w') = roles (tables w)"
    "users (tables w') = users (tables w)" "cache w' = cache w" "drawn w' = drawn w" "entropy w' = entropy w"
    "accounts (tables w') = accounts (tables w) @ [a\<lparr>ac_id := i, ac_created_at := clock w, ac_updated_at := clock w\<rparr>]"
    "account_conflict (tables w) (a\<lparr>ac_id := i, ac_created_at := clock w, ac_updated_at := clock w\<rparr>) = None"
  using assms by (auto simp: Account_Create_def attempt_fails_succ sql_succ Let_def ran_def pop_fault_def split: option.splits)

text \<open>What a successful registration has written.\<close>

definition registered :: "env \<Rightarrow> register_input \<Rightarrow> account_id \<Rightarrow> db \<Rightarrow> db \<Rightarrow> bool" where
  "registered E i a d d' \<longleftrightarrow> (\<exists>row u. accounts d' = accounts d @ [row] \<and> ac_id row = a \<and> ac_status row = Applying \<and>
     ev_ParseAddress E (rg_email i) = Some (ac_email row) \<and> ac_account_name row = rg_account i \<and>
     Argon2_Verify E (rg_password i) (ac_password row) \<and>
     ac_email row \<notin> ac_email ` set (accounts d) \<and> ac_account_name row \<notin> ac_account_name ` set (accounts d) \<and>
     users d' = users d @ [u] \<and> us_account_id u = a \<and> us_name u = rg_name i \<and>
     (\<forall>r \<in> set (roles d). snd r = ''user'' \<longrightarrow> (us_id u, fst r) \<in> set (users_roles d')))"

text \<open>The link that was mailed, and its token in the cache.\<close>

definition link_sent :: "env \<Rightarrow> string \<Rightarrow> string \<Rightarrow> account_id \<Rightarrow> world \<Rightarrow> bool" where
  "link_sent E to name a w \<longleftrightarrow> (\<exists>token t. cache w (verifyKey token) = Some (CachedText (FormatInt a), t) \<and>
     register_mail E to name (ev_base_url E @ ''/api/auth/verify-email?token='' @ token) \<in> set (mails w))"

lemma outside_same:
  "Argon2_Hash E pw w = (Inr h, w') \<Longrightarrow> tables w' = tables w \<and> seq w' = seq w"
  "generateSecureToken w = (Inr t, w') \<Longrightarrow> tables w' = tables w"
  "rand_Read w = (Inr b, w') \<Longrightarrow> tables w' = tables w \<and> seq w' = seq w"
  by (auto simp: Argon2_Hash_def generateSecureToken_def bind_succ rand_Read_def split: option.splits)

lemma mail_succ:
  assumes "Verification_Store E token a w = (Inr x, w1)" and "Email_Send E (register_mail E to n (ev_base_url E @ ''/api/auth/verify-email?token='' @ token)) w1 = (Inr y, w2)"
  shows "link_sent E to n a w2 \<and> tables w2 = tables w"
proof -
  from assms(1) have "cache w1 (verifyKey token) = Some (CachedText (FormatInt a), if 0 < ev_verify_ttl E then Some (clock w + ev_verify_ttl E) else None)"
    and "tables w1 = tables w"
    by (auto simp: Verification_Store_def Cache_Set_def outside_succ pop_fault_def)
  with Email_Send_run [OF assms(2)] show ?thesis unfolding link_sent_def mailed_def by auto
qed

lemma UserRole_Assign_adds:
  "UserRole_Assign u c w = (Inr x, w') \<Longrightarrow> r \<in> set (roles (tables w)) \<Longrightarrow> snd r = c \<Longrightarrow>
     accounts (tables w') = accounts (tables w) \<and> (u, fst r) \<in> set (users_roles (tables w'))"
  "UserRole_Assign u c w = (Inr x, w') \<Longrightarrow> accounts (tables w') = accounts (tables w) \<and> roles (tables w') = roles (tables w)"
  by (auto simp: UserRole_Assign_def Exec_succ Let_def image_iff split: if_splits)

lemma User_Create_adds:
  "User_Create a n w = (Inr u, w') \<Longrightarrow> accounts (tables w') = accounts (tables w) \<and> roles (tables w') = roles (tables w) \<and>
     (\<exists>x. users (tables w') = users (tables w) @ [x] \<and> us_id x = u \<and> us_account_id x = a \<and> us_name x = n)"
  by (auto simp: User_Create_def attempt_fails_succ sql_succ split: if_splits)

lemma Account_Update_zero:
  "Account_Update (NewAccount p m n h l) w = (Inr x, w') \<Longrightarrow> 0 \<notin> ac_id ` set (accounts (tables w)) \<Longrightarrow> tables w' = tables w"
  by (auto simp: Account_Update_def Exec_succ NewAccount_def)

lemma no_conflict:
  assumes "account_conflict d a = None" and "x \<in> set (accounts d)" and "ac_id x \<noteq> ac_id a"
  shows "ac_email x \<noteq> ac_email a \<and> ac_account_name x \<noteq> ac_account_name a"
proof -
  have "x \<in> set (filter (\<lambda>x. ac_id x \<noteq> ac_id a) (accounts d))" using assms(2,3) by simp
  with assms(1) show ?thesis unfolding account_conflict_def Let_def by (metis image_eqI option.distinct(1))
qed

lemma register_steps_succ:
  assumes r: "register_steps E i w = (Inr a, w')"
    and ids: "\<forall>x \<in> set (accounts (tables w)). 0 < ac_id x \<and> ac_id x \<le> seq w T_accounts" "0 \<le> seq w T_accounts"
  shows "registered E i a (tables w) (tables w') \<and> link_sent E (rg_email i) (rg_account i) a w'"
proof -
  from r obtain m where m: "ev_ParseAddress E (rg_email i) = Some m" by (auto simp: register_steps_def split: option.splits)
  from r obtain h w1 bs w2 w3 u w4 w5 w6 tok w7 w8 x1 x2 x3 x4 where h: "Argon2_Hash E (rg_password i) w = (Inr h, w1)" "rand_Read w1 = (Inr bs, w2)"
    and c: "Account_Create (NewAccount (ev_uuid_V4 E bs) m (rg_account i) h 1) w2 = (Inr a, w3)"
    and u: "User_Create a (rg_name i) w3 = (Inr u, w4)" "UserRole_Assign u ''user'' w4 = (Inr x1, w5)"
    and z: "Account_Update (NewAccount (ev_uuid_V4 E bs) m (rg_account i) h 1) w5 = (Inr x2, w6)"
    and t: "generateSecureToken w6 = (Inr tok, w7)" "Verification_Store E tok a w7 = (Inr x3, w8)"
      "Email_Send E (register_mail E (rg_email i) (rg_account i) (ev_base_url E @ ''/api/auth/verify-email?token='' @ tok)) w8 = (Inr x4, w')"
    unfolding register_steps_def m option.case attempt_fails_succ Let_def default_roles_def for_each.simps bind_succ ret_succ
    by (elim exE conjE, hypsubst) (rule that)
  let ?row = "(NewAccount (ev_uuid_V4 E bs) m (rg_account i) h 1)\<lparr>ac_id := a, ac_created_at := clock w2, ac_updated_at := clock w2\<rparr>"
  have w2: "tables w2 = tables w" "seq w2 = seq w" using outside_same(1) [OF h(1)] outside_same(3) [OF h(2)] by simp_all
  note new = Account_Create_succ [OF c, unfolded w2]
  obtain x where x: "users (tables w4) = users (tables w3) @ [x]" "us_id x = u" "us_account_id x = a" "us_name x = rg_name i"
    and w4: "accounts (tables w4) = accounts (tables w3)" "roles (tables w4) = roles (tables w3)"
    using User_Create_adds [OF u(1)] by blast
  have acc5: "accounts (tables w5) = accounts (tables w) @ [?row]" using UserRole_Assign_adds(2) [OF u(2)] w4(1) new(8) by simp
  have a: "0 < a" using ids(2) new(1) by simp
  with ids(1) have "0 \<notin> ac_id ` set (accounts (tables w5))" unfolding acc5 by auto
  from Account_Update_zero [OF z this] have same: "tables w' = tables w5" using outside_same(2) [OF t(1)] mail_succ [OF t(2,3)] by simp
  have fresh: "ac_id y \<noteq> a" if "y \<in> set (accounts (tables w))" for y
  proof -
    have "ac_id y \<le> seq w T_accounts" using ids(1) that by blast
    then show ?thesis using new(1) by linarith
  qed
  have no_dup: "ac_email y \<noteq> m" "ac_account_name y \<noteq> rg_account i" if "y \<in> set (accounts (tables w))" for y
    using no_conflict [OF new(9) that] fresh [OF that] by (simp_all add: NewAccount_def)
  then have "m \<notin> ac_email ` set (accounts (tables w))" "rg_account i \<notin> ac_account_name ` set (accounts (tables w))"
    by (blast dest: sym)+
  moreover have "Argon2_Verify E (rg_password i) h"
    using h(1) by (auto simp: Argon2_Hash_def bind_succ ret_succ Argon2_Verify_def split_append [OF RawStd_no_colon]
      split_on_none [OF RawStd_no_colon] RawStd_roundtrip)
  moreover have "users (tables w5) = users (tables w) @ [x]" using UserRole_Assign_succ [OF u(2)] x(1) new(4) by simp
  moreover have "(us_id x, fst r) \<in> set (users_roles (tables w5))" if "r \<in> set (roles (tables w))" "snd r = ''user''" for r
    using UserRole_Assign_adds(1) [OF u(2), of r] that w4(2) new(3) x(2) by simp
  ultimately show ?thesis
    using acc5 same m x(3,4) mail_succ [OF t(2,3)] unfolding registered_def
    by (intro conjI exI [of _ ?row] exI [of _ x]) (auto simp: NewAccount_def)
qed

text \<open>C18: a registration is atomic under every schedule of failures: with an error every table is as it was; without one
  there is exactly one new account, which waits for its verification, has the normalized email, the name and a hash of
  the password, and whose email and name no other account has, with one user that holds the default roles; a
  verification link with a token for that account has been mailed to the address given.  No transaction stays open.\<close>
theorem register_account_atomic:
  assumes "tx w = None" and "register_account E i w = (r, w')"
    and "\<forall>x \<in> set (accounts (tables w)). 0 < ac_id x \<and> ac_id x \<le> seq w T_accounts" "0 \<le> seq w T_accounts"
  shows "tx w' = None \<and> (case r of Inl e \<Rightarrow> tables w' = tables w
    | Inr a \<Rightarrow> registered E i a (tables w) (tables w') \<and> link_sent E (rg_email i) (rg_account i) a w')"
proof (cases r)
  case (Inl e)
  have "rolls_back (bind (register_steps E i) (\<lambda>accountId. bind commit_tx (\<lambda>_. ret accountId)))"
    unfolding bind_def
    by (rule rolls_back_attempt [OF keeps_tx_register rolls_back_fail], rule rolls_back_commit)
      (auto intro: rolls_back_fail never_fails_ret)
  from with_tx_atomic [OF this assms(1)] assms(2) Inl show ?thesis unfolding register_account_def by simp
next
  case (Inr a)
  with assms(2) obtain w1 where s: "register_steps E i (in_tx w) = (Inr a, w1)" and w': "w' = (pop_fault w1)\<lparr>tx := None\<rparr>"
    by (auto simp: register_account_def with_tx_succ bind_succ commit_succ)
  from register_steps_succ [OF s] assms(3,4) have "registered E i a (tables w) (tables w1)" "link_sent E (rg_email i) (rg_account i) a w1"
    by simp_all
  with w' Inr show ?thesis by (simp add: link_sent_def pop_fault_def)
qed

definition demo_register :: register_input where
  "demo_register = \<lparr>rg_name = ''Bob'', rg_account = ''bob'', rg_email = ''b@c'', rg_password = ''pw''\<rparr>"

theorem register_account_atomic_witness:
  "\<exists>a w'. register_account demo_env demo_register accounts_world = (Inr a, w') \<and> length (accounts (tables w')) = 2 \<and>
     link_sent demo_env ''b@c'' ''bob'' a w'"
proof -
  let ?r = "register_account demo_env demo_register accounts_world"
  have "isl (fst ?r) = False" by code_simp
  then obtain a w' where r: "?r = (Inr a, w')" using run_ok by blast
  have f: "tx accounts_world = None" "accounts (tables accounts_world) = [demo_account 1 Active]" "seq accounts_world T_accounts = 1"
    by (simp_all add: accounts_world_def empty_world_def)
  have "link_sent demo_env (rg_email demo_register) (rg_account demo_register) a w' \<and> registered demo_env demo_register a (tables accounts_world) (tables w')"
    using register_account_atomic [OF f(1) r] f by (simp add: demo_account_def)
  then have "link_sent demo_env ''b@c'' ''bob'' a w'" "length (accounts (tables w')) = 2"
    by (auto simp: demo_register_def registered_def f)
  with r show ?thesis by blast
qed

section \<open>Verification\<close>

lemma verify_email_succ:
  assumes "verify_email E t w = (Inr (), w')"
  shows "\<exists>a ttl. a \<in> set (accounts (tables w)) \<and> ac_status a = Applying \<and> ParseInt ttl = Some (ac_id a) \<and>
    live (clock w) (cache w (verifyKey t)) = Some (CachedText ttl) \<and> cache w' = (cache w)(verifyKey t := None) \<and>
    tables w' = (tables w)\<lparr>accounts := map (\<lambda>x. if ac_id x = ac_id a then x\<lparr>ac_email := ac_email (ToAccount E a),
       ac_account_name := ac_account_name a, ac_password := ac_password a, ac_status := Active,
       ac_user_limit := ac_user_limit a, ac_updated_at := clock w\<rparr> else x) (accounts (tables w))\<rparr>"
proof -
  from assms obtain i w1 w2 acc w3 where g: "Verification_Get t w = (Inr (Some i), w1)" and d: "Verification_Delete t w1 = (Inr (), w2)"
    and f: "Account_FindByID E i w2 = (Inr acc, w3)" and s: "ac_status (a_row acc) = Applying"
    and u: "Account_Update ((a_row acc)\<lparr>ac_status := Active\<rparr>) w3 = (Inr (), w')"
    by (auto simp: verify_email_def attempt_fails_succ guard_succ attempt_succ split: option.splits)
  obtain x where x: "live (clock w) (cache w (verifyKey t)) = Some (CachedText x)" "ParseInt x = Some i" and w1: "w1 = pop_fault w"
    using g by (auto simp: Verification_Get_def bind_succ Cache_Get_def outside_succ pop_fault_def split: option.splits cached.splits)
  have w2: "w2 = (pop_fault w1)\<lparr>cache := (cache w)(verifyKey t := None)\<rparr>"
    using d w1 by (auto simp: Verification_Delete_def Cache_Delete_def outside_succ pop_fault_def)
  obtain a where a: "a \<in> set (accounts (tables w2))" "ac_id a = i" "a_row acc = ToAccount E a" and w3: "same_tables w2 w3"
    using findAccount_succ [OF f [unfolded Account_FindByID_def]] by blast
  have c3: "cache w3 = cache w2"
    using f by (auto simp: Account_FindByID_def findAccount_def getUserIDs_def getAccountDevices_def succ ran_def queried_def pop_fault_def)
  have w4: "cache w' = cache w3 \<and> tables w' = (tables w3)\<lparr>accounts := map (\<lambda>x. if ac_id x = i then x\<lparr>ac_email := ac_email (ToAccount E a),
       ac_account_name := ac_account_name a, ac_password := ac_password a, ac_status := Active,
       ac_user_limit := ac_user_limit a, ac_updated_at := clock w3\<rparr> else x) (accounts (tables w3))\<rparr>"
    using u a w3 by (auto simp: Account_Update_def Exec_succ ToAccount_def ran_def pop_fault_def same_tables_def split: if_splits option.splits)
  show ?thesis
    using a s x w1 w2 w3 c3 w4 by (intro exI [of _ a] exI [of _ x]) (auto simp: same_tables_def)
qed


text \<open>An account that waits for its verification, and its token.\<close>

definition waiting_world :: world where
  "waiting_world = accounts_world\<lparr>tables := (tables accounts_world)\<lparr>accounts := [demo_account 1 Applying]\<rparr>,
     cache := [verifyKey ''tok'' \<mapsto> (CachedText ''1'', Some 600)]\<rparr>"


end
