(* ===== verification/Device_Props.thy ===== *)
theory Device_Props
  imports Devices Account_Props
begin

text \<open>
  What the device calls guarantee, and what they let any account do: lock itself out by binding a device, and delete a
  device of other accounts with its sessions and keys.
\<close>

section \<open>Rules\<close>

lemma platform_roundtrip [simp]: "ParsePlatform (platform_string p) = Inr p"
  by (cases p) (simp_all add: ParsePlatform_def)

lemma ParsePlatform_iff: "ParsePlatform s = Inr p \<longleftrightarrow> s = platform_string p"
proof
  assume "ParsePlatform s = Inr p"
  then show "s = platform_string p" unfolding ParsePlatform_def
    by (auto simp: find_Some_iff simp del: List.find.simps split: option.splits)
qed simp

lemma Device_FindByID_run:
  assumes "healthy w" and "x \<in> set (devices (tables w))" and "dv_id x = v" and "ev_FromString E (ev_uuid_String E v) = Some v"
  shows "\<exists>y \<in> set (devices (tables w)). dv_id y = v \<and> Device_FindByID E v w = (Inr y, w)"
proof -
  from assms(2,3) obtain y ys where f: "filter (\<lambda>x. dv_id x = v) (devices (tables w)) = y # ys"
    by (cases "filter (\<lambda>x. dv_id x = v) (devices (tables w))") (auto simp: filter_empty_conv)
  then have y: "y \<in> set (devices (tables w))" "dv_id y = v" using Cons_eq_filterD [OF f [symmetric]] by auto
  then have "y\<lparr>dv_id := v, dv_platform := dv_platform y\<rparr> = y" by simp
  with assms(1,4) f y show ?thesis
    by (auto simp: Device_FindByID_def bind_def attempt_def not_found_as_run ScanOne_run toDeviceDomain_def ParseDeviceIDE_def check_def)
qed

lemma bind_account_run:
  assumes "healthy w" and "x \<in> set (devices (tables w))" and "dv_id x = v"
    and "ev_FromString E (ev_uuid_String E v) = Some v" and "ev_FromString E dev = Some v"
    and "ax_account_id au \<in> ac_id ` set (accounts (tables w))"
    and "\<nexists>l. l \<in> set (accounts_devices (tables w)) \<and> ad_account_id l = ax_account_id au \<and> ad_device_id l = v"
  shows "bind_account E (Some au) dev w = (Inr (ev_uuid_String E v, ax_account_id au),
    w\<lparr>tables := (tables w)\<lparr>accounts_devices := accounts_devices (tables w) @
      [\<lparr>ad_account_id = ax_account_id au, ad_device_id = v, ad_last_ip = None, ad_last_seen_at = None\<rparr>]\<rparr>\<rparr>)"
proof -
  obtain y where "Device_FindByID E v w = (Inr y, w)" using Device_FindByID_run [OF assms(1-4)] by blast
  moreover have "v \<in> dv_id ` set (devices (tables w))" using assms(2,3) by blast
  ultimately show ?thesis using assms(1,5-7)
    by (auto simp: bind_account_def ParseDeviceIDE_def Device_BindAccount_def Exec_run attempt_def)
qed

section \<open>Binding\<close>

text \<open>C36: binding a device locks the account out: once a call has bound a device on which the account never logged in, the row
  it has written, with its two NULL columns, makes every look-up of the account fail, so no later login by that
  account's name succeeds, whatever the password, the device and the schedule of failures, as long as the account and its
  devices stay as they are.\<close>
theorem binding_locks_account_out:
  assumes "healthy w" and "x \<in> set (devices (tables w))" and "dv_id x = v"
    and "ev_FromString E (ev_uuid_String E v) = Some v" and "ev_FromString E dev = Some v"
    and "filter (\<lambda>a. ac_account_name a = ident) (accounts (tables w)) = [a]" and "ac_id a = ax_account_id au"
    and "\<nexists>l. l \<in> set (accounts_devices (tables w)) \<and> ad_account_id l = ax_account_id au \<and> ad_device_id l = v"
    and "ev_ParseAddress E ident = None" and "bind_account E (Some au) dev w = (r, w1)"
    and "accounts (tables w2) = accounts (tables w1)" and "accounts_devices (tables w2) = accounts_devices (tables w1)"
  shows "isl r = False \<and> fst (login E ident pw dev' ip w2) = Inl (Login ErrLoginFailed)"
proof -
  have "a \<in> set (filter (\<lambda>a. ac_account_name a = ident) (accounts (tables w)))" using assms(6) by simp
  then have "ax_account_id au \<in> ac_id ` set (accounts (tables w))" using assms(7) by force
  note b = bind_account_run [OF assms(1-5) this assms(8)]
  let ?l = "\<lparr>ad_account_id = ax_account_id au, ad_device_id = v, ad_last_ip = None, ad_last_seen_at = None\<rparr> :: account_device"
  have t: "accounts (tables w2) = accounts (tables w)" "accounts_devices (tables w2) = accounts_devices (tables w) @ [?l]"
    and r: "isl r = False"
    using b assms(10-12) by auto
  have "\<exists>e w3. login_account E ident w0 = (Inl e, w3) \<and> e \<noteq> Account DomainAccountNotFound"
    if w0: "tables w0 = tables w2" for w0
  proof (cases "login_account E ident w0")
    case (Pair r3 w3)
    show ?thesis
    proof (cases r3)
      case (Inl e)
      with Pair assms(9) findAccount_fails [of E "\<lambda>a. ac_account_name a = ident" w0 e w3] show ?thesis
        by (auto simp: login_account_def Account_FindByAccountName_def)
    next
      case (Inr acc)
      with Pair assms(9) have "findAccount E (\<lambda>a. ac_account_name a = ident) w0 = (Inr acc, w3)"
        by (simp add: login_account_def Account_FindByAccountName_def)
      then have False using w0 t assms(6,7)
        by (auto simp: findAccount_def succ getUserIDs_def getAccountDevices_def)
      then show ?thesis ..
    qed
  qed
  moreover have "tables (in_tx w2) = tables w2" by simp
  ultimately obtain e w3 where "login_account E ident (in_tx w2) = (Inl e, w3)" "e \<noteq> Account DomainAccountNotFound" by blast
  then have "login_steps E ident pw dev' ip (in_tx w2) = (Inl (Login ErrLoginFailed), rollback_tx w3)"
    by (simp add: login_steps_def fail_and_rollback_def)
  then have "fst (login E ident pw dev' ip w2) = Inl (Login ErrLoginFailed)"
    by (simp add: login_def attempt_def begin_tx_def in_tx_def)
  with r show ?thesis by simp
qed

text \<open>The authentication of the user of \<open>accounts_world\<close>.\<close>

definition demo_auth :: auth_context where
  "demo_auth = \<lparr>ax_account_id = 1, ax_user_id = 1, ax_roles = [''user''], ax_token = ''AA''\<rparr>"

lemma demo_uuid: "ev_FromString demo_env (ev_uuid_String demo_env 9) = Some 9" "ev_FromString demo_env ''9'' = Some 9"
  by code_simp+

theorem binding_locks_account_out_witness:
  "isl (fst (login demo_env ''ann'' ''pw'' ''9'' (Some ''ip'') accounts_world)) = False \<and>
   fst (login demo_env ''ann'' ''pw'' ''9'' (Some ''ip'') (snd (bind_account demo_env (Some demo_auth) ''9'' accounts_world))) =
     Inl (Login ErrLoginFailed)"
proof -
  let ?b = "bind_account demo_env (Some demo_auth) ''9'' accounts_world"
  let ?x = "\<lparr>dv_id = 9, dv_platform = Linux, dv_name = ''d'', dv_created_at = 0, dv_updated_at = 0\<rparr> :: device"
  have h: "healthy accounts_world" by (simp add: accounts_world_def empty_world_def healthy_def tx_aborted_def)
  have d: "?x \<in> set (devices (tables accounts_world))" "dv_id ?x = 9" by (simp_all add: accounts_world_def)
  have f: "filter (\<lambda>a. ac_account_name a = ''ann'') (accounts (tables accounts_world)) = [demo_account 1 Active]"
    "ac_id (demo_account 1 Active) = ax_account_id demo_auth" by (simp_all add: accounts_world_def demo_account_def demo_auth_def)
  have n: "\<nexists>l. l \<in> set (accounts_devices (tables accounts_world)) \<and> ad_account_id l = ax_account_id demo_auth \<and> ad_device_id l = 9"
    by (simp add: accounts_world_def empty_db_def)
  have p: "ev_ParseAddress demo_env ''ann'' = None" by code_simp
  have "isl (fst (login demo_env ''ann'' ''pw'' ''9'' (Some ''ip'') accounts_world)) = False" by code_simp
  moreover have "fst (login demo_env ''ann'' ''pw'' ''9'' (Some ''ip'') (snd ?b)) = Inl (Login ErrLoginFailed)"
    using binding_locks_account_out [OF h d demo_uuid f n p, of "fst ?b" "snd ?b" "snd ?b" ] by simp
  ultimately show ?thesis by blast
qed

section \<open>Deleting\<close>

text \<open>Deletion is not bound to who uses a device: any account can bind itself to any registered device and then delete it;
  both calls succeed, and with the device go every session on it and every key stored for it, whichever account and user
  they belong to.\<close>
theorem any_account_deletes_any_device:
  assumes "healthy w" and "x \<in> set (devices (tables w))" and "dv_id x = v"
    and "ev_FromString E (ev_uuid_String E v) = Some v" and "ev_FromString E dev = Some v"
    and "ax_account_id au \<in> ac_id ` set (accounts (tables w))"
    and "\<nexists>l. l \<in> set (accounts_devices (tables w)) \<and> ad_account_id l = ax_account_id au \<and> ad_device_id l = v"
    and "bind_account E (Some au) dev w = (r1, w1)" and "delete_device E (Some au) dev w1 = (r2, w2)"
  shows "isl r1 = False \<and> r2 = Inr () \<and> v \<notin> dv_id ` set (devices (tables w2)) \<and>
    account_sessions (tables w2) = filter (\<lambda>s. se_device_id s \<noteq> v) (account_sessions (tables w)) \<and>
    accounts_devices (tables w2) = filter (\<lambda>l. ad_device_id l \<noteq> v) (accounts_devices (tables w)) \<and>
    identity_keys (tables w2) = filter (\<lambda>k. ik_device_id k \<noteq> v) (identity_keys (tables w)) \<and>
    signed_prekeys (tables w2) = filter (\<lambda>k. sp_device_id k \<noteq> v) (signed_prekeys (tables w)) \<and>
    otp_prekeys (tables w2) = filter (\<lambda>k. op_device_id k \<noteq> v) (otp_prekeys (tables w))"
proof -
  let ?l = "\<lparr>ad_account_id = ax_account_id au, ad_device_id = v, ad_last_ip = None, ad_last_seen_at = None\<rparr> :: account_device"
  let ?d = "(tables w)\<lparr>accounts_devices := accounts_devices (tables w) @ [?l]\<rparr>"
  have w1: "w1 = w\<lparr>tables := ?d\<rparr>" and r1: "isl r1 = False" using bind_account_run [OF assms(1-7)] assms(8) by auto
  have h: "healthy w1" using assms(1) by (simp add: w1)
  have "Device_DeleteByAccount v (ax_account_id au) w1 = (Inr (), w1\<lparr>tables := delete_device_rows v ?d\<rparr>)"
    unfolding Device_DeleteByAccount_def bind_def attempt_def sql_run [OF h] using assms(2,3) by (auto simp: w1)
  then have "r2 = Inr ()" "tables w2 = delete_device_rows v ?d"
    using assms(5,9) by (auto simp: delete_device_def ParseDeviceIDE_def attempt_def)
  with r1 show ?thesis by (auto simp: delete_device_rows_def)
qed

text \<open>A second account, and the session of the first on device 9.\<close>

definition shared_device_world :: world where
  "shared_device_world = session_world\<lparr>tables := (tables session_world)\<lparr>
     accounts := accounts (tables session_world) @ [demo_account 2 Active]\<rparr>\<rparr>"

theorem any_account_deletes_any_device_witness:
  "map se_account_id (account_sessions (tables shared_device_world)) = [1] \<and>
   (let w1 = snd (bind_account demo_env (Some (demo_auth\<lparr>ax_account_id := 2\<rparr>)) ''9'' shared_device_world) in
    account_sessions (tables (snd (delete_device demo_env (Some (demo_auth\<lparr>ax_account_id := 2\<rparr>)) ''9'' w1))) = [])"
proof -
  let ?au = "demo_auth\<lparr>ax_account_id := 2\<rparr>"
  let ?b = "bind_account demo_env (Some ?au) ''9'' shared_device_world"
  let ?d = "delete_device demo_env (Some ?au) ''9'' (snd ?b)"
  let ?x = "\<lparr>dv_id = 9, dv_platform = Linux, dv_name = ''d'', dv_created_at = 0, dv_updated_at = 0\<rparr> :: device"
  have h: "healthy shared_device_world" using session_world_healthy by (simp add: shared_device_world_def)
  have "devices (tables session_world) = [?x] \<and> accounts_devices (tables session_world) = []" by code_simp
  then have d: "?x \<in> set (devices (tables shared_device_world))" "dv_id ?x = 9"
    and n: "\<nexists>l. l \<in> set (accounts_devices (tables shared_device_world)) \<and> ad_account_id l = ax_account_id ?au \<and> ad_device_id l = 9"
    by (simp_all add: shared_device_world_def)
  have a: "ax_account_id ?au \<in> ac_id ` set (accounts (tables shared_device_world))"
    by (simp add: shared_device_world_def demo_auth_def demo_account_def)
  have s: "map (\<lambda>s. (se_account_id s, se_device_id s)) (account_sessions (tables shared_device_world)) = [(1, 9)]" by code_simp
  have e: "?b = (fst ?b, snd ?b)" "?d = (fst ?d, snd ?d)" by simp_all
  from any_account_deletes_any_device [OF h d demo_uuid a n e]
  have "account_sessions (tables (snd ?d)) = filter (\<lambda>s. se_device_id s \<noteq> 9) (account_sessions (tables shared_device_world))"
    by blast
  with s show ?thesis by (auto simp: Let_def)
qed

section \<open>Registering\<close>

text \<open>Registering a device is idempotent: after a registration, another one of the same id returns the first device, under
  whatever name and platform it is asked for, and changes no table.\<close>
lemma register_device_idempotent:
  assumes "ready w" and "register_device E dev p n w = (Inr out, w1)" and "ready w1"
    and v: "ev_FromString E dev = Some v" and u: "ev_FromString E (ev_uuid_String E v) = Some v"
    and n: "char_length n' \<le> 255"
  shows "register_device E dev (platform_string q) n' w1 = (Inr out, w1)"
proof -
  have h: "healthy w" "healthy w1" using assms(1,3) by simp_all
  have find: "Device_FindByID E v u = (case filter (\<lambda>x. dv_id x = v) (devices (tables u)) of
      [] \<Rightarrow> (Inl (Device DomainDeviceNotFound), u) | x # _ \<Rightarrow> (Inr x, u))" if "healthy u" for u
  proof (cases "filter (\<lambda>x. dv_id x = v) (devices (tables u))")
    case (Cons x xs)
    then have "dv_id x = v" using Cons_eq_filterD [OF Cons [symmetric]] by auto
    then have "toDeviceDomain E x = Inr x" using u by (auto simp: toDeviceDomain_def ParseDeviceIDE_def)
    with Cons that show ?thesis
      by (simp add: Device_FindByID_def bind_def attempt_def not_found_as_run ScanOne_run check_def)
  qed (simp add: that Device_FindByID_def bind_def attempt_def not_found_as_run ScanOne_run)
  have post: "\<exists>x xs. filter (\<lambda>x. dv_id x = v) (devices (tables w1)) = x # xs \<and> out = toDeviceOutput E x"
  proof -
    obtain q' where q': "ParsePlatform p = Inr q'"
      using assms(2) v by (auto simp: register_device_def with_tx_succ ParseDeviceIDE_def split: sum.splits)
    let ?t = "w\<lparr>tx := Some \<lparr>snapshot = tables w, aborted = False\<rparr>\<rparr>"
    have ht: "healthy ?t" using h by simp
    show ?thesis
    proof (cases "v \<in> dv_id ` set (devices (tables w))")
      case True
      then obtain x xs where f: "filter (\<lambda>x. dv_id x = v) (devices (tables w)) = x # xs"
        by (cases "filter (\<lambda>x. dv_id x = v) (devices (tables w))") (auto simp: filter_empty_conv)
      then show ?thesis using assms(1,2) v q' True
        by (auto simp: register_device_def with_tx_run [OF h(1)] ParseDeviceIDE_def Device_Create_def NewDevice_def
            bind_def attempt_def sql_run [OF ht] find [OF ht] abort_tx_def rollback_tx_def split: if_splits)
    next
      case False
      then have "filter (\<lambda>x. dv_id x = v) (devices (tables w)) = []" by (auto simp: filter_empty_conv)
      then show ?thesis using assms(1,2) v q' False
        by (auto simp: register_device_def with_tx_run [OF h(1)] ParseDeviceIDE_def Device_Create_def NewDevice_def
            bind_def attempt_def sql_run [OF ht] find commit_tx_run abort_tx_def rollback_tx_def split: if_splits)
    qed
  qed
  then obtain x xs where x: "filter (\<lambda>x. dv_id x = v) (devices (tables w1)) = x # xs" "out = toDeviceOutput E x" by blast
  then have "x \<in> set (filter (\<lambda>x. dv_id x = v) (devices (tables w1)))" by simp
  then have i: "v \<in> dv_id ` set (devices (tables w1))" by auto
  let ?t = "w1\<lparr>tx := Some \<lparr>snapshot = tables w1, aborted = False\<rparr>\<rparr>"
  have ht: "healthy ?t" using h by simp
  have "w1\<lparr>tx := None\<rparr> = w1" "rollback_tx w1 = w1" using assms(3) by (simp_all add: ready_def)
  then show ?thesis using x i v n
    by (simp add: register_device_def with_tx_run [OF h(2)] ParseDeviceIDE_def Device_Create_def NewDevice_def
        bind_def attempt_def sql_run [OF ht] find [OF ht])
qed

lemma register_device_idempotent_witness:
  "\<exists>out w1. register_device demo_env ''9'' ''ios'' ''phone'' empty_world = (Inr out, w1) \<and>
     register_device demo_env ''9'' ''linux'' ''other'' w1 = (Inr out, w1)"
proof -
  let ?r = "register_device demo_env ''9'' ''ios'' ''phone'' empty_world"
  have "isl (fst ?r) = False" by code_simp
  then obtain out w1 where r: "?r = (Inr out, w1)" using run_ok by blast
  have "tx (snd ?r) = None \<and> faults (snd ?r) = []" by code_simp
  with r have w1: "ready w1" by (simp add: ready_def)
  have w: "ready empty_world" by (simp add: ready_def empty_world_def)
  have n: "char_length ''other'' \<le> 255" by code_simp
  from register_device_idempotent [OF w r w1 demo_uuid(2,1) n, of Linux] r show ?thesis by simp
qed

end
