(* ===== verification/User_Props.thy ===== *)
theory User_Props
  imports Users Device_Props
begin

text \<open>
  What an update of a profile does to the roles of a user, and what an upload does to its avatar.
\<close>

section \<open>Roles\<close>

text \<open>The codes of the roles of a user, as \<open>findRoleCodes\<close> and \<open>FindRolesByUser\<close> join them.\<close>

definition codes_of :: "db \<Rightarrow> user_id \<Rightarrow> string set" where
  "codes_of d u = {c. \<exists>r. (u, r) \<in> set (users_roles d) \<and> (r, c) \<in> set (roles d)}"

lemma join_codes: "set [c. (x, rid) \<leftarrow> users_roles d, (r, c) \<leftarrow> roles d, r = rid \<and> x = u] = codes_of d u"
  by (fastforce simp: codes_of_def)

lemma FindRolesByUser_run:
  "healthy w \<Longrightarrow> \<exists>cs. UserRole_FindRolesByUser u w = (Inr cs, w) \<and> set cs = codes_of (tables w) u"
  using join_codes [of u "tables w"] by (auto simp: UserRole_FindRolesByUser_def ScanAll_run)

definition set_roles :: "(user_id \<times> int) list \<Rightarrow> world \<Rightarrow> world" where
  "set_roles rs w = w\<lparr>tables := (tables w)\<lparr>users_roles := rs\<rparr>\<rparr>"

lemma set_roles_fields [simp]:
  "healthy (set_roles rs w) = healthy w" "roles (tables (set_roles rs w)) = roles (tables w)"
  "users (tables (set_roles rs w)) = users (tables w)" "users_roles (tables (set_roles rs w)) = rs"
  "set_roles rs' (set_roles rs w) = set_roles rs' w"
  by (simp_all add: set_roles_def)

lemma revoke_all:
  "healthy w \<Longrightarrow> for_each cs (UserRole_Revoke u) w = (Inr (), set_roles (filter (\<lambda>p. \<not> (fst p = u \<and>
     (\<exists>r \<in> set (roles (tables w)). snd r \<in> set cs \<and> fst r = snd p))) (users_roles (tables w))) w)"
proof (induction cs arbitrary: w)
  case Nil
  then show ?case by (simp add: set_roles_def)
next
  case (Cons c cs)
  let ?w = "set_roles (filter (\<lambda>p. \<not> (fst p = u \<and> (\<exists>r \<in> set (roles (tables w)). snd r = c \<and> fst r = snd p))) (users_roles (tables w))) w"
  have "UserRole_Revoke u c w = (Inr (), ?w)"
    using Cons.prems by (simp add: UserRole_Revoke_def Exec_run set_roles_def)
  moreover have "for_each cs (UserRole_Revoke u) ?w = (Inr (), set_roles (filter (\<lambda>p. \<not> (fst p = u \<and>
      (\<exists>r \<in> set (roles (tables w)). snd r \<in> set cs \<and> fst r = snd p))) (users_roles (tables ?w))) ?w)"
    using Cons.IH [of ?w] Cons.prems by simp
  ultimately show ?case by (auto simp: intro!: arg_cong2 [where f = set_roles] filter_cong)
qed

lemma assign_all:
  "healthy w \<Longrightarrow> u \<in> us_id ` set (users (tables w)) \<Longrightarrow>
     \<exists>rs. for_each cs (UserRole_Assign u) w = (Inr (), set_roles rs w) \<and>
       set rs = set (users_roles (tables w)) \<union> {(u, r) |r c. (r, c) \<in> set (roles (tables w)) \<and> c \<in> set cs}"
proof (induction cs arbitrary: w)
  case Nil
  then show ?case by (auto simp: set_roles_def intro!: exI [of _ "users_roles (tables w)"])
next
  case (Cons c cs)
  let ?new = "filter (\<lambda>p. p \<notin> set (users_roles (tables w))) (map (\<lambda>r. (u, fst r)) (filter (\<lambda>r. snd r = c) (roles (tables w))))"
  let ?w = "set_roles (users_roles (tables w) @ ?new) w"
  have a: "UserRole_Assign u c w = (Inr (), ?w)"
    using Cons.prems by (simp add: UserRole_Assign_def Exec_run set_roles_def Let_def)
  obtain rs where rs: "for_each cs (UserRole_Assign u) ?w = (Inr (), set_roles rs ?w)"
    "set rs = set (users_roles (tables ?w)) \<union> {(u, r) |r c. (r, c) \<in> set (roles (tables ?w)) \<and> c \<in> set cs}"
    using Cons.IH [of ?w] Cons.prems by auto
  have "set rs = set (users_roles (tables w)) \<union> {(u, r) |r c'. (r, c') \<in> set (roles (tables w)) \<and> c' \<in> set (c # cs)}"
    unfolding rs(2) by (auto simp: image_iff)
  then show ?case using a rs(1) by auto
qed

lemma codes_from_id: "set cs \<subseteq> {''admin'', ''vendor'', ''user'', ''client''} \<Longrightarrow> codes_from cs = Inr cs"
  by (induction cs) (auto simp: CodeFrom_def)

lemma replace_roles_run:
  assumes "healthy w" and "u \<in> us_id ` set (users (tables w))" and "distinct (map fst (roles (tables w)))"
  shows "\<exists>rs. replace_roles u cs w = (Inr (), set_roles rs w) \<and>
    codes_of (tables (set_roles rs w)) u = set cs \<inter> snd ` set (roles (tables w)) \<and>
    (\<forall>v. v \<noteq> u \<longrightarrow> codes_of (tables (set_roles rs w)) v = codes_of (tables w) v)"
proof -
  obtain old where old: "UserRole_FindRolesByUser u w = (Inr old, w)" "set old = codes_of (tables w) u"
    using FindRolesByUser_run [OF assms(1)] by blast
  define kept where "kept = filter (\<lambda>p. \<not> (fst p = u \<and> (\<exists>r \<in> set (roles (tables w)). snd r \<in> set old \<and> fst r = snd p))) (users_roles (tables w))"
  note rev = revoke_all [OF assms(1), of old u, folded kept_def]
  obtain rs where rs: "for_each cs (UserRole_Assign u) (set_roles kept w) = (Inr (), set_roles rs (set_roles kept w))"
    "set rs = set kept \<union> {(u, r) |r c. (r, c) \<in> set (roles (tables w)) \<and> c \<in> set cs}"
    using assign_all [of "set_roles kept w" u cs] assms(1,2) by auto
  have "replace_roles u cs w = (Inr (), set_roles rs w)"
    using rs(1) by (simp add: replace_roles_def attempt_def old(1) rev)
  moreover have "codes_of (tables (set_roles rs w)) u = set cs \<inter> snd ` set (roles (tables w))"
  proof -
    have inj: "c = c'" if "(r, c) \<in> set (roles (tables w))" "(r, c') \<in> set (roles (tables w))" for r c c'
      using assms(3) that by (metis eq_key_imp_eq_value)
    have "(u, r) \<notin> set kept" if "(r, c) \<in> set (roles (tables w))" for r c
      using that old(2) unfolding kept_def by (fastforce simp: codes_of_def)
    then have "codes_of (tables (set_roles rs w)) u = {c. \<exists>r. (r, c) \<in> set (roles (tables w)) \<and> c \<in> set cs}"
      unfolding codes_of_def set_roles_fields rs(2) using inj by blast
    then show ?thesis by force
  qed
  moreover have "codes_of (tables (set_roles rs w)) v = codes_of (tables w) v" if "v \<noteq> u" for v
    using that by (auto simp: codes_of_def rs(2) kept_def)
  ultimately show ?thesis by blast
qed

lemma User_FindByID_run:
  assumes "healthy w" and "filter (\<lambda>x. us_id x = u) (users (tables w)) = x # xs"
  shows "\<exists>cs. User_FindByID u w = (Inr ((toUserDomain x)\<lparr>u_role_codes := cs\<rparr>), w) \<and> set cs = codes_of (tables w) u"
proof -
  have "us_id x = u" using Cons_eq_filterD [OF assms(2) [symmetric]] by auto
  then show ?thesis using assms join_codes [of u "tables w"]
    by (auto simp: User_FindByID_def bind_def attempt_def not_found_as_run ScanOne_run findRoleCodes_def ScanAll_run)
qed



end
