(* ===== verification/Http_Props.thy ===== *)
theory Http_Props
  imports Gateway User_Props
begin

text \<open>
  What the routes guarantee together with their middlewares: a protected route is only reached with a live session, a
  client that has logged in reaches it, and which routes nothing protects.
\<close>

section \<open>The middlewares\<close>

lemma keeps_tables_request [frame_intros]:
  "keeps_fn tables (Cache_Get k)" "keeps_fn tables (Cache_Set k v ttl)" "keeps_fn tables (spawn t)" "keeps_fn tables get_clock"
  by (auto simp: keeps_fn_def Cache_Get_def Cache_Set_def outside_def pop_fault_def spawn_def get_clock_def)

lemma keeps_tables_authenticate: "keeps_fn tables (authenticate E token dev)"
  unfolding authenticate_def SM_FindByToken_def cached_session_def slide_session_def setCacheEntries_def User_FindByID_def findRoleCodes_def
  by (auto intro!: frame_intros simp: Let_def split: option.split cached.split)

lemma cached_session_any:
  assumes "cached_session E token w = (Inr (i, s), w')"
  shows "live (clock w) (cache w (accessKey (hashToken E token))) = Some (CachedSession s)"
  using assms by (auto simp: cached_session_def attempt_fails_succ Cache_Get_def outside_succ pop_fault_def
      split: option.splits cached.splits)

lemma authenticate_succ:
  assumes "authenticate E token dev w = (r, w')"
  shows "tables w' = tables w \<and> (r = Inr None \<or> (\<exists>s u au. r = Inr (Some au) \<and>
    live (clock w) (cache w (accessKey (hashToken E token))) = Some (CachedSession s) \<and> ev_uuid_String E (as_device_id s) = dev \<and>
    u \<in> set (users (tables w)) \<and> us_id u = as_user_id s \<and>
    ax_account_id au = as_account_id s \<and> ax_user_id au = as_user_id s \<and> ax_token au = token))"
proof -
  have t: "tables w' = tables w" using keeps_fnD [OF keeps_tables_authenticate, of E token dev w] assms by simp
  show ?thesis
  proof (cases "SM_FindByToken E token w")
    case (Pair f w1)
    show ?thesis
    proof (cases f)
      case (Inl e)
      with Pair assms t show ?thesis by (auto simp: authenticate_def)
    next
      case (Inr s1)
      with Pair have f: "SM_FindByToken E token w = (Inr s1, w1)" by simp
      then obtain i s w0 where c: "cached_session E token w = (Inr (i, s), w0)" and sl: "slide_session E token (i, s) w0 = (Inr s1, w1)"
        by (auto simp: SM_FindByToken_def bind_succ)
      have s1: "as_device_id s1 = as_device_id s" "as_user_id s1 = as_user_id s" "as_account_id s1 = as_account_id s"
        using sl by (auto simp: slide_session_def bind_succ get_clock_run Let_def attempt_fails_succ)
      have "keeps_fn tables (SM_FindByToken E token)"
        unfolding SM_FindByToken_def cached_session_def slide_session_def setCacheEntries_def
        by (auto intro!: frame_intros simp: Let_def split: option.split cached.split)
      then have t1: "tables w1 = tables w" using keeps_fnD [of tables "SM_FindByToken E token" w] f by simp
      consider "r = Inr None" | u w2 where "User_FindByID (as_user_id s1) w1 = (Inr u, w2)" "ev_uuid_String E (as_device_id s1) = dev"
          "r = Inr (Some \<lparr>ax_account_id = as_account_id s1, ax_user_id = as_user_id s1, ax_roles = u_role_codes u, ax_token = token\<rparr>)"
        using assms f by (auto simp: authenticate_def attempt_def split: prod.splits sum.splits if_splits)
      then show ?thesis
      proof cases
        case 2
        from 2(1) obtain x xs where x: "filter (\<lambda>u. us_id u = as_user_id s1) (users (tables w1)) = x # xs"
          by (auto simp: User_FindByID_def succ)
        then have "x \<in> set (users (tables w))" "us_id x = as_user_id s1"
          using Cons_eq_filterD [OF x [symmetric]] t1 by auto
        with 2 t s1 cached_session_any [OF c] show ?thesis by auto
      qed (use t in simp)
    qed
  qed
qed

lemma on_world_ret [simp]: "on_world (ret x) s = (Inr x, s)"
  by (simp add: on_world_def)

text \<open>Up to the handlers, a request either runs into the limits or has passed both of them.\<close>

lemma serve_cases:
  assumes "serve cf m req sv = (x, sv')"
  obtains (limited) rd where "x = Inr too_many" "sv' = sv\<lparr>sv_redis := rd\<rparr>"
    | (passed) rd where "bind (on_world (AuthMiddleware cf m)) (dispatch_request cf m req) (sv\<lparr>sv_redis := rd\<rparr>) = (x, sv')"
proof -
  obtain r1 d1 where g: "CheckGlobal (cf_global cf) (rq_now m) (sv_redis sv) = (r1, d1)" by (cases "CheckGlobal (cf_global cf) (rq_now m) (sv_redis sv)")
  obtain r2 d2 where i: "CheckIP (cf_ip cf) (rq_ip m) (rq_now m) d1 = (r2, d2)" by (cases "CheckIP (cf_ip cf) (rq_ip m) (rq_now m) d1")
  show ?thesis
  proof (cases r1)
    case (Inl e)
    with assms g show ?thesis by (auto simp: serve_def on_redis_def attempt_def intro: limited)
  next
    case g1: (Inr u)
    show ?thesis
    proof (cases r2)
      case (Inl e)
      with assms g g1 i show ?thesis by (auto simp: serve_def on_redis_def attempt_def intro: limited)
    next
      case (Inr u')
      with assms g g1 i show ?thesis by (auto simp: serve_def on_redis_def attempt_def intro: passed)
    qed
  qed
qed

section \<open>Protected routes\<close>

text \<open>C1: no protected route runs without a live session, under every schedule of failures: the answer is 429 or 401 and neither
  the database nor the disk has changed, or the bearer token of the request has a cached session that is still alive,
  on the device that the request names and for a user that exists, and the handler has run for that session's account
  and user on the same database and disk.\<close>
theorem protected_route_needs_session:
  assumes "serve cf m (Protected r) sv = (x, sv')"
  shows "(x \<in> {Inr (Failure 429 ''RATE_LIMIT_EXCEEDED''), Inr (Failure 401 ''AUTH_FAILED'')} \<and>
      tables (sv_world sv') = tables (sv_world sv) \<and> sv_disk sv' = sv_disk sv) \<or>
    (\<exists>token s u au sv1. bearer m = Some token \<and>
      live (clock (sv_world sv)) (cache (sv_world sv) (accessKey (hashToken (cf_env cf) token))) = Some (CachedSession s) \<and>
      ev_uuid_String (cf_env cf) (as_device_id s) = request_device m \<and>
      u \<in> set (users (tables (sv_world sv))) \<and> us_id u = as_user_id s \<and>
      ax_account_id au = as_account_id s \<and> ax_user_id au = as_user_id s \<and> ax_token au = token \<and>
      tables (sv_world sv1) = tables (sv_world sv) \<and> sv_disk sv1 = sv_disk sv \<and>
      handle_protected cf au r sv1 = (x, sv'))"
  using assms
proof (cases rule: serve_cases)
  case (limited rd)
  then show ?thesis by (auto simp: too_many_def ErrorHandler_def statusFromCode_def)
next
  case (passed rd)
  show ?thesis
  proof (cases "bearer m")
    case None
    with passed show ?thesis by (auto simp: AuthMiddleware_def dispatch_request_def bind_def attempt_def)
  next
    case (Some token)
    let ?w = "sv_world sv"
    obtain a w1 where a: "authenticate (cf_env cf) token (request_device m) ?w = (a, w1)"
      by (cases "authenticate (cf_env cf) token (request_device m) ?w")
    let ?sv1 = "sv\<lparr>sv_redis := rd, sv_world := w1\<rparr>"
    have m: "on_world (AuthMiddleware cf m) (sv\<lparr>sv_redis := rd\<rparr>) = (a, ?sv1)" using Some a by (simp add: AuthMiddleware_def on_world_def)
    have t: "tables w1 = tables ?w" using authenticate_succ [OF a] by simp
    from authenticate_succ [OF a] consider "a = Inr None"
      | s u au where "a = Inr (Some au)" "live (clock ?w) (cache ?w (accessKey (hashToken (cf_env cf) token))) = Some (CachedSession s)"
        "ev_uuid_String (cf_env cf) (as_device_id s) = request_device m" "u \<in> set (users (tables ?w))" "us_id u = as_user_id s"
        "ax_account_id au = as_account_id s" "ax_user_id au = as_user_id s" "ax_token au = token"
      by blast
    then show ?thesis
    proof cases
      case 1
      with passed m t show ?thesis by (auto simp: dispatch_request_def bind_def attempt_def)
    next
      case 2
      with passed m have "handle_protected cf au r ?sv1 = (x, sv')" by (simp add: dispatch_request_def bind_def attempt_def)
      with 2 Some t show ?thesis
        by (intro disjI2 exI [of _ token] exI [of _ s] exI [of _ u] exI [of _ au] exI [of _ ?sv1]) simp
    qed
  qed
qed

text \<open>The same holds of a socket: without a live session the registry stays as it is, and a connection is registered for
  the user of the session.\<close>

lemma socket_needs_session:
  assumes "open_socket grow cf m up (w, h) = (x, (w', h'))"
  shows "tables w' = tables w \<and> ((h' = h \<and> (x = Inr (Some (Failure 401 ''AUTH_FAILED'')) \<or> (x = Inr None \<and> \<not> up))) \<or>
    (\<exists>token s u. bearer m = Some token \<and> live (clock w) (cache w (accessKey (hashToken (cf_env cf) token))) = Some (CachedSession s) \<and>
      ev_uuid_String (cf_env cf) (as_device_id s) = request_device m \<and> u \<in> set (users (tables w)) \<and> us_id u = as_user_id s \<and>
      x = Inr None \<and> h' = connect grow (FormatInt (as_user_id s)) h))"
proof (cases "bearer m")
  case None
  with assms show ?thesis by (auto simp: open_socket_def AuthMiddleware_def)
next
  case (Some token)
  obtain a w1 where a: "authenticate (cf_env cf) token (request_device m) w = (a, w1)"
    by (cases "authenticate (cf_env cf) token (request_device m) w")
  from authenticate_succ [OF a] assms Some a show ?thesis
    by (auto simp: open_socket_def AuthMiddleware_def split: if_splits)
qed

section \<open>A client that has logged in\<close>

lemma EncodeToString_no_space: "c \<in> set (EncodeToString bs) \<Longrightarrow> \<not> is_space c"
proof
  assume "c \<in> set (EncodeToString bs)" and "is_space c"
  moreover have "b64_value (CHR '' '') = None" "b64_value (CHR 0x09) = None" "b64_value (CHR 0x0A) = None"
    "b64_value (CHR 0x0B) = None" "b64_value (CHR 0x0C) = None" "b64_value (CHR 0x0D) = None" by code_simp+
  ultimately show False using encode_chars [of c bs] by (auto simp: is_space_def)
qed

lemma token_no_space: "c \<in> set (RawURL_EncodeToString bs) \<Longrightarrow> \<not> is_space c"
  by (auto simp: RawURL_EncodeToString_def RawStd_EncodeToString_def is_space_def dest!: EncodeToString_no_space split: if_splits)

lemma TrimSpace_id: "(\<And>c. c \<in> set s \<Longrightarrow> \<not> is_space c) \<Longrightarrow> TrimSpace s = s"
proof -
  assume n: "\<And>c. c \<in> set s \<Longrightarrow> \<not> is_space c"
  have "dropWhile is_space xs = xs" if "set xs = set s" for xs
    using n that by (cases xs) auto
  then show ?thesis by (simp add: TrimSpace_def)
qed

lemma bearer_token: "rq_authorization m = ''Bearer '' @ RawURL_EncodeToString bs \<Longrightarrow> bearer m = Some (RawURL_EncodeToString bs)"
  by (simp add: bearer_def auth_header_def TrimSpace_id token_no_space)

lemma setCacheEntries_succ:
  "setCacheEntries E i h s w = (Inr u, w') \<Longrightarrow> cache w' = (cache w)(accessKey h := Some (CachedSession s, expiry E (clock w)),
     idKey i := Some (CachedText h, expiry E (clock w)))"
  by (auto simp: setCacheEntries_def bind_succ Cache_Set_def outside_succ pop_fault_def expiry_def)

lemma SM_Create_cached:
  assumes "SM_Create E a u v w = (Inr p, w')"
  shows "\<exists>s i bs now. cache w' (accessKey (hashToken E (tp_access p))) = Some (CachedSession s, expiry E now) \<and> as_id s = FormatInt i \<and>
    as_account_id s = a \<and> as_user_id s = u \<and> as_device_id s = v \<and> tp_access p = RawURL_EncodeToString bs \<and>
    (\<exists>x \<in> set (account_sessions (tables w')). se_id x = i) \<and> now = clock w"
proof -
  from assms obtain x y z w0 where x: "generateSecureToken w = (Inr x, z)" and y: "generateSecureToken z = (Inr y, w0)"
    and r: "bind get_clock (\<lambda>now. attempt (Session_Create a u v (hashToken E y) (now + ev_expiration E)) (\<lambda>_. fail (Auth ErrGenerateToken)) (\<lambda>sessionID.
     (let tokenPair = \<lparr>tp_access = x, tp_refresh = y, tp_expires_at = now + ev_expiration E\<rparr>;
          session = \<lparr>as_id = FormatInt sessionID, as_account_id = a, as_user_id = u,
            as_device_id = v, as_token = tokenPair, as_created_at = now\<rparr> in
      attempt (setCacheEntries E sessionID (hashToken E x) session)
        (\<lambda>_. fail (Auth ErrGenerateToken)) (\<lambda>_. ret tokenPair)))) w0 = (Inr p, w')"
    unfolding SM_Create_def with_tokens_def attempt_fails_succ by blast
  have c: "clock w0 = clock w" using token_same [OF x] token_same [OF y] by (simp add: same_tables_def)
  from x obtain bs where "x = RawURL_EncodeToString bs" by (auto simp: generateSecureToken_def bind_succ)
  moreover from r obtain i w1 where i: "Session_Create a u v (hashToken E y) (clock w0 + ev_expiration E) w0 = (Inr i, w1)"
    and s: "setCacheEntries E i (hashToken E x) \<lparr>as_id = FormatInt i, as_account_id = a, as_user_id = u, as_device_id = v,
      as_token = \<lparr>tp_access = x, tp_refresh = y, tp_expires_at = clock w0 + ev_expiration E\<rparr>, as_created_at = clock w0\<rparr> w1 = (Inr (), w')"
    and p: "p = \<lparr>tp_access = x, tp_refresh = y, tp_expires_at = clock w0 + ev_expiration E\<rparr>"
    unfolding bind_succ get_clock_run attempt_fails_succ Let_def ret_succ by auto
  moreover from i have "clock w1 = clock w0" "\<exists>x \<in> set (account_sessions (tables w1)). se_id x = i"
    by (auto simp: Session_Create_def sql_succ split: if_splits)
  ultimately show ?thesis using c setCacheEntries_same [OF s] setCacheEntries_succ [OF s] by (auto simp: same_tables_def)
qed

lemma login_cached:
  assumes "login E ident pw dev ip w = (Inr p, w')"
  shows "\<exists>a u v s i bs. a \<in> set (accounts (tables w)) \<and> (ac_account_name a = ident \<or> ev_ParseAddress E ident = Some (ac_email a)) \<and>
    ev_FromString E dev = Some v \<and> u \<in> set (users (tables w')) \<and> us_id u = as_user_id s \<and>
    cache w' (accessKey (hashToken E (tp_access p))) = Some (CachedSession s, expiry E (clock w)) \<and> as_id s = FormatInt i \<and>
    as_account_id s = ac_id a \<and> as_device_id s = v \<and> tp_access p = RawURL_EncodeToString bs \<and>
    i \<in> se_id ` set (account_sessions (tables w')) \<and> tx w' = None"
proof -
  from assms have "login_steps E ident pw dev ip (in_tx w) = (Inr p, w')"
    by (auto simp: login_def attempt_fails_succ begin_tx_succ)
  from login_steps_succ [OF this] obtain acc w1 u w2 v w3 w4 w5 where
    a: "login_account E ident (in_tx w) = (Inr acc, w1)" and u: "primary_user acc w1 = (Inr u, w2)" and v: "ev_FromString E dev = Some v"
    and d: "Account_RegisterDevice (ac_id (a_row acc)) v ip w2 = (Inr (), w3)" and s: "SM_Create E (ac_id (a_row acc)) u v w3 = (Inr p, w4)"
    and up: "Account_Update (a_row acc) w4 = (Inr (), w5)" and t: "tables w' = tables w5" "cache w' = cache w5" "tx w' = None"
    by blast
  obtain r where r: "r \<in> set (accounts (tables w))" "ac_account_name r = ident \<or> ev_ParseAddress E ident = Some (ac_email r)"
    "a_row acc = ToAccount E r" "a_user_ids acc = map us_id (filter (\<lambda>x. us_account_id x = ac_id r) (users (tables w)))"
    and w1: "tables w1 = tables w" "clock w1 = clock w"
    using login_account_succ [OF a] by (auto simp: same_tables_def)
  obtain x where x: "x \<in> set (users (tables w2))" "us_id x = u" using primary_user_succ [OF u] r(3,4) w1 by auto
  have c: "clock w3 = clock w"
    using u d w1(2) by (auto simp: primary_user_def Account_RegisterDevice_def default_roles_def User_Create_def UserRole_Assign_def succ
        sql_succ attempt_fails_succ Let_def split: list.splits)
  from SM_Create_cached [OF s] obtain sess i bs where
    "cache w4 (accessKey (hashToken E (tp_access p))) = Some (CachedSession sess, expiry E (clock w3))" "as_id sess = FormatInt i"
    "as_account_id sess = ac_id (a_row acc)" "as_user_id sess = u" "as_device_id sess = v" "tp_access p = RawURL_EncodeToString bs"
    "i \<in> se_id ` set (account_sessions (tables w4))" by blast
  moreover have "cache w5 = cache w4" using up by (auto simp: Account_Update_def Exec_succ ran_def pop_fault_def split: option.splits if_splits)
  moreover have "users (tables w2) = users (tables w')" "account_sessions (tables w') = account_sessions (tables w4)"
    using RegisterDevice_succ [OF d] SM_Create_succ [OF s] Account_Update_succ [OF up] t by simp_all
  ultimately show ?thesis using r x v t c by (intro exI [of _ r] exI [of _ x] exI [of _ v] exI [of _ sess] exI [of _ i] exI [of _ bs]) auto
qed

lemma authenticate_run:
  assumes "healthy w" and "holds E w token i s" and "as_user_id s \<in> us_id ` set (users (tables w))"
    and "ev_uuid_String E (as_device_id s) = dev"
  shows "\<exists>cs w2. authenticate E token dev w = (Inr (Some \<lparr>ax_account_id = as_account_id s, ax_user_id = as_user_id s,
    ax_roles = cs, ax_token = token\<rparr>), w2) \<and> tables w2 = tables w"
proof -
  have "SM_FindByToken E token w = slide_session E token (i, s) w" using FindByToken_run [OF assms(1,2)] .
  then have "\<exists>w2. SM_FindByToken E token w = (Inr (slid E (clock w) s), w2) \<and> healthy w2 \<and> tables w2 = tables w"
    using assms(1) unfolding slide_session_run [OF assms(1)] by simp
  then obtain w2 where f: "SM_FindByToken E token w = (Inr (slid E (clock w) s), w2)" and w2: "healthy w2" "tables w2 = tables w"
    by blast
  obtain y ys where "filter (\<lambda>x. us_id x = as_user_id s) (users (tables w2)) = y # ys"
    using assms(3) w2(2) by (cases "filter (\<lambda>x. us_id x = as_user_id s) (users (tables w2))") (auto simp: filter_empty_conv)
  from User_FindByID_run [OF w2(1) this] f w2(2) assms(4) show ?thesis by (auto simp: authenticate_def slid_def)
qed


section \<open>A server with one session\<close>

text \<open>Wide limits, and a request of the client with device 9.\<close>

definition demo_keys :: key_env where
  "demo_keys = \<lparr>env_FromString = ev_FromString demo_env, env_String = ev_uuid_String demo_env, env_Verify = (\<lambda>_ _ _. True),
     env_Fingerprint = (\<lambda>_. []), env_rejects_id = False\<rparr>"

definition demo_config :: config where
  "demo_config = \<lparr>cf_env = demo_env, cf_keys = demo_keys, cf_storage = \<lparr>st_base_path = [], st_base_url = [], st_partial = (\<lambda>_. None)\<rparr>,
     cf_Sum256 = id, cf_render = Some, cf_newV4 = Inl Plain, cf_SaveStream = (\<lambda>_. fail Plain),
     cf_global = \<lparr>rp_limit = 9, rp_window = 9\<rparr>, cf_ip = \<lparr>rp_limit = 9, rp_window = 9\<rparr>,
     cf_ollama = \<lparr>oe_api_key = ''k'', oe_system_prompt = ''p'', oe_Do = (\<lambda>_ _. None), oe_chunk = (\<lambda>s. Some [s])\<rparr>\<rparr>"

definition demo_server :: "world \<Rightarrow> server" where
  "demo_server w = \<lparr>sv_redis = idle, sv_world = w, sv_disk = (\<lambda>_. None)\<rparr>"

definition demo_meta :: "string \<Rightarrow> meta" where
  "demo_meta auth = \<lparr>rq_now = 1, rq_ip = ''ip'', rq_parsed_ip = Some ''ip'', rq_authorization = auth, rq_token_query = [],
     rq_device_header = ''9'', rq_device_query = []\<rparr>"

lemma demo_serve:
  "\<exists>rd. serve demo_config (demo_meta auth) req (demo_server w) =
     bind (on_world (AuthMiddleware demo_config (demo_meta auth))) (dispatch_request demo_config (demo_meta auth) req) (demo_server w\<lparr>sv_redis := rd\<rparr>)"
proof -
  let ?sv = "demo_server w" and ?m = "demo_meta auth"
  let ?d = "idle\<lparr>rd_sets := (rd_sets idle)(prefixed ''global'' := Some ([1], 10))\<rparr>"
  let ?d' = "?d\<lparr>rd_counts := (rd_counts idle)(prefixed (ip_key ''ip'') := Some (1, 10))\<rparr>"
  have "on_redis (CheckGlobal (cf_global demo_config) (rq_now ?m)) ?sv = (Inr (), ?sv\<lparr>sv_redis := ?d\<rparr>)"
    by (simp add: demo_server_def demo_config_def demo_meta_def on_redis_def CheckGlobal_def Rate_IncrementSliding_def idle_def
        bind_def attempt_def unexpired_def with_expiry_def slide_window_def Let_def)
  moreover have "on_redis (CheckIP (cf_ip demo_config) (rq_ip ?m) (rq_now ?m)) (?sv\<lparr>sv_redis := ?d\<rparr>) = (Inr (), ?sv\<lparr>sv_redis := ?d'\<rparr>)"
    by (simp add: demo_server_def demo_config_def demo_meta_def on_redis_def CheckIP_def ip_read_def Rate_Get_def Rate_Increment_def
        idle_def bind_def attempt_def unexpired_def with_expiry_def Let_def)
  ultimately show ?thesis by (intro exI [of _ ?d']) (simp add: serve_def)
qed

lemma friendship_no_401: "friendship_answer e \<noteq> Written 401 c" "friendship_answer e \<noteq> Written 429 c"
  by (cases e rule: friendship_answer.cases; simp)+

lemma friends_reply: "fst (h_friends au s) \<notin> {Inr (Failure 429 ''RATE_LIMIT_EXCEEDED''), Inr (Failure 401 ''AUTH_FAILED'')}"
  using friendship_no_401
  by (auto simp: h_friends_def respond_def attempt_def failure_def answered_def ErrorHandler_def split: prod.split sum.split answer.split)

lemma demo_friends:
  assumes "authenticate demo_env ''AA'' ''9'' w = (Inr (Some au), w1)"
  shows "\<exists>rd. serve demo_config (demo_meta ''Bearer AA'') (Protected GetFriends) (demo_server w) =
    h_friends au (demo_server w1\<lparr>sv_redis := rd\<rparr>)"
proof -
  have "bearer (demo_meta ''Bearer AA'') = Some ''AA''" by code_simp
  with assms have "on_world (AuthMiddleware demo_config (demo_meta ''Bearer AA'')) (demo_server w\<lparr>sv_redis := rd\<rparr>) = (Inr (Some au), demo_server w1\<lparr>sv_redis := rd\<rparr>)" for rd
    by (simp add: AuthMiddleware_def on_world_def demo_server_def demo_config_def demo_meta_def request_device_def)
  then show ?thesis using demo_serve [of "''Bearer AA''" "Protected GetFriends" w]
    by (auto simp: dispatch_request_def handle_protected_def bind_def)
qed

lemma demo_no_credentials:
  "fst (serve demo_config (demo_meta []) (Protected r) (demo_server w)) = Inr (Failure 401 ''AUTH_FAILED'')"
proof -
  have "bearer (demo_meta []) = None" by code_simp
  then show ?thesis using demo_serve [of "[]" "Protected r" w] by (auto simp: AuthMiddleware_def dispatch_request_def bind_def)
qed

theorem protected_route_needs_session_witness:
  "fst (serve demo_config (demo_meta []) (Protected GetFriends) (demo_server session_world)) = Inr (Failure 401 ''AUTH_FAILED'') \<and>
   (\<exists>s. live 0 (cache session_world (accessKey (hashToken demo_env ''AA''))) = Some (CachedSession s) \<and> as_user_id s = 1)"
proof -
  let ?r = "serve demo_config (demo_meta ''Bearer AA'') (Protected GetFriends) (demo_server session_world)"
  let ?a = "authenticate demo_env ''AA'' ''9'' session_world"
  have "map_sum id (map_option ax_user_id) (fst ?a) = Inr (Some 1)" by code_simp
  then obtain au w1 where "?a = (Inr (Some au), w1)" by (cases ?a; cases "fst ?a") auto
  then have c: "fst ?r \<notin> {Inr (Failure 429 ''RATE_LIMIT_EXCEEDED''), Inr (Failure 401 ''AUTH_FAILED'')}"
    using demo_friends friends_reply by metis
  have b: "bearer (demo_meta ''Bearer AA'') = Some ''AA''" "map us_id (users (tables session_world)) = [1]" "clock session_world = 0"
    by code_simp+
  have e: "sv_world (demo_server session_world) = session_world" "cf_env demo_config = demo_env"
    by (simp_all add: demo_server_def demo_config_def)
  have "us_id u = 1" if "u \<in> set (users (tables session_world))" for u
    using b(2) that by (metis imageI list.set(1) list.set(2) list.set_map singletonD)
  then show ?thesis
    using protected_route_needs_session [of demo_config "demo_meta ''Bearer AA''" GetFriends "demo_server session_world" "fst ?r" "snd ?r"] b c e
      demo_no_credentials
    by auto
qed


section \<open>Open routes\<close>

lemma demo_open:
  "\<exists>rd. serve demo_config (demo_meta []) (Open r) (demo_server w) = handle_open demo_config (demo_meta []) r (demo_server w\<lparr>sv_redis := rd\<rparr>)"
proof -
  have "bearer (demo_meta []) = None" by code_simp
  then show ?thesis using demo_serve [of "[]" "Open r" w] by (auto simp: AuthMiddleware_def dispatch_request_def bind_def)
qed

lemma not_too_many: "answered a = (st, c) \<Longrightarrow> st \<noteq> 429 \<Longrightarrow> Inr (failure a) \<noteq> Inr too_many" "Inr (Success st' b) \<noteq> Inr too_many"
  by (simp_all add: failure_def too_many_def ErrorHandler_def statusFromCode_def)

lemma no_429: "fst (answered (user_answer e)) \<noteq> 429" "fst (answered (device_answer e)) \<noteq> 429"
  by (cases e rule: user_answer.cases; simp add: answered_def ErrorHandler_def)
    (cases e rule: device_answer.cases; simp add: answered_def ErrorHandler_def)

lemma respond_not_limited:
  assumes "\<And>e. fst (answered (h e)) \<noteq> 429"
  shows "fst (respond h st b m s) \<noteq> Inr too_many"
  using assms not_too_many by (auto simp: respond_def attempt_def split: prod.split sum.split) (metis surjective_pairing)

text \<open>C34: the details of a device can be changed by anyone: a request without any credentials that the limits let pass
  renames every registered device whose id it knows, and changes its platform.\<close>
theorem anyone_changes_any_device:
  assumes "healthy (sv_world sv)" and "d \<in> set (devices (tables (sv_world sv)))" and "dv_id d = v"
    and "ev_FromString (cf_env cf) (ev_uuid_String (cf_env cf) v) = Some v" and "ev_FromString (cf_env cf) dev = Some v"
    and "char_length name \<le> 255" and "rq_authorization m = []" and "rq_token_query m = []"
    and "serve cf m (Open (PatchDevice dev (Some (name, platform_string pf)))) sv = (x, sv')" and "x \<noteq> Inr too_many"
  shows "(\<exists>out. x = Inr (Success 200 (PDevice out)) \<and> do_name out = name \<and> do_platform out = platform_string pf) \<and>
    devices (tables (sv_world sv')) = map (\<lambda>y. if dv_id y = v
      then y\<lparr>dv_name := name, dv_platform := pf, dv_updated_at := clock (sv_world sv)\<rparr> else y) (devices (tables (sv_world sv)))"
  using assms(9)
proof (cases rule: serve_cases)
  case (limited rd)
  with assms(10) show ?thesis by simp
next
  case (passed rd)
  let ?w = "sv_world sv"
  obtain y where y: "y \<in> set (devices (tables ?w))" "dv_id y = v" "Device_FindByID (cf_env cf) v ?w = (Inr y, ?w)"
    using Device_FindByID_run [OF assms(1-4)] by blast
  have "on_world (AuthMiddleware cf m) (sv\<lparr>sv_redis := rd\<rparr>) = (Inr None, sv\<lparr>sv_redis := rd\<rparr>)"
    using assms(7,8) by (simp add: AuthMiddleware_def bearer_def auth_header_def)
  moreover have "Device_Update (y\<lparr>dv_name := name, dv_platform := pf\<rparr>) ?w = (Inr (), ?w\<lparr>tables := (tables ?w)\<lparr>devices := map (\<lambda>y. if dv_id y = v
      then y\<lparr>dv_name := name, dv_platform := pf, dv_updated_at := clock ?w\<rparr> else y) (devices (tables ?w))\<rparr>\<rparr>)"
    using assms(1,6) y(2) by (simp add: Device_Update_def Exec_run)
  ultimately show ?thesis using passed assms(5) y
    by (auto simp: dispatch_request_def handle_open_def h_update_device_def with_body_def respond_def update_device_def ParseDeviceIDE_def
        attempt_def bind_def on_world_def Let_def toDeviceOutput_def)
qed

theorem anyone_changes_any_device_witness:
  "\<exists>out sv'. serve demo_config (demo_meta []) (Open (PatchDevice ''9'' (Some (''mine'', ''ios'')))) (demo_server accounts_world) =
     (Inr (Success 200 (PDevice out)), sv') \<and> do_name out = ''mine'' \<and> map dv_name (devices (tables (sv_world sv'))) = [''mine'']"
proof -
  let ?r = "serve demo_config (demo_meta []) (Open (PatchDevice ''9'' (Some (''mine'', platform_string IOS)))) (demo_server accounts_world)"
  let ?x = "\<lparr>dv_id = 9, dv_platform = Linux, dv_name = ''d'', dv_created_at = 0, dv_updated_at = 0\<rparr> :: device"
  have h: "healthy (sv_world (demo_server accounts_world))" and d: "devices (tables (sv_world (demo_server accounts_world))) = [?x]"
    and e: "cf_env demo_config = demo_env" and n: "rq_authorization (demo_meta []) = []" "rq_token_query (demo_meta []) = []"
    by (simp_all add: demo_server_def demo_config_def demo_meta_def accounts_world_def empty_world_def healthy_def tx_aborted_def)
  have "fst ?r \<noteq> Inr too_many"
    using demo_open [of "PatchDevice ''9'' (Some (''mine'', platform_string IOS))" accounts_world]
    by (auto simp: respond_not_limited [of device_answer, OF no_429(2)] handle_open_def h_update_device_def with_body_def)
  moreover have "char_length ''mine'' \<le> 255" by code_simp
  ultimately show ?thesis
    using anyone_changes_any_device [of "demo_server accounts_world" ?x 9 demo_config "''9''" "''mine''" "demo_meta []" IOS "fst ?r" "snd ?r"]
      h n demo_uuid by (cases ?r) (auto simp: d e)
qed

lemma AuthMiddleware_run:
  "\<exists>au w1. on_world (AuthMiddleware cf m) s = (Inr au, s\<lparr>sv_world := w1\<rparr>) \<and> tables w1 = tables (sv_world s)"
proof (cases "bearer m")
  case None
  then show ?thesis by (auto simp: AuthMiddleware_def intro!: exI [of _ None] exI [of _ "sv_world s"])
next
  case (Some token)
  obtain a w1 where a: "authenticate (cf_env cf) token (request_device m) (sv_world s) = (a, w1)"
    by (cases "authenticate (cf_env cf) token (request_device m) (sv_world s)")
  with authenticate_succ [OF a] Some show ?thesis by (auto simp: AuthMiddleware_def on_world_def)
qed

text \<open>A user that does not exist is answered as an internal error, not as 404: the use case returns a sentinel that the
  translator does not test.\<close>
lemma missing_user_is_internal_error:
  assumes "serve cf m (Open (GetUser i)) sv = (x, sv')" and "x \<noteq> Inr too_many"
    and "ParseInt i = Some u" and "u \<notin> us_id ` set (users (tables (sv_world sv)))"
  shows "x = Inr (Failure 500 ''INTERNAL_ERROR'')"
  using assms(1)
proof (cases rule: serve_cases)
  case (limited rd)
  with assms(2) show ?thesis by simp
next
  case (passed rd)
  from AuthMiddleware_run obtain au w1 where
    a: "on_world (AuthMiddleware cf m) (sv\<lparr>sv_redis := rd\<rparr>) = (Inr au, sv\<lparr>sv_redis := rd, sv_world := w1\<rparr>)" "tables w1 = tables (sv_world sv)"
    by (metis server.select_convs(2) server.surjective server.update_convs(1,2))
  have "filter (\<lambda>x. us_id x = u) (users (tables w1)) = []" using assms(4) a(2) by (auto simp: filter_empty_conv)
  then have "User_FindByID u w1 \<noteq> (Inr y, w2)" for y w2 by (auto simp: User_FindByID_def succ)
  then obtain e w2 where "User_FindByID u w1 = (Inl e, w2)" by (cases "User_FindByID u w1"; cases "fst (User_FindByID u w1)") auto
  then have "on_world (get_user_profile u) (sv\<lparr>sv_redis := rd, sv_world := w1\<rparr>) =
      (Inl (User ErrUserNotFound), sv\<lparr>sv_redis := rd, sv_world := w2\<rparr>)"
    by (simp add: get_user_profile_def on_world_def)
  then show ?thesis using passed a(1) assms(3)
    by (simp add: dispatch_request_def handle_open_def h_user_profile_def with_id_def respond_def bind_def failure_def answered_def ErrorHandler_def)
qed

lemma missing_user_is_internal_error_witness:
  "fst (serve demo_config (demo_meta []) (Open (GetUser ''7'')) (demo_server accounts_world)) = Inr (Failure 500 ''INTERNAL_ERROR'')"
proof -
  let ?r = "serve demo_config (demo_meta []) (Open (GetUser ''7'')) (demo_server accounts_world)"
  have i: "ParseInt ''7'' = Some 7" by code_simp
  have "fst ?r \<noteq> Inr too_many"
    using demo_open [of "GetUser ''7''" accounts_world] i
    by (auto simp: respond_not_limited [of user_answer, OF no_429(1)] handle_open_def h_user_profile_def with_id_def)
  moreover have "7 \<notin> us_id ` set (users (tables (sv_world (demo_server accounts_world))))"
    by (simp add: demo_server_def accounts_world_def demo_user_def)
  ultimately show ?thesis
    using missing_user_is_internal_error [of demo_config "demo_meta []" "''7''" "demo_server accounts_world" "fst ?r" "snd ?r" 7] i by simp
qed

end
